(* ===== verification/Prelude.thy ===== *)
theory Prelude
  imports Complex_Main "HOL-Library.AList" "HOL-Library.Sublist" "HOL-Library.Char_ord"
    "HOL-Library.List_Lexorder"
begin

text \<open>
  The fragment of JavaScript the components share: dynamic values, numbers, strings,
  insertion-ordered maps, first-occurrence deduplication, and the two interfaces several
  components provide (an insertion-ordered map, a table whose entries expire).

  Strings are lists of 8-bit code units (\<^typ>\<open>string\<close>); a JavaScript string whose UTF-16
  code units all lie below 256 is represented exactly, and \<open>trim\<close>, \<open>toLowerCase\<close> and
  the UTF-8 length follow the ECMAScript tables on that range. Numbers are exact rationals
  plus the three special IEEE values; rounding is not modelled. A JavaScript \<open>Map\<close> is an
  association list: \<^const>\<open>AList.update\<close> keeps the position of a key that is present and
  appends a new one, which is the iteration order \<open>Map.set\<close> promises.
\<close>

named_theorems model_defs \<open>unfolding equations of the models' non-recursive definitions\<close>
named_theorems inv_intros \<open>preservation rules of the components' invariants\<close>

section \<open>Strings\<close>

definition is_js_space :: "char \<Rightarrow> bool" where
  "is_js_space c = (let n = (of_char c :: nat) in (9 \<le> n \<and> n \<le> 13) \<or> n = 32 \<or> n = 160)"

definition trim_start :: "string \<Rightarrow> string" where
  "trim_start s = dropWhile is_js_space s"

definition trim :: "string \<Rightarrow> string" where
  "trim s = rev (dropWhile is_js_space (rev (dropWhile is_js_space s)))"

definition lower_char :: "char \<Rightarrow> char" where
  "lower_char c = (let n = (of_char c :: nat) in
     if (65 \<le> n \<and> n \<le> 90) \<or> (192 \<le> n \<and> n \<le> 222 \<and> n \<noteq> 215)
     then char_of (n + 32) else c)"

definition to_lower :: "string \<Rightarrow> string" where
  "to_lower s = map lower_char s"

definition starts_with :: "string \<Rightarrow> string \<Rightarrow> bool" where
  "starts_with s p = (take (length p) s = p)"

definition ends_with :: "string \<Rightarrow> string \<Rightarrow> bool" where
  "ends_with s p = (length p \<le> length s \<and> drop (length s - length p) s = p)"

fun str_includes :: "string \<Rightarrow> string \<Rightarrow> bool" where
  "str_includes [] t = (t = [])"
| "str_includes (c # s) t = (starts_with (c # s) t \<or> str_includes s t)"

fun join :: "string \<Rightarrow> string list \<Rightarrow> string" where
  "join sep [] = []"
| "join sep [x] = x"
| "join sep (x # y # xs) = x @ sep @ join sep (y # xs)"

fun split_on :: "char \<Rightarrow> string \<Rightarrow> string list" where
  "split_on d [] = [[]]"
| "split_on d (c # s) =
     (if c = d then [] # split_on d s
      else (case split_on d s of [] \<Rightarrow> [[c]] | w # ws \<Rightarrow> (c # w) # ws))"

lemma join_nonempty: "ts \<noteq> [] \<Longrightarrow> \<forall>t \<in> set ts. t \<noteq> [] \<Longrightarrow> join sep ts \<noteq> []"
  by (induction sep ts rule: join.induct) auto

text \<open>The UTF-8 length of a Latin-1 string: two bytes for every code unit above 127.\<close>

definition utf8_length :: "string \<Rightarrow> nat" where
  "utf8_length s = sum_list (map (\<lambda>c. if (of_char c :: nat) < 128 then 1 else 2) s)"

text \<open>\<open>slice(-n)\<close> for positive \<open>n\<close>: the last \<open>n\<close> elements.\<close>

definition last_n :: "nat \<Rightarrow> 'a list \<Rightarrow> 'a list" where
  "last_n n xs = (if n = 0 then xs else drop (length xs - n) xs)"

text \<open>Decimal rendering, as in a template literal.\<close>

fun show_hex :: "nat \<Rightarrow> string" where
  "show_hex n = (let d = n mod 16; c = (if d < 10 then char_of (48 + d) else char_of (87 + d))
                 in if n < 16 then [c] else show_hex (n div 16) @ [c])"

declare show_hex.simps [simp del]

fun show_nat :: "nat \<Rightarrow> string" where
  "show_nat n = (if n < 10 then [char_of (48 + n)]
                 else show_nat (n div 10) @ [char_of (48 + n mod 10)])"

definition show_int :: "int \<Rightarrow> string" where
  "show_int i = (if i < 0 then ''-'' @ show_nat (nat (- i)) else show_nat (nat i))"

declare show_nat.simps [simp del]

lemma lower_char_idem [simp]: "lower_char (lower_char c) = lower_char c"
proof -
  have "(of_char c :: nat) < 256" by simp
  then show ?thesis
    by (auto simp: lower_char_def Let_def)
qed

lemma to_lower_idem [simp]: "to_lower (to_lower s) = to_lower s"
  by (simp add: to_lower_def)

lemma to_lower_Nil [simp]: "to_lower [] = []" "to_lower s = [] \<longleftrightarrow> s = []"
  by (simp_all add: to_lower_def)

lemma length_to_lower [simp]: "length (to_lower s) = length s"
  by (simp add: to_lower_def)

lemma to_lower_append [simp]: "to_lower (s @ t) = to_lower s @ to_lower t"
  by (simp add: to_lower_def)

lemma is_js_space_lower [simp]: "is_js_space (lower_char c) = is_js_space c"
proof -
  have "(of_char c :: nat) < 256" by simp
  then show ?thesis
    by (auto simp: lower_char_def is_js_space_def Let_def)
qed

lemma dropWhile_space_map: 
  "dropWhile is_js_space (map lower_char s) = map lower_char (dropWhile is_js_space s)"
  by (induction s) auto

lemma trim_to_lower: "trim (to_lower s) = to_lower (trim s)"
  by (simp add: trim_def to_lower_def dropWhile_space_map rev_map)

lemma trim_Nil [simp]: "trim [] = []"
  by (simp add: trim_def)

lemma dropWhile_hd_fixed: "xs = [] \<or> \<not> P (hd xs) \<Longrightarrow> dropWhile P xs = xs"
  by (cases xs) auto

lemma trim_ends:
  "trim s = [] \<or> (\<not> is_js_space (hd (trim s)) \<and> \<not> is_js_space (last (trim s)))"
proof -
  let ?u = "dropWhile is_js_space s"
  let ?v = "dropWhile is_js_space (rev ?u)"
  have hd_u: "?u = [] \<or> \<not> is_js_space (hd ?u)"
    using hd_dropWhile [of is_js_space s] by blast
  have hd_v: "?v = [] \<or> \<not> is_js_space (hd ?v)"
    using hd_dropWhile [of is_js_space "rev ?u"] by blast
  show ?thesis
  proof (cases "?v = []")
    case True
    then show ?thesis by (simp add: trim_def)
  next
    case False
    obtain pre where pre: "rev ?u = pre @ ?v"
      using takeWhile_dropWhile_id [of is_js_space "rev ?u"] by metis
    then have "rev (rev ?u) = rev (pre @ ?v)" by (rule arg_cong)
    then have u: "?u = rev ?v @ rev pre" by simp
    have v: "rev ?v \<noteq> []" using False by (simp only: rev_is_Nil_conv not_False_eq_True)
    have "hd ?u = hd (rev ?v)" by (subst u) (rule hd_append2 [OF v])
    moreover have "?u \<noteq> []" by (subst u) (use v in blast)
    ultimately have "\<not> is_js_space (hd (rev ?v))" using hd_u by metis
    then show ?thesis
      using hd_v False by (simp add: trim_def last_rev del: dropWhile_eq_Nil_conv)
  qed
qed

lemma trim_idem [simp]: "trim (trim s) = trim s"
proof -
  let ?t = "trim s"
  have 1: "dropWhile is_js_space ?t = ?t"
    by (rule dropWhile_hd_fixed) (use trim_ends [of s] in auto)
  have 2: "dropWhile is_js_space (rev ?t) = rev ?t"
    by (rule dropWhile_hd_fixed) (use trim_ends [of s] in \<open>auto simp: hd_rev\<close>)
  show ?thesis
    unfolding trim_def [of ?t] by (simp only: 1 2 rev_rev_ident)
qed

lemma length_trim_le: "length (trim s) \<le> length s"
  unfolding trim_def
  by (metis length_dropWhile_le length_rev order.trans)

lemma starts_with_append [simp]: "starts_with (p @ s) p"
  by (simp add: starts_with_def)

lemma starts_with_iff: "starts_with s p \<longleftrightarrow> (\<exists>t. s = p @ t)"
  by (metis append_eq_conv_conj append_take_drop_id starts_with_def)

lemma ends_with_iff: "ends_with s p \<longleftrightarrow> (\<exists>t. s = t @ p)"
proof
  assume "ends_with s p"
  then have "s = take (length s - length p) s @ p"
    by (metis append_take_drop_id ends_with_def)
  then show "\<exists>t. s = t @ p" by blast
next
  assume "\<exists>t. s = t @ p"
  then show "ends_with s p" by (auto simp: ends_with_def)
qed

lemma str_includes_iff: "str_includes s t \<longleftrightarrow> (\<exists>us vs. s = us @ t @ vs)"
proof (induction s)
  case Nil
  then show ?case by auto
next
  case (Cons c s)
  show ?case
  proof
    assume "str_includes (c # s) t"
    then consider "starts_with (c # s) t" | "str_includes s t" by auto
    then show "\<exists>us vs. c # s = us @ t @ vs"
    proof cases
      case 1
      then obtain vs where "c # s = [] @ t @ vs" by (auto simp: starts_with_iff)
      then show ?thesis by blast
    next
      case 2
      with Cons.IH obtain us vs where "s = us @ t @ vs" by auto
      then have "c # s = (c # us) @ t @ vs" by simp
      then show ?thesis by blast
    qed
  next
    assume "\<exists>us vs. c # s = us @ t @ vs"
    then obtain us vs where eq: "c # s = us @ t @ vs" by blast
    show "str_includes (c # s) t"
    proof (cases us)
      case Nil
      with eq have "starts_with (c # s) t" by (simp add: starts_with_iff)
      then show ?thesis by simp
    next
      case (Cons a us')
      with eq have "s = us' @ t @ vs" by simp
      then have "str_includes s t" using Cons.IH by blast
      then show ?thesis by simp
    qed
  qed
qed

lemma length_last_n: "0 < n \<Longrightarrow> length (last_n n xs) = min n (length xs)"
  by (simp add: last_n_def)

lemma last_n_all: "length xs \<le> n \<Longrightarrow> last_n n xs = xs"
  by (simp add: last_n_def)

lemma set_last_n: "set (last_n n xs) \<subseteq> set xs"
  by (simp add: last_n_def set_drop_subset)

lemma last_n_suffix: "\<exists>ys. xs = ys @ last_n n xs"
  by (cases "n = 0")
     (simp_all add: last_n_def, metis append_take_drop_id)

lemma find_append: "find P (xs @ ys) = (case find P xs of None \<Rightarrow> find P ys | Some x \<Rightarrow> Some x)"
  by (induction xs) auto

lemma find_SomeD: "find P xs = Some x \<Longrightarrow> x \<in> set xs \<and> P x"
  by (induction xs) (auto split: if_splits)

lemma find_None_filter: "find P (filter (\<lambda>x. \<not> P x) xs) = None"
  by (induction xs) auto

section \<open>Numbers and dynamic values\<close>

datatype jnum = Fin rat | NaN | PosInf | NegInf

datatype js =
    JUndef
  | JNull
  | JBool bool
  | JNum jnum
  | JStr string
  | JArr "js list"
  | JObj "(string \<times> js) list"

text \<open>Property access \<open>obj.key\<close> on a plain object: \<open>undefined\<close> when the key is absent.\<close>

definition jprop :: "string \<Rightarrow> (string \<times> js) list \<Rightarrow> js" where
  "jprop k fs = (case map_of fs k of None \<Rightarrow> JUndef | Some v \<Rightarrow> v)"

text \<open>JavaScript truthiness.\<close>

fun truthy :: "js \<Rightarrow> bool" where
  "truthy JUndef = False"
| "truthy JNull = False"
| "truthy (JBool b) = b"
| "truthy (JNum n) = (n \<noteq> Fin 0 \<and> n \<noteq> NaN)"
| "truthy (JStr s) = (s \<noteq> [])"
| "truthy (JArr _) = True"
| "truthy (JObj _) = True"

text \<open>\<open>a ?? b\<close>.\<close>

definition nullish :: "js \<Rightarrow> bool" where
  "nullish v = (v = JUndef \<or> v = JNull)"

definition coalesce :: "js \<Rightarrow> js \<Rightarrow> js" where
  "coalesce a b = (if nullish a then b else a)"

definition opt_default :: "'a \<Rightarrow> 'a option \<Rightarrow> 'a" where
  "opt_default d o' = (case o' of None \<Rightarrow> d | Some v \<Rightarrow> v)"

lemma opt_default_simps [simp]: "opt_default d None = d" "opt_default d (Some v) = v"
  by (simp_all add: opt_default_def)

definition is_integer :: "rat \<Rightarrow> bool" where
  "is_integer q = (of_int \<lfloor>q\<rfloor> = q)"

lemma is_integer_of_int [simp]: "is_integer (of_int i)"
  by (simp add: is_integer_def)

lemma js_size_prop [termination_simp]: "(k, v) \<in> set fs \<Longrightarrow> size v < Suc (size_list (size_prod size size) fs)"
proof (induction fs)
  case Nil
  then show ?case by simp
next
  case (Cons a fs)
  then show ?case by (cases a) auto
qed

text \<open>Property access on any value (\<open>v.key\<close>, or \<open>v?.key\<close> where the code guards the
  nullish case): primitives and arrays have none of the properties the code reads.\<close>

definition get_prop :: "js \<Rightarrow> string \<Rightarrow> js" where
  "get_prop v k = (case v of JObj fs \<Rightarrow> jprop k fs | _ \<Rightarrow> JUndef)"

lemma get_prop_simps [simp]:
  "get_prop (JObj fs) k = jprop k fs" "get_prop JUndef k = JUndef" "get_prop JNull k = JUndef"
  "get_prop (JStr s) k = JUndef" "get_prop (JArr xs) k = JUndef" "get_prop (JNum n) k = JUndef"
  "get_prop (JBool b) k = JUndef"
  by (simp_all add: get_prop_def)

lemma jprop_simps [simp]:
  "jprop k [] = JUndef" "jprop k ((j, v) # fs) = (if k = j then v else jprop k fs)"
  by (auto simp: jprop_def)

text \<open>Decimal text of a number: integers exactly; other rationals to at most twenty
  fractional digits, which is exact for every decimal literal of that length.\<close>

fun frac_digits :: "nat \<Rightarrow> rat \<Rightarrow> string" where
  "frac_digits 0 q = []"
| "frac_digits (Suc n) q =
     (if q = 0 then [] else
       (let d = \<lfloor>10 * q\<rfloor> in char_of (48 + nat d) # frac_digits n (10 * q - of_int d)))"

definition rat_text :: "rat \<Rightarrow> string" where
  "rat_text q = (let a = \<bar>q\<bar>; i = \<lfloor>a\<rfloor> in
     (if q < 0 then ''-'' else []) @ show_nat (nat i) @
     (if of_int i = a then [] else ''.'' @ frac_digits 20 (a - of_int i)))"

definition num_text :: "jnum \<Rightarrow> string" where
  "num_text n = (case n of Fin q \<Rightarrow> rat_text q | NaN \<Rightarrow> ''NaN'' | PosInf \<Rightarrow> ''Infinity''
                 | NegInf \<Rightarrow> ''-Infinity'')"

text \<open>\<open>String(v)\<close>, as a template literal applies it.\<close>

fun js_text :: "js \<Rightarrow> string" where
  "js_text JUndef = ''undefined''"
| "js_text JNull = ''null''"
| "js_text (JBool b) = (if b then ''true'' else ''false'')"
| "js_text (JNum n) = num_text n"
| "js_text (JStr s) = s"
| "js_text (JArr xs) = join '','' (map (\<lambda>x. if nullish x then [] else js_text x) xs)"
| "js_text (JObj fs) = ''[object Object]''"

text \<open>\<open>JSON.stringify\<close> without indentation; \<^const>\<open>None\<close> is \<open>undefined\<close>.\<close>

definition hex_digit :: "nat \<Rightarrow> char" where
  "hex_digit n = (if n < 10 then char_of (48 + n) else char_of (87 + n))"

definition json_char :: "char \<Rightarrow> string" where
  "json_char c = (let n = (of_char c :: nat); bs = char_of (92 :: nat) in
     if n = 34 then [bs, c]
     else if n = 92 then [bs, c]
     else if n = 8 then bs # ''b''
     else if n = 9 then bs # ''t''
     else if n = 10 then bs # ''n''
     else if n = 12 then bs # ''f''
     else if n = 13 then bs # ''r''
     else if n < 32 then bs # ''u00'' @ [hex_digit (n div 16), hex_digit (n mod 16)]
     else [c])"

definition json_string :: "string \<Rightarrow> string" where
  "json_string s = [char_of (34 :: nat)] @ concat (map json_char s) @ [char_of (34 :: nat)]"

fun json_stringify :: "js \<Rightarrow> string option" where
  "json_stringify JUndef = None"
| "json_stringify JNull = Some ''null''"
| "json_stringify (JBool b) = Some (if b then ''true'' else ''false'')"
| "json_stringify (JNum n) = Some (case n of Fin q \<Rightarrow> rat_text q | _ \<Rightarrow> ''null'')"
| "json_stringify (JStr s) = Some (json_string s)"
| "json_stringify (JArr xs) =
     Some (''['' @ join '','' (map (\<lambda>x. opt_default ''null'' (json_stringify x)) xs) @ '']'')"
| "json_stringify (JObj fs) =
     Some (''{'' @ join '','' (concat (map (\<lambda>(k, v). case json_stringify v of None \<Rightarrow> []
        | Some t \<Rightarrow> [json_string k @ '':'' @ t]) fs)) @ ''}'')"

lemma json_stringify_None: "json_stringify v = None \<longleftrightarrow> v = JUndef"
  by (cases v) auto

text \<open>\<open>JSON.parse(JSON.stringify(v))\<close>: undefined members vanish, undefined elements and the
  special numbers become \<open>null\<close>; \<^const>\<open>None\<close> when the text is \<open>undefined\<close>.\<close>

fun json_clone :: "js \<Rightarrow> js option" where
  "json_clone JUndef = None"
| "json_clone JNull = Some JNull"
| "json_clone (JBool b) = Some (JBool b)"
| "json_clone (JNum n) = Some (case n of Fin q \<Rightarrow> JNum (Fin q) | _ \<Rightarrow> JNull)"
| "json_clone (JStr s) = Some (JStr s)"
| "json_clone (JArr xs) = Some (JArr (map (\<lambda>x. opt_default JNull (json_clone x)) xs))"
| "json_clone (JObj fs) = Some (JObj (concat (map (\<lambda>(k, v). case json_clone v of None \<Rightarrow> []
     | Some w \<Rightarrow> [(k, w)]) fs)))"

lemma json_clone_idem: "json_clone v = Some w \<Longrightarrow> json_clone w = Some w"
proof (induction v arbitrary: w rule: json_clone.induct)
  case (6 xs)
  have "map (\<lambda>y. opt_default JNull (json_clone y)) (map (\<lambda>x. opt_default JNull (json_clone x)) xs) =
      map (\<lambda>x. opt_default JNull (json_clone x)) xs"
    using 6(1) by (simp add: opt_default_def split: option.splits)
  with 6(2) show ?case by auto
next
  case (7 fs)
  let ?g = "\<lambda>(k, v). case json_clone v of None \<Rightarrow> [] | Some w \<Rightarrow> [(k, w)]"
  have "concat (map ?g (concat (map ?g gs))) = concat (map ?g gs)" if "set gs \<subseteq> set fs" for gs
    using that
  proof (induction gs)
    case (Cons a gs)
    obtain k v where a: "a = (k, v)" by (cases a)
    with Cons.prems have mem: "(k, v) \<in> set fs" by simp
    have "json_clone v = Some w' \<Longrightarrow> json_clone w' = Some w'" for w'
      using 7(1) [OF mem refl] by blast
    with Cons a show ?case by (auto split: option.splits)
  qed simp
  from this [of fs] 7(2) show ?case by auto
qed (auto split: jnum.splits)

lemma json_clone_None: "json_clone v = None \<longleftrightarrow> v = JUndef"
  by (cases v) auto

lemma stringify_clone: "json_clone v = Some w \<Longrightarrow> json_stringify w = json_stringify v"
proof (induction v arbitrary: w rule: json_clone.induct)
  case (6 xs)
  have "opt_default ''null'' (json_stringify (opt_default JNull (json_clone x))) =
      opt_default ''null'' (json_stringify x)" if "x \<in> set xs" for x
    using 6(1) [OF that] by (cases "json_clone x") (auto simp: json_clone_None json_stringify_None)
  with 6(2) show ?case by (auto simp: comp_def intro!: arg_cong [where f = "join '',''"] map_cong)
next
  case (7 fs)
  let ?c = "\<lambda>(k, v). case json_clone v of None \<Rightarrow> [] | Some w \<Rightarrow> [(k, w)]"
  let ?s = "\<lambda>(k, v). case json_stringify v of None \<Rightarrow> [] | Some t \<Rightarrow> [json_string k @ '':'' @ t]"
  have "concat (map ?s (concat (map ?c gs))) = concat (map ?s gs)" if "set gs \<subseteq> set fs" for gs
    using that
  proof (induction gs)
    case (Cons a gs)
    obtain k v where a: "a = (k, v)" by (cases a)
    with Cons.prems have mem: "(k, v) \<in> set fs" by simp
    have "json_clone v = Some w' \<Longrightarrow> json_stringify w' = json_stringify v" for w'
      using 7(1) [OF mem refl] by blast
    moreover have "json_clone v = None \<Longrightarrow> json_stringify v = None"
      by (simp add: json_clone_None json_stringify_None)
    ultimately show ?case using Cons a by (cases "json_clone v") auto
  qed simp
  from this [of fs] 7(2) show ?case by auto
qed (auto split: jnum.splits)

definition newline :: string where
  "newline = [CHR 0x0A]"

definition is_string :: "js \<Rightarrow> bool" where
  "is_string v = (case v of JStr _ \<Rightarrow> True | _ \<Rightarrow> False)"

text \<open>\<open>Array.isArray(v) ? v : []\<close>, and the readers \<open>asObject\<close> and \<open>asString\<close> several files
  repeat: an array counts as an object, a string is trimmed and an empty one is absent.\<close>

definition array_or_empty :: "js \<Rightarrow> js list" where
  "array_or_empty v = (case v of JArr xs \<Rightarrow> xs | _ \<Rightarrow> [])"

definition asObject :: "js \<Rightarrow> js option" where
  "asObject v = (case v of JObj _ \<Rightarrow> Some v | JArr _ \<Rightarrow> Some v | _ \<Rightarrow> None)"

definition asString :: "js \<Rightarrow> string option" where
  "asString v = (case v of JStr s \<Rightarrow> if trim s = [] then None else Some (trim s) | _ \<Rightarrow> None)"

lemma asString_Some: "asString v = Some s \<longleftrightarrow> (\<exists>t. v = JStr t \<and> s = trim t \<and> trim t \<noteq> [])"
  by (auto simp: asString_def split: js.splits)

lemma asString_simps [simp]:
  "asString JUndef = None" "asString JNull = None" "asString (JStr s) = (if trim s = [] then None else Some (trim s))"
  by (simp_all add: asString_def)

lemma jprop_array_size [termination_simp]:
  "x \<in> set (array_or_empty (jprop k fs)) \<Longrightarrow> size x < Suc (size_list (\<lambda>y. Suc (size (snd y))) fs)"
proof (induction fs)
  case Nil
  then show ?case by (simp add: array_or_empty_def)
next
  case (Cons a fs)
  obtain j v where a: "a = (j, v)" by (cases a)
  show ?case
  proof (cases "k = j")
    case True
    with Cons.prems a obtain xs where v: "v = JArr xs" and x: "x \<in> set xs"
      by (cases v) (auto simp: array_or_empty_def)
    from x have "size x < Suc (size_list size xs)" by (induction xs) auto
    with a v show ?thesis by simp
  next
    case False
    with Cons a show ?thesis by simp
  qed
qed

section \<open>Dates\<close>

text \<open>\<open>new Date(ms).toISOString()\<close> for years 0 to 9999: the proleptic Gregorian date of a day
  number, counted in 400-year eras from 1 March of year 0.\<close>

definition pad_left :: "nat \<Rightarrow> string \<Rightarrow> string" where
  "pad_left n s = replicate (n - length s) (char_of (48 :: nat)) @ s"

definition civil_date :: "int \<Rightarrow> int \<times> int \<times> int" where
  "civil_date days =
    (let z = days + 719468; era = z div 146097; doe = z mod 146097;
         yoe = (doe - doe div 1460 + doe div 36524 - doe div 146096) div 365;
         doy = doe - (365 * yoe + yoe div 4 - yoe div 100);
         mp = (5 * doy + 2) div 153;
         d = doy - (153 * mp + 2) div 5 + 1;
         m = (if mp < 10 then mp + 3 else mp - 9)
     in (yoe + era * 400 + (if m \<le> 2 then 1 else 0), m, d))"

definition iso_date :: "int \<Rightarrow> string" where
  "iso_date ms =
    (let (y, m, d) = civil_date (ms div 86400000); t = ms mod 86400000;
         num = (\<lambda>n i. pad_left n (show_int i))
     in num 4 y @ ''-'' @ num 2 m @ ''-'' @ num 2 d @ ''T'' @ num 2 (t div 3600000) @ '':'' @
        num 2 (t div 60000 mod 60) @ '':'' @ num 2 (t div 1000 mod 60) @ ''.'' @ num 3 (t mod 1000) @ ''Z'')"

section \<open>Insertion-ordered maps\<close>

text \<open>
  What the components rely on of a \<open>Map\<close>: lookup after an insert or a delete, and that
  keys stay distinct. Proved once from these laws: what a fold of inserts leaves at a key.
\<close>

locale js_map =
  fixes get :: "'m \<Rightarrow> 'k \<Rightarrow> 'v option"
    and put :: "'k \<Rightarrow> 'v \<Rightarrow> 'm \<Rightarrow> 'm"
    and del :: "'k \<Rightarrow> 'm \<Rightarrow> 'm"
    and wf :: "'m \<Rightarrow> bool"
  assumes get_put: "get (put k v m) j = (if j = k then Some v else get m j)"
    and get_del: "get (del k m) j = (if j = k then None else get m j)"
    and wf_put: "wf m \<Longrightarrow> wf (put k v m)"
    and wf_del: "wf m \<Longrightarrow> wf (del k m)"
begin

lemma put_put_same: "get (put k v (put k w m)) = get (put k v m)"
  by (rule ext) (simp add: get_put)

lemma put_del_same: "get (put k v (del k m)) = get (put k v m)"
  by (rule ext) (simp add: get_put get_del)

lemma put_commute: "k \<noteq> j \<Longrightarrow> get (put k v (put j w m)) = get (put j w (put k v m))"
  by (rule ext) (simp add: get_put)

lemma fold_put_notin:
  "k \<notin> fst ` set kvs \<Longrightarrow> get (fold (\<lambda>(k, v). put k v) kvs m) k = get m k"
  by (induction kvs arbitrary: m) (auto simp: get_put split: prod.splits)

lemma fold_put_wf: "wf m \<Longrightarrow> wf (fold (\<lambda>(k, v). put k v) kvs m)"
  by (induction kvs arbitrary: m) (auto simp: wf_put split: prod.splits)

end

abbreviation keys_distinct :: "('k \<times> 'v) list \<Rightarrow> bool" where
  "keys_distinct m \<equiv> distinct (map fst m)"

interpretation amap: js_map map_of AList.update AList.delete keys_distinct
proof unfold_locales
  fix k j :: 'a and v :: 'b and m :: "('a \<times> 'b) list"
  show "map_of (AList.update k v m) j = (if j = k then Some v else map_of m j)"
    by (simp add: update_conv')
  show "map_of (AList.delete k m) j = (if j = k then None else map_of m j)"
    by (simp add: delete_conv')
  show "keys_distinct m \<Longrightarrow> keys_distinct (AList.update k v m)"
    by (simp add: distinct_update)
  show "keys_distinct m \<Longrightarrow> keys_distinct (AList.delete k m)"
    by (simp add: distinct_delete)
qed

lemma keys_update: "fst ` set (AList.update k v m) = insert k (fst ` set m)"
  by (simp add: dom_update)

lemma update_new: "k \<notin> fst ` set m \<Longrightarrow> AList.update k v m = m @ [(k, v)]"
  by (induction m) auto

lemma length_update_new:
  "length (AList.update k v m) = (if k \<in> fst ` set m then length m else Suc (length m))"
  by (induction m) auto

text \<open>Object spread: members of \<open>override\<close> replace those of the same name in place and append new ones.\<close>

definition spread :: "(string \<times> js) list \<Rightarrow> (string \<times> js) list \<Rightarrow> (string \<times> js) list" where
  "spread base override = fold (\<lambda>(k, v). AList.update k v) override base"

lemma map_of_spread: "map_of (spread base override) = map_of base ++ map_of (rev override)"
  unfolding spread_def by (induction override arbitrary: base) (auto simp: update_conv' map_add_def fun_eq_iff split: option.split)

lemma distinct_spread: "distinct (map fst base) \<Longrightarrow> distinct (map fst (spread base override))"
  unfolding spread_def by (induction override arbitrary: base) (auto simp: distinct_update)

lemma map_of_filter_distinct:
  assumes "keys_distinct m"
  shows "map_of (filter P m) k = (case map_of m k of None \<Rightarrow> None
                                  | Some v \<Rightarrow> if P (k, v) then Some v else None)"
  using assms
proof (induction m)
  case Nil
  then show ?case by simp
next
  case (Cons a m)
  have "k = fst a \<Longrightarrow> map_of (filter P m) k = None"
    using Cons.prems by (auto simp: map_of_eq_None_iff)
  with Cons show ?case
    by (cases a) (auto split: option.splits simp: map_of_eq_None_iff)
qed

lemma keys_distinct_filter: "keys_distinct m \<Longrightarrow> keys_distinct (filter P m)"
  by (induction m) auto

section \<open>Tables whose entries expire\<close>

text \<open>
  The contract of the in-memory caches (nonces, idempotency keys): every entry has an
  expiry time, a sweep at time \<open>t\<close> removes what has expired at \<open>t\<close> and nothing that is
  still live. Proved once: sweeping any number of times before \<open>t\<close> does not change what is
  live at \<open>t\<close>, so the background timer is invisible to the callers.
\<close>

locale expiring_table =
  fixes entry :: "'s \<Rightarrow> 'k \<Rightarrow> 'v option"
    and expires :: "'v \<Rightarrow> int"
    and sweep :: "int \<Rightarrow> 's \<Rightarrow> 's"
    and wf :: "'s \<Rightarrow> bool"
  assumes entry_sweep: "wf s \<Longrightarrow> entry (sweep now s) k =
      (case entry s k of None \<Rightarrow> None | Some v \<Rightarrow> if expires v \<le> now then None else Some v)"
    and wf_sweep: "wf s \<Longrightarrow> wf (sweep now s)"
begin

definition live :: "int \<Rightarrow> 's \<Rightarrow> 'k \<Rightarrow> 'v option" where
  "live now s k = (case entry s k of None \<Rightarrow> None
                   | Some v \<Rightarrow> if expires v \<le> now then None else Some v)"

lemma live_sweep: "wf s \<Longrightarrow> t \<le> now \<Longrightarrow> live now (sweep t s) k = live now s k"
  by (auto simp: live_def entry_sweep split: option.splits)

lemma wf_sweeps: "wf s \<Longrightarrow> wf (fold sweep ts s)"
  by (induction ts arbitrary: s) (auto simp: wf_sweep)

lemma live_sweeps:
  "wf s \<Longrightarrow> (\<And>t. t \<in> set ts \<Longrightarrow> t \<le> now) \<Longrightarrow> live now (fold sweep ts s) k = live now s k"
  by (induction ts arbitrary: s) (simp_all add: live_sweep wf_sweep)

lemma sweep_only_live: "wf s \<Longrightarrow> entry (sweep now s) k = live now s k"
  by (simp add: entry_sweep live_def)

lemma live_mono: "live now s k = Some v \<Longrightarrow> t \<le> now \<Longrightarrow> live t s k = Some v"
  by (auto simp: live_def split: option.splits if_splits)

end

section \<open>First-occurrence deduplication\<close>

text \<open>
  Five functions of the code share one loop: normalise a value, skip it when it is empty or
  has been seen, otherwise remember it and push it. The interface is the loop's equations;
  the lemmas are what its callers use.
\<close>

locale dedupe_loop =
  fixes norm :: "'a \<Rightarrow> 'b option"
    and loop :: "'b list \<Rightarrow> 'a list \<Rightarrow> 'b list"
  assumes loop_Nil: "loop seen [] = []"
    and loop_Cons: "loop seen (x # xs) =
      (case norm x of None \<Rightarrow> loop seen xs
       | Some y \<Rightarrow> if y \<in> set seen then loop seen xs else y # loop (y # seen) xs)"
begin

lemma loop_set: "set (loop seen xs) = {y. \<exists>x \<in> set xs. norm x = Some y} - set seen"
  by (induction xs arbitrary: seen) (auto simp: loop_Nil loop_Cons split: option.splits)

lemma loop_distinct: "distinct (loop seen xs)"
  by (induction xs arbitrary: seen) (auto simp: loop_Nil loop_Cons loop_set split: option.splits)

lemma loop_length: "length (loop seen xs) \<le> length xs"
  by (induction xs arbitrary: seen) (auto simp: loop_Nil loop_Cons le_SucI split: option.splits)

lemma loop_mem: "y \<in> set (loop seen xs) \<Longrightarrow> \<exists>x \<in> set xs. norm x = Some y"
  by (simp add: loop_set)

lemma loop_complete: "x \<in> set xs \<Longrightarrow> norm x = Some y \<Longrightarrow> y \<notin> set seen \<Longrightarrow> y \<in> set (loop seen xs)"
  by (auto simp: loop_set)

lemma loop_fixed:
  "(\<And>x. x \<in> set xs \<Longrightarrow> norm (f x) = Some x) \<Longrightarrow> distinct xs \<Longrightarrow> set xs \<inter> set seen = {} \<Longrightarrow>
   loop seen (map f xs) = xs"
  by (induction xs arbitrary: seen) (auto simp: loop_Nil loop_Cons)

lemma loop_idem:
  assumes fixed: "\<And>x y. norm x = Some y \<Longrightarrow> norm (f y) = Some y"
  shows "loop [] (map f (loop [] xs)) = loop [] xs"
proof (rule loop_fixed)
  fix y
  assume "y \<in> set (loop [] xs)"
  then obtain x where "norm x = Some y" by (auto simp: loop_set)
  then show "norm (f y) = Some y" by (rule fixed)
qed (simp_all add: loop_distinct)

end

end
