(* ===== verification/Envelope.thy ===== *)
theory Envelope
  imports Prelude
begin

text \<open>
  The gateway-to-gateway envelope (\<open>src/internal/envelope.ts\<close>, types of
  \<open>src/internal/types-internal.ts\<close>): its factory, its validation and the acknowledgement.
  An incoming envelope is parsed JSON of any shape, so it is a \<^typ>\<open>js\<close> object and every
  \<open>typeof\<close> test of the code is a case distinction. \<open>Date.parse\<close> is implementation-defined
  outside the ISO format and is a parameter (\<open>None\<close> is \<open>NaN\<close>); so are the clock and the
  random identifiers. A \<open>TypeError\<close> the validator lets escape is the value \<open>Inl\<close>.
\<close>

datatype envelope_error_code =
    INVALID_VERSION | MISSING_FIELD | INVALID_TYPE | EXPIRED | LOOP_DETECTED | HOP_LIMIT
  | PAYLOAD_TOO_LARGE

record envelope_error =
  err_code :: envelope_error_code
  err_message :: string

datatype js_exception = TypeError string

record a2a_config =
  gatewayId :: string
  maxHops :: rat
  maxPayloadBytes :: rat

definition VALID_MESSAGE_TYPES :: "string list" where
  "VALID_MESSAGE_TYPES = [''command'', ''event'', ''response'', ''error'', ''ack'']"

text \<open>Identifiers: \<open>{timestamp_hex}-{uuid_last12}\<close>.\<close>

definition generateId :: "nat \<Rightarrow> string \<Rightarrow> string" where
  "generateId now uuid = show_hex now @ ''-'' @ last_n 12 (filter (\<lambda>c. c \<noteq> CHR ''-'') uuid)"

record create_opts =
  co_source :: js
  co_destination :: js
  co_message_type :: string
  co_payload :: js
  co_ttl_seconds :: js
  co_correlation_id :: js
  co_trace_id :: js
  co_span_id :: js
  co_idempotency_key :: js
  co_hop_count :: js
  co_route_path :: js

text \<open>\<open>id1\<close> and \<open>id2\<close> are the two results of \<open>generateId()\<close>, \<open>now_iso\<close> the clock's ISO
  string.\<close>

definition createEnvelope :: "string \<Rightarrow> string \<Rightarrow> string \<Rightarrow> create_opts \<Rightarrow> js" where
  "createEnvelope id1 id2 now_iso opts = JObj
    [(''protocol_version'', JStr ''a2a/v1''),
     (''message_id'', JStr id1),
     (''idempotency_key'', coalesce (co_idempotency_key opts) (JStr id2)),
     (''correlation_id'', co_correlation_id opts),
     (''timestamp'', JStr now_iso),
     (''ttl_seconds'', coalesce (co_ttl_seconds opts) (JNum (Fin 300))),
     (''trace_id'', co_trace_id opts),
     (''span_id'', co_span_id opts),
     (''source'', co_source opts),
     (''destination'', co_destination opts),
     (''message_type'', JStr (co_message_type opts)),
     (''hop_count'', coalesce (co_hop_count opts) (JNum (Fin 0))),
     (''route_path'', coalesce (co_route_path opts) (JArr [])),
     (''payload'', co_payload opts)]"

definition required_fields :: "js \<Rightarrow> (string \<times> js) list" where
  "required_fields e =
    [(''message_id'', get_prop e ''message_id''),
     (''idempotency_key'', get_prop e ''idempotency_key''),
     (''timestamp'', get_prop e ''timestamp''),
     (''source.gateway_id'', get_prop (get_prop e ''source'') ''gateway_id''),
     (''destination'', get_prop e ''destination''),
     (''message_type'', get_prop e ''message_type'')]"

definition is_missing :: "js \<Rightarrow> bool" where
  "is_missing v = (v = JUndef \<or> v = JNull \<or> v = JStr [])"

fun first_missing :: "(string \<times> js) list \<Rightarrow> string option" where
  "first_missing [] = None"
| "first_missing ((key, v) # fs) = (if is_missing v then Some key else first_missing fs)"

definition valid_type :: "js \<Rightarrow> bool" where
  "valid_type v = (case v of JStr s \<Rightarrow> s \<in> set VALID_MESSAGE_TYPES | _ \<Rightarrow> False)"

definition positive_number :: "js \<Rightarrow> rat option" where
  "positive_number v = (case v of JNum (Fin q) \<Rightarrow> if q \<le> 0 then None else Some q | _ \<Rightarrow> None)"

definition natural_number :: "js \<Rightarrow> rat option" where
  "natural_number v = (case v of JNum (Fin q) \<Rightarrow> if \<not> is_integer q \<or> q < 0 then None else Some q
                       | _ \<Rightarrow> None)"

definition string_array :: "js \<Rightarrow> js list option" where
  "string_array v = (case v of JArr xs \<Rightarrow> if list_all is_string xs then Some xs else None
                     | _ \<Rightarrow> None)"

definition mk_error :: "envelope_error_code \<Rightarrow> string \<Rightarrow> js_exception + envelope_error option" where
  "mk_error c m = Inr (Some \<lparr>err_code = c, err_message = m\<rparr>)"

definition validateEnvelope ::
  "(string \<Rightarrow> rat option) \<Rightarrow> rat \<Rightarrow> js \<Rightarrow> a2a_config \<Rightarrow> js_exception + envelope_error option" where
  "validateEnvelope date_parse now e config =
    (if get_prop e ''protocol_version'' \<noteq> JStr ''a2a/v1'' then
       mk_error INVALID_VERSION
         (''Unsupported protocol version: '' @ js_text (get_prop e ''protocol_version''))
     else case first_missing (required_fields e) of
       Some key \<Rightarrow> mk_error MISSING_FIELD (''Missing required field: '' @ key)
     | None \<Rightarrow>
     if \<not> valid_type (get_prop e ''message_type'') then
       mk_error INVALID_TYPE (''Invalid message_type: '' @ js_text (get_prop e ''message_type''))
     else case positive_number (get_prop e ''ttl_seconds'') of
       None \<Rightarrow> mk_error MISSING_FIELD ''ttl_seconds must be a finite positive number''
     | Some ttl \<Rightarrow>
     (case natural_number (get_prop e ''hop_count'') of
       None \<Rightarrow> mk_error MISSING_FIELD ''hop_count must be a finite non-negative integer''
     | Some hops \<Rightarrow>
     (case string_array (get_prop e ''route_path'') of
       None \<Rightarrow> mk_error MISSING_FIELD ''route_path must be an array of strings''
     | Some path \<Rightarrow>
     (case date_parse (js_text (get_prop e ''timestamp'')) of
       None \<Rightarrow> mk_error MISSING_FIELD ''Invalid timestamp format''
     | Some envelopeTime \<Rightarrow>
       if envelopeTime + ttl * 1000 \<le> now then mk_error EXPIRED ''Envelope TTL has expired''
       else if JStr (gatewayId config) \<in> set path then
         mk_error LOOP_DETECTED (''Loop detected: '' @ gatewayId config @ '' already in route_path'')
       else if maxHops config \<le> hops then
         mk_error HOP_LIMIT (''Hop count '' @ rat_text hops @ '' exceeds limit '' @ rat_text (maxHops config))
       else (case json_stringify (get_prop e ''payload'') of
         None \<Rightarrow> Inl (TypeError ''The string argument must be of type string'')
       | Some body \<Rightarrow>
         let payloadSize = of_nat (utf8_length body) in
         if maxPayloadBytes config < payloadSize then
           mk_error PAYLOAD_TOO_LARGE (''Payload size '' @ rat_text payloadSize @ '' exceeds limit ''
             @ rat_text (maxPayloadBytes config))
         else Inr None)))))"

definition createAck :: "string \<Rightarrow> string \<Rightarrow> js \<Rightarrow> string \<Rightarrow> string \<Rightarrow> js \<Rightarrow> js" where
  "createAck aid now_iso e gid status reason = JObj
    [(''protocol_version'', JStr ''a2a/v1''),
     (''message_id'', JStr aid),
     (''correlation_id'', get_prop e ''message_id''),
     (''source'', JObj [(''gateway_id'', JStr gid)]),
     (''message_type'', JStr ''ack''),
     (''timestamp'', JStr now_iso),
     (''status'', JStr status),
     (''reason'', reason)]"

section \<open>Lemmas\<close>

lemma first_missing_None: "first_missing fs = None \<longleftrightarrow> (\<forall>(k, v) \<in> set fs. \<not> is_missing v)"
  by (induction fs rule: first_missing.induct) auto

lemma first_missing_Some: "first_missing fs = Some k \<Longrightarrow> \<exists>v. (k, v) \<in> set fs \<and> is_missing v"
  by (induction fs rule: first_missing.induct) (auto split: if_splits)

lemma positive_number_Some: "positive_number v = Some q \<longleftrightarrow> v = JNum (Fin q) \<and> 0 < q"
  by (auto simp: positive_number_def split: js.splits jnum.splits)

lemma natural_number_Some: "natural_number v = Some q \<longleftrightarrow> v = JNum (Fin q) \<and> is_integer q \<and> 0 \<le> q"
  by (auto simp: natural_number_def split: js.splits jnum.splits)

lemma string_array_Some: "string_array v = Some xs \<longleftrightarrow> v = JArr xs \<and> list_all is_string xs"
  by (auto simp: string_array_def split: js.splits)

lemmas field_views = positive_number_Some natural_number_Some string_array_Some first_missing_None

text \<open>What an accepted envelope satisfies, stated on the fields.\<close>

definition envelope_ok :: "(string \<Rightarrow> rat option) \<Rightarrow> rat \<Rightarrow> js \<Rightarrow> a2a_config \<Rightarrow> bool" where
  "envelope_ok date_parse now e config \<longleftrightarrow>
     get_prop e ''protocol_version'' = JStr ''a2a/v1'' \<and>
     (\<forall>(k, v) \<in> set (required_fields e). \<not> is_missing v) \<and>
     valid_type (get_prop e ''message_type'') \<and>
     (\<exists>ttl hops path t body.
        get_prop e ''ttl_seconds'' = JNum (Fin ttl) \<and> 0 < ttl \<and>
        get_prop e ''hop_count'' = JNum (Fin hops) \<and> is_integer hops \<and> 0 \<le> hops \<and> hops < maxHops config \<and>
        get_prop e ''route_path'' = JArr path \<and> list_all is_string path \<and>
        JStr (gatewayId config) \<notin> set path \<and>
        date_parse (js_text (get_prop e ''timestamp'')) = Some t \<and> now < t + ttl * 1000 \<and>
        json_stringify (get_prop e ''payload'') = Some body \<and>
        of_nat (utf8_length body) \<le> maxPayloadBytes config)"

text \<open>C12. The validator accepts an envelope (returns \<open>null\<close>) exactly when every rule of the
  protocol holds: version, required fields, message type, a positive finite TTL that has not
  run out, a natural hop count below the limit, a route path of strings that does not contain
  this gateway, and a payload within the size limit.\<close>

theorem validateEnvelope_accepts_iff:
  "validateEnvelope date_parse now e config = Inr None \<longleftrightarrow> envelope_ok date_parse now e config"
proof
  assume "validateEnvelope date_parse now e config = Inr None"
  then show "envelope_ok date_parse now e config"
    unfolding validateEnvelope_def envelope_ok_def mk_error_def
    by (auto simp: field_views Let_def split: if_splits option.splits)
next
  assume "envelope_ok date_parse now e config"
  then obtain ttl hops path t body where ok:
    "get_prop e ''protocol_version'' = JStr ''a2a/v1''"
    "first_missing (required_fields e) = None"
    "valid_type (get_prop e ''message_type'')"
    "positive_number (get_prop e ''ttl_seconds'') = Some ttl"
    "natural_number (get_prop e ''hop_count'') = Some hops" "hops < maxHops config"
    "string_array (get_prop e ''route_path'') = Some path"
    "JStr (gatewayId config) \<notin> set path"
    "date_parse (js_text (get_prop e ''timestamp'')) = Some t" "now < t + ttl * 1000"
    "json_stringify (get_prop e ''payload'') = Some body"
    "of_nat (utf8_length body) \<le> maxPayloadBytes config"
    unfolding envelope_ok_def by (auto simp: field_views)
  then show "validateEnvelope date_parse now e config = Inr None"
    by (simp add: validateEnvelope_def Let_def)
qed

lemma createEnvelope_fields:
  assumes "e = createEnvelope id1 id2 now_iso opts"
  shows "get_prop e ''protocol_version'' = JStr ''a2a/v1''"
    and "get_prop e ''message_type'' = JStr (co_message_type opts)"
    and "get_prop e ''timestamp'' = JStr now_iso"
    and "get_prop e ''payload'' = co_payload opts"
    and "get_prop e ''ttl_seconds'' = coalesce (co_ttl_seconds opts) (JNum (Fin 300))"
    and "get_prop e ''hop_count'' = coalesce (co_hop_count opts) (JNum (Fin 0))"
    and "get_prop e ''route_path'' = coalesce (co_route_path opts) (JArr [])"
  using assms by (simp_all add: createEnvelope_def)

text \<open>Round trip between gateways: an envelope the factory builds with its defaults (TTL
  300 s, no hops, empty path) is accepted by a peer that reads it less than 300 seconds after
  its timestamp, provided the payload fits and at least one hop is allowed.\<close>

theorem createEnvelope_default_accepted:
  assumes "id1 \<noteq> []" "id2 \<noteq> []" "now_iso \<noteq> []"
    and "co_message_type opts \<in> set VALID_MESSAGE_TYPES"
    and "\<not> is_missing (get_prop (co_source opts) ''gateway_id'')"
    and "\<not> is_missing (co_destination opts)"
    and "co_ttl_seconds opts = JUndef" "co_hop_count opts = JUndef" "co_route_path opts = JUndef"
    and "co_idempotency_key opts = JUndef"
    and "date_parse now_iso = Some t" "now < t + 300000"
    and "0 < maxHops config"
    and "json_stringify (co_payload opts) = Some body"
    and "of_nat (utf8_length body) \<le> maxPayloadBytes config"
  shows "validateEnvelope date_parse now (createEnvelope id1 id2 now_iso opts) config = Inr None"
proof -
  let ?e = "createEnvelope id1 id2 now_iso opts"
  have req: "first_missing (required_fields ?e) = None"
    using assms by (auto simp: required_fields_def createEnvelope_def is_missing_def coalesce_def nullish_def
        VALID_MESSAGE_TYPES_def)
  have "positive_number (get_prop ?e ''ttl_seconds'') = Some 300"
    using assms by (simp add: createEnvelope_fields [OF refl] coalesce_def nullish_def positive_number_def)
  moreover have "natural_number (get_prop ?e ''hop_count'') = Some 0"
    using assms by (simp add: createEnvelope_fields [OF refl] coalesce_def nullish_def natural_number_def is_integer_def)
  moreover have "string_array (get_prop ?e ''route_path'') = Some []"
    using assms by (simp add: createEnvelope_fields [OF refl] coalesce_def nullish_def string_array_def)
  moreover have "valid_type (get_prop ?e ''message_type'')"
    using assms by (simp add: createEnvelope_fields [OF refl] valid_type_def)
  ultimately show ?thesis
    using assms req
    by (simp add: validateEnvelope_def createEnvelope_fields [OF refl] Let_def)
qed

definition example_opts :: create_opts where
  "example_opts = \<lparr>co_source = JObj [(''gateway_id'', JStr ''g1'')],
     co_destination = JObj [(''agent_id'', JStr ''a'')], co_message_type = ''command'',
     co_payload = JStr ''hi'', co_ttl_seconds = JUndef, co_correlation_id = JUndef,
     co_trace_id = JUndef, co_span_id = JUndef, co_idempotency_key = JUndef,
     co_hop_count = JUndef, co_route_path = JUndef\<rparr>"

definition example_config :: a2a_config where
  "example_config = \<lparr>gatewayId = ''g2'', maxHops = 4, maxPayloadBytes = 100\<rparr>"

theorem createEnvelope_default_accepted_witness:
  "validateEnvelope (\<lambda>s. Some 1000) 2000 (createEnvelope ''m'' ''k'' ''t'' example_opts)
     example_config = Inr None"
proof (rule createEnvelope_default_accepted [where t = 1000 and body = "json_string ''hi''"])
  show "co_message_type example_opts \<in> set VALID_MESSAGE_TYPES"
    by (simp add: example_opts_def VALID_MESSAGE_TYPES_def)
  show "of_nat (utf8_length (json_string ''hi'')) \<le> maxPayloadBytes example_config"
    by (simp add: example_config_def utf8_length_def json_string_def json_char_def Let_def)
qed (simp_all add: example_opts_def example_config_def is_missing_def)

text \<open>The validator's contract ("null on success or an EnvelopeError") fails on one input:
  an otherwise valid envelope whose payload is \<open>undefined\<close> (JSON without a payload member) makes
  it throw, because \<open>JSON.stringify(undefined)\<close> is not a string.\<close>

theorem validateEnvelope_throws_without_payload:
  assumes "validateEnvelope date_parse now (JObj (fs @ [(''payload'', JNull)])) config = Inr None"
    and "''payload'' \<notin> fst ` set fs"
  shows "\<exists>m. validateEnvelope date_parse now (JObj fs) config = Inl (TypeError m)"
proof -
  have same: "jprop k (fs @ [(''payload'', JNull)]) = jprop k fs" if "k \<noteq> ''payload''" for k
    using that by (auto simp: jprop_def map_add_def split: option.splits)
  have none: "jprop ''payload'' fs = JUndef"
    using assms(2) by (simp add: jprop_def map_of_eq_None_iff [THEN iffD2])
  have req: "required_fields (JObj (fs @ [(''payload'', JNull)])) = required_fields (JObj fs)"
    by (simp add: required_fields_def same)
  show ?thesis
    using assms(1) unfolding validateEnvelope_def mk_error_def
    by (auto simp: req same none Let_def split: if_splits option.splits)
qed

definition example_fields :: "(string \<times> js) list" where
  "example_fields = [(''protocol_version'', JStr ''a2a/v1''), (''message_id'', JStr ''m''),
     (''idempotency_key'', JStr ''k''), (''timestamp'', JStr ''t''), (''ttl_seconds'', JNum (Fin 5)),
     (''source'', JObj [(''gateway_id'', JStr ''g1'')]), (''destination'', JObj []),
     (''message_type'', JStr ''event''), (''hop_count'', JNum (Fin 0)), (''route_path'', JArr [])]"

theorem validateEnvelope_throws_without_payload_witness:
  "\<exists>m. validateEnvelope (\<lambda>s. Some 1000) 2000 (JObj example_fields) example_config = Inl (TypeError m)"
proof (rule validateEnvelope_throws_without_payload)
  show "validateEnvelope (\<lambda>s. Some 1000) 2000 (JObj (example_fields @ [(''payload'', JNull)]))
     example_config = Inr None"
    by (simp add: validateEnvelope_def example_fields_def example_config_def required_fields_def
        is_missing_def valid_type_def VALID_MESSAGE_TYPES_def positive_number_def natural_number_def
        is_integer_def string_array_def utf8_length_def)
  show "''payload'' \<notin> fst ` set example_fields"
    by (simp add: example_fields_def)
qed

lemma createAck_correlates:
  "get_prop (createAck aid now_iso e gid status reason) ''correlation_id'' = get_prop e ''message_id''"
  by (simp add: createAck_def)

end
