(* ===== verification/GatewaySecurity.thy ===== *)
theory GatewaySecurity
  imports Prelude
begin

text \<open>
  \<open>src/internal/security.ts\<close>: HMAC request signing, the timestamp window, the nonce cache
  and the peer registry. HMAC-SHA256 is a parameter \<open>hmac secret data\<close> (a hex digest, hence
  ASCII, so byte length and string length agree); the clock and the random nonce are
  arguments. The nonce cache is the insertion-ordered map of the code.
\<close>

record sign_result =
  sr_signature :: string
  sr_timestamp :: int
  sr_nonce :: string

datatype verify_result = Valid | Invalid string

definition signed_data :: "int \<Rightarrow> string \<Rightarrow> string \<Rightarrow> string" where
  "signed_data ts nonce body = show_int ts @ ''.'' @ nonce @ ''.'' @ body"

definition signRequest ::
  "(string \<Rightarrow> string \<Rightarrow> string) \<Rightarrow> int \<Rightarrow> string \<Rightarrow> string \<Rightarrow> string \<Rightarrow> int option \<Rightarrow> sign_result" where
  "signRequest hmac now uuid body secret timestamp =
    (let ts = opt_default now timestamp; nonce = uuid
     in \<lparr>sr_signature = hmac secret (signed_data ts nonce body), sr_timestamp = ts, sr_nonce = nonce\<rparr>)"

definition verifyRequest ::
  "(string \<Rightarrow> string \<Rightarrow> string) \<Rightarrow> string \<Rightarrow> string \<Rightarrow> int \<Rightarrow> string \<Rightarrow> string \<Rightarrow> verify_result" where
  "verifyRequest hmac body signature timestamp nonce secret =
    (let expected = hmac secret (signed_data timestamp nonce body)
     in if utf8_length signature \<noteq> utf8_length expected then Invalid ''Signature length mismatch''
        else if signature \<noteq> expected then Invalid ''Signature mismatch''
        else Valid)"

text \<open>\<open>Math.round(diff / 1000)\<close> rounds half up.\<close>

definition checkTimestamp :: "int \<Rightarrow> int \<Rightarrow> int \<Rightarrow> verify_result" where
  "checkTimestamp now timestamp skewSeconds =
    (let diff = \<bar>now - timestamp\<bar>; maxDiff = skewSeconds * 1000
     in if maxDiff < diff
        then Invalid (''Timestamp skew '' @ show_int ((diff + 500) div 1000) @ ''s exceeds limit '' @
               show_int skewSeconds @ ''s'')
        else Valid)"

text \<open>The nonce cache: nonce to expiry time.\<close>

type_synonym nonce_cache = "(string \<times> int) list"

definition nonce_add :: "int \<Rightarrow> string \<Rightarrow> int \<Rightarrow> nonce_cache \<Rightarrow> bool \<times> nonce_cache" where
  "nonce_add now nonce ttlMs cache =
    (case map_of cache nonce of
       Some expiresAt \<Rightarrow>
         if expiresAt \<le> now
         then (True, AList.update nonce (now + ttlMs) (AList.delete nonce cache))
         else (False, cache)
     | None \<Rightarrow> (True, AList.update nonce (now + ttlMs) cache))"

definition nonce_has :: "string \<Rightarrow> nonce_cache \<Rightarrow> bool" where
  "nonce_has nonce cache = (map_of cache nonce \<noteq> None)"

definition nonce_cleanup :: "int \<Rightarrow> nonce_cache \<Rightarrow> nonce_cache" where
  "nonce_cleanup now cache = filter (\<lambda>(nonce, expiresAt). \<not> expiresAt \<le> now) cache"

record internal_peer =
  ip_gatewayId :: string
  ip_hmacSecret :: string

type_synonym peer_registry = "(string \<times> internal_peer) list"

definition addPeer :: "internal_peer \<Rightarrow> peer_registry \<Rightarrow> peer_registry" where
  "addPeer config peers = AList.update (ip_gatewayId config) config peers"

definition getPeer :: "peer_registry \<Rightarrow> string \<Rightarrow> internal_peer option" where
  "getPeer peers gid = map_of peers gid"

definition isKnown :: "peer_registry \<Rightarrow> string \<Rightarrow> bool" where
  "isKnown peers gid = (map_of peers gid \<noteq> None)"

definition getSecret :: "peer_registry \<Rightarrow> string \<Rightarrow> string option" where
  "getSecret peers gid = map_option ip_hmacSecret (map_of peers gid)"

section \<open>Signatures\<close>

lemma verify_valid_iff:
  "verifyRequest hmac body signature ts nonce secret = Valid \<longleftrightarrow>
   signature = hmac secret (signed_data ts nonce body)"
  by (simp add: verifyRequest_def Let_def)

text \<open>C0. A request signed with a secret verifies under that secret with the timestamp and nonce
  the signer returned, and no other signature verifies for the same body, timestamp and nonce.\<close>

theorem sign_verify_roundtrip:
  "let s = signRequest hmac now uuid body secret timestamp in
   verifyRequest hmac body sig (sr_timestamp s) (sr_nonce s) secret = Valid \<longleftrightarrow> sig = sr_signature s"
  by (simp add: verify_valid_iff signRequest_def Let_def)

lemma checkTimestamp_valid_iff:
  "checkTimestamp now ts skew = Valid \<longleftrightarrow> \<bar>now - ts\<bar> \<le> skew * 1000"
  by (simp add: checkTimestamp_def Let_def)

section \<open>The nonce cache as an expiring table\<close>

interpretation nonces: expiring_table map_of "\<lambda>e. e" nonce_cleanup keys_distinct
proof unfold_locales
  fix s :: nonce_cache and now k
  assume "keys_distinct s"
  then show "map_of (nonce_cleanup now s) k =
      (case map_of s k of None \<Rightarrow> None | Some v \<Rightarrow> if v \<le> now then None else Some v)"
    by (auto simp: nonce_cleanup_def map_of_filter_distinct split: option.splits)
next
  fix s :: nonce_cache and now
  show "keys_distinct s \<Longrightarrow> keys_distinct (nonce_cleanup now s)"
    unfolding nonce_cleanup_def by (rule keys_distinct_filter)
qed

text \<open>An execution of the cache: the gateway's \<open>add\<close> calls and the timer's \<open>cleanup\<close> calls,
  each at its own time.\<close>

datatype nonce_op = NAdd int string int | NCleanup int

fun op_time :: "nonce_op \<Rightarrow> int" where
  "op_time (NAdd now n ttl) = now"
| "op_time (NCleanup now) = now"

fun nonce_step :: "nonce_op \<Rightarrow> nonce_cache \<Rightarrow> nonce_cache" where
  "nonce_step (NAdd now n ttl) c = snd (nonce_add now n ttl c)"
| "nonce_step (NCleanup now) c = nonce_cleanup now c"

lemma nonce_add_distinct: "keys_distinct c \<Longrightarrow> keys_distinct (snd (nonce_add now n ttl c))"
  by (auto simp: nonce_add_def distinct_update distinct_delete split: option.splits)

lemma nonce_step_distinct [inv_intros]: "keys_distinct c \<Longrightarrow> keys_distinct (nonce_step op c)"
  by (cases op) (simp_all add: nonce_add_distinct nonces.wf_sweep)

lemma nonce_run_distinct: "keys_distinct c \<Longrightarrow> keys_distinct (fold nonce_step ops c)"
  by (induction ops arbitrary: c) (simp_all add: nonce_step_distinct)

lemma nonce_live_step:
  assumes "keys_distinct c" and "nonces.live now c n = Some e" and "op_time op \<le> now"
  shows "nonces.live now (nonce_step op c) n = Some e"
proof (cases op)
  case (NCleanup t)
  with assms show ?thesis by (simp add: nonces.live_sweep)
next
  case (NAdd t m ttl)
  from assms(2) have e: "map_of c n = Some e" "now < e"
    by (auto simp: nonces.live_def split: option.splits if_splits)
  from NAdd assms(3) have t: "t \<le> now" by simp
  with NAdd e show ?thesis
    by (auto simp: nonces.live_def nonce_add_def amap.get_put amap.get_del split: option.splits)
qed

lemma nonce_live_run:
  "keys_distinct c \<Longrightarrow> nonces.live now c n = Some e \<Longrightarrow> (\<forall>op \<in> set ops. op_time op \<le> now) \<Longrightarrow>
   nonces.live now (fold nonce_step ops c) n = Some e"
  by (induction ops arbitrary: c) (simp_all add: nonce_live_step nonce_step_distinct)

lemma nonce_add_live: "nonces.live now c n = Some e \<Longrightarrow> nonce_add now n ttl c = (False, c)"
  by (auto simp: nonces.live_def nonce_add_def split: option.splits if_splits)

text \<open>C19. Replay protection: once a nonce has been added with a time-to-live, every further
  \<open>add\<close> of it before the expiry is refused, whatever other nonces are added and however often
  the cleanup timer fires in between.\<close>

theorem nonce_replay_rejected:
  assumes "keys_distinct c"
    and "fst (nonce_add t n ttl c)"
    and "\<forall>op \<in> set ops. op_time op \<le> now"
    and "now < t + ttl"
  shows "fst (nonce_add now n ttl' (fold nonce_step ops (snd (nonce_add t n ttl c)))) = False"
proof -
  have "map_of (snd (nonce_add t n ttl c)) n = Some (t + ttl)"
    using assms(2) by (auto simp: nonce_add_def amap.get_put split: option.splits if_splits)
  with assms(4) have "nonces.live now (snd (nonce_add t n ttl c)) n = Some (t + ttl)"
    by (simp add: nonces.live_def)
  then have "nonces.live now (fold nonce_step ops (snd (nonce_add t n ttl c))) n = Some (t + ttl)"
    by (rule nonce_live_run [OF nonce_add_distinct [OF assms(1)]]) (use assms(3) in blast)
  then show ?thesis by (simp add: nonce_add_live)
qed

theorem nonce_replay_rejected_witness:
  "fst (nonce_add 50 ''a'' 10 (fold nonce_step [NAdd 20 ''b'' 5, NCleanup 30] (snd (nonce_add 0 ''a'' 60 [])))) = False"
  by (rule nonce_replay_rejected) (simp_all add: nonce_add_def)

text \<open>After the expiry the nonce is accepted again, whether or not it has been swept.\<close>

lemma nonce_accepted_after_expiry:
  "map_of c n = None \<or> (\<exists>e. map_of c n = Some e \<and> e \<le> now) \<longleftrightarrow> fst (nonce_add now n ttl c)"
  by (auto simp: nonce_add_def split: option.splits)

section \<open>The peer registry\<close>

lemma getPeer_addPeer: "getPeer (addPeer config peers) gid =
  (if gid = ip_gatewayId config then Some config else getPeer peers gid)"
  by (simp add: getPeer_def addPeer_def amap.get_put)

lemma getSecret_addPeer: "getSecret (addPeer config peers) (ip_gatewayId config) = Some (ip_hmacSecret config)"
  by (simp add: getSecret_def addPeer_def amap.get_put)

lemma isKnown_iff: "isKnown peers gid \<longleftrightarrow> (\<exists>s. getSecret peers gid = Some s)"
  by (auto simp: isKnown_def getSecret_def)

end
