(* ===== verification/GatewayTransport.thy ===== *)
theory GatewayTransport
  imports Prelude
begin

text \<open>
  \<open>src/internal/transport.ts\<close>: the inbound HTTP server of the gateway protocol and the reading
  of an outbound response. A request is a record of what the handler reads; \<open>new URL\<close>,
  \<open>JSON.parse\<close>, \<open>Number\<close> on a header and the message handler are parameters
  (\<open>None\<close>: the parser throws, the handler throws). A body is the list of its chunks.
\<close>

definition MAX_BODY_BYTES :: nat where
  "MAX_BODY_BYTES = 2 * 1024 * 1024"

definition INBOX_PATH :: string where
  "INBOX_PATH = ''/a2a/v1/inbox''"

datatype header_value = HOne string | HMany "string list"

record http_request =
  rq_url :: "string option"
  rq_method :: string
  rq_headers :: "(string \<times> header_value) list"
  rq_chunks :: "string list"
  rq_stream_error :: bool

record inbound_headers =
  ih_signature :: string
  ih_timestamp :: rat
  ih_nonce :: string
  ih_sourceGatewayId :: string

record http_response =
  rs_status :: nat
  rs_body :: js

definition error_json :: "string \<Rightarrow> js" where
  "error_json m = JObj [(''error'', JStr m)]"

definition sendJson :: "nat \<Rightarrow> js \<Rightarrow> http_response" where
  "sendJson code body = \<lparr>rs_status = code, rs_body = body\<rparr>"

definition headerString :: "http_request \<Rightarrow> string \<Rightarrow> string" where
  "headerString req name = (case map_of (rq_headers req) name of
     Some (HMany vs) \<Rightarrow> (case vs of [] \<Rightarrow> [] | v # _ \<Rightarrow> v)
   | Some (HOne v) \<Rightarrow> v
   | None \<Rightarrow> [])"

text \<open>\<open>readBody\<close>: the chunks are added up and the promise rejects as soon as the total passes
  the limit; a stream error rejects too.\<close>

datatype body_result = Body string | PayloadTooLarge | StreamError

fun readBody_loop :: "nat \<Rightarrow> string list \<Rightarrow> string list \<Rightarrow> bool \<Rightarrow> body_result" where
  "readBody_loop tot acc [] stream_error = (if stream_error then StreamError else Body (concat (rev acc)))"
| "readBody_loop tot acc (chunk # rest) stream_error =
     (let totalBytes = tot + length chunk
      in if MAX_BODY_BYTES < totalBytes then PayloadTooLarge
         else readBody_loop totalBytes (chunk # acc) rest stream_error)"

definition readBody :: "http_request \<Rightarrow> body_result" where
  "readBody req = readBody_loop 0 [] (rq_chunks req) (rq_stream_error req)"

type_synonym message_handler = "js \<Rightarrow> string \<Rightarrow> inbound_headers \<Rightarrow> (nat \<times> string) option"

definition processBody ::
  "(string \<Rightarrow> js option) \<Rightarrow> (string \<Rightarrow> rat option) \<Rightarrow> message_handler \<Rightarrow> string \<Rightarrow> http_request \<Rightarrow> http_response" where
  "processBody json_parse to_number onMessage rawBody req =
    (case json_parse rawBody of
       None \<Rightarrow> sendJson 400 (error_json ''Invalid JSON'')
     | Some envelope \<Rightarrow>
       let headers = \<lparr>ih_signature = headerString req ''x-a2a-signature'',
             ih_timestamp = opt_default 0 (to_number (headerString req ''x-a2a-timestamp'')),
             ih_nonce = headerString req ''x-a2a-nonce'',
             ih_sourceGatewayId = headerString req ''x-a2a-source-gateway''\<rparr>
       in case onMessage envelope rawBody headers of
            None \<Rightarrow> sendJson 500 (error_json ''Internal server error'')
          | Some (code, body) \<Rightarrow>
              (case json_parse body of
                 None \<Rightarrow> sendJson 500 (error_json ''Internal server error'')
               | Some b \<Rightarrow> sendJson code b))"

definition handleRequest ::
  "(string \<Rightarrow> string option) \<Rightarrow> (string \<Rightarrow> js option) \<Rightarrow> (string \<Rightarrow> rat option) \<Rightarrow> message_handler \<Rightarrow>
   http_request \<Rightarrow> http_response" where
  "handleRequest url_pathname json_parse to_number onMessage req =
    (case url_pathname (opt_default ''/'' (rq_url req)) of
       None \<Rightarrow> sendJson 400 (error_json ''Malformed URL'')
     | Some pathname \<Rightarrow>
       if pathname \<noteq> INBOX_PATH then sendJson 404 (error_json ''Not found'')
       else if rq_method req \<noteq> ''POST'' then sendJson 405 (error_json ''Method not allowed'')
       else if \<not> str_includes (headerString req ''content-type'') ''application/json'' then
         sendJson 400 (error_json ''Content-Type must be application/json'')
       else (case readBody req of
               Body rawBody \<Rightarrow> processBody json_parse to_number onMessage rawBody req
             | PayloadTooLarge \<Rightarrow> sendJson 413 (error_json ''Payload too large'')
             | StreamError \<Rightarrow> sendJson 500 (error_json ''Internal server error'')))"

text \<open>The client's reading of one exchange.\<close>

datatype exchange = Response "nat option" string | ReadError | Timeout | ConnError string

record outbound_result =
  ob_success :: bool
  ob_statusCode :: nat
  ob_body :: string

definition outbound_result_of :: "exchange \<Rightarrow> outbound_result" where
  "outbound_result_of x = (case x of
     Response code body \<Rightarrow> (let statusCode = opt_default 0 code in
       \<lparr>ob_success = (200 \<le> statusCode \<and> statusCode < 300), ob_statusCode = statusCode, ob_body = body\<rparr>)
   | ReadError \<Rightarrow> \<lparr>ob_success = False, ob_statusCode = 0, ob_body = ''Response read error''\<rparr>
   | Timeout \<Rightarrow> \<lparr>ob_success = False, ob_statusCode = 0, ob_body = ''Request timeout''\<rparr>
   | ConnError m \<Rightarrow> \<lparr>ob_success = False, ob_statusCode = 0,
                      ob_body = (if m = [] then ''Connection error'' else m)\<rparr>)"

section \<open>The body limit\<close>

lemma readBody_loop_ok:
  "tot + sum_list (map length chunks) \<le> MAX_BODY_BYTES \<Longrightarrow>
   readBody_loop tot acc chunks e = (if e then StreamError else Body (concat (rev acc) @ concat chunks))"
  by (induction chunks arbitrary: tot acc) (auto simp: Let_def)

lemma readBody_loop_too_large:
  "MAX_BODY_BYTES < tot + sum_list (map length chunks) \<Longrightarrow> tot \<le> MAX_BODY_BYTES \<Longrightarrow>
   readBody_loop tot acc chunks e = PayloadTooLarge"
  by (induction chunks arbitrary: tot acc) (auto simp: Let_def add.assoc)

text \<open>Whatever the chunking, a body is delivered whole when its total length is at most 2 MB
  and rejected as too large otherwise.\<close>

theorem readBody_limit:
  "readBody req =
    (if MAX_BODY_BYTES < length (concat (rq_chunks req)) then PayloadTooLarge
     else if rq_stream_error req then StreamError
     else Body (concat (rq_chunks req)))"
  using readBody_loop_ok [of 0 "rq_chunks req" "[]"] readBody_loop_too_large [of 0 "rq_chunks req" "[]"]
  by (auto simp: readBody_def length_concat not_less)

lemma handler_reached:
  assumes "handleRequest url_pathname json_parse to_number onMessage req = r"
    and "rs_status r < 400"
  shows "rq_method req = ''POST'' \<and> length (concat (rq_chunks req)) \<le> MAX_BODY_BYTES \<and>
    url_pathname (opt_default ''/'' (rq_url req)) = Some INBOX_PATH \<and>
    (\<exists>env hs. json_parse (concat (rq_chunks req)) = Some env \<and>
       map_option fst (onMessage env (concat (rq_chunks req)) hs) = Some (rs_status r))"
  using assms
  by (auto simp: handleRequest_def readBody_limit processBody_def sendJson_def Let_def
      split: option.splits if_splits) blast

end
