(* ===== verification/InternalExchange.thy ===== *)
theory InternalExchange
  imports GatewaySecurity GatewayTransport
begin

text \<open>
  One exchange of the gateway protocol from end to end: the request \<open>OutboundClient.send\<close> of \<open>src/internal/transport.ts\<close>
  makes, how Node's server hands it to the inbound handler, and what the signature of \<open>src/internal/security.ts\<close> then proves.
  Node gives header names in lower case and the body in chunks; the body is ASCII text, so bytes and characters agree.
\<close>

section \<open>The outbound request\<close>

definition OUTBOUND_TIMEOUT_MS :: nat where
  "OUTBOUND_TIMEOUT_MS = 30000"

text \<open>What \<open>new URL\<close> yields for the address of the remote gateway.\<close>

record target_url =
  tu_protocol :: string
  tu_hostname :: string
  tu_port :: string
  tu_pathname :: string
  tu_search :: string

record outbound_request =
  or_https :: bool
  or_hostname :: string
  or_port :: string
  or_path :: string
  or_method :: string
  or_headers :: "(string \<times> string) list"
  or_body :: string
  or_timeoutMs :: nat

definition outbound_send :: "target_url \<Rightarrow> js \<Rightarrow> string \<Rightarrow> int \<Rightarrow> string \<Rightarrow> string \<Rightarrow> outbound_request" where
  "outbound_send parsed envelope signature timestamp nonce sourceGatewayId =
    (let isHttps = (tu_protocol parsed = ''https:''); body = opt_default [] (json_stringify envelope)
     in \<lparr>or_https = isHttps, or_hostname = tu_hostname parsed,
         or_port = (if tu_port parsed = [] then (if isHttps then ''443'' else ''80'') else tu_port parsed),
         or_path = tu_pathname parsed @ tu_search parsed, or_method = ''POST'',
         or_headers = [(''Content-Type'', ''application/json''), (''Content-Length'', show_nat (utf8_length body)),
           (''X-A2A-Signature'', signature), (''X-A2A-Timestamp'', show_int timestamp), (''X-A2A-Nonce'', nonce),
           (''X-A2A-Source-Gateway'', sourceGatewayId)],
         or_body = body, or_timeoutMs = OUTBOUND_TIMEOUT_MS\<rparr>)"

definition arrives :: "outbound_request \<Rightarrow> string list \<Rightarrow> http_request" where
  "arrives r chunks = \<lparr>rq_url = Some (or_path r), rq_method = or_method r,
     rq_headers = map (\<lambda>(k, v). (to_lower k, HOne v)) (or_headers r), rq_chunks = chunks, rq_stream_error = False\<rparr>"

section \<open>The server's handle\<close>

text \<open>\<open>this.server\<close>: none yet, or the last server created and whether it listens. A second start replaces the handle.\<close>

datatype server_handle = NoServer | Created bool

definition inbound_start :: "bool \<Rightarrow> server_handle \<Rightarrow> bool \<times> server_handle" where
  "inbound_start listens h = (listens, Created listens)"

definition inbound_stop :: "server_handle \<Rightarrow> server_handle" where
  "inbound_stop h = (case h of NoServer \<Rightarrow> NoServer | Created _ \<Rightarrow> Created False)"

section \<open>What is delivered\<close>

lemma header_names:
  "to_lower ''Content-Type'' = ''content-type''" "to_lower ''Content-Length'' = ''content-length''"
  "to_lower ''X-A2A-Signature'' = ''x-a2a-signature''" "to_lower ''X-A2A-Timestamp'' = ''x-a2a-timestamp''"
  "to_lower ''X-A2A-Nonce'' = ''x-a2a-nonce''" "to_lower ''X-A2A-Source-Gateway'' = ''x-a2a-source-gateway''"
  by code_simp+

lemma arrived_headers:
  fixes u envelope signature timestamp nonce source chunks
  defines "req \<equiv> arrives (outbound_send u envelope signature timestamp nonce source) chunks"
  shows "headerString req ''content-type'' = ''application/json''" "headerString req ''x-a2a-signature'' = signature"
    "headerString req ''x-a2a-timestamp'' = show_int timestamp" "headerString req ''x-a2a-nonce'' = nonce"
    "headerString req ''x-a2a-source-gateway'' = source"
  by (simp_all add: req_def arrives_def outbound_send_def headerString_def header_names Let_def)

text \<open>C18. A signed exchange arrives as it was sent. When the request of one gateway reaches the inbox of another, in whatever
  chunks, the handler is called with the envelope, its exact text, and the signature, timestamp, nonce and gateway id of the
  sender; the signature verifies over that text under the shared secret; and the handler's answer is the response.\<close>

theorem signed_exchange_delivered:
  assumes body: "json_stringify envelope = Some body" "concat chunks = body" "length body \<le> 2 * 1024 * 1024"
    and s: "s = signRequest hmac now uuid body secret timestamp"
    and req: "req = outbound_send u envelope (sr_signature s) (sr_timestamp s) (sr_nonce s) source"
    and node: "url_pathname (or_path req) = Some ''/a2a/v1/inbox''" "json_parse body = Some received"
      "to_number (show_int (sr_timestamp s)) = Some (of_int (sr_timestamp s))"
    and handler: "onMessage received body \<lparr>ih_signature = sr_signature s, ih_timestamp = of_int (sr_timestamp s),
        ih_nonce = sr_nonce s, ih_sourceGatewayId = source\<rparr> = Some (code, answer)" "json_parse answer = Some b"
  shows "handleRequest url_pathname json_parse to_number onMessage (arrives req chunks) = sendJson code b \<and>
    verifyRequest hmac body (sr_signature s) (sr_timestamp s) (sr_nonce s) secret = Valid"
proof -
  let ?req = "arrives req chunks"
  have fields: "rq_url ?req = Some (or_path req)" "rq_method ?req = ''POST''" "rq_chunks ?req = chunks" "\<not> rq_stream_error ?req"
    by (simp_all add: req arrives_def outbound_send_def Let_def)
  have "readBody ?req = Body body"
    using readBody_loop_ok [of 0 chunks "[]" False] body(2,3) fields by (simp add: readBody_def MAX_BODY_BYTES_def flip: length_concat)
  moreover have "processBody json_parse to_number onMessage body ?req = sendJson code b"
    using node handler arrived_headers [of u envelope _ _ _ source chunks] by (simp add: processBody_def req Let_def)
  moreover have "str_includes (headerString ?req ''content-type'') ''application/json''"
    unfolding req arrived_headers by code_simp
  moreover have "verifyRequest hmac body (sr_signature s) (sr_timestamp s) (sr_nonce s) secret = Valid"
    by (simp add: verify_valid_iff s signRequest_def Let_def)
  ultimately show ?thesis
    using node(1) fields by (simp add: handleRequest_def INBOX_PATH_def)
qed

text \<open>C36. The signature does not separate the nonce from the body. From a signed request whose body contains a dot anybody can make
  another that verifies under the same signature: the text up to the dot moves into the nonce. Its nonce is new to the cache,
  so the replay check admits it.\<close>

theorem shifted_request_verifies:
  assumes "verifyRequest hmac (start @ ''.'' @ rest) signature timestamp nonce secret = Valid"
    and "map_of cache (nonce @ ''.'' @ start) = None"
  shows "verifyRequest hmac rest signature timestamp (nonce @ ''.'' @ start) secret = Valid \<and>
    fst (nonce_add now (nonce @ ''.'' @ start) ttlMs (snd (nonce_add now nonce ttlMs cache)))"
  using assms by (auto simp: verify_valid_iff signed_data_def nonce_add_def amap.get_put amap.get_del split: option.split)

section \<open>A concrete exchange\<close>

definition demo_target :: target_url where
  "demo_target = \<lparr>tu_protocol = ''https:'', tu_hostname = ''b'', tu_port = [], tu_pathname = ''/a2a/v1/inbox'', tu_search = []\<rparr>"

lemma signed_exchange_delivered_witness:
  "handleRequest Some (\<lambda>_. Some JNull) (\<lambda>_. Some 5) (\<lambda>env body hs. Some (202, ''null''))
     (arrives (outbound_send demo_target JNull (sr_signature (signRequest (@) 5 ''u-1'' ''null'' ''key'' None)) 5 ''u-1'' ''gw-a'') [''nu'', ''ll'']) =
     sendJson 202 JNull"
  using signed_exchange_delivered [of JNull "''null''" "[''nu'', ''ll'']" _ "(@)" 5 "''u-1''" "''key''" None _ demo_target "''gw-a''"
      Some "\<lambda>_. Some JNull" JNull "\<lambda>_. Some 5" "\<lambda>env body hs. Some (202, ''null'')" 202 "''null''" JNull]
  by (simp add: signRequest_def outbound_send_def demo_target_def Let_def)

lemma shifted_request_verifies_witness:
  "verifyRequest (@) ''5}'' ''key7.n.{1.5}'' 7 ''n.{1'' ''key'' = Valid"
proof -
  have "show_int 7 = ''7''"
    by (simp add: show_int_def) code_simp
  then show ?thesis
    using shifted_request_verifies [of "(@)" "''{1''" "''5}''" "''key7.n.{1.5}''" 7 "''n''" "''key''" "[]"]
    by (simp add: verify_valid_iff signed_data_def)
qed

end
