(* ===== verification/Idempotency.thy ===== *)
theory Idempotency
  imports Prelude
begin

text \<open>
  \<open>src/internal/idempotency.ts\<close>: the idempotency store. The map of entries, the counter of
  expired entries and the cleanup timer are one record; the clock is an argument and times are
  integral milliseconds. \<open>createFingerprint\<close> is SHA-256 and enters as the fingerprint strings.
\<close>

record idem_entry =
  idempotency_key :: string
  payload_fingerprint :: string
  ie_response :: string
  ie_created_at :: int
  ie_expires_at :: int

datatype check_result = New | Duplicate string | Conflict

record idem_store =
  idem_entries :: "(string \<times> idem_entry) list"
  idem_timer :: "int option"
  defaultTtlSeconds :: int
  expiredCleaned :: nat

definition new_idem_store :: "int \<Rightarrow> idem_store" where
  "new_idem_store ttl = \<lparr>idem_entries = [], idem_timer = None, defaultTtlSeconds = ttl, expiredCleaned = 0\<rparr>"

definition idem_check :: "int \<Rightarrow> string \<Rightarrow> string \<Rightarrow> idem_store \<Rightarrow> check_result \<times> idem_store" where
  "idem_check now key fp s =
    (case map_of (idem_entries s) key of
       None \<Rightarrow> (New, s)
     | Some entry \<Rightarrow>
         if ie_expires_at entry \<le> now then
           (New, s\<lparr>idem_entries := AList.delete key (idem_entries s), expiredCleaned := expiredCleaned s + 1\<rparr>)
         else if payload_fingerprint entry = fp then (Duplicate (ie_response entry), s)
         else (Conflict, s))"

definition idem_put :: "int \<Rightarrow> string \<Rightarrow> string \<Rightarrow> string \<Rightarrow> int option \<Rightarrow> idem_store \<Rightarrow> idem_store" where
  "idem_put now key fp response ttlSeconds s =
    (let ttl = opt_default (defaultTtlSeconds s) ttlSeconds;
         entry = \<lparr>idempotency_key = key, payload_fingerprint = fp, ie_response = response,
                  ie_created_at = now, ie_expires_at = now + ttl * 1000\<rparr>
     in s\<lparr>idem_entries := AList.update key entry (idem_entries s)\<rparr>)"

text \<open>The loop over \<open>this.entries\<close> deletes while it iterates, which a \<open>Map\<close> allows: every
  entry is visited once.\<close>

fun cleanup_loop :: "int \<Rightarrow> (string \<times> idem_entry) list \<Rightarrow> idem_store \<Rightarrow> idem_store" where
  "cleanup_loop now [] s = s"
| "cleanup_loop now ((key, entry) # rest) s =
     cleanup_loop now rest
       (if ie_expires_at entry \<le> now
        then s\<lparr>idem_entries := AList.delete key (idem_entries s), expiredCleaned := expiredCleaned s + 1\<rparr>
        else s)"

definition idem_cleanup :: "int \<Rightarrow> idem_store \<Rightarrow> idem_store" where
  "idem_cleanup now s = cleanup_loop now (idem_entries s) s"

definition idem_getStats :: "idem_store \<Rightarrow> nat \<times> nat" where
  "idem_getStats s = (length (idem_entries s), expiredCleaned s)"

definition idem_startCleanup :: "int \<Rightarrow> idem_store \<Rightarrow> idem_store" where
  "idem_startCleanup intervalMs s =
    (case idem_timer s of Some _ \<Rightarrow> s | None \<Rightarrow> s\<lparr>idem_timer := Some intervalMs\<rparr>)"

definition idem_stopCleanup :: "idem_store \<Rightarrow> idem_store" where
  "idem_stopCleanup s = s\<lparr>idem_timer := None\<rparr>"

section \<open>Cleanup\<close>

abbreviation idem_wf :: "idem_store \<Rightarrow> bool" where
  "idem_wf s \<equiv> keys_distinct (idem_entries s)"

lemma cleanup_loop_entries:
  "idem_entries (cleanup_loop now es s) =
   filter (\<lambda>(k, _). \<forall>e. (k, e) \<in> set es \<longrightarrow> \<not> ie_expires_at e \<le> now) (idem_entries s)"
proof (induction es arbitrary: s)
  case Nil
  then show ?case by simp
next
  case (Cons a es)
  obtain k e where [simp]: "a = (k, e)" by (cases a)
  show ?case
    by (auto simp: Cons.IH AList.delete_eq filter_eq_Cons_iff intro!: filter_cong)
qed

lemma cleanup_loop_count:
  "expiredCleaned (cleanup_loop now es s) =
   expiredCleaned s + length (filter (\<lambda>(_, e). ie_expires_at e \<le> now) es)"
  by (induction now es s rule: cleanup_loop.induct) auto

lemma idem_cleanup_entries:
  assumes "idem_wf s"
  shows "idem_entries (idem_cleanup now s) = filter (\<lambda>(_, e). \<not> ie_expires_at e \<le> now) (idem_entries s)"
  unfolding idem_cleanup_def cleanup_loop_entries
  by (rule filter_cong [OF refl]) (use assms in \<open>auto dest: eq_key_imp_eq_value\<close>)

lemma cleanup_loop_config: "defaultTtlSeconds (cleanup_loop now es s) = defaultTtlSeconds s"
  by (induction now es s rule: cleanup_loop.induct) auto

interpretation idem: expiring_table "\<lambda>s. map_of (idem_entries s)" ie_expires_at idem_cleanup idem_wf
proof unfold_locales
  fix s now k
  assume wf: "idem_wf s"
  then show "map_of (idem_entries (idem_cleanup now s)) k =
      (case map_of (idem_entries s) k of None \<Rightarrow> None
       | Some v \<Rightarrow> if ie_expires_at v \<le> now then None else Some v)"
    by (auto simp: idem_cleanup_entries map_of_filter_distinct split: option.splits)
next
  fix s now
  assume "idem_wf s"
  then show "idem_wf (idem_cleanup now s)"
    by (simp add: idem_cleanup_entries keys_distinct_filter)
qed

text \<open>Every entry is either still present or counted: the statistics lose nothing.\<close>

lemma idem_cleanup_stats:
  assumes "idem_wf s"
  shows "fst (idem_getStats (idem_cleanup now s)) + snd (idem_getStats (idem_cleanup now s)) =
         fst (idem_getStats s) + snd (idem_getStats s)"
proof -
  have "length (filter (\<lambda>(_, e). \<not> ie_expires_at e \<le> now) (idem_entries s)) +
        length (filter (\<lambda>(_, e). ie_expires_at e \<le> now) (idem_entries s)) = length (idem_entries s)"
    using sum_length_filter_compl [of "\<lambda>(_, e). ie_expires_at e \<le> now" "idem_entries s"]
    by (simp add: case_prod_unfold)
  then show ?thesis
    using assms by (simp add: idem_getStats_def idem_cleanup_entries)
      (simp add: idem_cleanup_def cleanup_loop_count)
qed

section \<open>Executions\<close>

datatype idem_op = ICheck int string string | IPut int string string string "int option" | ICleanup int

fun idem_op_time :: "idem_op \<Rightarrow> int" where
  "idem_op_time (ICheck now _ _) = now"
| "idem_op_time (IPut now _ _ _ _) = now"
| "idem_op_time (ICleanup now) = now"

fun idem_op_puts :: "idem_op \<Rightarrow> string \<Rightarrow> bool" where
  "idem_op_puts (IPut _ key _ _ _) k = (key = k)"
| "idem_op_puts _ k = False"

fun idem_step :: "idem_op \<Rightarrow> idem_store \<Rightarrow> idem_store" where
  "idem_step (ICheck now key fp) s = snd (idem_check now key fp s)"
| "idem_step (IPut now key fp r ttl) s = idem_put now key fp r ttl s"
| "idem_step (ICleanup now) s = idem_cleanup now s"

lemma idem_step_wf [inv_intros]: "idem_wf s \<Longrightarrow> idem_wf (idem_step op s)"
  by (cases op)
     (auto simp: idem_check_def idem_put_def Let_def distinct_update distinct_delete idem.wf_sweep
       split: option.splits)

lemma idem_live_step:
  assumes "idem_wf s" "idem.live now s k = Some e" "idem_op_time op \<le> now" "\<not> idem_op_puts op k"
  shows "idem.live now (idem_step op s) k = Some e"
proof (cases op)
  case (ICleanup t)
  with assms show ?thesis by (simp add: idem.live_sweep)
next
  case (ICheck t key fp)
  from assms(2) have "map_of (idem_entries s) k = Some e" "now < ie_expires_at e"
    by (auto simp: idem.live_def split: option.splits if_splits)
  with ICheck assms(3) show ?thesis
    by (auto simp: idem.live_def idem_check_def amap.get_del split: option.splits)
next
  case (IPut t key fp r ttl)
  with assms(2,4) show ?thesis
    by (simp add: idem.live_def idem_put_def Let_def amap.get_put)
qed

lemma idem_live_run:
  "idem_wf s \<Longrightarrow> idem.live now s k = Some e \<Longrightarrow>
   (\<forall>op \<in> set ops. idem_op_time op \<le> now \<and> \<not> idem_op_puts op k) \<Longrightarrow>
   idem.live now (fold idem_step ops s) k = Some e"
  by (induction ops arbitrary: s) (simp_all add: idem_live_step idem_step_wf)

text \<open>C20. Idempotency: after a response is stored under a key, a request with that key before the
  expiry is answered with the stored response when its payload fingerprint is the same and is
  reported as a conflict otherwise, whatever checks, stores under other keys and cleanups ran in
  between.\<close>

theorem idem_duplicate_detected:
  assumes "idem_wf s"
    and "\<forall>op \<in> set ops. idem_op_time op \<le> now \<and> \<not> idem_op_puts op key"
    and "now < t + opt_default (defaultTtlSeconds s) ttl * 1000"
  shows "fst (idem_check now key fp' (fold idem_step ops (idem_put t key fp response ttl s))) =
         (if fp' = fp then Duplicate response else Conflict)"
proof -
  let ?s = "idem_put t key fp response ttl s"
  define e where "e = \<lparr>idempotency_key = key, payload_fingerprint = fp, ie_response = response,
                  ie_created_at = t, ie_expires_at = t + opt_default (defaultTtlSeconds s) ttl * 1000\<rparr>"
  have "idem.live now ?s key = Some e"
    using assms(3) by (simp add: idem.live_def idem_put_def Let_def amap.get_put e_def)
  moreover have "idem_wf ?s"
    using assms(1) idem_step_wf [of s "IPut t key fp response ttl"] by simp
  ultimately have "idem.live now (fold idem_step ops ?s) key = Some e"
    using idem_live_run assms(2) by blast
  then have "map_of (idem_entries (fold idem_step ops ?s)) key = Some e" "now < ie_expires_at e"
    by (auto simp: idem.live_def split: option.splits if_splits)
  then show ?thesis by (auto simp: idem_check_def e_def)
qed

theorem idem_duplicate_detected_witness:
  "fst (idem_check 9000 ''k'' ''f'' (fold idem_step [ICheck 1 ''x'' ''y'', ICleanup 8000]
     (idem_put 0 ''k'' ''f'' ''r'' (Some 10) (new_idem_store 60)))) = Duplicate ''r''"
  using idem_duplicate_detected [of "new_idem_store 60" "[ICheck 1 ''x'' ''y'', ICleanup 8000]" 9000 "''k''" 0
      "Some 10" "''f''" "''f''" "''r''"]
  by (simp add: new_idem_store_def)

lemma idem_check_new_after_expiry:
  "map_of (idem_entries s) key = Some e \<Longrightarrow> ie_expires_at e \<le> now \<Longrightarrow>
   fst (idem_check now key fp s) = New \<and> map_of (idem_entries (snd (idem_check now key fp s))) key = None"
  by (simp add: idem_check_def amap.get_del)

end
