(* ===== verification/Outbox.thy ===== *)
theory Outbox
  imports Prelude
begin

text \<open>
  \<open>src/internal/outbox.ts\<close>: the outbox of pending messages, its retry schedule and the relay
  tick. Times are rationals because a back-off delay carries random jitter (an argument in
  [0,1)); the entry's free-form members are one \<^typ>\<open>js\<close> payload. One relay tick is a function
  of the outcomes of \<open>sendFn\<close>, in the order the entries are sent.
\<close>

datatype outbox_status = Pending | Sending | Sent | Failed | Dead

record outbox_entry =
  oe_status :: outbox_status
  retry_count :: nat
  next_retry_at :: rat
  oe_created_at :: rat
  last_error :: "string option"
  oe_payload :: js

record outbox_config =
  pollIntervalMs :: rat
  maxRetries :: nat
  baseDelayMs :: rat
  maxDelayMs :: rat

record outbox =
  ob_store :: "(string \<times> outbox_entry) list"
  ob_timer :: bool
  isFlushing :: bool
  ob_config :: outbox_config

definition enqueue :: "rat \<Rightarrow> string \<Rightarrow> js \<Rightarrow> outbox \<Rightarrow> outbox \<times> string" where
  "enqueue now uuid payload ob =
    (let full = \<lparr>oe_status = Pending, retry_count = 0, next_retry_at = now, oe_created_at = now,
                 last_error = None, oe_payload = payload\<rparr>
     in (ob\<lparr>ob_store := AList.update uuid full (ob_store ob)\<rparr>, uuid))"

text \<open>\<open>Array.prototype.sort\<close> is stable, as \<^const>\<open>sort_key\<close> is.\<close>

definition getPending :: "rat \<Rightarrow> outbox \<Rightarrow> (string \<times> outbox_entry) list" where
  "getPending now ob =
     sort_key (\<lambda>(_, e). oe_created_at e)
       (filter (\<lambda>(_, e). oe_status e = Pending \<and> next_retry_at e \<le> now) (ob_store ob))"

definition set_status :: "outbox_status \<Rightarrow> string \<Rightarrow> outbox \<Rightarrow> outbox" where
  "set_status st i ob =
     (case map_of (ob_store ob) i of None \<Rightarrow> ob
      | Some e \<Rightarrow> ob\<lparr>ob_store := AList.update i (e\<lparr>oe_status := st\<rparr>) (ob_store ob)\<rparr>)"

definition markSending :: "string \<Rightarrow> outbox \<Rightarrow> outbox" where
  "markSending i ob = set_status Sending i ob"

definition markSent :: "string \<Rightarrow> outbox \<Rightarrow> outbox" where
  "markSent i ob = set_status Sent i ob"

definition backoff_delay :: "outbox_config \<Rightarrow> nat \<Rightarrow> rat \<Rightarrow> rat" where
  "backoff_delay cfg count random =
    (let expDelay = baseDelayMs cfg * 2 ^ count; jitter = random * baseDelayMs cfg
     in min (expDelay + jitter) (maxDelayMs cfg))"

definition markFailed :: "rat \<Rightarrow> rat \<Rightarrow> string \<Rightarrow> string \<Rightarrow> outbox \<Rightarrow> outbox" where
  "markFailed now random i err ob =
    (case map_of (ob_store ob) i of None \<Rightarrow> ob
     | Some e \<Rightarrow>
        let e1 = e\<lparr>retry_count := retry_count e + 1, last_error := Some err\<rparr>;
            e2 = (if maxRetries (ob_config ob) \<le> retry_count e1 then e1\<lparr>oe_status := Dead\<rparr>
                  else e1\<lparr>oe_status := Pending,
                          next_retry_at := now + backoff_delay (ob_config ob) (retry_count e1) random\<rparr>)
        in ob\<lparr>ob_store := AList.update i e2 (ob_store ob)\<rparr>)"

definition getDeadLetters :: "outbox \<Rightarrow> (string \<times> outbox_entry) list" where
  "getDeadLetters ob = filter (\<lambda>(_, e). oe_status e = Dead) (ob_store ob)"

definition count_status :: "outbox_status \<Rightarrow> outbox \<Rightarrow> nat" where
  "count_status st ob = length (filter (\<lambda>(_, e). oe_status e = st) (ob_store ob))"

definition outbox_getStats :: "outbox \<Rightarrow> nat \<times> nat \<times> nat \<times> nat \<times> nat" where
  "outbox_getStats ob = (count_status Pending ob, count_status Sending ob, count_status Sent ob,
     count_status Failed ob, count_status Dead ob)"

definition outbox_remove :: "string \<Rightarrow> outbox \<Rightarrow> outbox" where
  "outbox_remove i ob = ob\<lparr>ob_store := AList.delete i (ob_store ob)\<rparr>"

definition outbox_cleanup :: "rat \<Rightarrow> rat \<Rightarrow> outbox \<Rightarrow> outbox" where
  "outbox_cleanup now maxAgeMs ob =
    (let cutoff = now - maxAgeMs
     in ob\<lparr>ob_store := filter (\<lambda>(_, e). \<not> (oe_status e = Sent \<and> oe_created_at e < cutoff)) (ob_store ob)\<rparr>)"

text \<open>One call of \<open>sendFn\<close>: it resolves with a boolean or throws. With the time and the random
  number a failure reads.\<close>

datatype send_outcome = Resolved bool | Threw string

fun relay_entry :: "string \<Rightarrow> send_outcome \<times> rat \<times> rat \<Rightarrow> outbox \<Rightarrow> outbox" where
  "relay_entry i (Resolved True, now, rnd) ob = markSent i (markSending i ob)"
| "relay_entry i (Resolved False, now, rnd) ob =
     markFailed now rnd i ''sendFn returned false'' (markSending i ob)"
| "relay_entry i (Threw msg, now, rnd) ob = markFailed now rnd i msg (markSending i ob)"

fun relay_loop :: "string list \<Rightarrow> (send_outcome \<times> rat \<times> rat) list \<Rightarrow> outbox \<Rightarrow> outbox" where
  "relay_loop (i # ids) (o1 # os) ob = relay_loop ids os (relay_entry i o1 ob)"
| "relay_loop _ _ ob = ob"

definition relay_tick :: "rat \<Rightarrow> (send_outcome \<times> rat \<times> rat) list \<Rightarrow> outbox \<Rightarrow> outbox" where
  "relay_tick now os ob =
    (if isFlushing ob then ob
     else (relay_loop (map fst (getPending now ob)) os (ob\<lparr>isFlushing := True\<rparr>))\<lparr>isFlushing := False\<rparr>)"

definition startRelay :: "outbox \<Rightarrow> outbox" where
  "startRelay ob = (if ob_timer ob then ob else ob\<lparr>ob_timer := True\<rparr>)"

definition stopRelay :: "outbox \<Rightarrow> outbox" where
  "stopRelay ob = ob\<lparr>ob_timer := False\<rparr>"

section \<open>Lemmas\<close>

lemma getPending_iff:
  "(i, e) \<in> set (getPending now ob) \<longleftrightarrow>
   (i, e) \<in> set (ob_store ob) \<and> oe_status e = Pending \<and> next_retry_at e \<le> now"
  by (auto simp: getPending_def)

text \<open>C0. The relay sends the due pending entries oldest first: \<open>getPending\<close> returns exactly the
  stored entries that are pending and due, in ascending creation time.\<close>

theorem getPending_due_oldest_first:
  "sorted (map (\<lambda>(_, e). oe_created_at e) (getPending now ob)) \<and>
   set (getPending now ob) = {(i, e) \<in> set (ob_store ob). oe_status e = Pending \<and> next_retry_at e \<le> now}"
  by (auto simp: getPending_def)

lemma backoff_bounds:
  assumes "0 \<le> baseDelayMs cfg" "0 \<le> rnd"
  shows "backoff_delay cfg n rnd \<le> maxDelayMs cfg"
    and "min (baseDelayMs cfg * 2 ^ n) (maxDelayMs cfg) \<le> backoff_delay cfg n rnd"
  using mult_nonneg_nonneg [OF assms(2,1)] by (simp_all add: backoff_delay_def Let_def min_def)

text \<open>The states an entry can be in. \<open>Failed\<close> is a member of the type that no operation
  produces; an entry is dead exactly when its attempts are used up.\<close>

definition entry_ok :: "nat \<Rightarrow> outbox_entry \<Rightarrow> bool" where
  "entry_ok maxr e \<longleftrightarrow> oe_status e \<noteq> Failed \<and>
     (oe_status e = Dead \<longrightarrow> maxr \<le> retry_count e) \<and>
     (oe_status e \<noteq> Dead \<longrightarrow> retry_count e < maxr \<or> retry_count e = 0)"

definition outbox_inv :: "outbox \<Rightarrow> bool" where
  "outbox_inv ob \<longleftrightarrow> keys_distinct (ob_store ob) \<and>
     (\<forall>(i, e) \<in> set (ob_store ob). entry_ok (maxRetries (ob_config ob)) e)"

lemma outbox_invI_lookup:
  "keys_distinct (ob_store ob) \<Longrightarrow>
   (\<And>i e. map_of (ob_store ob) i = Some e \<Longrightarrow> entry_ok (maxRetries (ob_config ob)) e) \<Longrightarrow> outbox_inv ob"
  by (auto simp: outbox_inv_def)

lemma outbox_inv_lookup:
  "outbox_inv ob \<Longrightarrow> map_of (ob_store ob) i = Some e \<Longrightarrow> entry_ok (maxRetries (ob_config ob)) e"
  by (auto simp: outbox_inv_def dest: map_of_SomeD)

lemma outbox_inv_update:
  assumes "outbox_inv ob" "entry_ok (maxRetries (ob_config ob)) e"
  shows "outbox_inv (ob\<lparr>ob_store := AList.update i e (ob_store ob)\<rparr>)"
proof (rule outbox_invI_lookup)
  show "keys_distinct (ob_store (ob\<lparr>ob_store := AList.update i e (ob_store ob)\<rparr>))"
    using assms(1) by (simp add: outbox_inv_def distinct_update)
  show "\<And>j f. map_of (ob_store (ob\<lparr>ob_store := AList.update i e (ob_store ob)\<rparr>)) j = Some f \<Longrightarrow>
      entry_ok (maxRetries (ob_config (ob\<lparr>ob_store := AList.update i e (ob_store ob)\<rparr>))) f"
    using assms by (auto simp: amap.get_put split: if_splits dest: outbox_inv_lookup)
qed

lemma outbox_inv_filter:
  "outbox_inv ob \<Longrightarrow> outbox_inv (ob\<lparr>ob_store := filter P (ob_store ob)\<rparr>)"
  by (auto simp: outbox_inv_def keys_distinct_filter)

lemma enqueue_inv [inv_intros]: "outbox_inv ob \<Longrightarrow> outbox_inv (fst (enqueue now uuid p ob))"
  by (simp add: enqueue_def Let_def outbox_inv_update entry_ok_def)

lemma markFailed_inv [inv_intros]: "outbox_inv ob \<Longrightarrow> outbox_inv (markFailed now rnd i err ob)"
  by (auto simp: markFailed_def Let_def entry_ok_def intro!: outbox_inv_update split: option.splits)

lemma markSending_inv [inv_intros]:
  assumes "outbox_inv ob" "\<And>e. map_of (ob_store ob) i = Some e \<Longrightarrow> oe_status e \<noteq> Dead"
  shows "outbox_inv (markSending i ob)"
proof (cases "map_of (ob_store ob) i")
  case None
  with assms show ?thesis by (simp add: markSending_def set_status_def)
next
  case (Some e)
  with assms have "entry_ok (maxRetries (ob_config ob)) (e\<lparr>oe_status := Sending\<rparr>)"
    by (auto simp: entry_ok_def dest: outbox_inv_lookup)
  with Some assms(1) show ?thesis by (simp add: markSending_def set_status_def outbox_inv_update)
qed

lemma markSent_inv [inv_intros]:
  assumes "outbox_inv ob" "\<And>e. map_of (ob_store ob) i = Some e \<Longrightarrow> oe_status e \<noteq> Dead"
  shows "outbox_inv (markSent i ob)"
proof (cases "map_of (ob_store ob) i")
  case None
  with assms show ?thesis by (simp add: markSent_def set_status_def)
next
  case (Some e)
  with assms have "entry_ok (maxRetries (ob_config ob)) (e\<lparr>oe_status := Sent\<rparr>)"
    by (auto simp: entry_ok_def dest: outbox_inv_lookup)
  with Some assms(1) show ?thesis by (simp add: markSent_def set_status_def outbox_inv_update)
qed

lemma outbox_remove_inv [inv_intros]: "outbox_inv ob \<Longrightarrow> outbox_inv (outbox_remove i ob)"
  by (simp add: outbox_remove_def AList.delete_eq outbox_inv_filter)

lemma outbox_cleanup_inv [inv_intros]: "outbox_inv ob \<Longrightarrow> outbox_inv (outbox_cleanup now age ob)"
  by (simp add: outbox_cleanup_def Let_def outbox_inv_filter)

lemma lookup_set_status:
  "map_of (ob_store (set_status st i ob)) j =
   (if j = i then map_option (oe_status_update (\<lambda>_. st)) (map_of (ob_store ob) i) else map_of (ob_store ob) j)"
  by (auto simp: set_status_def amap.get_put split: option.splits)

lemma config_set_status [simp]: "ob_config (set_status st i ob) = ob_config ob"
  by (simp add: set_status_def split: option.splits)

lemma config_markFailed [simp]: "ob_config (markFailed now rnd i err ob) = ob_config ob"
  by (simp add: markFailed_def Let_def split: option.splits)

lemma relay_entry_config [simp]: "ob_config (relay_entry i o1 ob) = ob_config ob"
  by (cases "(i, o1, ob)" rule: relay_entry.cases) (simp_all add: markSent_def markSending_def)

lemma relay_entry_inv:
  assumes "outbox_inv ob" "\<And>e. map_of (ob_store ob) i = Some e \<Longrightarrow> oe_status e \<noteq> Dead"
  shows "outbox_inv (relay_entry i o1 ob)"
proof -
  have 1: "outbox_inv (markSending i ob)" using assms by (rule markSending_inv)
  have 2: "map_of (ob_store (markSending i ob)) i = Some e \<Longrightarrow> oe_status e \<noteq> Dead" for e
    by (auto simp: markSending_def lookup_set_status)
  show ?thesis
    by (cases "(i, o1, ob)" rule: relay_entry.cases)
       (auto intro: markSent_inv markFailed_inv 1 simp: 2)
qed

lemma relay_entry_other:
  "j \<noteq> i \<Longrightarrow> map_of (ob_store (relay_entry i o1 ob)) j = map_of (ob_store ob) j"
  by (cases "(i, o1, ob)" rule: relay_entry.cases)
     (auto simp: markSent_def markSending_def lookup_set_status markFailed_def Let_def amap.get_put
       split: option.splits)

lemma relay_loop_inv:
  "outbox_inv ob \<Longrightarrow> distinct ids \<Longrightarrow>
   (\<forall>i \<in> set ids. \<forall>e. map_of (ob_store ob) i = Some e \<longrightarrow> oe_status e \<noteq> Dead) \<Longrightarrow>
   outbox_inv (relay_loop ids os ob)"
proof (induction ids os ob rule: relay_loop.induct)
  case (1 i ids o1 os ob)
  have "outbox_inv (relay_entry i o1 ob)"
    using 1(2,4) by (intro relay_entry_inv) auto
  moreover have "\<forall>j \<in> set ids. \<forall>e. map_of (ob_store (relay_entry i o1 ob)) j = Some e \<longrightarrow> oe_status e \<noteq> Dead"
  proof (intro ballI allI impI)
    fix j e
    assume j: "j \<in> set ids" "map_of (ob_store (relay_entry i o1 ob)) j = Some e"
    with 1(3) have "j \<noteq> i" by auto
    with j 1(4) show "oe_status e \<noteq> Dead" by (simp add: relay_entry_other)
  qed
  ultimately show ?case using 1(1,3) by simp
qed simp_all

lemma outbox_inv_flushing [simp]: "outbox_inv (ob\<lparr>isFlushing := b\<rparr>) = outbox_inv ob"
  by (simp add: outbox_inv_def)

lemma getPending_ids:
  assumes "outbox_inv ob"
  shows "distinct (map fst (getPending now ob))"
    and "i \<in> fst ` set (getPending now ob) \<Longrightarrow> map_of (ob_store ob) i = Some e \<Longrightarrow> oe_status e = Pending"
proof -
  have d: "keys_distinct (ob_store ob)" using assms by (simp add: outbox_inv_def)
  have "keys_distinct (filter (\<lambda>(_, e). oe_status e = Pending \<and> next_retry_at e \<le> now) (ob_store ob))"
    using d by (rule keys_distinct_filter)
  then show "distinct (map fst (getPending now ob))"
    by (simp add: getPending_def distinct_map)
  show "i \<in> fst ` set (getPending now ob) \<Longrightarrow> map_of (ob_store ob) i = Some e \<Longrightarrow> oe_status e = Pending"
    using d by (auto simp: getPending_def dest: eq_key_imp_eq_value)
qed

text \<open>The relay never loses the outbox's invariant: after any tick, with any mix of sends that
  succeed, return false or throw, no entry is in the \<open>failed\<close> state, entries are dead exactly when
  their attempts are used up, and ids stay unique.\<close>

theorem relay_tick_inv:
  assumes "outbox_inv ob"
  shows "outbox_inv (relay_tick now os ob)"
proof (cases "isFlushing ob")
  case True
  with assms show ?thesis by (simp add: relay_tick_def)
next
  case False
  have "outbox_inv (relay_loop (map fst (getPending now ob)) os (ob\<lparr>isFlushing := True\<rparr>))"
  proof (rule relay_loop_inv)
    show "\<forall>i \<in> set (map fst (getPending now ob)). \<forall>e.
        map_of (ob_store (ob\<lparr>isFlushing := True\<rparr>)) i = Some e \<longrightarrow> oe_status e \<noteq> Dead"
      using getPending_ids(2) [OF assms] by fastforce
  qed (use assms getPending_ids(1) in simp_all)
  with False show ?thesis by (simp add: relay_tick_def)
qed

definition outbox_example :: outbox where
  "outbox_example = \<lparr>ob_store = [], ob_timer = True, isFlushing = False,
     ob_config = \<lparr>pollIntervalMs = 100, maxRetries = 2, baseDelayMs = 10, maxDelayMs = 50\<rparr>\<rparr>"

theorem relay_tick_inv_witness:
  "outbox_inv (relay_tick 5 [(Resolved False, 6, 0)] (fst (enqueue 0 ''a'' JNull outbox_example)))"
  by (rule relay_tick_inv)
     (simp add: outbox_inv_def enqueue_def outbox_example_def entry_ok_def)

text \<open>Bounded delivery: an entry whose every attempt fails is attempted exactly
  \<open>maxRetries\<close> times; after \<open>n\<close> failures it is pending with a retry time at most
  \<open>maxDelayMs\<close> away while \<open>n < maxRetries\<close>, and dead from then on.\<close>

theorem markFailed_schedule:
  assumes "map_of (ob_store ob) i = Some e" and "0 \<le> baseDelayMs (ob_config ob)" and "0 \<le> rnd"
  shows "\<exists>e'. map_of (ob_store (markFailed now rnd i err ob)) i = Some e' \<and>
     retry_count e' = retry_count e + 1 \<and> last_error e' = Some err \<and>
     (oe_status e' = (if maxRetries (ob_config ob) \<le> retry_count e + 1 then Dead else Pending)) \<and>
     (oe_status e' = Pending \<longrightarrow> next_retry_at e' \<le> now + maxDelayMs (ob_config ob) \<and>
        now + min (baseDelayMs (ob_config ob) * 2 ^ (retry_count e + 1)) (maxDelayMs (ob_config ob)) \<le> next_retry_at e')"
  using assms(1) backoff_bounds [OF assms(2,3), of "Suc (retry_count e)"]
  by (auto simp: markFailed_def Let_def amap.get_put)

theorem markFailed_schedule_witness:
  "\<exists>e'. map_of (ob_store (markFailed 7 0 ''a'' ''x'' (fst (enqueue 0 ''a'' JNull outbox_example)))) ''a'' = Some e' \<and>
     retry_count e' = 1 \<and> oe_status e' = Pending \<and> next_retry_at e' = 27"
  using markFailed_schedule [of "fst (enqueue 0 ''a'' JNull outbox_example)" "''a''" _ 0 7 "''x''"]
  by (simp add: enqueue_def outbox_example_def markFailed_def backoff_delay_def)

lemma no_failed_entries: "outbox_inv ob \<Longrightarrow> count_status Failed ob = 0"
  by (auto simp: outbox_inv_def entry_ok_def count_status_def filter_empty_conv)

lemma stats_total:
  assumes "outbox_inv ob" "outbox_getStats ob = (p, sg, st, f, d)"
  shows "p + sg + st + f + d = length (ob_store ob)"
proof -
  have "length (filter (\<lambda>(_, e). oe_status e = Pending) xs) + length (filter (\<lambda>(_, e). oe_status e = Sending) xs) +
        length (filter (\<lambda>(_, e). oe_status e = Sent) xs) + length (filter (\<lambda>(_, e). oe_status e = Failed) xs) +
        length (filter (\<lambda>(_, e). oe_status e = Dead) xs) = length xs" for xs :: "(string \<times> outbox_entry) list"
  proof (induction xs)
    case Nil
    then show ?case by simp
  next
    case (Cons a xs)
    then show ?case by (cases a; cases "oe_status (snd a)") auto
  qed
  with assms(2) show ?thesis by (auto simp: outbox_getStats_def count_status_def)
qed

end
