(* ===== verification/InternalRouting.thy ===== *)
theory InternalRouting
  imports Prelude
begin

text \<open>
  \<open>src/internal/routing.ts\<close> (the destination router) and \<open>src/internal/metrics.ts\<close> (the
  protocol counters). Optional string fields are \<^typ>\<open>string option\<close>; an empty string is falsy in
  the code's tests, which \<open>present\<close> writes out.
\<close>

record a2a_destination =
  ad_gateway_id :: "string option"
  ad_agent_id :: "string option"
  ad_route_key :: "string option"

record internal_rule =
  routeKey :: string
  ir_agentId :: string

datatype matched_by = ByAgentId | ByRouteKey | ByDefault

record route_result =
  rr_agentId :: string
  rr_matched_by :: matched_by

record router =
  rt_rules :: "internal_rule list"
  rt_default :: "string option"

definition present :: "string option \<Rightarrow> string option" where
  "present s = (case s of None \<Rightarrow> None | Some t \<Rightarrow> if t = [] then None else Some t)"

definition route :: "router \<Rightarrow> a2a_destination \<Rightarrow> route_result option" where
  "route r d =
    (case present (ad_agent_id d) of
       Some a \<Rightarrow> Some \<lparr>rr_agentId = a, rr_matched_by = ByAgentId\<rparr>
     | None \<Rightarrow>
       (case (case present (ad_route_key d) of None \<Rightarrow> None
              | Some k \<Rightarrow> find (\<lambda>r. routeKey r = k) (rt_rules r)) of
          Some rule \<Rightarrow> Some \<lparr>rr_agentId = ir_agentId rule, rr_matched_by = ByRouteKey\<rparr>
        | None \<Rightarrow>
          (case present (rt_default r) of
             Some a \<Rightarrow> Some \<lparr>rr_agentId = a, rr_matched_by = ByDefault\<rparr>
           | None \<Rightarrow> None)))"

definition addRule :: "internal_rule \<Rightarrow> router \<Rightarrow> router" where
  "addRule rule r = r\<lparr>rt_rules := rt_rules r @ [rule]\<rparr>"

definition removeRule :: "string \<Rightarrow> router \<Rightarrow> router" where
  "removeRule key r = r\<lparr>rt_rules := filter (\<lambda>x. routeKey x \<noteq> key) (rt_rules r)\<rparr>"

definition getRules :: "router \<Rightarrow> internal_rule list" where
  "getRules r = rt_rules r"

text \<open>The precedence the code documents: explicit agent, then route key, then default.\<close>

lemma route_agent_id:
  "present (ad_agent_id d) = Some a \<Longrightarrow> route r d = Some \<lparr>rr_agentId = a, rr_matched_by = ByAgentId\<rparr>"
  by (simp add: route_def)

lemma route_addRule_first_wins:
  assumes "present (ad_agent_id d) = None" "present (ad_route_key d) = Some k"
    and "find (\<lambda>x. routeKey x = k) (getRules r) = Some rule"
  shows "route (addRule rule' r) d = route r d"
  using assms by (simp add: route_def addRule_def getRules_def find_append)

lemma route_removed_key:
  assumes "present (ad_agent_id d) = None" "present (ad_route_key d) = Some k"
  shows "route (removeRule k r) d =
    map_option (\<lambda>a. \<lparr>rr_agentId = a, rr_matched_by = ByDefault\<rparr>) (present (rt_default r))"
proof -
  have "find (\<lambda>x. routeKey x = k) (filter (\<lambda>x. routeKey x \<noteq> k) rules) = None" for rules :: "internal_rule list"
    by (rule find_None_filter)
  with assms show ?thesis by (simp add: route_def removeRule_def split: option.splits)
qed

section \<open>Protocol counters\<close>

record a2a_metrics =
  messages_sent :: nat
  messages_received :: nat
  acks_sent :: nat
  retries :: nat
  idempotent_hits :: nat
  dead_letters :: nat
  errors :: nat
  security_rejections :: nat
  loop_rejections :: nat
  last_send_at :: "int option"
  last_receive_at :: "int option"

definition emptyMetrics :: a2a_metrics where
  "emptyMetrics = \<lparr>messages_sent = 0, messages_received = 0, acks_sent = 0, retries = 0,
     idempotent_hits = 0, dead_letters = 0, errors = 0, security_rejections = 0,
     loop_rejections = 0, last_send_at = None, last_receive_at = None\<rparr>"

definition recordSend :: "int \<Rightarrow> a2a_metrics \<Rightarrow> a2a_metrics" where
  "recordSend now m = m\<lparr>messages_sent := messages_sent m + 1, last_send_at := Some now\<rparr>"

definition recordReceive :: "int \<Rightarrow> a2a_metrics \<Rightarrow> a2a_metrics" where
  "recordReceive now m = m\<lparr>messages_received := messages_received m + 1, last_receive_at := Some now\<rparr>"

definition recordAck :: "a2a_metrics \<Rightarrow> a2a_metrics" where
  "recordAck m = m\<lparr>acks_sent := acks_sent m + 1\<rparr>"

definition recordRetry :: "a2a_metrics \<Rightarrow> a2a_metrics" where
  "recordRetry m = m\<lparr>retries := retries m + 1\<rparr>"

definition recordIdempotentHit :: "a2a_metrics \<Rightarrow> a2a_metrics" where
  "recordIdempotentHit m = m\<lparr>idempotent_hits := idempotent_hits m + 1\<rparr>"

definition recordDeadLetter :: "a2a_metrics \<Rightarrow> a2a_metrics" where
  "recordDeadLetter m = m\<lparr>dead_letters := dead_letters m + 1\<rparr>"

definition recordError :: "a2a_metrics \<Rightarrow> a2a_metrics" where
  "recordError m = m\<lparr>errors := errors m + 1\<rparr>"

definition recordSecurityRejection_m :: "a2a_metrics \<Rightarrow> a2a_metrics" where
  "recordSecurityRejection_m m = m\<lparr>security_rejections := security_rejections m + 1\<rparr>"

definition recordLoopRejection :: "a2a_metrics \<Rightarrow> a2a_metrics" where
  "recordLoopRejection m = m\<lparr>loop_rejections := loop_rejections m + 1\<rparr>"

definition reset_metrics :: "a2a_metrics \<Rightarrow> a2a_metrics" where
  "reset_metrics m = emptyMetrics"

section \<open>The log line\<close>

text \<open>The members are listed in the order of the literal, undefined ones included; the details are spread over them last.
  \<^const>\<open>None\<close> would be a line without text, which an object never gives.\<close>

definition log_entry :: "int \<Rightarrow> string \<Rightarrow> (string \<times> js) list \<Rightarrow> (string \<times> js) list" where
  "log_entry now event details = spread
    ([(''ts'', JStr (iso_date now)), (''event'', JStr event)] @
     map (\<lambda>k. (k, jprop k details)) [''message_id'', ''trace_id'', ''source'', ''dest'', ''status'', ''retry_count'', ''latency_ms''])
    details"

definition structuredLog :: "int \<Rightarrow> string \<Rightarrow> (string \<times> js) list \<Rightarrow> string option" where
  "structuredLog now event details = json_stringify (JObj (log_entry now event details))"

lemma structuredLog_printed: "\<exists>line. structuredLog now event details = Some line"
  by (simp add: structuredLog_def)

text \<open>The details win: a member of theirs has their value in the line, \<open>ts\<close> and \<open>event\<close> included.\<close>

lemma log_entry_details:
  "map_of (rev details) k = Some v \<Longrightarrow> map_of (log_entry now event details) k = Some v"
  by (simp add: log_entry_def map_of_spread map_add_find_right)

end
