(* ===== verification/PeerHealth.thy ===== *)
theory PeerHealth
  imports Prelude
begin

text \<open>
  \<open>src/peer-health.ts\<close>: per-peer health and the circuit breaker. The manager's private fields
  are one record; \<open>Date.now()\<close> is an argument; the injected log function appends to a list of
  events. A health check is the step that runs when the probe's promise settles.
\<close>

datatype circuit_state = Closed | Open | HalfOpen
datatype health_status = Healthy | Unhealthy | Unknown

record peer_state =
  health :: health_status
  circuit :: circuit_state
  consecutiveFailures :: nat
  lastFailureAt :: "int option"
  lastCheckAt :: "int option"

record peer_config =
  pc_name :: string
  pc_agentCardUrl :: string
  pc_auth :: "(string \<times> string) option"

record circuit_breaker_config =
  failureThreshold :: nat
  resetTimeoutMs :: int

datatype health_log =
    LogStart "string list"
  | LogHalfOpen string
  | LogClosed string circuit_state
  | LogOpen string string nat
  | LogCheckError string string

record health_manager =
  ph_states :: "(string \<times> peer_state) list"
  ph_peers :: "peer_config list"
  ph_enabled :: bool
  ph_cb :: circuit_breaker_config
  ph_timer :: bool
  halfOpenInFlight :: "string set"
  peerSkills :: "(string \<times> string list) list"
  ph_log :: "health_log list"

definition initial_state :: peer_state where
  "initial_state = \<lparr>health = Unknown, circuit = Closed, consecutiveFailures = 0,
     lastFailureAt = None, lastCheckAt = None\<rparr>"

definition new_health_manager :: "peer_config list \<Rightarrow> bool \<Rightarrow> circuit_breaker_config \<Rightarrow> health_manager" where
  "new_health_manager peers enabled cb =
    \<lparr>ph_states = fold (\<lambda>p m. AList.update (pc_name p) initial_state m) peers [], ph_peers = peers,
     ph_enabled = enabled, ph_cb = cb, ph_timer = False, halfOpenInFlight = {}, peerSkills = [],
     ph_log = []\<rparr>"

definition put_state :: "string \<Rightarrow> peer_state \<Rightarrow> health_manager \<Rightarrow> health_manager" where
  "put_state name st m = m\<lparr>ph_states := AList.update name st (ph_states m)\<rparr>"

definition add_log :: "health_log \<Rightarrow> health_manager \<Rightarrow> health_manager" where
  "add_log l m = m\<lparr>ph_log := ph_log m @ [l]\<rparr>"

definition isAvailable :: "int \<Rightarrow> string \<Rightarrow> health_manager \<Rightarrow> bool \<times> health_manager" where
  "isAvailable now name m =
    (case map_of (ph_states m) name of
       None \<Rightarrow> (True, m)
     | Some st \<Rightarrow>
        (case circuit st of
           Closed \<Rightarrow> (True, m)
         | Open \<Rightarrow>
             (case lastFailureAt st of
                None \<Rightarrow> (False, m)
              | Some t \<Rightarrow>
                  if t \<noteq> 0 \<and> resetTimeoutMs (ph_cb m) \<le> now - t
                  then (True, add_log (LogHalfOpen name)
                         ((put_state name (st\<lparr>circuit := HalfOpen\<rparr>) m)
                           \<lparr>halfOpenInFlight := insert name (halfOpenInFlight m)\<rparr>))
                  else (False, m))
         | HalfOpen \<Rightarrow>
             if name \<in> halfOpenInFlight m then (False, m)
             else (True, m\<lparr>halfOpenInFlight := insert name (halfOpenInFlight m)\<rparr>)))"

definition recordSuccess :: "string \<Rightarrow> health_manager \<Rightarrow> health_manager" where
  "recordSuccess name m =
    (case map_of (ph_states m) name of
       None \<Rightarrow> m
     | Some st \<Rightarrow>
        let prevCircuit = circuit st;
            m1 = (put_state name (st\<lparr>consecutiveFailures := 0, health := Healthy, circuit := Closed\<rparr>) m)
                   \<lparr>halfOpenInFlight := halfOpenInFlight m - {name}\<rparr>
        in if prevCircuit \<noteq> Closed then add_log (LogClosed name prevCircuit) m1 else m1)"

definition recordFailure :: "int \<Rightarrow> string \<Rightarrow> health_manager \<Rightarrow> health_manager" where
  "recordFailure now name m =
    (case map_of (ph_states m) name of
       None \<Rightarrow> m
     | Some st0 \<Rightarrow>
        let st = st0\<lparr>consecutiveFailures := consecutiveFailures st0 + 1, lastFailureAt := Some now\<rparr>;
            m1 = m\<lparr>halfOpenInFlight := halfOpenInFlight m - {name}\<rparr>
        in if circuit st = HalfOpen then
             add_log (LogOpen name ''half-open probe failed'' (consecutiveFailures st))
               (put_state name (st\<lparr>circuit := Open\<rparr>) m1)
           else if circuit st = Closed \<and> failureThreshold (ph_cb m) \<le> consecutiveFailures st then
             add_log (LogOpen name ''failure threshold reached'' (consecutiveFailures st))
               (put_state name (st\<lparr>circuit := Open, health := Unhealthy\<rparr>) m1)
           else put_state name st m1)"

definition getState :: "string \<Rightarrow> health_manager \<Rightarrow> peer_state option" where
  "getState name m = map_of (ph_states m) name"

definition getAllStates :: "health_manager \<Rightarrow> (string \<times> peer_state) list" where
  "getAllStates m = ph_states m"

definition getPeerSkills :: "health_manager \<Rightarrow> (string \<times> string list) list" where
  "getPeerSkills m = peerSkills m"

definition setPeerSkills :: "string \<Rightarrow> string list \<Rightarrow> health_manager \<Rightarrow> health_manager" where
  "setPeerSkills name skills m = m\<lparr>peerSkills := AList.update name skills (peerSkills m)\<rparr>"

datatype probe_result = ProbeOk | ProbeBad | ProbeThrew string

definition checkPeer :: "int \<Rightarrow> string \<Rightarrow> probe_result \<Rightarrow> health_manager \<Rightarrow> health_manager" where
  "checkPeer now name r m =
    (case map_of (ph_states m) name of
       None \<Rightarrow> m
     | Some st \<Rightarrow>
        (case r of
           ProbeThrew e \<Rightarrow> add_log (LogCheckError name e) m
         | ProbeOk \<Rightarrow> recordSuccess name (put_state name (st\<lparr>lastCheckAt := Some now\<rparr>) m)
         | ProbeBad \<Rightarrow> recordFailure now name
                        (put_state name (st\<lparr>lastCheckAt := Some now, health := Unhealthy\<rparr>) m)))"

text \<open>\<open>start\<close> logs, launches a first round of probes and arms the interval; \<open>runHealthChecks\<close>
  starts one probe per configured peer, in order.\<close>

definition runHealthChecks :: "health_manager \<Rightarrow> string list" where
  "runHealthChecks m = map pc_name (ph_peers m)"

definition start_health :: "health_manager \<Rightarrow> string list \<times> health_manager" where
  "start_health m =
    (if \<not> ph_enabled m \<or> ph_peers m = [] then ([], m)
     else (runHealthChecks m, (add_log (LogStart (map pc_name (ph_peers m))) m)\<lparr>ph_timer := True\<rparr>))"

definition stop_health :: "health_manager \<Rightarrow> health_manager" where
  "stop_health m = m\<lparr>ph_timer := False\<rparr>"

section \<open>Events and the invariant\<close>

datatype health_event =
    EvAvailable int string
  | EvSuccess string
  | EvFailure int string
  | EvCheck int string probe_result
  | EvSkills string "string list"

fun health_step :: "health_event \<Rightarrow> health_manager \<Rightarrow> health_manager" where
  "health_step (EvAvailable now n) m = snd (isAvailable now n m)"
| "health_step (EvSuccess n) m = recordSuccess n m"
| "health_step (EvFailure now n) m = recordFailure now n m"
| "health_step (EvCheck now n r) m = checkPeer now n r m"
| "health_step (EvSkills n s) m = setPeerSkills n s m"

lemmas health_defs [model_defs] = isAvailable_def recordSuccess_def recordFailure_def checkPeer_def
  put_state_def add_log_def setPeerSkills_def

text \<open>The breaker invariant: the circuit is closed exactly below the failure threshold, an open
  or half-open circuit remembers its last failure, and only half-open peers have a probe in
  flight.\<close>

definition peer_ok :: "circuit_breaker_config \<Rightarrow> peer_state \<Rightarrow> bool" where
  "peer_ok cb st \<longleftrightarrow>
     (circuit st = Closed \<longleftrightarrow> consecutiveFailures st < failureThreshold cb) \<and>
     (circuit st \<noteq> Closed \<longrightarrow> lastFailureAt st \<noteq> None)"

definition breaker_inv :: "health_manager \<Rightarrow> bool" where
  "breaker_inv m \<longleftrightarrow>
     (\<forall>n st. map_of (ph_states m) n = Some st \<longrightarrow> peer_ok (ph_cb m) st) \<and>
     (\<forall>n \<in> halfOpenInFlight m. \<exists>st. map_of (ph_states m) n = Some st \<and> circuit st = HalfOpen)"

lemma breaker_invI:
  assumes "\<And>n st. map_of (ph_states m) n = Some st \<Longrightarrow> peer_ok (ph_cb m) st"
    and "\<And>n. n \<in> halfOpenInFlight m \<Longrightarrow> \<exists>st. map_of (ph_states m) n = Some st \<and> circuit st = HalfOpen"
  shows "breaker_inv m"
  using assms by (simp add: breaker_inv_def)

lemma breaker_inv_peer: "breaker_inv m \<Longrightarrow> map_of (ph_states m) n = Some st \<Longrightarrow> peer_ok (ph_cb m) st"
  by (simp add: breaker_inv_def)

lemma breaker_inv_flight:
  "breaker_inv m \<Longrightarrow> n \<in> halfOpenInFlight m \<Longrightarrow> \<exists>st. map_of (ph_states m) n = Some st \<and> circuit st = HalfOpen"
  by (simp add: breaker_inv_def)

text \<open>One lemma carries every operation: writing an acceptable state for one peer.\<close>

lemma breaker_inv_write:
  assumes "breaker_inv m" and "peer_ok (ph_cb m) st"
    and "F - {n} \<subseteq> halfOpenInFlight m" and "n \<in> F \<Longrightarrow> circuit st = HalfOpen"
  shows "breaker_inv (m\<lparr>ph_states := AList.update n st (ph_states m), halfOpenInFlight := F\<rparr>)"
proof (rule breaker_invI)
  fix j s
  assume "map_of (ph_states (m\<lparr>ph_states := AList.update n st (ph_states m), halfOpenInFlight := F\<rparr>)) j = Some s"
  then show "peer_ok (ph_cb (m\<lparr>ph_states := AList.update n st (ph_states m), halfOpenInFlight := F\<rparr>)) s"
    using assms(1,2) by (auto simp: amap.get_put split: if_splits dest: breaker_inv_peer)
next
  fix j
  assume "j \<in> halfOpenInFlight (m\<lparr>ph_states := AList.update n st (ph_states m), halfOpenInFlight := F\<rparr>)"
  then have "j \<in> F" by simp
  then show "\<exists>s. map_of (ph_states (m\<lparr>ph_states := AList.update n st (ph_states m), halfOpenInFlight := F\<rparr>)) j = Some s
      \<and> circuit s = HalfOpen"
    using assms(1,3,4) by (cases "j = n") (auto simp: amap.get_put dest: breaker_inv_flight)
qed

lemma breaker_inv_put:
  assumes "breaker_inv m" and "peer_ok (ph_cb m) st"
    and "F - {n} \<subseteq> halfOpenInFlight m" and "n \<in> F \<Longrightarrow> circuit st = HalfOpen"
  shows "breaker_inv (put_state n st (m\<lparr>halfOpenInFlight := F\<rparr>))"
    and "breaker_inv ((put_state n st m)\<lparr>halfOpenInFlight := F\<rparr>)"
proof -
  let ?w = "m\<lparr>ph_states := AList.update n st (ph_states m), halfOpenInFlight := F\<rparr>"
  have "put_state n st (m\<lparr>halfOpenInFlight := F\<rparr>) = ?w" "(put_state n st m)\<lparr>halfOpenInFlight := F\<rparr> = ?w"
    by (cases m, simp add: put_state_def)+
  with breaker_inv_write [OF assms]
  show "breaker_inv (put_state n st (m\<lparr>halfOpenInFlight := F\<rparr>))"
    "breaker_inv ((put_state n st m)\<lparr>halfOpenInFlight := F\<rparr>)" by simp_all
qed

lemma breaker_inv_log [simp]: "breaker_inv (add_log l m) = breaker_inv m"
  by (simp add: breaker_inv_def add_log_def)

lemma breaker_inv_skills [simp]: "breaker_inv (m\<lparr>peerSkills := l\<rparr>) = breaker_inv m"
  by (simp add: breaker_inv_def)

lemma recordSuccess_inv [inv_intros]:
  assumes "breaker_inv m" "1 \<le> failureThreshold (ph_cb m)"
  shows "breaker_inv (recordSuccess n m)"
  using assms
  by (auto simp: recordSuccess_def Let_def peer_ok_def split: option.splits intro!: breaker_inv_put)

lemma recordFailure_inv [inv_intros]:
  assumes "breaker_inv m"
  shows "breaker_inv (recordFailure now n m)"
proof (cases "map_of (ph_states m) n")
  case None
  with assms show ?thesis by (simp add: recordFailure_def)
next
  case (Some st)
  with assms have "peer_ok (ph_cb m) st" by (rule breaker_inv_peer)
  with Some assms show ?thesis
    by (cases "circuit st")
       (auto simp: recordFailure_def Let_def peer_ok_def intro!: breaker_inv_put)
qed

lemma isAvailable_inv [inv_intros]:
  assumes "breaker_inv m"
  shows "breaker_inv (snd (isAvailable now n m))"
proof (cases "map_of (ph_states m) n")
  case None
  with assms show ?thesis by (simp add: isAvailable_def)
next
  case (Some st)
  with assms have ok: "peer_ok (ph_cb m) st" by (rule breaker_inv_peer)
  show ?thesis
  proof (cases "circuit st")
    case Closed
    with Some assms show ?thesis by (simp add: isAvailable_def)
  next
    case Open
    with Some assms ok show ?thesis
      by (auto simp: isAvailable_def peer_ok_def intro!: breaker_inv_put split: option.splits)
  next
    case HalfOpen
    have "breaker_inv (m\<lparr>halfOpenInFlight := insert n (halfOpenInFlight m)\<rparr>)"
      by (rule breaker_invI) (use assms Some HalfOpen in \<open>auto dest: breaker_inv_peer breaker_inv_flight\<close>)
    with Some HalfOpen assms show ?thesis by (simp add: isAvailable_def)
  qed
qed

lemma put_same_circuit_inv:
  assumes "breaker_inv m" "map_of (ph_states m) n = Some st"
    and "circuit st' = circuit st" "consecutiveFailures st' = consecutiveFailures st"
      "lastFailureAt st' = lastFailureAt st"
  shows "breaker_inv (put_state n st' m)"
proof -
  have "peer_ok (ph_cb m) st'"
    using breaker_inv_peer [OF assms(1,2)] assms(3-5) by (simp add: peer_ok_def)
  then have "breaker_inv (m\<lparr>ph_states := AList.update n st' (ph_states m), halfOpenInFlight := halfOpenInFlight m\<rparr>)"
    by (rule breaker_inv_write [OF assms(1)])
       (use assms breaker_inv_flight [OF assms(1), of n] in auto)
  then show ?thesis by (simp add: put_state_def)
qed

lemma ph_cb_put_state [simp]: "ph_cb (put_state n st m) = ph_cb m"
  by (simp add: put_state_def)

lemma checkPeer_inv [inv_intros]:
  assumes "breaker_inv m" "1 \<le> failureThreshold (ph_cb m)"
  shows "breaker_inv (checkPeer now n r m)"
  using assms
  by (auto simp: checkPeer_def split: option.splits probe_result.splits
      intro!: recordSuccess_inv recordFailure_inv put_same_circuit_inv)

lemma health_step_cb [simp]: "ph_cb (health_step e m) = ph_cb m"
  by (cases e)
     (auto simp: health_defs Let_def split: option.splits circuit_state.splits probe_result.splits)

lemma health_step_inv [inv_intros]:
  "breaker_inv m \<Longrightarrow> 1 \<le> failureThreshold (ph_cb m) \<Longrightarrow> breaker_inv (health_step e m)"
  by (cases e) (auto simp: setPeerSkills_def intro: inv_intros)

lemma fold_update_initial:
  "map_of (fold (\<lambda>p. AList.update (pc_name p) initial_state) peers m0) n = Some st \<Longrightarrow>
   st = initial_state \<or> map_of m0 n = Some st"
proof (induction peers arbitrary: m0)
  case Nil
  then show ?case by simp
next
  case (Cons p peers)
  then have "st = initial_state \<or> map_of (AList.update (pc_name p) initial_state m0) n = Some st"
    by simp
  then show ?case by (auto simp: amap.get_put split: if_splits)
qed

lemma new_health_manager_inv:
  assumes "1 \<le> failureThreshold cb"
  shows "breaker_inv (new_health_manager peers enabled cb)"
proof (rule breaker_invI)
  fix n st
  assume "map_of (ph_states (new_health_manager peers enabled cb)) n = Some st"
  then have "st = initial_state"
    by (auto simp: new_health_manager_def dest: fold_update_initial)
  with assms show "peer_ok (ph_cb (new_health_manager peers enabled cb)) st"
    by (simp add: new_health_manager_def peer_ok_def initial_state_def)
qed (simp add: new_health_manager_def)

text \<open>C4. The circuit breaker's invariant holds after every sequence of availability questions,
  recorded successes and failures, and health checks: a peer's circuit is closed exactly while
  its consecutive failures are below the threshold, and a probe is in flight only for a
  half-open peer.\<close>

theorem breaker_reachable_inv:
  assumes "1 \<le> failureThreshold cb"
  shows "breaker_inv (fold health_step es (new_health_manager peers enabled cb))"
proof -
  have "breaker_inv m \<Longrightarrow> ph_cb m = cb \<Longrightarrow> breaker_inv (fold health_step es m)" for m
    by (induction es arbitrary: m) (use assms in \<open>simp_all add: health_step_inv\<close>)
  then show ?thesis
    using new_health_manager_inv [OF assms] by (simp add: new_health_manager_def)
qed

definition example_peer :: peer_config where
  "example_peer = \<lparr>pc_name = ''p'', pc_agentCardUrl = ''u'', pc_auth = None\<rparr>"

definition example_cb :: circuit_breaker_config where
  "example_cb = \<lparr>failureThreshold = 2, resetTimeoutMs = 30\<rparr>"

theorem breaker_reachable_inv_witness:
  "breaker_inv (fold health_step [EvFailure 1 ''p'', EvFailure 2 ''p'', EvAvailable 40 ''p'']
     (new_health_manager [example_peer] True example_cb))"
  by (rule breaker_reachable_inv) (simp add: example_cb_def)

section \<open>Fail-fast and the single probe\<close>

lemma open_rejects:
  "map_of (ph_states m) n = Some st \<Longrightarrow> circuit st = Open \<Longrightarrow> lastFailureAt st = Some t \<Longrightarrow>
   now - t < resetTimeoutMs (ph_cb m) \<Longrightarrow> isAvailable now n m = (False, m)"
  by (simp add: isAvailable_def)

definition touches :: "string \<Rightarrow> health_event \<Rightarrow> bool" where
  "touches n e = (case e of EvAvailable _ _ \<Rightarrow> False | EvSuccess j \<Rightarrow> j = n | EvFailure _ j \<Rightarrow> j = n
                  | EvCheck _ j _ \<Rightarrow> j = n | EvSkills _ _ \<Rightarrow> False)"

definition probing :: "string \<Rightarrow> health_manager \<Rightarrow> bool" where
  "probing n m \<longleftrightarrow> n \<in> halfOpenInFlight m \<and>
     (\<exists>st. map_of (ph_states m) n = Some st \<and> circuit st = HalfOpen)"

lemma probing_rejects: "probing n m \<Longrightarrow> isAvailable now n m = (False, m)"
  by (auto simp: probing_def isAvailable_def)

lemma probing_step:
  assumes "probing n m" "\<not> touches n e"
  shows "probing n (health_step e m)"
proof (cases "\<exists>now. e = EvAvailable now n")
  case True
  with assms(1) show ?thesis by (auto simp: probing_rejects)
next
  case False
  with assms show ?thesis
    by (cases e)
       (auto simp: probing_def touches_def health_defs Let_def amap.get_put
         split: option.splits circuit_state.splits probe_result.splits)
qed

text \<open>C23. Half-open admits a single probe: once a request to a peer whose circuit is not closed has
  been admitted, every further request to that peer is refused until an outcome for that peer is
  recorded, however requests, outcomes and checks of other peers interleave.\<close>

theorem half_open_single_probe:
  assumes "map_of (ph_states m) n = Some st" "circuit st \<noteq> Closed"
    and "fst (isAvailable t n m)"
    and "\<forall>e \<in> set es. \<not> touches n e"
  shows "fst (isAvailable now n (fold health_step es (snd (isAvailable t n m)))) = False"
proof -
  have "probing n (snd (isAvailable t n m))"
    using assms(1-3)
    by (cases "circuit st")
       (auto simp: isAvailable_def probing_def put_state_def add_log_def amap.get_put
         split: option.splits if_splits)
  then have "probing n (fold health_step es (snd (isAvailable t n m)))"
    using assms(4) by (induction es rule: rev_induct) (simp_all add: probing_step)
  then show ?thesis by (simp add: probing_rejects)
qed

theorem half_open_single_probe_witness:
  "fst (isAvailable 99 ''p'' (fold health_step [EvAvailable 50 ''p'', EvFailure 60 ''q'']
     (snd (isAvailable 40 ''p'' (fold health_step [EvFailure 1 ''p'', EvFailure 2 ''p'']
        (new_health_manager [example_peer] True example_cb)))))) = False"
proof (rule half_open_single_probe)
  let ?m = "fold health_step [EvFailure 1 ''p'', EvFailure 2 ''p''] (new_health_manager [example_peer] True example_cb)"
  show "map_of (ph_states ?m) ''p'' = Some \<lparr>health = Unhealthy, circuit = Open, consecutiveFailures = 2,
     lastFailureAt = Some 2, lastCheckAt = None\<rparr>"
    by (simp add: new_health_manager_def example_peer_def example_cb_def initial_state_def health_defs)
  show "fst (isAvailable 40 ''p'' ?m)"
    by (simp add: new_health_manager_def example_peer_def example_cb_def initial_state_def health_defs)
qed (simp_all add: touches_def)

lemma recordFailure_closed:
  assumes "map_of (ph_states m) n = Some st" "circuit st = Closed"
  shows "map_of (ph_states (recordFailure now n m)) n =
    Some (if failureThreshold (ph_cb m) \<le> consecutiveFailures st + 1
          then st\<lparr>consecutiveFailures := consecutiveFailures st + 1, lastFailureAt := Some now,
                  circuit := Open, health := Unhealthy\<rparr>
          else st\<lparr>consecutiveFailures := consecutiveFailures st + 1, lastFailureAt := Some now\<rparr>)"
  using assms by (simp add: health_defs Let_def amap.get_put)

lemma recordFailure_cb [simp]: "ph_cb (recordFailure now n m) = ph_cb m"
  by (simp add: health_defs Let_def split: option.splits)

lemma failures_below:
  assumes "map_of (ph_states m) n = Some st" "circuit st = Closed"
    and "consecutiveFailures st + length ts < failureThreshold (ph_cb m)"
  shows "\<exists>st'. map_of (ph_states (fold (\<lambda>t. recordFailure t n) ts m)) n = Some st' \<and> circuit st' = Closed \<and>
     consecutiveFailures st' = consecutiveFailures st + length ts \<and>
     ph_cb (fold (\<lambda>t. recordFailure t n) ts m) = ph_cb m"
  using assms
proof (induction ts arbitrary: m st)
  case Nil
  then show ?case by simp
next
  case (Cons t ts)
  let ?st = "st\<lparr>consecutiveFailures := consecutiveFailures st + 1, lastFailureAt := Some t\<rparr>"
  have "map_of (ph_states (recordFailure t n m)) n = Some ?st"
    using Cons.prems by (simp add: recordFailure_closed)
  then show ?case
    using Cons.IH [of "recordFailure t n m" ?st] Cons.prems by simp
qed

text \<open>Opening and cooling down: starting from a closed circuit with \<open>c\<close> recorded failures, the
  circuit stays closed for every further run of fewer than \<open>threshold - c\<close> failures and opens at
  the last of exactly \<open>threshold - c\<close>; then requests are refused until the reset timeout has
  passed since that failure and one is admitted from that moment on.\<close>

theorem failures_open_circuit:
  assumes "map_of (ph_states m) n = Some st" "circuit st = Closed"
    and "consecutiveFailures st + length ts + 1 = failureThreshold (ph_cb m)" and "t \<noteq> 0"
  shows "let before = fold (\<lambda>t. recordFailure t n) ts m; after = recordFailure t n before in
     map_option circuit (getState n before) = Some Closed \<and>
     map_option circuit (getState n after) = Some Open \<and>
     fst (isAvailable now n after) = (resetTimeoutMs (ph_cb m) \<le> now - t)"
proof -
  obtain st' where before: "map_of (ph_states (fold (\<lambda>t. recordFailure t n) ts m)) n = Some st'"
      "circuit st' = Closed" "consecutiveFailures st' = consecutiveFailures st + length ts"
      "ph_cb (fold (\<lambda>t. recordFailure t n) ts m) = ph_cb m"
    using failures_below [OF assms(1,2), of ts] assms(3) by auto
  then show ?thesis
    using assms(3,4) recordFailure_closed [OF before(1,2), of t]
    by (simp add: getState_def Let_def isAvailable_def)
qed

theorem failures_open_circuit_witness:
  "let before = recordFailure 1 ''p'' (new_health_manager [example_peer] True example_cb);
       after = recordFailure 2 ''p'' before in
     map_option circuit (getState ''p'' before) = Some Closed \<and>
     map_option circuit (getState ''p'' after) = Some Open \<and> fst (isAvailable 40 ''p'' after)"
  using failures_open_circuit [of "new_health_manager [example_peer] True example_cb" "''p''" initial_state "[1]" 2 40]
  by (simp add: new_health_manager_def example_peer_def example_cb_def initial_state_def Let_def)

lemma success_closes:
  "map_of (ph_states m) n = Some st \<Longrightarrow>
   map_option circuit (getState n (recordSuccess n m)) = Some Closed \<and>
   map_option consecutiveFailures (getState n (recordSuccess n m)) = Some 0"
  by (simp add: getState_def recordSuccess_def put_state_def add_log_def Let_def amap.get_put)

lemma failed_check_extends_cooldown:
  "map_of (ph_states m) n = Some st \<Longrightarrow> circuit st = Open \<Longrightarrow>
   map_option lastFailureAt (getState n (checkPeer now n ProbeBad m)) = Some (Some now)"
  by (simp add: getState_def checkPeer_def recordFailure_def put_state_def Let_def amap.get_put)

section \<open>The breaker as an interface\<close>

text \<open>
  What a caller relies on: a refused call leaves the breaker alone, a probe in flight refuses
  every other call, and both ways of reporting an outcome end the probe. \<open>guarded\<close> is the
  calling pattern; its lemmas say that a call that reports an outcome leaves no probe behind,
  and that one that escapes without reporting blocks the peer.
\<close>

locale circuit_guard =
  fixes allow :: "int \<Rightarrow> string \<Rightarrow> 'm \<Rightarrow> bool \<times> 'm"
    and good :: "string \<Rightarrow> 'm \<Rightarrow> 'm"
    and bad :: "int \<Rightarrow> string \<Rightarrow> 'm \<Rightarrow> 'm"
    and in_flight :: "string \<Rightarrow> 'm \<Rightarrow> bool"
  assumes allow_in_flight: "in_flight n m \<Longrightarrow> allow t n m = (False, m)"
    and allow_refused: "\<not> fst (allow t n m) \<Longrightarrow> snd (allow t n m) = m"
    and good_ends: "\<not> in_flight n (good n m)"
    and bad_ends: "\<not> in_flight n (bad t n m)"
begin

definition guarded :: "('r \<Rightarrow> bool) \<Rightarrow> int \<Rightarrow> int \<Rightarrow> string \<Rightarrow> ('s \<Rightarrow> ('e + 'r) \<times> 's) \<Rightarrow> 'm \<times> 's \<Rightarrow> ('e + 'r) option \<times> 'm \<times> 's" where
  "guarded ok t0 t1 n call = (\<lambda>(m, s).
     case allow t0 n m of
       (False, m1) \<Rightarrow> (None, m1, s)
     | (True, m1) \<Rightarrow>
         (case call s of
            (Inl e, s') \<Rightarrow> (Some (Inl e), m1, s')
          | (Inr r, s') \<Rightarrow> (Some (Inr r), if ok r then good n m1 else bad t1 n m1, s')))"

lemma guarded_in_flight: "in_flight n m \<Longrightarrow> guarded ok t0 t1 n call (m, s) = (None, m, s)"
  by (simp add: guarded_def allow_in_flight)

lemma guarded_refused:
  "\<not> fst (allow t0 n m) \<Longrightarrow> guarded ok t0 t1 n call (m, s) = (None, m, s)"
  using allow_refused [of t0 n m] by (cases "allow t0 n m") (simp add: guarded_def)

lemma guarded_reported:
  "guarded ok t0 t1 n call (m, s) = (Some (Inr r), m', s') \<Longrightarrow> \<not> in_flight n m'"
  by (auto simp: guarded_def good_ends bad_ends split: prod.splits bool.splits sum.splits if_splits)

lemma guarded_stuck:
  assumes "in_flight n m"
  shows "fold (\<lambda>(t0, t1, call) (m, s). (\<lambda>(_, m', s'). (m', s')) (guarded ok t0 t1 n call (m, s))) calls (m, s) = (m, s)"
  using assms by (induction calls) (auto simp: guarded_in_flight)

end

interpretation breaker: circuit_guard isAvailable recordSuccess recordFailure probing
proof unfold_locales
  fix n t m
  show "probing n m \<Longrightarrow> isAvailable t n m = (False, m)" by (rule probing_rejects)
  show "\<not> fst (isAvailable t n m) \<Longrightarrow> snd (isAvailable t n m) = m"
    by (auto simp: isAvailable_def split: option.splits circuit_state.splits if_splits)
  show "\<not> probing n (recordSuccess n m)"
    by (auto simp: probing_def recordSuccess_def put_state_def add_log_def Let_def amap.get_put split: option.splits)
  show "\<not> probing n (recordFailure t n m)"
    by (auto simp: probing_def recordFailure_def put_state_def add_log_def Let_def amap.get_put split: option.splits)
qed

end
