(* ===== verification/Transport.thy ===== *)
theory Transport
  imports Prelude "HOL-Library.Multiset"
begin

text \<open>
  \<open>src/transport-fallback.ts\<close> and \<open>src/peer-retry.ts\<close>: transport ordering, the classification
  of errors, and retry with exponential back-off. An unknown thrown value is an \<open>Error\<close> object
  (its message) or any other JavaScript value. The retried operation is a state transformer
  whose outcome is a thrown value (\<open>Inl\<close>) or a result (\<open>Inr\<close>), so that the number and order of
  its calls are visible.
\<close>

definition PRIORITY_ORDER :: "string list" where
  "PRIORITY_ORDER = [''JSONRPC'', ''HTTP+JSON'', ''GRPC'']"

record transport_endpoint =
  te_url :: string
  te_transport :: string

fun index_of :: "'a \<Rightarrow> 'a list \<Rightarrow> nat" where
  "index_of x [] = 0"
| "index_of x (y # ys) = (if x = y then 0 else Suc (index_of x ys))"

definition orderTransports :: "transport_endpoint list \<Rightarrow> transport_endpoint list" where
  "orderTransports interfaces =
    (let known = filter (\<lambda>i. te_transport i \<in> set PRIORITY_ORDER) interfaces;
         unknown = filter (\<lambda>i. te_transport i \<notin> set PRIORITY_ORDER) interfaces
     in sort_key (\<lambda>i. index_of (te_transport i) PRIORITY_ORDER) known @ unknown)"

datatype err_value = EvError string | EvValue js

definition retryable_fragments :: "string list" where
  "retryable_fragments = [''econnrefused'', ''econnreset'', ''etimedout'', ''epipe'', ''fetch failed'',
     ''network'', ''socket'', ''abort'', ''timeout'', ''timed out'', ''dns'', ''enotfound'',
     ''unavailable'', ''deadline exceeded'']"

definition retryable_code :: "jnum \<Rightarrow> bool" where
  "retryable_code code = (case code of Fin q \<Rightarrow> 500 \<le> q \<or> q = 429 | PosInf \<Rightarrow> True | _ \<Rightarrow> False)"

definition isRetryableTransportError :: "err_value \<Rightarrow> bool" where
  "isRetryableTransportError e = (case e of
     EvError message \<Rightarrow> (\<exists>f \<in> set retryable_fragments. str_includes (to_lower message) f)
   | EvValue v \<Rightarrow> (case v of
       JObj fs \<Rightarrow> (case map_of fs ''statusCode'' of
                     Some (JNum code) \<Rightarrow> retryable_code code
                   | _ \<Rightarrow> False)
     | _ \<Rightarrow> False))"

record send_result =
  sr_ok :: bool
  sr_statusCode :: rat
  sr_response :: js

definition result_value :: "send_result \<Rightarrow> err_value" where
  "result_value r = EvValue (JObj [(''ok'', JBool (sr_ok r)), (''statusCode'', JNum (Fin (sr_statusCode r))),
     (''response'', sr_response r)])"

definition isRetryable :: "err_value \<Rightarrow> bool" where
  "isRetryable e = (case e of
     EvValue (JObj fs) \<Rightarrow>
       (case (map_of fs ''ok'', map_of fs ''statusCode'') of
          (Some okv, Some _) \<Rightarrow> if truthy okv then False else isRetryableTransportError e
        | _ \<Rightarrow> isRetryableTransportError e)
   | _ \<Rightarrow> isRetryableTransportError e)"

record retry_config =
  rc_maxRetries :: int
  rc_baseDelayMs :: rat
  rc_maxDelayMs :: rat

definition calcDelay :: "rat \<Rightarrow> nat \<Rightarrow> retry_config \<Rightarrow> rat" where
  "calcDelay random attempt cfg =
    (let exponential = min (rc_baseDelayMs cfg * 2 ^ attempt) (rc_maxDelayMs cfg);
         jitter = random * exponential * (1 / 10)
     in exponential + jitter)"

text \<open>\<open>error instanceof Error ? error.message : String(error)\<close>.\<close>

definition error_text :: "err_value \<Rightarrow> string" where
  "error_text e = (case e of EvError m \<Rightarrow> m | EvValue v \<Rightarrow> js_text v)"

definition error_result :: "string \<Rightarrow> send_result" where
  "error_result m = \<lparr>sr_ok = False, sr_statusCode = 500, sr_response = JObj [(''error'', JStr m)]\<rparr>"

record retry_log =
  rl_attempt :: nat
  rl_max_retries :: int
  rl_delay :: rat

type_synonym 's operation = "'s \<Rightarrow> (err_value + send_result) \<times> 's"

text \<open>The loop of \<open>withRetry\<close> from a given attempt: its result (\<^const>\<open>None\<close> is the
  \<open>undefined\<close> of an empty loop), the retry log lines and the final state. \<open>rnd\<close> gives the
  random number of each attempt.\<close>

function retry_loop :: "'s operation \<Rightarrow> retry_config \<Rightarrow> (nat \<Rightarrow> rat) \<Rightarrow> nat \<Rightarrow> send_result option \<Rightarrow> 's
    \<Rightarrow> send_result option \<times> retry_log list \<times> 's" where
  "retry_loop fn cfg rnd attempt lastResult s =
    (if rc_maxRetries cfg < int attempt then (lastResult, [], s)
     else let (outcome, s') = fn s;
              stop = (case outcome of
                        Inr r \<Rightarrow> if sr_ok r \<or> \<not> isRetryable (result_value r) then Some r else None
                      | Inl e \<Rightarrow> if \<not> isRetryable e then Some (error_result (error_text e)) else None);
              last = (case outcome of Inr r \<Rightarrow> r | Inl e \<Rightarrow> error_result (error_text e))
          in case stop of
               Some r \<Rightarrow> (Some r, [], s')
             | None \<Rightarrow>
                 let lg = (if int attempt < rc_maxRetries cfg
                           then [\<lparr>rl_attempt = attempt + 1, rl_max_retries = rc_maxRetries cfg,
                                  rl_delay = calcDelay (rnd attempt) attempt cfg\<rparr>] else []);
                     (res, lg', s'') = retry_loop fn cfg rnd (attempt + 1) (Some last) s'
                 in (res, lg @ lg', s''))"
  by pat_completeness auto
termination
  by (relation "measure (\<lambda>(fn, cfg, rnd, attempt, lastResult, s). nat (rc_maxRetries cfg + 1 - int attempt))")
     auto

declare retry_loop.simps [simp del]

definition withRetry :: "'s operation \<Rightarrow> retry_config \<Rightarrow> (nat \<Rightarrow> rat) \<Rightarrow> 's \<Rightarrow> send_result option \<times> retry_log list \<times> 's" where
  "withRetry fn cfg rnd s = retry_loop fn cfg rnd 0 None s"

section \<open>Transport order\<close>

text \<open>Ordering keeps every advertised interface exactly once, puts JSON-RPC before REST before
  gRPC, and leaves interfaces with an unknown transport at the end in their advertised order.\<close>

theorem orderTransports_correct:
  "mset (orderTransports ifs) = mset ifs \<and>
   sorted (map (\<lambda>i. index_of (te_transport i) PRIORITY_ORDER) (orderTransports ifs)) \<and>
   filter (\<lambda>i. te_transport i \<notin> set PRIORITY_ORDER) (orderTransports ifs) =
     filter (\<lambda>i. te_transport i \<notin> set PRIORITY_ORDER) ifs"
proof -
  have idx: "index_of t PRIORITY_ORDER \<le> 3" for t
    by (simp add: PRIORITY_ORDER_def)
  have known: "t \<notin> set PRIORITY_ORDER \<Longrightarrow> index_of t PRIORITY_ORDER = 3" for t
    by (simp add: PRIORITY_ORDER_def)
  have const: "sorted (map (\<lambda>i. index_of (te_transport i) PRIORITY_ORDER) xs)"
    if "\<forall>i \<in> set xs. te_transport i \<notin> set PRIORITY_ORDER" for xs :: "transport_endpoint list"
    using that by (induction xs) (simp_all add: known)
  let ?known = "\<lambda>i. te_transport i \<in> set PRIORITY_ORDER"
  have parts: "mset (filter ?known ifs) + mset (filter (\<lambda>i. \<not> ?known i) ifs) = mset ifs"
    by (induction ifs) auto
  have keep: "filter (\<lambda>i. \<not> ?known i) (sort_key (\<lambda>i. index_of (te_transport i) PRIORITY_ORDER) (filter ?known ifs)) = []"
    by (auto simp: filter_empty_conv)
  have "mset (orderTransports ifs) = mset ifs"
    using parts by (simp add: orderTransports_def Let_def)
  moreover have "sorted (map (\<lambda>i. index_of (te_transport i) PRIORITY_ORDER) (orderTransports ifs))"
    using const [of "filter (\<lambda>i. \<not> ?known i) ifs"]
    by (auto simp: orderTransports_def Let_def sorted_append known idx)
  moreover have "filter (\<lambda>i. \<not> ?known i) (orderTransports ifs) = filter (\<lambda>i. \<not> ?known i) ifs"
    using keep by (simp add: orderTransports_def Let_def)
  ultimately show ?thesis by blast
qed

text \<open>The order written out: the three known transports one after the other, each in the advertised order, then the rest.\<close>

lemma orderTransports_buckets:
  "orderTransports ifs =
    filter (\<lambda>i. te_transport i = ''JSONRPC'') ifs @ filter (\<lambda>i. te_transport i = ''HTTP+JSON'') ifs @
    filter (\<lambda>i. te_transport i = ''GRPC'') ifs @
    filter (\<lambda>i. te_transport i \<noteq> ''JSONRPC'' \<and> te_transport i \<noteq> ''HTTP+JSON'' \<and> te_transport i \<noteq> ''GRPC'') ifs"
proof -
  let ?key = "\<lambda>i. index_of (te_transport i) PRIORITY_ORDER"
  let ?known = "filter (\<lambda>i. te_transport i \<in> set PRIORITY_ORDER) ifs"
  let ?of = "\<lambda>t. filter (\<lambda>i. te_transport i = t) ifs"
  have same: "sorted (map key (?of t))" if "\<And>i j. te_transport i = te_transport j \<Longrightarrow> key i = key j" for t and key :: "_ \<Rightarrow> nat"
    by (induction ifs) (auto dest: that)
  have parts: "sorted (map ?key (?of t))" for t
    by (rule same) simp
  have "sorted (map ?key (?of ''HTTP+JSON'' @ ?of ''GRPC''))"
    unfolding map_append sorted_append by (intro conjI parts) (simp add: PRIORITY_ORDER_def)
  then have sorted: "sorted (map ?key (?of ''JSONRPC'' @ ?of ''HTTP+JSON'' @ ?of ''GRPC''))"
    unfolding map_append [of _ "?of ''JSONRPC''"] sorted_append [of "map ?key (?of ''JSONRPC'')"]
    by (intro conjI parts) (simp_all add: PRIORITY_ORDER_def)
  have "mset (?of ''JSONRPC'' @ ?of ''HTTP+JSON'' @ ?of ''GRPC'') = mset ?known"
    by (induction ifs) (auto simp: PRIORITY_ORDER_def)
  moreover have "filter (\<lambda>j. ?key i = ?key j) (?of ''JSONRPC'' @ ?of ''HTTP+JSON'' @ ?of ''GRPC'') = filter (\<lambda>j. ?key i = ?key j) ?known"
    if "i \<in> set (?of ''JSONRPC'' @ ?of ''HTTP+JSON'' @ ?of ''GRPC'')" for i
  proof -
    from that consider "te_transport i = ''JSONRPC''" | "te_transport i = ''HTTP+JSON''" | "te_transport i = ''GRPC''"
      by auto
    moreover have key: "(\<lambda>j. ?key i = ?key j) = (\<lambda>j. te_transport j = te_transport i)"
      using calculation by cases (auto simp: PRIORITY_ORDER_def fun_eq_iff)
    moreover have known: "filter (\<lambda>j. te_transport j = te_transport i) ?known = ?of (te_transport i)"
      unfolding filter_filter by (rule filter_cong) (use that in \<open>auto simp: PRIORITY_ORDER_def\<close>)
    moreover have of: "filter (\<lambda>j. te_transport j = u) (?of t) = (if t = u then ?of t else [])" for t u
      by (auto simp: filter_empty_conv intro: filter_cong)
    ultimately show ?thesis
      unfolding key known filter_append of by cases simp_all
  qed
  ultimately have "sort_key ?key ?known = ?of ''JSONRPC'' @ ?of ''HTTP+JSON'' @ ?of ''GRPC''"
    using sorted by (intro properties_for_sort_key) blast+
  moreover have "filter (\<lambda>i. te_transport i \<notin> set PRIORITY_ORDER) ifs =
      filter (\<lambda>i. te_transport i \<noteq> ''JSONRPC'' \<and> te_transport i \<noteq> ''HTTP+JSON'' \<and> te_transport i \<noteq> ''GRPC'') ifs"
    by (rule filter_cong) (auto simp: PRIORITY_ORDER_def)
  ultimately show ?thesis
    by (simp add: orderTransports_def Let_def)
qed

section \<open>Error classification\<close>

lemma auth_errors_not_retryable:
  "sr_statusCode r \<in> {400, 401, 403, 404} \<Longrightarrow> \<not> isRetryable (result_value r)"
  by (auto simp: isRetryable_def result_value_def isRetryableTransportError_def retryable_code_def)

lemma isRetryable_result:
  "isRetryable (result_value r) \<longleftrightarrow> \<not> sr_ok r \<and> (500 \<le> sr_statusCode r \<or> sr_statusCode r = 429)"
  by (auto simp: isRetryable_def result_value_def isRetryableTransportError_def retryable_code_def)

lemma calcDelay_bounds:
  assumes "0 \<le> rc_baseDelayMs cfg" "0 \<le> rc_maxDelayMs cfg" "0 \<le> rnd" "rnd < 1"
  shows "min (rc_baseDelayMs cfg * 2 ^ n) (rc_maxDelayMs cfg) \<le> calcDelay rnd n cfg"
    and "calcDelay rnd n cfg \<le> rc_maxDelayMs cfg * (11 / 10)"
proof -
  define e where "e = min (rc_baseDelayMs cfg * 2 ^ n) (rc_maxDelayMs cfg)"
  have d: "calcDelay rnd n cfg = e + rnd * e * (1 / 10)" by (simp add: calcDelay_def Let_def e_def)
  have e: "0 \<le> e" "e \<le> rc_maxDelayMs cfg" using assms(1,2) by (simp_all add: e_def)
  have j: "0 \<le> rnd * e" "rnd * e \<le> e"
    using e(1) assms(3,4) mult_right_mono [of rnd 1 e] by simp_all
  show "min (rc_baseDelayMs cfg * 2 ^ n) (rc_maxDelayMs cfg) \<le> calcDelay rnd n cfg"
    using j(1) by (simp add: d flip: e_def)
  show "calcDelay rnd n cfg \<le> rc_maxDelayMs cfg * (11 / 10)"
    using j(2) e(2) by (simp add: d)
qed

section \<open>The retry loop\<close>

text \<open>What the loop does to an operation that keeps failing for a while and then settles:
  \<open>iter n\<close> runs the operation \<open>n\<close> times.\<close>

fun iter :: "'s operation \<Rightarrow> nat \<Rightarrow> 's \<Rightarrow> 's" where
  "iter fn 0 s = s"
| "iter fn (Suc n) s = iter fn n (snd (fn s))"

definition transient :: "(err_value + send_result) \<Rightarrow> bool" where
  "transient x = (case x of Inr r \<Rightarrow> \<not> sr_ok r \<and> isRetryable (result_value r) | Inl e \<Rightarrow> isRetryable e)"

definition as_result :: "(err_value + send_result) \<Rightarrow> send_result" where
  "as_result x = (case x of Inr r \<Rightarrow> r | Inl e \<Rightarrow> error_result (error_text e))"

lemma retry_loop_settles:
  "(\<forall>k < n. transient (fst (fn (iter fn k s)))) \<Longrightarrow> \<not> transient (fst (fn (iter fn n s))) \<Longrightarrow>
   int attempt + int n \<le> rc_maxRetries cfg \<Longrightarrow>
   (\<exists>lg. retry_loop fn cfg rnd attempt lr s =
      (Some (as_result (fst (fn (iter fn n s)))), lg, iter fn (Suc n) s) \<and> length lg = n)"
proof (induction n arbitrary: s attempt lr)
  case 0
  obtain x s' where x: "fn s = (x, s')" by (cases "fn s")
  with 0 show ?case
    by (subst retry_loop.simps) (auto simp: Let_def transient_def as_result_def split: sum.splits)
next
  case (Suc n)
  obtain x s' where x: "fn s = (x, s')" by (cases "fn s")
  from Suc.prems(1) x have tr: "transient x" by force
  have "\<forall>k < n. transient (fst (fn (iter fn k s')))"
  proof (intro allI impI)
    fix k assume "k < n"
    with Suc.prems(1) have "transient (fst (fn (iter fn (Suc k) s)))" by blast
    with x show "transient (fst (fn (iter fn k s')))" by simp
  qed
  moreover have "\<not> transient (fst (fn (iter fn n s')))" using Suc.prems(2) x by simp
  ultimately obtain lg where
    "retry_loop fn cfg rnd (attempt + 1) (Some (as_result x)) s' =
      (Some (as_result (fst (fn (iter fn n s')))), lg, iter fn (Suc n) s')" "length lg = n"
    using Suc.IH [of s' "attempt + 1" "Some (as_result x)"] Suc.prems(3) by auto
  with x tr Suc.prems(3) show ?case
    by (subst retry_loop.simps) (auto simp: Let_def transient_def as_result_def split: sum.splits)
qed

lemma retry_loop_exhausted:
  "(\<forall>k \<le> n. transient (fst (fn (iter fn k s)))) \<Longrightarrow> int attempt + int n = rc_maxRetries cfg \<Longrightarrow>
   (\<exists>lg. retry_loop fn cfg rnd attempt lr s =
      (Some (as_result (fst (fn (iter fn n s)))), lg, iter fn (Suc n) s) \<and> length lg = n)"
proof (induction n arbitrary: s attempt lr)
  case 0
  obtain x s' where x: "fn s = (x, s')" by (cases "fn s")
  have stop: "retry_loop fn cfg rnd (Suc attempt) lr' t = (lr', [], t)" for lr' t
    using 0 by (subst retry_loop.simps) simp
  from 0 x show ?case
    by (subst retry_loop.simps) (auto simp: Let_def transient_def as_result_def stop split: sum.splits)
next
  case (Suc n)
  obtain x s' where x: "fn s = (x, s')" by (cases "fn s")
  from Suc.prems(1) x have tr: "transient x" by force
  have "\<forall>k \<le> n. transient (fst (fn (iter fn k s')))"
  proof (intro allI impI)
    fix k assume "k \<le> n"
    with Suc.prems(1) have "transient (fst (fn (iter fn (Suc k) s)))" by blast
    with x show "transient (fst (fn (iter fn k s')))" by simp
  qed
  then obtain lg where
    "retry_loop fn cfg rnd (attempt + 1) (Some (as_result x)) s' =
      (Some (as_result (fst (fn (iter fn n s')))), lg, iter fn (Suc n) s')" "length lg = n"
    using Suc.IH [of s' "attempt + 1" "Some (as_result x)"] Suc.prems(2) by auto
  with x tr Suc.prems(2) show ?case
    by (subst retry_loop.simps) (auto simp: Let_def transient_def as_result_def split: sum.splits)
qed

text \<open>Retry: an operation whose first \<open>n\<close> calls fail transiently and whose next call settles
  (succeeds or fails for good) is called exactly \<open>n + 1\<close> times with \<open>n\<close> logged waits and the
  settled outcome is the answer, for every \<open>n\<close> up to the configured number of retries.\<close>

theorem withRetry_settles:
  assumes "\<forall>k < n. transient (fst (fn (iter fn k s)))"
    and "\<not> transient (fst (fn (iter fn n s)))"
    and "int n \<le> rc_maxRetries cfg"
  shows "\<exists>lg. withRetry fn cfg rnd s =
    (Some (as_result (fst (fn (iter fn n s)))), lg, iter fn (Suc n) s) \<and> length lg = n"
  using retry_loop_settles [OF assms(1,2), of 0 cfg] assms(3) by (simp add: withRetry_def)

definition flaky :: "nat operation" where
  "flaky n = (if n < 2 then Inl (EvError ''ECONNREFUSED'')
              else Inr \<lparr>sr_ok = True, sr_statusCode = 200, sr_response = JNull\<rparr>, Suc n)"

theorem withRetry_settles_witness:
  "\<exists>lg. withRetry flaky \<lparr>rc_maxRetries = 3, rc_baseDelayMs = 10, rc_maxDelayMs = 100\<rparr> (\<lambda>_. 0) 0 =
    (Some \<lparr>sr_ok = True, sr_statusCode = 200, sr_response = JNull\<rparr>, lg, 3) \<and> length lg = 2"
proof -
  have "to_lower ''ECONNREFUSED'' = ''econnrefused''"
    by code_simp
  then have err: "isRetryable (EvError ''ECONNREFUSED'')"
    by (simp add: isRetryable_def isRetryableTransportError_def retryable_fragments_def starts_with_def)
  have "\<forall>k < 2. transient (fst (flaky (iter flaky k 0)))"
    by (auto simp: less_2_cases_iff flaky_def transient_def err)
  with withRetry_settles [of 2 flaky 0 "\<lparr>rc_maxRetries = 3, rc_baseDelayMs = 10, rc_maxDelayMs = 100\<rparr>" "\<lambda>_. 0"]
  show ?thesis
    by (simp add: flaky_def transient_def as_result_def numeral_2_eq_2 numeral_3_eq_3)
qed

lemma withRetry_exhausted:
  assumes "\<forall>k \<le> n. transient (fst (fn (iter fn k s)))" "int n = rc_maxRetries cfg"
  shows "\<exists>lg. withRetry fn cfg rnd s =
    (Some (as_result (fst (fn (iter fn n s)))), lg, iter fn (Suc n) s) \<and> length lg = n"
  using retry_loop_exhausted [OF assms(1), of 0 cfg] assms(2) by (simp add: withRetry_def)

lemma first_settled:
  "(\<forall>k \<le> n. transient (fst (fn (iter fn k s)))) \<or>
   (\<exists>m \<le> n. (\<forall>k < m. transient (fst (fn (iter fn k s)))) \<and> \<not> transient (fst (fn (iter fn m s))))"
proof (cases "\<forall>k \<le> n. transient (fst (fn (iter fn k s)))")
  case False
  then obtain k where "k \<le> n" "\<not> transient (fst (fn (iter fn k s)))" by blast
  then have "\<exists>m. \<not> transient (fst (fn (iter fn m s))) \<and> (\<forall>j < m. transient (fst (fn (iter fn j s)))) \<and> m \<le> k"
    using exists_least_iff [of "\<lambda>k. \<not> transient (fst (fn (iter fn k s)))"]
    by (metis not_le_imp_less)
  with \<open>k \<le> n\<close> show ?thesis by (meson order.trans)
qed simp

text \<open>Retry is bounded and total: for a non-negative retry count the wrapped operation never
  escapes with an exception, is called at least once and at most \<open>maxRetries + 1\<close> times, and the
  answer is the outcome of its last call.\<close>

theorem withRetry_bounded:
  assumes "0 \<le> rc_maxRetries cfg"
  shows "\<exists>n lg. int n \<le> rc_maxRetries cfg \<and> length lg = n \<and>
    withRetry fn cfg rnd s = (Some (as_result (fst (fn (iter fn n s)))), lg, iter fn (Suc n) s)"
  using first_settled [of "nat (rc_maxRetries cfg)" fn s]
proof
  assume "\<forall>k \<le> nat (rc_maxRetries cfg). transient (fst (fn (iter fn k s)))"
  from withRetry_exhausted [OF this] assms show ?thesis by force
next
  assume "\<exists>m \<le> nat (rc_maxRetries cfg). (\<forall>k < m. transient (fst (fn (iter fn k s)))) \<and>
     \<not> transient (fst (fn (iter fn m s)))"
  then obtain m where "m \<le> nat (rc_maxRetries cfg)" "\<forall>k < m. transient (fst (fn (iter fn k s)))"
     "\<not> transient (fst (fn (iter fn m s)))" by blast
  with withRetry_settles [of m fn s cfg rnd] assms show ?thesis by force
qed

theorem withRetry_bounded_witness:
  "\<exists>n lg. int n \<le> 3 \<and> length lg = n \<and>
    withRetry flaky \<lparr>rc_maxRetries = 3, rc_baseDelayMs = 10, rc_maxDelayMs = 100\<rparr> (\<lambda>_. 0) 0 =
    (Some (as_result (fst (flaky (iter flaky n 0)))), lg, iter flaky (Suc n) 0)"
  using withRetry_bounded [of "\<lparr>rc_maxRetries = 3, rc_baseDelayMs = 10, rc_maxDelayMs = 100\<rparr>" flaky "\<lambda>_. 0" 0]
  by simp

section \<open>The time it takes\<close>

lemma retry_loop_delays:
  "retry_loop fn cfg rnd attempt lr s = (r, lg, t) \<Longrightarrow> l \<in> set lg \<Longrightarrow> \<exists>k. rl_delay l = calcDelay (rnd k) k cfg"
proof (induction "nat (rc_maxRetries cfg + 1 - int attempt)" arbitrary: attempt lr s r lg t rule: less_induct)
  case less
  obtain x s' where x: "fn s = (x, s')" by (cases "fn s")
  show ?case
  proof (cases "rc_maxRetries cfg < int attempt \<or> \<not> transient x")
    case True
    then show ?thesis
      using less.prems x
      by (subst (asm) retry_loop.simps) (auto simp: Let_def transient_def split: sum.splits if_splits)
  next
    case False
    obtain r' lg' t' where rec: "retry_loop fn cfg rnd (Suc attempt) (Some (as_result x)) s' = (r', lg', t')"
      by (cases "retry_loop fn cfg rnd (Suc attempt) (Some (as_result x)) s'")
    have "l \<in> set lg' \<or> rl_delay l = calcDelay (rnd attempt) attempt cfg"
      using less.prems False x rec
      by (subst (asm) retry_loop.simps) (auto simp: Let_def transient_def as_result_def split: sum.splits if_splits)
    moreover have "\<exists>k. rl_delay l = calcDelay (rnd k) k cfg" if "l \<in> set lg'"
      using less.hyps [OF _ rec that] False by simp
    ultimately show ?thesis by blast
  qed
qed

text \<open>C22. Retry is bounded, total and takes a bounded time: for a non-negative retry count the wrapped operation never escapes with
  an exception, is called at least once and at most \<open>maxRetries + 1\<close> times, the answer is the outcome of its last call, and
  the waits in between add up to at most \<open>maxRetries\<close> times the maximal delay with its tenth of jitter.\<close>

theorem withRetry_within_time:
  assumes "0 \<le> rc_maxRetries cfg" and "0 \<le> rc_baseDelayMs cfg" "0 \<le> rc_maxDelayMs cfg" and "\<And>k. 0 \<le> rnd k \<and> rnd k < 1"
  shows "\<exists>n lg. int n \<le> rc_maxRetries cfg \<and> length lg = n \<and>
    withRetry fn cfg rnd s = (Some (as_result (fst (fn (iter fn n s)))), lg, iter fn (Suc n) s) \<and>
    sum_list (map rl_delay lg) \<le> of_int (rc_maxRetries cfg) * (rc_maxDelayMs cfg * (11 / 10))"
proof -
  obtain n lg where lg: "int n \<le> rc_maxRetries cfg" "length lg = n"
      "withRetry fn cfg rnd s = (Some (as_result (fst (fn (iter fn n s)))), lg, iter fn (Suc n) s)"
    using withRetry_bounded [OF assms(1), of fn rnd s] by blast
  let ?d = "rc_maxDelayMs cfg * (11 / 10)"
  have "rl_delay l \<le> ?d" if "l \<in> set lg" for l
    using retry_loop_delays [OF lg(3) [unfolded withRetry_def] that] calcDelay_bounds(2) [OF assms(2,3)] assms(4) by auto
  then have "sum_list (map rl_delay lg) \<le> of_nat (length lg) * ?d"
    using sum_list_mono [of lg rl_delay "\<lambda>_. ?d"] by (simp add: sum_list_triv)
  also have "\<dots> \<le> of_int (rc_maxRetries cfg) * ?d"
  proof (rule mult_right_mono)
    show "(of_nat (length lg) :: rat) \<le> of_int (rc_maxRetries cfg)"
      using lg(1,2) by (metis of_int_le_iff of_int_of_nat_eq)
  qed (use assms(3) in simp)
  finally show ?thesis using lg by blast
qed

theorem withRetry_within_time_witness:
  "\<exists>n lg. int n \<le> 3 \<and> length lg = n \<and>
    withRetry flaky \<lparr>rc_maxRetries = 3, rc_baseDelayMs = 10, rc_maxDelayMs = 100\<rparr> (\<lambda>_. 0) 0 =
      (Some (as_result (fst (flaky (iter flaky n 0)))), lg, iter flaky (Suc n) 0) \<and> sum_list (map rl_delay lg) \<le> 330"
proof -
  let ?c = "\<lparr>rc_maxRetries = 3, rc_baseDelayMs = 10, rc_maxDelayMs = 100\<rparr>"
  have "0 \<le> rc_maxRetries ?c" "0 \<le> rc_baseDelayMs ?c" "0 \<le> rc_maxDelayMs ?c" "0 \<le> (0 :: rat) \<and> (0 :: rat) < 1"
    and limit: "of_int 3 * (rc_maxDelayMs ?c * (11 / 10)) = 330" "rc_maxRetries ?c = 3"
    by simp_all
  from withRetry_within_time [where rnd = "\<lambda>_. 0", OF this(1-4), of flaky 0] show ?thesis
    unfolding limit .
qed

end
