(* ===== verification/Client.thy ===== *)
theory Client
  imports PeerHealth Transport
begin

text \<open>
  \<open>src/client.ts\<close>: sending a message to a peer. The A2A SDK (card resolver, factory, transports)
  and \<open>new URL\<close> are the fields of a record \<open>sdk\<close> of state transformers over an abstract network
  state \<open>'s\<close>; an exception they throw is an \<^typ>\<open>err_value\<close>. The log callback appends to a list.
  The lines of \<open>withRetry\<close> are returned as their own list, so their position between the transport
  lines is not kept.
\<close>

section \<open>The SDK and the outbound message\<close>

record 's sdk =
  parse_url :: "string \<Rightarrow> err_value + string \<times> string"
  resolve_card :: "string \<Rightarrow> string \<Rightarrow> (string \<times> string) option \<Rightarrow> 's \<Rightarrow> (err_value + js) \<times> 's"
  create_from_url :: "string \<Rightarrow> string \<Rightarrow> (string \<times> string) option \<Rightarrow> 's \<Rightarrow> (err_value + unit) \<times> 's"
  factory_send :: "string \<Rightarrow> string \<Rightarrow> js \<Rightarrow> 's \<Rightarrow> (err_value + js) \<times> 's"
  transport_create :: "string \<Rightarrow> string \<Rightarrow> 's \<Rightarrow> (err_value + unit) \<times> 's"
  transport_send :: "string \<Rightarrow> string \<Rightarrow> js \<Rightarrow> js \<Rightarrow> 's \<Rightarrow> (err_value + js) \<times> 's"
  fetch_url :: "string \<Rightarrow> (string \<times> string) option \<Rightarrow> int \<Rightarrow> 's \<Rightarrow> (err_value + rat \<times> js) \<times> 's"

datatype client_log =
    TransportTry string string string nat nat
  | TransportFallbackSuccess string string string nat
  | TransportFallback string string "rat option" js

text \<open>\<open>if (!auth?.token) return undefined\<close>: a header only for a non-empty token.\<close>

definition createAuthHandler :: "peer_config \<Rightarrow> (string \<times> string) option" where
  "createAuthHandler peer =
    (case pc_auth peer of
       None \<Rightarrow> None
     | Some (ty, token) \<Rightarrow>
         if token = [] then None
         else if ty = ''bearer'' then Some (''authorization'', ''Bearer '' @ token)
         else Some (''x-api-key'', token))"

definition parseAgentCardUrl :: "'s sdk \<Rightarrow> string \<Rightarrow> err_value + string \<times> string" where
  "parseAgentCardUrl sdk u = parse_url sdk u"

definition or_else :: "js \<Rightarrow> js \<Rightarrow> js" where
  "or_else a b = (if truthy a then a else b)"

definition outbound_message :: "string \<Rightarrow> (string \<times> js) list \<Rightarrow> js" where
  "outbound_message uuid message =
    (let targetAgentId = (case jprop ''agentId'' message of JStr s \<Rightarrow> s | _ \<Rightarrow> [])
     in JObj ([(''kind'', JStr ''message''),
               (''messageId'', or_else (jprop ''messageId'' message) (JStr uuid)),
               (''role'', or_else (jprop ''role'' message) (JStr ''user'')),
               (''parts'', or_else (jprop ''parts'' message)
                  (JArr [JObj [(''kind'', JStr ''text''),
                     (''text'', JStr (js_text (or_else (jprop ''text'' message)
                                 (or_else (jprop ''message'' message) (JStr []))))) ]]))]
              @ (if targetAgentId = [] then [] else [(''agentId'', JStr targetAgentId)])))"

definition service_parameters :: "peer_config \<Rightarrow> js" where
  "service_parameters peer =
    (case createAuthHandler peer of None \<Rightarrow> JUndef | Some (k, v) \<Rightarrow> JObj [(k, JStr v)])"

section \<open>Transports\<close>

text \<open>Reading \<open>preferredTransport\<close>, \<open>url\<close> and \<open>additionalInterfaces\<close> of a card. The code
  casts them to strings; a card whose members are not strings is outside the model (\<^const>\<open>js_text\<close>
  renders them). Iterating a truthy non-array throws and is caught: no transports.\<close>

definition endpoint_of :: "js \<Rightarrow> transport_endpoint" where
  "endpoint_of v = \<lparr>te_url = js_text (get_prop v ''url''), te_transport = js_text (get_prop v ''transport'')\<rparr>"

definition card_interfaces :: "string \<Rightarrow> js \<Rightarrow> transport_endpoint list" where
  "card_interfaces defaultUrl doc =
    (let mainTransport = js_text (coalesce (get_prop doc ''preferredTransport'') (JStr ''JSONRPC''));
         cardUrl = js_text (coalesce (get_prop doc ''url'') (JStr defaultUrl));
         main = \<lparr>te_url = cardUrl, te_transport = mainTransport\<rparr>
     in case get_prop doc ''additionalInterfaces'' of
          JArr ifs \<Rightarrow> orderTransports (main # filter (\<lambda>i. i \<noteq> main) (map endpoint_of ifs))
        | v \<Rightarrow> if truthy v then [] else orderTransports [main])"

definition doSendViaFactory :: "'s sdk \<Rightarrow> peer_config \<Rightarrow> string \<Rightarrow> js \<Rightarrow> 's \<Rightarrow> (err_value + send_result) \<times> 's" where
  "doSendViaFactory sdk peer path params s =
    (case create_from_url sdk (pc_agentCardUrl peer) path (createAuthHandler peer) s of
       (Inl e, s') \<Rightarrow> (Inl e, s')
     | (Inr _, s') \<Rightarrow>
        (case factory_send sdk (pc_agentCardUrl peer) path params s' of
           (Inl e, s'') \<Rightarrow> (Inl e, s'')
         | (Inr v, s'') \<Rightarrow> (Inr \<lparr>sr_ok = True, sr_statusCode = 200, sr_response = v\<rparr>, s'')))"

definition doSendViaTransport :: "'s sdk \<Rightarrow> transport_endpoint \<Rightarrow> js \<Rightarrow> js \<Rightarrow> 's \<Rightarrow> (err_value + send_result) \<times> 's" where
  "doSendViaTransport sdk ep params svc s =
    (if te_transport ep \<notin> {''JSONRPC'', ''HTTP+JSON'', ''GRPC''}
     then (Inr (error_result (''Unsupported transport: '' @ te_transport ep)), s)
     else case transport_create sdk (te_transport ep) (te_url ep) s of
       (Inl e, s') \<Rightarrow> (Inl e, s')
     | (Inr _, s') \<Rightarrow>
        (case transport_send sdk (te_transport ep) (te_url ep) params svc s' of
           (Inl e, s'') \<Rightarrow> (Inl e, s'')
         | (Inr v, s'') \<Rightarrow> (Inr \<lparr>sr_ok = True, sr_statusCode = 200, sr_response = v\<rparr>, s'')))"

text \<open>The message of \<open>lastError\<close> after the loop.\<close>

definition last_error_text :: "err_value \<Rightarrow> string" where
  "last_error_text e = (case e of
     EvError m \<Rightarrow> m
   | EvValue (JObj fs) \<Rightarrow>
       if map_of fs ''response'' \<noteq> None
       then js_text (coalesce (get_prop (jprop ''response'' fs) ''error'') (JStr (js_text (JObj fs))))
       else js_text (JObj fs)
   | EvValue v \<Rightarrow> js_text v)"

fun transport_loop :: "(transport_endpoint \<Rightarrow> 's \<Rightarrow> (err_value + send_result) \<times> 's) \<Rightarrow> string \<Rightarrow> nat \<Rightarrow> nat \<Rightarrow>
    transport_endpoint list \<Rightarrow> err_value \<Rightarrow> 's \<times> client_log list \<Rightarrow> send_result \<times> ('s \<times> client_log list)" where
  "transport_loop send peer n i [] lastError (s, lg) =
     (error_result (''All transports failed for peer '' @ [char_of (34 :: nat)] @ peer @ [char_of (34 :: nat)] @ '': '' @
        last_error_text lastError), (s, lg))"
| "transport_loop send peer n i (ep # eps) lastError (s, lg) =
     (let lg1 = lg @ [TransportTry peer (te_transport ep) (te_url ep) (i + 1) n]
      in case send ep s of
           (Inr r, s') \<Rightarrow>
             if sr_ok r \<or> \<not> isRetryableTransportError (result_value r)
             then (r, (s', if 0 < i then lg1 @ [TransportFallbackSuccess peer (te_transport ep) (te_url ep) i] else lg1))
             else transport_loop send peer n (i + 1) eps (result_value r)
                    (s', lg1 @ [TransportFallback peer (te_transport ep) (Some (sr_statusCode r))
                                  (get_prop (sr_response r) ''error'')])
         | (Inl e, s') \<Rightarrow>
             if \<not> isRetryableTransportError e then (error_result (error_text e), (s', lg1))
             else transport_loop send peer n (i + 1) eps e
                    (s', lg1 @ [TransportFallback peer (te_transport ep) None (JStr (error_text e))]))"

definition doSendMessage :: "'s sdk \<Rightarrow> peer_config \<Rightarrow> string \<Rightarrow> (string \<times> js) list \<Rightarrow>
    's \<times> client_log list \<Rightarrow> (err_value + send_result) \<times> ('s \<times> client_log list)" where
  "doSendMessage sdk peer uuid message st =
    (case parseAgentCardUrl sdk (pc_agentCardUrl peer) of
       Inl e \<Rightarrow> (Inl e, st)
     | Inr (baseUrl, path) \<Rightarrow>
        let params = outbound_message uuid message;
            (found, s1) = resolve_card sdk baseUrl path (createAuthHandler peer) (fst st);
            transports = (case found of Inl _ \<Rightarrow> [] | Inr c \<Rightarrow> card_interfaces (baseUrl @ path) c)
        in if length transports \<le> 1 then
             (let (r, s2) = doSendViaFactory sdk peer path params s1 in (r, (s2, snd st)))
           else
             (let (r, st2) = transport_loop (\<lambda>ep. doSendViaTransport sdk ep params (service_parameters peer))
                    (pc_name peer) (length transports) 0 transports (EvValue JUndef) (s1, snd st)
              in (Inr r, st2)))"

definition circuit_open_response :: "string \<Rightarrow> send_result" where
  "circuit_open_response name =
    \<lparr>sr_ok = False, sr_statusCode = 503,
     sr_response = JObj [(''error'', JStr (''Circuit open: peer '' @ [char_of (34 :: nat)] @ name @ [char_of (34 :: nat)] @ '' is unavailable''))]\<rparr>"

text \<open>The send itself, with or without retries: an exception escapes only on the plain path.\<close>

definition send_with_retry :: "'t operation \<Rightarrow> retry_config option \<Rightarrow> (nat \<Rightarrow> rat) \<Rightarrow> 't \<Rightarrow>
    (err_value + send_result) \<times> retry_log list \<times> 't" where
  "send_with_retry doSend retry rnd st =
    (case retry of
       Some cfg \<Rightarrow>
         if 0 < rc_maxRetries cfg then
           (case withRetry doSend cfg rnd st of
              (Some r, lg, st') \<Rightarrow> (Inr r, lg, st')
            | (None, lg, st') \<Rightarrow> (Inl (EvError ''Cannot read properties of undefined''), lg, st'))
         else (case doSend st of (r, st') \<Rightarrow> (r, [], st'))
     | None \<Rightarrow> (case doSend st of (r, st') \<Rightarrow> (r, [], st')))"

text \<open>\<open>sendMessage\<close>; \<open>t0\<close> and \<open>t1\<close> are the clock before and after the send.\<close>

definition sendMessage :: "'s sdk \<Rightarrow> int \<Rightarrow> int \<Rightarrow> peer_config \<Rightarrow> string \<Rightarrow> (string \<times> js) list \<Rightarrow>
    retry_config option \<Rightarrow> (nat \<Rightarrow> rat) \<Rightarrow> health_manager option \<Rightarrow> 's \<times> client_log list \<Rightarrow>
    (err_value + send_result) \<times> health_manager option \<times> retry_log list \<times> ('s \<times> client_log list)" where
  "sendMessage sdk t0 t1 peer uuid message retry rnd hm st =
    (case hm of
       None \<Rightarrow> (let (r, lg, st') = send_with_retry (doSendMessage sdk peer uuid message) retry rnd st
                in (r, None, lg, st'))
     | Some m \<Rightarrow>
        (case isAvailable t0 (pc_name peer) m of
           (False, m1) \<Rightarrow> (Inr (circuit_open_response (pc_name peer)), Some m1, [], st)
         | (True, m1) \<Rightarrow>
             (case send_with_retry (doSendMessage sdk peer uuid message) retry rnd st of
                (Inl e, lg, st') \<Rightarrow> (Inl e, Some m1, lg, st')
              | (Inr r, lg, st') \<Rightarrow>
                  (Inr r, Some (if sr_ok r then recordSuccess (pc_name peer) m1
                                else recordFailure t1 (pc_name peer) m1), lg, st'))))"

definition discoverAgentCard :: "'s sdk \<Rightarrow> peer_config \<Rightarrow> int \<Rightarrow> 's \<Rightarrow> (err_value + js) \<times> 's" where
  "discoverAgentCard sdk peer timeoutMs s =
    (case parseAgentCardUrl sdk (pc_agentCardUrl peer) of
       Inl e \<Rightarrow> (Inl e, s)
     | Inr (baseUrl, path) \<Rightarrow>
        (case create_from_url sdk baseUrl path (createAuthHandler peer) s of
           (Inl e, s1) \<Rightarrow> (Inl e, s1)
         | (Inr _, s1) \<Rightarrow>
            (case fetch_url sdk (baseUrl @ path) (createAuthHandler peer) timeoutMs s1 of
               (Inl e, s2) \<Rightarrow> (Inl e, s2)
             | (Inr (status, body), s2) \<Rightarrow>
                 if 200 \<le> status \<and> status \<le> 299 then (Inr body, s2)
                 else (Inl (EvError (''Agent Card lookup failed with status '' @ rat_text status)), s2))))"

section \<open>Transport fallback\<close>

definition falls_back :: "(err_value + send_result) \<Rightarrow> bool" where
  "falls_back x = (case x of
     Inr r \<Rightarrow> \<not> sr_ok r \<and> isRetryableTransportError (result_value r)
   | Inl e \<Rightarrow> isRetryableTransportError e)"

text \<open>The network state after a list of sends, and the transports a log reports as tried.\<close>

fun after_sends :: "('e \<Rightarrow> 's \<Rightarrow> 'x \<times> 's) \<Rightarrow> 'e list \<Rightarrow> 's \<Rightarrow> 's" where
  "after_sends send [] s = s"
| "after_sends send (e # es) s = after_sends send es (snd (send e s))"

fun all_fall_back :: "(transport_endpoint \<Rightarrow> 's \<Rightarrow> (err_value + send_result) \<times> 's) \<Rightarrow> transport_endpoint list \<Rightarrow> 's \<Rightarrow> bool" where
  "all_fall_back send [] s = True"
| "all_fall_back send (e # es) s = (falls_back (fst (send e s)) \<and> all_fall_back send es (snd (send e s)))"

fun tried :: "client_log list \<Rightarrow> (string \<times> string) list" where
  "tried [] = []"
| "tried (TransportTry p t u a n # lg) = (t, u) # tried lg"
| "tried (_ # lg) = tried lg"

lemma tried_append [simp]: "tried (xs @ ys) = tried xs @ tried ys"
  by (induction xs rule: tried.induct) auto

abbreviation ep_key :: "transport_endpoint \<Rightarrow> string \<times> string" where
  "ep_key e \<equiv> (te_transport e, te_url e)"

lemma transport_loop_settles:
  "all_fall_back send pre s \<Longrightarrow> \<not> falls_back (fst (send ep (after_sends send pre s))) \<Longrightarrow>
   \<exists>lg'. transport_loop send peer n i (pre @ ep # post) le (s, lg) =
     (as_result (fst (send ep (after_sends send pre s))), (after_sends send (pre @ [ep]) s, lg')) \<and>
     tried lg' = tried lg @ map ep_key (pre @ [ep])"
proof (induction pre arbitrary: s i le lg)
  case Nil
  then show ?case
    by (cases "send ep s") (auto simp: falls_back_def as_result_def Let_def split: sum.splits)
next
  case (Cons e pre)
  obtain x s' where x: "send e s = (x, s')" by (cases "send e s")
  with Cons.prems have p: "falls_back x" "all_fall_back send pre s'"
    "\<not> falls_back (fst (send ep (after_sends send pre s')))" by simp_all
  show ?case
  proof (cases x)
    case (Inl err)
    from Cons.IH [OF p(2,3), of "i + 1" err
        "(lg @ [TransportTry peer (te_transport e) (te_url e) (i + 1) n]) @
           [TransportFallback peer (te_transport e) None (JStr (error_text err))]"] x p(1) Inl
    show ?thesis by (auto simp: falls_back_def Let_def)
  next
    case (Inr r)
    from Cons.IH [OF p(2,3), of "i + 1" "result_value r"
        "(lg @ [TransportTry peer (te_transport e) (te_url e) (i + 1) n]) @
           [TransportFallback peer (te_transport e) (Some (sr_statusCode r)) (get_prop (sr_response r) ''error'')]"] x p(1) Inr
    show ?thesis by (auto simp: falls_back_def Let_def)
  qed
qed

lemma transport_loop_exhausted:
  "all_fall_back send eps s \<Longrightarrow>
   \<exists>m lg'. transport_loop send peer n i eps le (s, lg) = (error_result m, (after_sends send eps s, lg')) \<and>
     tried lg' = tried lg @ map ep_key eps"
proof (induction eps arbitrary: s i le lg)
  case Nil
  then show ?case by auto
next
  case (Cons e eps)
  obtain x s' where x: "send e s = (x, s')" by (cases "send e s")
  with Cons.prems have p: "falls_back x" "all_fall_back send eps s'" by simp_all
  show ?case
  proof (cases x)
    case (Inl err)
    from Cons.IH [OF p(2), of "i + 1" err
        "(lg @ [TransportTry peer (te_transport e) (te_url e) (i + 1) n]) @
           [TransportFallback peer (te_transport e) None (JStr (error_text err))]"] x p(1) Inl
    show ?thesis by (auto simp: falls_back_def Let_def)
  next
    case (Inr r)
    from Cons.IH [OF p(2), of "i + 1" "result_value r"
        "(lg @ [TransportTry peer (te_transport e) (te_url e) (i + 1) n]) @
           [TransportFallback peer (te_transport e) (Some (sr_statusCode r)) (get_prop (sr_response r) ''error'')]"] x p(1) Inr
    show ?thesis by (auto simp: falls_back_def Let_def)
  qed
qed

lemma send_via_transport_unsupported:
  "te_transport ep \<notin> set PRIORITY_ORDER \<Longrightarrow>
   falls_back (fst (doSendViaTransport sdk ep params svc s)) \<and> snd (doSendViaTransport sdk ep params svc s) = s"
  by (simp add: doSendViaTransport_def PRIORITY_ORDER_def falls_back_def error_result_def
      result_value_def isRetryableTransportError_def retryable_code_def)

lemma card_interfaces_priority:
  assumes "get_prop doc ''preferredTransport'' = JStr mt \<or> get_prop doc ''preferredTransport'' = JUndef \<and> mt = ''JSONRPC''"
    and "get_prop doc ''url'' = JStr mu \<or> get_prop doc ''url'' = JUndef \<and> mu = defaultUrl"
    and "get_prop doc ''additionalInterfaces'' = JArr ifs"
    and "list_all2 (\<lambda>v e. get_prop v ''url'' = JStr (te_url e) \<and> get_prop v ''transport'' = JStr (te_transport e)) ifs others"
  defines "adv \<equiv> \<lparr>te_url = mu, te_transport = mt\<rparr> # filter (\<lambda>e. e \<noteq> \<lparr>te_url = mu, te_transport = mt\<rparr>) others"
  shows "card_interfaces defaultUrl doc =
    filter (\<lambda>e. te_transport e = ''JSONRPC'') adv @ filter (\<lambda>e. te_transport e = ''HTTP+JSON'') adv @
    filter (\<lambda>e. te_transport e = ''GRPC'') adv @
    filter (\<lambda>e. te_transport e \<notin> {''JSONRPC'', ''HTTP+JSON'', ''GRPC''}) adv"
proof -
  have "map endpoint_of ifs = others"
    using assms(4) by (induction rule: list_all2_induct) (simp_all add: endpoint_of_def)
  moreover have "js_text (coalesce (get_prop doc ''preferredTransport'') (JStr ''JSONRPC'')) = mt"
    using assms(1) by (auto simp: coalesce_def nullish_def)
  moreover have "js_text (coalesce (get_prop doc ''url'') (JStr defaultUrl)) = mu"
    using assms(2) by (auto simp: coalesce_def nullish_def)
  ultimately have "card_interfaces defaultUrl doc = orderTransports adv"
    by (simp add: card_interfaces_def Let_def assms(3) adv_def)
  then show ?thesis by (simp add: orderTransports_buckets)
qed

text \<open>C16. Transport fallback: a card that advertises additional interfaces has its main interface
  (the preferred transport, JSON-RPC when none is named, at the card's URL) and the others tried
  with all JSON-RPC interfaces first, then the HTTP+JSON ones, then the gRPC ones, then the unknown
  transports, each group in the advertised order; after a prefix of that list has failed with
  retryable errors, the first other outcome ends the send and is its answer, and the interfaces
  after it are never contacted.\<close>

theorem doSendMessage_fallback:
  assumes "parse_url sdk (pc_agentCardUrl peer) = Inr (base, path)"
    and "resolve_card sdk base path (createAuthHandler peer) s = (Inr doc, s1)"
    and "get_prop doc ''preferredTransport'' = JStr mt \<or> get_prop doc ''preferredTransport'' = JUndef \<and> mt = ''JSONRPC''"
    and "get_prop doc ''url'' = JStr mu \<or> get_prop doc ''url'' = JUndef \<and> mu = base @ path"
    and "get_prop doc ''additionalInterfaces'' = JArr ifs"
    and "list_all2 (\<lambda>v e. get_prop v ''url'' = JStr (te_url e) \<and> get_prop v ''transport'' = JStr (te_transport e)) ifs others"
    and "adv = \<lparr>te_url = mu, te_transport = mt\<rparr> # filter (\<lambda>e. e \<noteq> \<lparr>te_url = mu, te_transport = mt\<rparr>) others"
    and "filter (\<lambda>e. te_transport e = ''JSONRPC'') adv @ filter (\<lambda>e. te_transport e = ''HTTP+JSON'') adv @
      filter (\<lambda>e. te_transport e = ''GRPC'') adv @
      filter (\<lambda>e. te_transport e \<notin> {''JSONRPC'', ''HTTP+JSON'', ''GRPC''}) adv = pre @ ep # post"
    and "pre @ post \<noteq> []"
    and "all_fall_back (\<lambda>e. doSendViaTransport sdk e (outbound_message uuid msg) (service_parameters peer)) pre s1"
    and "\<not> falls_back (fst (doSendViaTransport sdk ep (outbound_message uuid msg) (service_parameters peer)
           (after_sends (\<lambda>e. doSendViaTransport sdk e (outbound_message uuid msg) (service_parameters peer)) pre s1)))"
  shows "\<exists>lg. doSendMessage sdk peer uuid msg (s, []) =
    (Inr (as_result (fst (doSendViaTransport sdk ep (outbound_message uuid msg) (service_parameters peer)
       (after_sends (\<lambda>e. doSendViaTransport sdk e (outbound_message uuid msg) (service_parameters peer)) pre s1)))),
     (after_sends (\<lambda>e. doSendViaTransport sdk e (outbound_message uuid msg) (service_parameters peer)) (pre @ [ep]) s1, lg))
    \<and> tried lg = map ep_key (pre @ [ep])"
proof -
  have "card_interfaces (base @ path) doc = pre @ ep # post"
    using card_interfaces_priority [OF assms(3,4,5,6)] assms(7,8) by simp
  moreover have "\<not> length (pre @ ep # post) \<le> 1" using assms(9) by (cases pre) auto
  moreover note transport_loop_settles [OF assms(10,11), of "pc_name peer" "length (pre @ ep # post)" 0 post
      "EvValue JUndef" "[]"]
  ultimately show ?thesis
    using assms(1,2) by (auto simp: doSendMessage_def parseAgentCardUrl_def Let_def)
qed

definition demo_sdk :: "nat sdk" where
  "demo_sdk = \<lparr>parse_url = (\<lambda>_. Inr (''http://p'', ''/card'')),
     resolve_card = (\<lambda>_ _ _ s. (Inr (JObj [(''preferredTransport'', JStr ''GRPC''), (''url'', JStr ''g''),
        (''additionalInterfaces'', JArr [JObj [(''url'', JStr ''r''), (''transport'', JStr ''HTTP+JSON'')],
           JObj [(''url'', JStr ''j''), (''transport'', JStr ''JSONRPC'')]])]), s)),
     create_from_url = (\<lambda>_ _ _ s. (Inr (), s)), factory_send = (\<lambda>_ _ _ s. (Inl (EvError ''bad request''), s + 1)),
     transport_create = (\<lambda>_ _ s. (Inr (), s)),
     transport_send = (\<lambda>t _ _ _ s. (if t = ''JSONRPC'' then Inl (EvValue (JObj [(''statusCode'', JNum (Fin 503))]))
        else Inr (JStr ''pong''), s + 1)),
     fetch_url = (\<lambda>_ _ _ s. (Inr (200, JNull), s))\<rparr>"

theorem doSendMessage_fallback_witness:
  "\<exists>lg. doSendMessage demo_sdk example_peer ''u'' [] (0, []) =
     (Inr \<lparr>sr_ok = True, sr_statusCode = 200, sr_response = JStr ''pong''\<rparr>, (2, lg)) \<and>
   tried lg = [(''JSONRPC'', ''j''), (''HTTP+JSON'', ''r'')]"
  using doSendMessage_fallback [of demo_sdk example_peer "''http://p''" "''/card''" 0 _ 0 "''GRPC''" "''g''" _
      "[\<lparr>te_url = ''r'', te_transport = ''HTTP+JSON''\<rparr>, \<lparr>te_url = ''j'', te_transport = ''JSONRPC''\<rparr>]" _
      "[\<lparr>te_url = ''j'', te_transport = ''JSONRPC''\<rparr>]" "\<lparr>te_url = ''r'', te_transport = ''HTTP+JSON''\<rparr>"
      "[\<lparr>te_url = ''g'', te_transport = ''GRPC''\<rparr>]" "''u''" "[]", OF _ _ _ _ _ _ refl]
  by (simp add: demo_sdk_def doSendViaTransport_def falls_back_def isRetryableTransportError_def
      retryable_code_def as_result_def numeral_2_eq_2)

section \<open>The circuit breaker around a send\<close>

text \<open>\<open>sendMessage\<close> with a health manager is the calling pattern of the breaker interface.\<close>

lemma sendMessage_guarded:
  "sendMessage sdk t0 t1 peer uuid msg retry rnd (Some m) st =
    (case breaker.guarded sr_ok t0 t1 (pc_name peer)
        (\<lambda>(lg, st). case send_with_retry (doSendMessage sdk peer uuid msg) retry rnd st of (r, lg', st') \<Rightarrow> (r, (lg', st')))
        (m, ([], st)) of
       (None, m', lg, st') \<Rightarrow> (Inr (circuit_open_response (pc_name peer)), Some m', lg, st')
     | (Some r, m', lg, st') \<Rightarrow> (r, Some m', lg, st'))"
  by (auto simp: sendMessage_def breaker.guarded_def split: prod.splits bool.splits sum.splits)

text \<open>An open breaker shields the network: a send to a peer the breaker refuses answers 503
  without touching the network, the logs or the breaker, whatever the message and retry settings.\<close>

theorem sendMessage_circuit_open:
  assumes "\<not> fst (isAvailable t0 (pc_name peer) m)"
  shows "sendMessage sdk t0 t1 peer uuid msg retry rnd (Some m) st =
    (Inr (circuit_open_response (pc_name peer)), Some m, [], st)"
  using assms by (simp add: sendMessage_guarded breaker.guarded_refused)

definition open_manager :: "nat \<Rightarrow> health_manager" where
  "open_manager t = (new_health_manager [example_peer] True example_cb)
     \<lparr>ph_states := [(pc_name example_peer, initial_state\<lparr>circuit := Open, lastFailureAt := Some (int t)\<rparr>)]\<rparr>"

theorem sendMessage_circuit_open_witness:
  "sendMessage demo_sdk 1 2 example_peer ''u'' [] None (\<lambda>_. 0) (Some (open_manager 1)) (0, []) =
    (Inr (circuit_open_response (pc_name example_peer)), Some (open_manager 1), [], (0, []))"
  by (rule sendMessage_circuit_open)
     (simp add: isAvailable_def open_manager_def new_health_manager_def example_cb_def initial_state_def)

lemma send_with_retry_total:
  assumes "0 < rc_maxRetries cfg"
  obtains r lg st' where "send_with_retry op (Some cfg) rnd st = (Inr r, lg, st')"
  using withRetry_bounded [of cfg op rnd st] assms by (force simp: send_with_retry_def)

text \<open>With retries configured a send always returns a result: no exception of the SDK escapes,
  the breaker records exactly one outcome, the one the result reports, and no probe stays in
  flight.\<close>

theorem sendMessage_with_retries:
  assumes "0 < rc_maxRetries cfg" "isAvailable t0 (pc_name peer) m = (True, m1)"
  shows "\<exists>r lg st'. sendMessage sdk t0 t1 peer uuid msg (Some cfg) rnd (Some m) st =
      (Inr r, Some (if sr_ok r then recordSuccess (pc_name peer) m1 else recordFailure t1 (pc_name peer) m1), lg, st') \<and>
      \<not> probing (pc_name peer) (if sr_ok r then recordSuccess (pc_name peer) m1 else recordFailure t1 (pc_name peer) m1)"
proof -
  obtain r lg st' where "send_with_retry (doSendMessage sdk peer uuid msg) (Some cfg) rnd st = (Inr r, lg, st')"
    using assms(1) by (rule send_with_retry_total)
  then show ?thesis
    using assms(2) breaker.good_ends breaker.bad_ends by (auto simp: sendMessage_def)
qed

theorem sendMessage_with_retries_witness:
  "\<exists>r lg st' m'. sendMessage demo_sdk 1 2 example_peer ''u'' []
      (Some \<lparr>rc_maxRetries = 2, rc_baseDelayMs = 10, rc_maxDelayMs = 100\<rparr>) (\<lambda>_. 0)
      (Some (new_health_manager [example_peer] True example_cb)) (0, []) = (Inr r, Some m', lg, st') \<and>
    \<not> probing (pc_name example_peer) m'"
proof -
  have "isAvailable 1 (pc_name example_peer) (new_health_manager [example_peer] True example_cb) =
    (True, new_health_manager [example_peer] True example_cb)"
    by (simp add: isAvailable_def new_health_manager_def initial_state_def)
  from sendMessage_with_retries [of "\<lparr>rc_maxRetries = 2, rc_baseDelayMs = 10, rc_maxDelayMs = 100\<rparr>", OF _ this,
      of demo_sdk 2 "''u''" "[]" "\<lambda>_. 0" "(0, [])"]
  show ?thesis by auto
qed

text \<open>Without retries an exception of the SDK escapes before the breaker has recorded anything:
  after a half-open probe that throws, every later send to that peer is refused with 503 without
  reaching the network, whatever the clock says, until something else reports an outcome.\<close>

theorem escaped_probe_blocks_peer:
  assumes "map_of (ph_states m) (pc_name peer) = Some ps" "circuit ps \<noteq> Closed"
    and "isAvailable t0 (pc_name peer) m = (True, m1)"
    and "doSendMessage sdk peer uuid msg st = (Inl e, st')"
  shows "sendMessage sdk t0 t1 peer uuid msg None rnd (Some m) st = (Inl e, Some m1, [], st') \<and>
    sendMessage sdk t2 t3 peer uuid' msg' retry' rnd' (Some m1) st'' =
      (Inr (circuit_open_response (pc_name peer)), Some m1, [], st'')"
proof -
  have "probing (pc_name peer) m1"
    using assms(1-3)
    by (auto simp: isAvailable_def probing_def put_state_def add_log_def amap.get_put
        split: circuit_state.splits option.splits if_splits)
  then show ?thesis
    using assms(3,4) by (simp add: sendMessage_circuit_open probing_rejects) (simp add: sendMessage_def send_with_retry_def)
qed

definition lone_sdk :: "nat sdk" where
  "lone_sdk = demo_sdk\<lparr>resolve_card := \<lambda>_ _ _ s. (Inl (EvError ''no card''), s)\<rparr>"

theorem escaped_probe_blocks_peer_witness:
  "\<exists>m1. sendMessage lone_sdk 999999 999999 example_peer ''u'' [] None (\<lambda>_. 0) (Some (open_manager 1)) (0, []) =
      (Inl (EvError ''bad request''), Some m1, [], (1, [])) \<and>
    sendMessage demo_sdk 99999999 0 example_peer ''v'' [] None (\<lambda>_. 0) (Some m1) (1, []) =
      (Inr (circuit_open_response (pc_name example_peer)), Some m1, [], (1, []))"
proof -
  obtain m1 where m1: "isAvailable 999999 (pc_name example_peer) (open_manager 1) = (True, m1)"
    by (simp add: isAvailable_def open_manager_def new_health_manager_def example_cb_def initial_state_def)
  have send: "doSendMessage lone_sdk example_peer ''u'' [] (0, []) = (Inl (EvError ''bad request''), (1, []))"
    by (simp add: doSendMessage_def lone_sdk_def demo_sdk_def parseAgentCardUrl_def doSendViaFactory_def Let_def)
  have st: "map_of (ph_states (open_manager 1)) (pc_name example_peer) =
      Some (initial_state\<lparr>circuit := Open, lastFailureAt := Some 1\<rparr>)"
    by (simp add: open_manager_def)
  have "\<not> fst (isAvailable 99999999 (pc_name example_peer) m1)"
    using m1 by (auto simp: isAvailable_def open_manager_def new_health_manager_def example_cb_def
        initial_state_def put_state_def add_log_def)
  then show ?thesis
    using escaped_probe_blocks_peer [OF st _ m1 send, of 999999 "\<lambda>_. 0"] 
      sendMessage_circuit_open [of 99999999 example_peer m1]
    by auto
qed

end
