(* ===== verification/Telemetry.thy ===== *)
theory Telemetry
  imports InternalRouting PeerHealth
begin

text \<open>
  \<open>src/telemetry.ts\<close>: the counters of \<open>GatewayTelemetry\<close>. The protocol collector it owns is
  \<^typ>\<open>a2a_metrics\<close>; the peer states come from the health manager. Every operation takes the clock;
  a structured log line is its level and its JSON text, appended to a list; the audit callback
  appends its arguments to a list when one is registered.
\<close>

datatype log_level = Info | Warn | ErrorLevel

datatype terminal_state = Completed | Failed | Canceled | Rejected

fun state_text :: "terminal_state \<Rightarrow> string" where
  "state_text Completed = ''completed''"
| "state_text Failed = ''failed''"
| "state_text Canceled = ''canceled''"
| "state_text Rejected = ''rejected''"

datatype http_route = RouteJsonrpc | RouteRest | RouteMetrics | RouteSharedContext

fun route_text :: "http_route \<Rightarrow> string" where
  "route_text RouteJsonrpc = ''jsonrpc''"
| "route_text RouteRest = ''rest''"
| "route_text RouteMetrics = ''metrics''"
| "route_text RouteSharedContext = ''shared_context''"

fun circuit_text :: "circuit_state \<Rightarrow> string" where
  "circuit_text Closed = ''closed''"
| "circuit_text Open = ''open''"
| "circuit_text HalfOpen = ''half-open''"

record http_metrics =
  requests_total :: nat
  jsonrpc_requests :: nat
  rest_requests :: nat
  metrics_requests :: nat
  shared_context_requests :: nat
  outbound_requests :: nat
  http_security_rejections :: nat
  last_request_at :: "string option"

record task_metrics =
  queued :: nat
  started :: nat
  completed :: nat
  failed :: nat
  canceled :: nat
  rejected :: nat
  timed_out :: nat
  queue_rejections :: nat
  active :: nat
  queue_depth :: nat
  max_active_observed :: nat
  max_queue_depth_observed :: nat
  total_duration_ms :: int
  finished :: nat
  expired :: nat
  last_started_at :: "string option"
  last_finished_at :: "string option"
  last_cleanup_at :: "string option"

record telemetry =
  tl_structuredLogs :: bool
  tl_protocol :: a2a_metrics
  tl_http :: http_metrics
  tl_tasks :: task_metrics
  tl_peerRetries :: "(string \<times> nat) list"
  tl_audit_on :: bool
  tl_log :: "(log_level \<times> string) list"
  tl_audit :: "(string \<times> string \<times> terminal_state \<times> int) list"

definition new_telemetry :: "bool option \<Rightarrow> telemetry" where
  "new_telemetry structuredLogs =
    \<lparr>tl_structuredLogs = (structuredLogs \<noteq> Some False), tl_protocol = emptyMetrics,
     tl_http = \<lparr>requests_total = 0, jsonrpc_requests = 0, rest_requests = 0, metrics_requests = 0,
        shared_context_requests = 0, outbound_requests = 0, http_security_rejections = 0, last_request_at = None\<rparr>,
     tl_tasks = \<lparr>queued = 0, started = 0, completed = 0, failed = 0, canceled = 0, rejected = 0,
        timed_out = 0, queue_rejections = 0, active = 0, queue_depth = 0, max_active_observed = 0,
        max_queue_depth_observed = 0, total_duration_ms = 0, finished = 0, expired = 0,
        last_started_at = None, last_finished_at = None, last_cleanup_at = None\<rparr>,
     tl_peerRetries = [], tl_audit_on = False, tl_log = [], tl_audit = []\<rparr>"

definition setTaskAuditCallback :: "telemetry \<Rightarrow> telemetry" where
  "setTaskAuditCallback t = t\<lparr>tl_audit_on := True\<rparr>"

definition num_js :: "int \<Rightarrow> js" where
  "num_js i = JNum (Fin (of_int i))"

definition log_event :: "int \<Rightarrow> log_level \<Rightarrow> string \<Rightarrow> (string \<times> js) list \<Rightarrow> telemetry \<Rightarrow> telemetry" where
  "log_event now level event details t =
    (if \<not> tl_structuredLogs t then t
     else t\<lparr>tl_log := tl_log t @ [(level, opt_default [] (json_stringify
        (JObj ([(''ts'', JStr (iso_date now)), (''component'', JStr ''claw-crony''), (''event'', JStr event)] @ details))))]\<rparr>)"

definition setQueueState :: "nat \<Rightarrow> nat \<Rightarrow> task_metrics \<Rightarrow> task_metrics" where
  "setQueueState activeCount depth m =
    m\<lparr>active := activeCount, queue_depth := depth,
      max_active_observed := max (max_active_observed m) activeCount,
      max_queue_depth_observed := max (max_queue_depth_observed m) depth\<rparr>"

definition isTimeoutError :: "string option \<Rightarrow> bool" where
  "isTimeoutError e = (case e of None \<Rightarrow> False | Some m \<Rightarrow> str_includes (to_lower m) ''timed out'')"

definition recordInboundHttp :: "int \<Rightarrow> http_route \<Rightarrow> int \<Rightarrow> int \<Rightarrow> telemetry \<Rightarrow> telemetry" where
  "recordInboundHttp now r statusCode durationMs t =
    (let h = (tl_http t)\<lparr>requests_total := requests_total (tl_http t) + 1, last_request_at := Some (iso_date now)\<rparr>;
         h' = (case r of
                 RouteJsonrpc \<Rightarrow> h\<lparr>jsonrpc_requests := jsonrpc_requests h + 1\<rparr>
               | RouteRest \<Rightarrow> h\<lparr>rest_requests := rest_requests h + 1\<rparr>
               | RouteMetrics \<Rightarrow> h\<lparr>metrics_requests := metrics_requests h + 1\<rparr>
               | RouteSharedContext \<Rightarrow> h\<lparr>shared_context_requests := shared_context_requests h + 1\<rparr>)
     in log_event now Info ''http.request''
          [(''route'', JStr (route_text r)), (''status_code'', num_js statusCode), (''duration_ms'', num_js durationMs)]
          (t\<lparr>tl_protocol := recordReceive now (tl_protocol t), tl_http := h'\<rparr>))"

definition recordOutboundRequest :: "int \<Rightarrow> string \<Rightarrow> bool \<Rightarrow> int \<Rightarrow> int \<Rightarrow> telemetry \<Rightarrow> telemetry" where
  "recordOutboundRequest now peer ok statusCode durationMs t =
    log_event now (if ok then Info else Warn) ''peer.request''
      [(''peer'', JStr peer), (''ok'', JBool ok), (''status_code'', num_js statusCode), (''duration_ms'', num_js durationMs)]
      (t\<lparr>tl_http := (tl_http t)\<lparr>outbound_requests := outbound_requests (tl_http t) + 1\<rparr>,
         tl_protocol := (if ok then recordSend now (tl_protocol t) else recordError (tl_protocol t))\<rparr>)"

definition recordPeerHealthCheck :: "int \<Rightarrow> string \<Rightarrow> bool \<Rightarrow> telemetry \<Rightarrow> telemetry" where
  "recordPeerHealthCheck now peerName healthy t =
    log_event now (if healthy then Info else Warn) ''peer.health'' [(''peer'', JStr peerName), (''healthy'', JBool healthy)] t"

definition recordPeerCircuitChange :: "int \<Rightarrow> string \<Rightarrow> circuit_state \<Rightarrow> telemetry \<Rightarrow> telemetry" where
  "recordPeerCircuitChange now peerName newState t =
    log_event now (if newState = Closed then Info else Warn) ''peer.circuit''
      [(''peer'', JStr peerName), (''state'', JStr (circuit_text newState))] t"

definition peer_retry_count :: "string \<Rightarrow> telemetry \<Rightarrow> nat" where
  "peer_retry_count peerName t = opt_default 0 (map_of (tl_peerRetries t) peerName)"

definition recordPeerRetry :: "int \<Rightarrow> string \<Rightarrow> int \<Rightarrow> telemetry \<Rightarrow> telemetry" where
  "recordPeerRetry now peerName attempt t =
    (let n = peer_retry_count peerName t + 1
     in log_event now Warn ''peer.retry''
          [(''peer'', JStr peerName), (''attempt'', num_js attempt), (''total_retries'', num_js (int n))]
          (t\<lparr>tl_peerRetries := AList.update peerName n (tl_peerRetries t)\<rparr>))"

definition getPeerRetries :: "telemetry \<Rightarrow> (string \<times> nat) list" where
  "getPeerRetries t = tl_peerRetries t"

definition recordSecurityRejection :: "int \<Rightarrow> string \<Rightarrow> string \<Rightarrow> telemetry \<Rightarrow> telemetry" where
  "recordSecurityRejection now surface reason t =
    log_event now Warn ''security.rejection'' [(''surface'', JStr surface), (''reason'', JStr reason)]
      (t\<lparr>tl_protocol := recordSecurityRejection_m (tl_protocol t),
         tl_http := (tl_http t)\<lparr>http_security_rejections := http_security_rejections (tl_http t) + 1\<rparr>\<rparr>)"

definition recordTaskQueued :: "int \<Rightarrow> string \<Rightarrow> string \<Rightarrow> nat \<Rightarrow> nat \<Rightarrow> telemetry \<Rightarrow> telemetry" where
  "recordTaskQueued now taskId contextId position depth t =
    log_event now Info ''task.queued''
      [(''task_id'', JStr taskId), (''context_id'', JStr contextId), (''queue_position'', num_js (int position)),
       (''queue_depth'', num_js (int depth))]
      (t\<lparr>tl_tasks := setQueueState (active (tl_tasks t)) depth
                        ((tl_tasks t)\<lparr>queued := queued (tl_tasks t) + 1\<rparr>)\<rparr>)"

definition recordTaskStart :: "int \<Rightarrow> string \<Rightarrow> string \<Rightarrow> string \<Rightarrow> nat \<Rightarrow> nat \<Rightarrow> telemetry \<Rightarrow> telemetry" where
  "recordTaskStart now taskId contextId agentId activeCount depth t =
    log_event now Info ''task.started''
      [(''task_id'', JStr taskId), (''context_id'', JStr contextId), (''agent_id'', JStr agentId),
       (''active_tasks'', num_js (int activeCount)), (''queue_depth'', num_js (int depth))]
      (t\<lparr>tl_tasks := setQueueState activeCount depth
          ((tl_tasks t)\<lparr>started := started (tl_tasks t) + 1, last_started_at := Some (iso_date now)\<rparr>)\<rparr>)"

definition count_state :: "terminal_state \<Rightarrow> string option \<Rightarrow> task_metrics \<Rightarrow> task_metrics" where
  "count_state state errorMessage m = (case state of
     Completed \<Rightarrow> m\<lparr>completed := completed m + 1\<rparr>
   | Failed \<Rightarrow> m\<lparr>failed := failed m + 1, timed_out := (if isTimeoutError errorMessage then timed_out m + 1 else timed_out m)\<rparr>
   | Canceled \<Rightarrow> m\<lparr>canceled := canceled m + 1\<rparr>
   | Rejected \<Rightarrow> m\<lparr>rejected := rejected m + 1\<rparr>)"

definition recordTaskFinish :: "int \<Rightarrow> string \<Rightarrow> string \<Rightarrow> terminal_state \<Rightarrow> int \<Rightarrow> nat \<Rightarrow> nat \<Rightarrow> string option \<Rightarrow>
    telemetry \<Rightarrow> telemetry" where
  "recordTaskFinish now taskId contextId state durationMs activeCount depth errorMessage t =
    (let m = (tl_tasks t)\<lparr>finished := finished (tl_tasks t) + 1,
               total_duration_ms := total_duration_ms (tl_tasks t) + durationMs,
               last_finished_at := Some (iso_date now)\<rparr>;
         m' = count_state state errorMessage (setQueueState activeCount depth m);
         t1 = t\<lparr>tl_tasks := m',
                tl_protocol := (if state = Failed then recordError (tl_protocol t) else tl_protocol t)\<rparr>;
         t2 = log_event now (if state = Completed then Info else Warn) ''task.finished''
                [(''task_id'', JStr taskId), (''context_id'', JStr contextId), (''state'', JStr (state_text state)),
                 (''duration_ms'', num_js durationMs), (''active_tasks'', num_js (int activeCount)),
                 (''queue_depth'', num_js (int depth)),
                 (''error'', case errorMessage of None \<Rightarrow> JUndef | Some e \<Rightarrow> JStr e)] t1
     in if tl_audit_on t2 then t2\<lparr>tl_audit := tl_audit t2 @ [(taskId, contextId, state, durationMs)]\<rparr> else t2)"

definition recordQueueRejected :: "int \<Rightarrow> string \<Rightarrow> string \<Rightarrow> nat \<Rightarrow> telemetry \<Rightarrow> telemetry" where
  "recordQueueRejected now taskId contextId depth t =
    log_event now Warn ''task.queue_rejected''
      [(''task_id'', JStr taskId), (''context_id'', JStr contextId), (''queue_depth'', num_js (int depth))]
      (t\<lparr>tl_tasks := setQueueState (active (tl_tasks t)) depth
          ((tl_tasks t)\<lparr>queue_rejections := queue_rejections (tl_tasks t) + 1, rejected := rejected (tl_tasks t) + 1\<rparr>)\<rparr>)"

definition recordTaskExpired :: "int \<Rightarrow> string \<Rightarrow> string \<Rightarrow> telemetry \<Rightarrow> telemetry" where
  "recordTaskExpired now taskId state t =
    log_event now Info ''task.expired'' [(''task_id'', JStr taskId), (''state'', JStr state)]
      (t\<lparr>tl_tasks := (tl_tasks t)\<lparr>expired := expired (tl_tasks t) + 1, last_cleanup_at := Some (iso_date now)\<rparr>\<rparr>)"

section \<open>The snapshot\<close>

text \<open>\<open>Number(x.toFixed(2))\<close> for a non-negative \<open>x\<close> rounds half up.\<close>

definition to_fixed2 :: "rat \<Rightarrow> rat" where
  "to_fixed2 x = of_int \<lfloor>x * 100 + 1 / 2\<rfloor> / 100"

definition average_duration :: "task_metrics \<Rightarrow> rat" where
  "average_duration m = (if 0 < finished m then to_fixed2 (of_int (total_duration_ms m) / of_nat (finished m)) else 0)"

record peer_metrics =
  pm_health :: health_status
  pm_circuit :: circuit_state
  pm_consecutive_failures :: nat
  pm_total_retries :: nat
  pm_last_check_at :: "string option"

definition peer_metrics_of :: "telemetry \<Rightarrow> string \<times> peer_state \<Rightarrow> string \<times> peer_metrics" where
  "peer_metrics_of t = (\<lambda>(name, st). (name,
     \<lparr>pm_health = health st, pm_circuit = circuit st, pm_consecutive_failures = consecutiveFailures st,
      pm_total_retries = peer_retry_count name t,
      pm_last_check_at = (case lastCheckAt st of None \<Rightarrow> None | Some c \<Rightarrow> if c = 0 then None else Some (iso_date c))\<rparr>))"

record telemetry_snapshot =
  sn_protocol :: a2a_metrics
  sn_http :: http_metrics
  sn_tasks :: task_metrics
  sn_average :: rat
  sn_peers :: "(string \<times> peer_metrics) list"

definition telemetry_snap :: "(string \<times> peer_state) list option \<Rightarrow> telemetry \<Rightarrow> telemetry_snapshot" where
  "telemetry_snap provider t =
    \<lparr>sn_protocol = tl_protocol t, sn_http = tl_http t, sn_tasks = tl_tasks t,
     sn_average = average_duration (tl_tasks t),
     sn_peers = (case provider of None \<Rightarrow> [] | Some sts \<Rightarrow> map (peer_metrics_of t) sts)\<rparr>"

section \<open>The counters agree\<close>

datatype telemetry_event =
    TelInbound int http_route int int
  | TelOutbound int string bool int int
  | TelHealth int string bool
  | TelCircuit int string circuit_state
  | TelRetry int string int
  | TelSecurity int string string
  | TelQueued int string string nat nat
  | TelStart int string string string nat nat
  | TelFinish int string string terminal_state int nat nat "string option"
  | TelQueueRejected int string string nat
  | TelExpired int string string

fun telemetry_step :: "telemetry_event \<Rightarrow> telemetry \<Rightarrow> telemetry" where
  "telemetry_step (TelInbound now r sc d) t = recordInboundHttp now r sc d t"
| "telemetry_step (TelOutbound now p ok sc d) t = recordOutboundRequest now p ok sc d t"
| "telemetry_step (TelHealth now p h) t = recordPeerHealthCheck now p h t"
| "telemetry_step (TelCircuit now p c) t = recordPeerCircuitChange now p c t"
| "telemetry_step (TelRetry now p a) t = recordPeerRetry now p a t"
| "telemetry_step (TelSecurity now sf r) t = recordSecurityRejection now sf r t"
| "telemetry_step (TelQueued now tid cid pos d) t = recordTaskQueued now tid cid pos d t"
| "telemetry_step (TelStart now tid cid a n d) t = recordTaskStart now tid cid a n d t"
| "telemetry_step (TelFinish now tid cid st dur n d e) t = recordTaskFinish now tid cid st dur n d e t"
| "telemetry_step (TelQueueRejected now tid cid d) t = recordQueueRejected now tid cid d t"
| "telemetry_step (TelExpired now tid st) t = recordTaskExpired now tid st t"

definition tasks_agree :: "task_metrics \<Rightarrow> bool" where
  "tasks_agree m \<longleftrightarrow>
     finished m + queue_rejections m = completed m + failed m + canceled m + rejected m \<and>
     timed_out m \<le> failed m \<and> active m \<le> max_active_observed m \<and>
     queue_depth m \<le> max_queue_depth_observed m"

definition http_agree :: "http_metrics \<Rightarrow> bool" where
  "http_agree h \<longleftrightarrow>
     requests_total h = jsonrpc_requests h + rest_requests h + metrics_requests h + shared_context_requests h"

definition telemetry_inv :: "telemetry \<Rightarrow> bool" where
  "telemetry_inv t \<longleftrightarrow> tasks_agree (tl_tasks t) \<and> http_agree (tl_http t) \<and>
     messages_received (tl_protocol t) = requests_total (tl_http t) \<and>
     security_rejections (tl_protocol t) = http_security_rejections (tl_http t) \<and>
     messages_sent (tl_protocol t) + errors (tl_protocol t) = outbound_requests (tl_http t) + failed (tl_tasks t)"

lemma log_event_fields [simp]:
  "tl_protocol (log_event now l e d t) = tl_protocol t" "tl_http (log_event now l e d t) = tl_http t"
  "tl_tasks (log_event now l e d t) = tl_tasks t" "tl_peerRetries (log_event now l e d t) = tl_peerRetries t"
  "tl_audit (log_event now l e d t) = tl_audit t" "tl_audit_on (log_event now l e d t) = tl_audit_on t"
  by (simp_all add: log_event_def)

lemmas telemetry_ops [model_defs] = recordInboundHttp_def recordOutboundRequest_def recordPeerHealthCheck_def
  recordPeerCircuitChange_def recordPeerRetry_def recordSecurityRejection_def recordTaskQueued_def
  recordTaskStart_def recordTaskFinish_def recordQueueRejected_def recordTaskExpired_def

lemmas protocol_ops [model_defs] = recordSend_def recordReceive_def recordError_def recordSecurityRejection_m_def

lemma telemetry_step_inv: "telemetry_inv t \<Longrightarrow> telemetry_inv (telemetry_step e t)"
proof (cases e)
  case (TelFinish now tid cid st dur n d err)
  assume "telemetry_inv t"
  with TelFinish show ?thesis
    by (cases st) (auto simp: telemetry_inv_def tasks_agree_def recordTaskFinish_def Let_def count_state_def
        setQueueState_def recordError_def)
next
  case (TelInbound now r sc d)
  assume "telemetry_inv t"
  with TelInbound show ?thesis
    by (cases r) (auto simp: telemetry_inv_def http_agree_def recordInboundHttp_def Let_def recordReceive_def)
qed (auto simp: telemetry_inv_def tasks_agree_def http_agree_def telemetry_ops protocol_ops setQueueState_def Let_def)

text \<open>The counters agree in every reachable state of the telemetry, whatever the order of
  events: every finished or refused task is counted in exactly one outcome, requests add up over
  the routes, the protocol counters match the HTTP and task counters, and the high-water marks
  bound the current values.\<close>

theorem telemetry_counters_agree: "telemetry_inv (fold telemetry_step es (new_telemetry structuredLogs))"
proof -
  have "telemetry_inv t \<Longrightarrow> telemetry_inv (fold telemetry_step es t)" for t
    by (induction es arbitrary: t) (simp_all add: telemetry_step_inv)
  moreover have "telemetry_inv (new_telemetry structuredLogs)"
    by (simp add: telemetry_inv_def tasks_agree_def http_agree_def new_telemetry_def emptyMetrics_def)
  ultimately show ?thesis by blast
qed

lemma retry_counts: 
  "peer_retry_count p (telemetry_step e t) =
     (case e of TelRetry _ q _ \<Rightarrow> if q = p then peer_retry_count p t + 1 else peer_retry_count p t
      | _ \<Rightarrow> peer_retry_count p t)"
  by (cases e) (auto simp: telemetry_ops peer_retry_count_def Let_def amap.get_put opt_default_def)

lemma average_duration_close:
  assumes "0 < finished m"
  shows "\<bar>average_duration m - of_int (total_duration_ms m) / of_nat (finished m)\<bar> \<le> 1 / 200"
proof -
  define x where "x = of_int (total_duration_ms m) / (of_nat (finished m) :: rat)"
  have "average_duration m = of_int \<lfloor>x * 100 + 1 / 2\<rfloor> / 100"
    using assms by (simp add: average_duration_def to_fixed2_def x_def)
  moreover have "of_int \<lfloor>x * 100 + 1 / 2\<rfloor> \<le> x * 100 + 1 / 2" "x * 100 + 1 / 2 < of_int \<lfloor>x * 100 + 1 / 2\<rfloor> + 1"
    by linarith+
  ultimately show ?thesis unfolding x_def [symmetric] by linarith
qed

end
