(* ===== verification/Queueing.thy ===== *)
theory Queueing
  imports Telemetry "HOL-Library.Multiset"
begin

text \<open>
  \<open>src/queueing-executor.ts\<close>: bounded concurrency in front of the agent executor. JavaScript
  runs each method to its next \<open>await\<close> without interruption, so the executor is a transition
  system whose events are the calls of \<open>execute\<close> and \<open>cancelTask\<close>, what the delegate does to the
  bus it was given (it publishes on it and finishes it), and the settling of the delegate's promise. A call of
  \<open>execute\<close> gets a fresh number, which stands for the promise it returned. Event buses are the caller's: they
  go by numbers of their own, and calls may share one. A suspended \<open>runEntry\<close> is a frame with its local variables.
\<close>

record queue_entry =
  qe_uid :: nat
  qe_bus :: nat
  qe_taskId :: string
  qe_contextId :: string
  qe_agentId :: js

record run_frame =
  rf_entry :: queue_entry
  rf_startedAt :: int
  rf_finalState :: "terminal_state option"
  rf_error :: "string option"

text \<open>What is done to a bus. A call of \<open>finished\<close> is marked with the entry for which the executor makes it; the delegate's own calls
  carry no mark.\<close>

datatype bus_act = Publish js | BusFinished "queue_entry option"

record executor_state =
  qx_maxConcurrent :: nat
  qx_maxQueued :: nat
  qx_queue :: "queue_entry list"
  qx_pending :: "(string \<times> queue_entry) list"
  qx_active :: nat
  qx_running :: "run_frame list"
  qx_telemetry :: telemetry
  qx_bus :: "(nat \<times> bus_act) list"
  qx_settled :: "(nat \<times> string option) list"
  qx_cancels :: "(string \<times> nat) list"
  qx_next :: nat

definition new_executor :: "int \<Rightarrow> int \<Rightarrow> telemetry \<Rightarrow> executor_state" where
  "new_executor maxConcurrentTasks maxQueuedTasks t =
    \<lparr>qx_maxConcurrent = nat (max 1 maxConcurrentTasks), qx_maxQueued = nat (max 0 maxQueuedTasks),
     qx_queue = [], qx_pending = [], qx_active = 0, qx_running = [], qx_telemetry = t, qx_bus = [],
     qx_settled = [], qx_cancels = [], qx_next = 0\<rparr>"

section \<open>Events\<close>

definition statusMessage :: "string \<Rightarrow> string \<Rightarrow> string \<Rightarrow> js" where
  "statusMessage uuid contextId txt =
    JObj [(''kind'', JStr ''message''), (''messageId'', JStr uuid), (''role'', JStr ''agent''),
      (''contextId'', JStr contextId), (''parts'', JArr [JObj [(''kind'', JStr ''text''), (''text'', JStr txt)]])]"

definition taskEvent :: "int \<Rightarrow> string \<Rightarrow> string \<Rightarrow> string \<Rightarrow> string \<Rightarrow> string option \<Rightarrow> js" where
  "taskEvent now uuid taskId contextId state txt =
    JObj [(''kind'', JStr ''task''), (''id'', JStr taskId), (''contextId'', JStr contextId),
      (''status'', JObj [(''state'', JStr state),
         (''message'', case txt of None \<Rightarrow> JUndef | Some t \<Rightarrow> if t = [] then JUndef else statusMessage uuid contextId t),
         (''timestamp'', JStr (iso_date now))])]"

definition publish :: "nat \<Rightarrow> js \<Rightarrow> executor_state \<Rightarrow> executor_state" where
  "publish bus ev x = x\<lparr>qx_bus := qx_bus x @ [(bus, Publish ev)]\<rparr>"

definition finish_entry :: "queue_entry \<Rightarrow> executor_state \<Rightarrow> executor_state" where
  "finish_entry e x = x\<lparr>qx_bus := qx_bus x @ [(qe_bus e, BusFinished (Some e))]\<rparr>"

definition finish_bus :: "nat \<Rightarrow> executor_state \<Rightarrow> executor_state" where
  "finish_bus bus x = x\<lparr>qx_bus := qx_bus x @ [(bus, BusFinished None)]\<rparr>"

definition settle :: "nat \<Rightarrow> string option \<Rightarrow> executor_state \<Rightarrow> executor_state" where
  "settle uid r x = x\<lparr>qx_settled := qx_settled x @ [(uid, r)]\<rparr>"

definition telemetered :: "(telemetry \<Rightarrow> telemetry) \<Rightarrow> executor_state \<Rightarrow> executor_state" where
  "telemetered f x = x\<lparr>qx_telemetry := f (qx_telemetry x)\<rparr>"

text \<open>The observer of the wrapped bus: what a published event does to the frame's variables.\<close>

definition terminal_of :: "js \<Rightarrow> terminal_state option" where
  "terminal_of v = (if v = JStr ''completed'' then Some Completed
     else if v = JStr ''failed'' then Some Failed
     else if v = JStr ''canceled'' then Some Canceled
     else if v = JStr ''rejected'' then Some Rejected else None)"

definition first_part :: "js \<Rightarrow> js" where
  "first_part v = (case get_prop v ''parts'' of JArr (p # _) \<Rightarrow> p | _ \<Rightarrow> JUndef)"

definition observe :: "js \<Rightarrow> run_frame \<Rightarrow> run_frame" where
  "observe ev f =
    (let status = (if get_prop ev ''kind'' = JStr ''task'' \<or> get_prop ev ''kind'' = JStr ''status-update''
                   then get_prop ev ''status'' else JUndef)
     in if \<not> truthy status then f
        else case terminal_of (get_prop status ''state'') of
          None \<Rightarrow> f
        | Some st \<Rightarrow>
            let part = first_part (get_prop status ''message'')
            in f\<lparr>rf_finalState := Some st,
                 rf_error := (if st \<noteq> Completed \<and> get_prop part ''kind'' = JStr ''text''
                              then (case get_prop part ''text'' of JStr s \<Rightarrow> Some s | _ \<Rightarrow> None)
                              else rf_error f)\<rparr>)"

section \<open>Operations\<close>

fun remove_first :: "('a \<Rightarrow> bool) \<Rightarrow> 'a list \<Rightarrow> 'a list" where
  "remove_first P [] = []"
| "remove_first P (y # ys) = (if P y then ys else y # remove_first P ys)"

definition pickAgentId :: "queue_entry \<Rightarrow> string" where
  "pickAgentId e = (case qe_agentId e of JStr s \<Rightarrow> s | _ \<Rightarrow> ''default'')"

definition queueDelete :: "string \<Rightarrow> executor_state \<Rightarrow> executor_state" where
  "queueDelete taskId x = x\<lparr>qx_queue := remove_first (\<lambda>e. qe_taskId e = taskId) (qx_queue x)\<rparr>"

definition runEntry :: "int \<Rightarrow> queue_entry \<Rightarrow> executor_state \<Rightarrow> executor_state" where
  "runEntry now e x =
    (let x1 = queueDelete (qe_taskId e) x;
         x2 = x1\<lparr>qx_active := qx_active x1 + 1\<rparr>;
         x3 = telemetered (recordTaskStart now (qe_taskId e) (qe_contextId e) (pickAgentId e)
                (qx_active x2) (length (qx_queue x2))) x2
     in x3\<lparr>qx_running := qx_running x3 @ [\<lparr>rf_entry = e, rf_startedAt = now, rf_finalState = None, rf_error = None\<rparr>]\<rparr>)"

lemma length_remove_first: "length (remove_first P xs) \<le> length xs"
  by (induction xs) auto

lemma queue_runEntry: "qx_queue (runEntry now e x) = remove_first (\<lambda>d. qe_taskId d = qe_taskId e) (qx_queue x)"
  by (simp add: runEntry_def queueDelete_def telemetered_def Let_def)

function drainQueue :: "int \<Rightarrow> executor_state \<Rightarrow> executor_state" where
  "drainQueue now x =
    (if qx_active x < qx_maxConcurrent x \<and> qx_queue x \<noteq> []
     then drainQueue now (runEntry now (hd (qx_queue x)) (x\<lparr>qx_queue := tl (qx_queue x)\<rparr>))
     else x)"
  by pat_completeness auto
termination
proof (relation "measure (\<lambda>(now, x). length (qx_queue x))")
  fix now :: int and x :: executor_state
  assume "qx_active x < qx_maxConcurrent x \<and> qx_queue x \<noteq> []"
  then show "((now, runEntry now (hd (qx_queue x)) (x\<lparr>qx_queue := tl (qx_queue x)\<rparr>)), now, x)
      \<in> measure (\<lambda>(now, x). length (qx_queue x))"
    by (cases "qx_queue x") (auto simp: queue_runEntry less_Suc_eq_le length_remove_first)
qed simp

declare drainQueue.simps [simp del]

definition execute_q :: "int \<Rightarrow> string \<Rightarrow> nat \<Rightarrow> string \<Rightarrow> string \<Rightarrow> js \<Rightarrow> executor_state \<Rightarrow> executor_state" where
  "execute_q now uuid bus taskId contextId agentId x0 =
    (let e = \<lparr>qe_uid = qx_next x0, qe_bus = bus, qe_taskId = taskId, qe_contextId = contextId, qe_agentId = agentId\<rparr>;
         x = x0\<lparr>qx_next := qx_next x0 + 1, qx_pending := AList.update taskId e (qx_pending x0)\<rparr>
     in if qx_active x < qx_maxConcurrent x then runEntry now e x
        else if qx_maxQueued x \<le> length (qx_queue x) then
          settle (qe_uid e) None (finish_entry e
            (publish bus (taskEvent now uuid taskId contextId ''rejected''
                (Some ''Gateway is overloaded; queue limit reached''))
              (telemetered (recordQueueRejected now taskId contextId (length (qx_queue x)))
                (x\<lparr>qx_pending := AList.delete taskId (qx_pending x)\<rparr>))))
        else let x1 = x\<lparr>qx_queue := qx_queue x @ [e]\<rparr>; n = length (qx_queue x1) in
          publish bus (taskEvent now uuid taskId contextId ''submitted''
              (Some (''Queued for execution (position '' @ show_nat n @ '')'')))
            (telemetered (recordTaskQueued now taskId contextId n n) x1))"

text \<open>A task that does not wait is left to the delegate, with the bus the caller gave.\<close>

definition cancelTask_q :: "int \<Rightarrow> string \<Rightarrow> string \<Rightarrow> nat \<Rightarrow> executor_state \<Rightarrow> executor_state" where
  "cancelTask_q now uuid taskId bus x =
    (case find (\<lambda>e. qe_taskId e = taskId) (qx_queue x) of
       Some e \<Rightarrow>
         let x1 = x\<lparr>qx_queue := remove_first (\<lambda>d. qe_taskId d = taskId) (qx_queue x),
                    qx_pending := AList.delete taskId (qx_pending x)\<rparr>;
             x2 = settle (qe_uid e) None (finish_entry e
                    (publish (qe_bus e) (taskEvent now uuid taskId (qe_contextId e) ''canceled''
                       (Some ''Task canceled while queued'')) x1))
         in telemetered (recordTaskFinish now taskId (qe_contextId e) Canceled 0 (qx_active x2)
              (length (qx_queue x2)) None) x2
     | None \<Rightarrow> x\<lparr>qx_cancels := qx_cancels x @ [(taskId, bus)]\<rparr>)"

text \<open>The delegate acts on the wrapped bus of a running entry: what it publishes is observed and passed on, \<open>finished\<close> is passed on.
  In \<open>cancelTask\<close> it acts on the bus it was handed, unobserved.\<close>

definition delegate_publish :: "run_frame \<Rightarrow> js \<Rightarrow> executor_state \<Rightarrow> executor_state" where
  "delegate_publish f ev x = publish (qe_bus (rf_entry f)) ev
    (x\<lparr>qx_running := map (\<lambda>g. if qe_uid (rf_entry g) = qe_uid (rf_entry f) then observe ev g else g) (qx_running x)\<rparr>)"

definition delegate_finished :: "run_frame \<Rightarrow> executor_state \<Rightarrow> executor_state" where
  "delegate_finished f x = finish_bus (qe_bus (rf_entry f)) x"

text \<open>The delegate's promise settles: the rest of \<open>runEntry\<close>, its \<open>catch\<close> and \<open>finally\<close> blocks.\<close>

definition delegate_settled :: "int \<Rightarrow> run_frame \<Rightarrow> string option \<Rightarrow> executor_state \<Rightarrow> executor_state" where
  "delegate_settled now f outcome x =
    (let e = rf_entry f;
         finalState = (case outcome of None \<Rightarrow> rf_finalState f
                       | Some _ \<Rightarrow> Some (opt_default Failed (rf_finalState f)));
         finalError = (case outcome of None \<Rightarrow> rf_error f
                       | Some m \<Rightarrow> (case rf_error f of Some err \<Rightarrow> if err = [] then Some m else Some err | None \<Rightarrow> Some m));
         x1 = settle (qe_uid e) outcome x;
         x2 = x1\<lparr>qx_running := remove1 f (qx_running x1),
                 qx_pending := AList.delete (qe_taskId e) (qx_pending x1), qx_active := qx_active x1 - 1\<rparr>;
         x3 = telemetered (recordTaskFinish now (qe_taskId e) (qe_contextId e) (opt_default Failed finalState)
                (now - rf_startedAt f) (qx_active x2) (length (qx_queue x2)) finalError) x2
     in drainQueue now (finish_entry e x3))"

inductive executor_step :: "executor_state \<Rightarrow> executor_state \<Rightarrow> bool" where
  StepExecute: "executor_step x (execute_q now uuid bus taskId contextId agentId x)"
| StepCancel: "executor_step x (cancelTask_q now uuid taskId bus x)"
| StepPublish: "f \<in> set (qx_running x) \<Longrightarrow> executor_step x (delegate_publish f ev x)"
| StepFinish: "f \<in> set (qx_running x) \<Longrightarrow> executor_step x (delegate_finished f x)"
| StepCancelPublish: "(taskId, bus) \<in> set (qx_cancels x) \<Longrightarrow> executor_step x (publish bus ev x)"
| StepCancelFinish: "(taskId, bus) \<in> set (qx_cancels x) \<Longrightarrow> executor_step x (finish_bus bus x)"
| StepSettle: "f \<in> set (qx_running x) \<Longrightarrow> executor_step x (delegate_settled now f outcome x)"

inductive executor_reachable :: "int \<Rightarrow> int \<Rightarrow> executor_state \<Rightarrow> bool" for maxC maxQ where
  ReachInit: "executor_reachable maxC maxQ (new_executor maxC maxQ t)"
| ReachStep: "executor_reachable maxC maxQ x \<Longrightarrow> executor_step x y \<Longrightarrow> executor_reachable maxC maxQ y"

inductive_cases executor_stepE: "executor_step x y"

section \<open>The invariant\<close>

definition running_uids :: "executor_state \<Rightarrow> nat list" where
  "running_uids x = map (\<lambda>f. qe_uid (rf_entry f)) (qx_running x)"

definition uids :: "executor_state \<Rightarrow> nat list" where
  "uids x = running_uids x @ map qe_uid (qx_queue x) @ map fst (qx_settled x)"

text \<open>The calls of \<open>finished\<close> the executor makes itself: on which bus, for which entry.\<close>

fun own_finishes :: "(nat \<times> bus_act) list \<Rightarrow> (nat \<times> queue_entry) list" where
  "own_finishes [] = []"
| "own_finishes ((b, BusFinished (Some e)) # acts) = (b, e) # own_finishes acts"
| "own_finishes (_ # acts) = own_finishes acts"

lemma own_finishes_append [simp]: "own_finishes (xs @ ys) = own_finishes xs @ own_finishes ys"
  by (induction xs rule: own_finishes.induct) auto

definition finished_uids :: "executor_state \<Rightarrow> nat list" where
  "finished_uids x = map (\<lambda>(b, e). qe_uid e) (own_finishes (qx_bus x))"

definition right_buses :: "executor_state \<Rightarrow> bool" where
  "right_buses x \<longleftrightarrow> list_all (\<lambda>(b, e). b = qe_bus e) (own_finishes (qx_bus x))"

text \<open>What holds between events, and the part of it that holds before a drain.\<close>

definition slots_inv :: "executor_state \<Rightarrow> bool" where
  "slots_inv x \<longleftrightarrow> 1 \<le> qx_maxConcurrent x \<and> qx_active x = length (qx_running x) \<and>
     qx_active x \<le> qx_maxConcurrent x \<and> length (qx_queue x) \<le> qx_maxQueued x \<and>
     distinct (uids x) \<and> (\<forall>u \<in> set (uids x). u < qx_next x) \<and>
     finished_uids x = map fst (qx_settled x) \<and> right_buses x"

definition executor_inv :: "executor_state \<Rightarrow> bool" where
  "executor_inv x \<longleftrightarrow> slots_inv x \<and> (qx_queue x \<noteq> [] \<longrightarrow> qx_active x = qx_maxConcurrent x)"

lemma mset_remove_first: "mset (map g (remove_first P xs)) \<subseteq># mset (map g xs)"
  by (induction xs) (auto intro: subset_mset.order_trans)

lemma distinct_submset: "mset ys \<subseteq># mset xs \<Longrightarrow> distinct xs \<Longrightarrow> distinct ys"
  by (metis distinct_append ex_mset mset_append mset_eq_imp_distinct_iff subset_mset.le_iff_add)

lemma set_submset: "mset ys \<subseteq># mset xs \<Longrightarrow> set ys \<subseteq> set xs"
  using set_mset_mono by fastforce

lemma executor_fields [simp]:
  "qx_queue (publish u ev x) = qx_queue x" "qx_running (publish u ev x) = qx_running x"
  "qx_active (publish u ev x) = qx_active x" "qx_settled (publish u ev x) = qx_settled x"
  "qx_maxConcurrent (publish u ev x) = qx_maxConcurrent x" "qx_maxQueued (publish u ev x) = qx_maxQueued x"
  "qx_next (publish u ev x) = qx_next x" "finished_uids (publish u ev x) = finished_uids x"
  "right_buses (publish u ev x) = right_buses x"
  "qx_queue (finish_entry e x) = qx_queue x" "qx_running (finish_entry e x) = qx_running x"
  "qx_active (finish_entry e x) = qx_active x" "qx_settled (finish_entry e x) = qx_settled x"
  "qx_maxConcurrent (finish_entry e x) = qx_maxConcurrent x" "qx_maxQueued (finish_entry e x) = qx_maxQueued x"
  "qx_next (finish_entry e x) = qx_next x" "finished_uids (finish_entry e x) = finished_uids x @ [qe_uid e]"
  "right_buses (finish_entry e x) = right_buses x"
  "qx_queue (finish_bus u x) = qx_queue x" "qx_running (finish_bus u x) = qx_running x"
  "qx_active (finish_bus u x) = qx_active x" "qx_settled (finish_bus u x) = qx_settled x"
  "qx_maxConcurrent (finish_bus u x) = qx_maxConcurrent x" "qx_maxQueued (finish_bus u x) = qx_maxQueued x"
  "qx_next (finish_bus u x) = qx_next x" "finished_uids (finish_bus u x) = finished_uids x"
  "right_buses (finish_bus u x) = right_buses x"
  "qx_queue (settle u r x) = qx_queue x" "qx_running (settle u r x) = qx_running x"
  "qx_active (settle u r x) = qx_active x" "qx_settled (settle u r x) = qx_settled x @ [(u, r)]"
  "qx_maxConcurrent (settle u r x) = qx_maxConcurrent x" "qx_maxQueued (settle u r x) = qx_maxQueued x"
  "qx_next (settle u r x) = qx_next x" "finished_uids (settle u r x) = finished_uids x" "right_buses (settle u r x) = right_buses x"
  "qx_queue (telemetered g x) = qx_queue x" "qx_running (telemetered g x) = qx_running x"
  "qx_active (telemetered g x) = qx_active x" "qx_settled (telemetered g x) = qx_settled x"
  "qx_maxConcurrent (telemetered g x) = qx_maxConcurrent x" "qx_maxQueued (telemetered g x) = qx_maxQueued x"
  "qx_next (telemetered g x) = qx_next x" "finished_uids (telemetered g x) = finished_uids x"
  "right_buses (telemetered g x) = right_buses x"
  by (simp_all add: publish_def finish_entry_def finish_bus_def settle_def telemetered_def finished_uids_def right_buses_def)

lemmas bus_facts = finished_uids_def right_buses_def

lemma runEntry_fields [simp]:
  "qx_queue (runEntry now e x) = remove_first (\<lambda>d. qe_taskId d = qe_taskId e) (qx_queue x)"
  "qx_running (runEntry now e x) = qx_running x @ [\<lparr>rf_entry = e, rf_startedAt = now, rf_finalState = None, rf_error = None\<rparr>]"
  "qx_active (runEntry now e x) = qx_active x + 1" "qx_settled (runEntry now e x) = qx_settled x"
  "qx_maxConcurrent (runEntry now e x) = qx_maxConcurrent x" "qx_maxQueued (runEntry now e x) = qx_maxQueued x"
  "qx_next (runEntry now e x) = qx_next x" "finished_uids (runEntry now e x) = finished_uids x"
  "right_buses (runEntry now e x) = right_buses x"
  by (simp_all add: runEntry_def queueDelete_def telemetered_def Let_def finished_uids_def right_buses_def)

lemma run_head_inv:
  assumes "slots_inv x" "qx_queue x = e # q" "qx_active x < qx_maxConcurrent x"
  shows "slots_inv (runEntry now e (x\<lparr>qx_queue := q\<rparr>))"
proof -
  let ?y = "runEntry now e (x\<lparr>qx_queue := q\<rparr>)"
  have sub: "mset (uids ?y) \<subseteq># mset (uids x)"
    using mset_remove_first [of qe_uid "\<lambda>d. qe_taskId d = qe_taskId e" q] assms(2)
    by (simp add: uids_def running_uids_def subset_mset.add_mono)
  have "distinct (uids ?y)" using sub assms(1) by (auto simp: slots_inv_def intro: distinct_submset)
  moreover have "\<forall>u \<in> set (uids ?y). u < qx_next ?y"
    using set_submset [OF sub] assms(1) by (auto simp: slots_inv_def)
  moreover have "length (qx_queue ?y) \<le> qx_maxQueued ?y"
    using length_remove_first [of "\<lambda>d. qe_taskId d = qe_taskId e" q] assms(1,2) by (auto simp: slots_inv_def)
  ultimately show ?thesis
    using assms by (auto simp: slots_inv_def bus_facts runEntry_def queueDelete_def telemetered_def Let_def)
qed

lemma drainQueue_inv: "slots_inv x \<Longrightarrow> executor_inv (drainQueue now x)"
proof (induction now x rule: drainQueue.induct)
  case (1 now x)
  show ?case
  proof (cases "qx_active x < qx_maxConcurrent x \<and> qx_queue x \<noteq> []")
    case True
    then obtain e q where q: "qx_queue x = e # q" by (cases "qx_queue x") auto
    have "slots_inv (runEntry now (hd (qx_queue x)) (x\<lparr>qx_queue := tl (qx_queue x)\<rparr>))"
      using run_head_inv [OF 1(2) q] True q by simp
    then have "executor_inv (drainQueue now (runEntry now (hd (qx_queue x)) (x\<lparr>qx_queue := tl (qx_queue x)\<rparr>)))"
      by (rule 1(1) [OF True])
    moreover have "drainQueue now x = drainQueue now (runEntry now (hd (qx_queue x)) (x\<lparr>qx_queue := tl (qx_queue x)\<rparr>))"
      using True by (subst drainQueue.simps) simp
    ultimately show ?thesis by simp
  next
    case False
    then have "drainQueue now x = x" by (subst drainQueue.simps) auto
    with 1(2) False show ?thesis by (auto simp: executor_inv_def slots_inv_def)
  qed
qed

lemma execute_inv:
  assumes "executor_inv x"
  shows "executor_inv (execute_q now uuid bus tid cid aid x)"
proof -
  have fresh: "qx_next x \<notin> set (uids x)" using assms by (auto simp: executor_inv_def slots_inv_def)
  consider "qx_active x < qx_maxConcurrent x"
    | "\<not> qx_active x < qx_maxConcurrent x" "qx_maxQueued x \<le> length (qx_queue x)"
    | "\<not> qx_active x < qx_maxConcurrent x" "\<not> qx_maxQueued x \<le> length (qx_queue x)" by blast
  then show ?thesis
  proof cases
    case 1
    with assms have "qx_queue x = []" by (auto simp: executor_inv_def)
    with 1 assms fresh show ?thesis
      by (auto simp: execute_q_def Let_def executor_inv_def slots_inv_def uids_def running_uids_def
          bus_facts runEntry_def queueDelete_def telemetered_def less_Suc_eq)
  next
    case 2
    with assms fresh show ?thesis
      by (auto simp: execute_q_def Let_def executor_inv_def slots_inv_def uids_def running_uids_def less_Suc_eq)
         (auto simp: bus_facts)
  next
    case 3
    with assms fresh show ?thesis
      by (auto simp: execute_q_def Let_def executor_inv_def slots_inv_def uids_def running_uids_def less_Suc_eq)
         (auto simp: bus_facts)
  qed
qed

lemma find_remove_first:
  "find P xs = Some e \<Longrightarrow> mset xs = add_mset e (mset (remove_first P xs))"
  by (induction xs) (auto split: if_splits)

lemma cancel_inv:
  assumes "executor_inv x"
  shows "executor_inv (cancelTask_q now uuid tid bus x)"
proof (cases "find (\<lambda>e. qe_taskId e = tid) (qx_queue x)")
  case None
  with assms show ?thesis
    by (auto simp: cancelTask_q_def executor_inv_def slots_inv_def uids_def running_uids_def bus_facts)
next
  case (Some e)
  let ?y = "cancelTask_q now uuid tid bus x"
  let ?q = "remove_first (\<lambda>d. qe_taskId d = tid) (qx_queue x)"
  have q: "qx_queue ?y = ?q" "qx_running ?y = qx_running x" "qx_settled ?y = qx_settled x @ [(qe_uid e, None)]"
    "qx_active ?y = qx_active x" "qx_maxConcurrent ?y = qx_maxConcurrent x" "qx_maxQueued ?y = qx_maxQueued x"
    "qx_next ?y = qx_next x" "finished_uids ?y = finished_uids x @ [qe_uid e]" "right_buses ?y = right_buses x"
    using Some by (simp_all add: cancelTask_q_def Let_def) (simp_all add: bus_facts)
  have "mset (uids ?y) = mset (uids x)"
    using arg_cong [OF find_remove_first [OF Some], of "image_mset qe_uid"]
    by (simp add: uids_def running_uids_def q)
  then have "distinct (uids ?y)" "set (uids ?y) = set (uids x)"
    using assms by (auto simp: executor_inv_def slots_inv_def dest: mset_eq_setD mset_eq_imp_distinct_iff)
  moreover have "length ?q \<le> length (qx_queue x)" by (rule length_remove_first)
  moreover have "?q \<noteq> [] \<Longrightarrow> qx_queue x \<noteq> []" by auto
  ultimately show ?thesis using assms by (auto simp: executor_inv_def slots_inv_def q)
qed

lemma observe_entry [simp]: "rf_entry (observe ev f) = rf_entry f"
  by (auto simp: observe_def Let_def split: option.splits)

lemma running_publish: "running_uids (delegate_publish f ev x) = running_uids x"
  by (simp add: running_uids_def delegate_publish_def comp_def if_distrib [of rf_entry] cong: if_cong)

lemma publish_inv: "executor_inv x \<Longrightarrow> executor_inv (delegate_publish f ev x)"
proof -
  assume inv: "executor_inv x"
  note running_publish
  moreover have "qx_running (delegate_publish f ev x) =
      map (\<lambda>g. if qe_uid (rf_entry g) = qe_uid (rf_entry f) then observe ev g else g) (qx_running x)"
    by (simp add: delegate_publish_def)
  ultimately show ?thesis
    using inv by (auto simp: executor_inv_def slots_inv_def uids_def delegate_publish_def bus_facts publish_def)
qed

lemma unrecorded_inv [simp]:
  "executor_inv (publish b ev x) = executor_inv x" "executor_inv (finish_bus b x) = executor_inv x"
  "executor_inv (delegate_finished f x) = executor_inv x"
  by (simp_all add: executor_inv_def slots_inv_def uids_def running_uids_def delegate_finished_def)

text \<open>The state in which a settled entry's \<open>finally\<close> block reaches \<open>drainQueue\<close>.\<close>

lemma delegate_settled_drain:
  obtains y where "delegate_settled now f outcome x = drainQueue now y" "qx_queue y = qx_queue x"
    "qx_running y = remove1 f (qx_running x)" "qx_active y = qx_active x - 1"
    "qx_settled y = qx_settled x @ [(qe_uid (rf_entry f), outcome)]"
    "qx_maxConcurrent y = qx_maxConcurrent x" "qx_maxQueued y = qx_maxQueued x" "qx_next y = qx_next x"
    "finished_uids y = finished_uids x @ [qe_uid (rf_entry f)]" "right_buses y = right_buses x"
proof -
  define fs where "fs = (case outcome of None \<Rightarrow> rf_finalState f | Some _ \<Rightarrow> Some (opt_default Failed (rf_finalState f)))"
  define fe where "fe = (case outcome of None \<Rightarrow> rf_error f
     | Some m \<Rightarrow> (case rf_error f of Some err \<Rightarrow> if err = [] then Some m else Some err | None \<Rightarrow> Some m))"
  define z where "z = (settle (qe_uid (rf_entry f)) outcome x)\<lparr>qx_running := remove1 f (qx_running x),
     qx_pending := AList.delete (qe_taskId (rf_entry f)) (qx_pending x), qx_active := qx_active x - 1\<rparr>"
  define y where "y = finish_entry (rf_entry f) (telemetered (recordTaskFinish now
      (qe_taskId (rf_entry f)) (qe_contextId (rf_entry f)) (opt_default Failed fs)
      (now - rf_startedAt f) (qx_active z) (length (qx_queue z)) fe) z)"
  have "delegate_settled now f outcome x = drainQueue now y"
    by (simp add: delegate_settled_def Let_def y_def z_def fs_def fe_def settle_def)
  moreover have "qx_queue y = qx_queue x" "qx_running y = remove1 f (qx_running x)" "qx_active y = qx_active x - 1"
    "qx_settled y = qx_settled x @ [(qe_uid (rf_entry f), outcome)]"
    "qx_maxConcurrent y = qx_maxConcurrent x" "qx_maxQueued y = qx_maxQueued x" "qx_next y = qx_next x"
    by (simp_all add: y_def z_def)
  moreover have "finished_uids y = finished_uids x @ [qe_uid (rf_entry f)]" "right_buses y = right_buses x"
    by (simp_all add: y_def z_def) (simp_all add: bus_facts settle_def)
  ultimately show thesis using that by blast
qed

lemma mset_remove1_map: "f \<in> set fs \<Longrightarrow> add_mset (g f) (mset (map g (remove1 f fs))) = mset (map g fs)"
  by (induction fs) auto

lemma settle_slots:
  assumes inv: "executor_inv x" and f: "f \<in> set (qx_running x)"
    and y: "qx_queue y = qx_queue x" "qx_running y = remove1 f (qx_running x)" "qx_active y = qx_active x - 1"
    "qx_settled y = qx_settled x @ [(qe_uid (rf_entry f), outcome)]"
    "qx_maxConcurrent y = qx_maxConcurrent x" "qx_maxQueued y = qx_maxQueued x" "qx_next y = qx_next x"
    "finished_uids y = finished_uids x @ [qe_uid (rf_entry f)]" "right_buses y = right_buses x"
  shows "slots_inv y" "mset (uids y) = mset (uids x)"
proof -
  show m: "mset (uids y) = mset (uids x)"
    using mset_remove1_map [OF f, of "\<lambda>f. qe_uid (rf_entry f)"] by (simp add: uids_def running_uids_def y)
  have "distinct (uids y)" "set (uids y) = set (uids x)"
    using m inv mset_eq_imp_distinct_iff [OF m] by (auto simp: executor_inv_def slots_inv_def dest: mset_eq_setD)
  then show "slots_inv y"
    using inv f length_pos_if_in_set [OF f] by (auto simp: executor_inv_def slots_inv_def y length_remove1)
qed

lemma settled_inv:
  assumes "executor_inv x" "f \<in> set (qx_running x)"
  shows "executor_inv (delegate_settled now f outcome x)"
proof -
  obtain y where "delegate_settled now f outcome x = drainQueue now y" and y: "qx_queue y = qx_queue x"
    "qx_running y = remove1 f (qx_running x)" "qx_active y = qx_active x - 1"
    "qx_settled y = qx_settled x @ [(qe_uid (rf_entry f), outcome)]"
    "qx_maxConcurrent y = qx_maxConcurrent x" "qx_maxQueued y = qx_maxQueued x" "qx_next y = qx_next x"
    "finished_uids y = finished_uids x @ [qe_uid (rf_entry f)]" "right_buses y = right_buses x"
    by (rule delegate_settled_drain)
  then show ?thesis using drainQueue_inv [OF settle_slots(1) [OF assms y]] by simp
qed

lemma executor_step_inv: "executor_step x y \<Longrightarrow> executor_inv x \<Longrightarrow> executor_inv y"
  by (erule executor_stepE) (simp_all add: execute_inv cancel_inv publish_inv settled_inv)

lemma new_executor_inv: "executor_inv (new_executor maxC maxQ t)"
  by (simp add: executor_inv_def slots_inv_def new_executor_def uids_def running_uids_def bus_facts)

lemma reachable_inv: "executor_reachable maxC maxQ x \<Longrightarrow> executor_inv x"
  by (induction rule: executor_reachable.induct) (auto simp: new_executor_inv dest: executor_step_inv)

lemma executor_step_limits:
  "executor_step x y \<Longrightarrow> qx_maxConcurrent y = qx_maxConcurrent x \<and> qx_maxQueued y = qx_maxQueued x"
proof (erule executor_stepE)
  have drain: "qx_maxConcurrent (drainQueue now z) = qx_maxConcurrent z \<and> qx_maxQueued (drainQueue now z) = qx_maxQueued z"
    for now z by (induction now z rule: drainQueue.induct) (subst (1 2) drainQueue.simps, simp)
  fix now f outcome
  assume "y = delegate_settled now f outcome x"
  then show ?thesis by (metis delegate_settled_drain drain)
qed (auto simp: execute_q_def cancelTask_q_def delegate_publish_def delegate_finished_def Let_def split: option.splits)

lemma paired: "list_all (\<lambda>(b, e). b = g e) xs \<Longrightarrow> xs = map (\<lambda>e. (g e, e)) (map snd xs)"
  by (induction xs) auto

text \<open>A run that ends as the agent executor ends it has its bus finished twice, by the delegate and then in the \<open>finally\<close> block.\<close>

lemma drain_bus: "qx_bus (drainQueue now x) = qx_bus x"
proof (induction now x rule: drainQueue.induct)
  case (1 now x)
  then show ?case
    by (subst drainQueue.simps) (simp add: runEntry_def queueDelete_def telemetered_def Let_def)
qed

lemma delegate_then_executor_finish:
  "qx_bus (delegate_settled now f outcome (delegate_finished f x)) =
     qx_bus x @ [(qe_bus (rf_entry f), BusFinished None), (qe_bus (rf_entry f), BusFinished (Some (rf_entry f)))]"
  by (simp add: delegate_settled_def drain_bus Let_def) (simp add: delegate_finished_def finish_bus_def finish_entry_def settle_def telemetered_def)

text \<open>C1. Bounded concurrency: in every reachable state of the executor, whatever the interleaving
  of submissions, cancellations, what the delegate publishes and finishes and its settling, the number of running
  tasks and the queue length respect the configured limits, the active counter equals the number of
  running tasks and no slot is idle while a task waits. Every call settles at most once, and for every settled call the
  executor itself has called \<open>finished\<close> once on the call's own bus, in the order of settling and whether or not
  the delegate has finished that bus already.\<close>

theorem executor_reachable_bounds:
  assumes "executor_reachable maxC maxQ x"
  shows "int (length (qx_running x)) \<le> max 1 maxC \<and> int (length (qx_queue x)) \<le> max 0 maxQ \<and>
    qx_active x = length (qx_running x) \<and>
    (qx_queue x \<noteq> [] \<longrightarrow> int (qx_active x) = max 1 maxC) \<and>
    distinct (map fst (qx_settled x)) \<and>
    (\<exists>es. own_finishes (qx_bus x) = map (\<lambda>e. (qe_bus e, e)) es \<and> map qe_uid es = map fst (qx_settled x))"
proof -
  have inv: "executor_inv x"
    using assms by (rule reachable_inv)
  have "own_finishes (qx_bus x) = map (\<lambda>e. (qe_bus e, e)) (map snd (own_finishes (qx_bus x)))"
    using inv by (simp only: executor_inv_def slots_inv_def right_buses_def paired)
  moreover have "map qe_uid (map snd (own_finishes (qx_bus x))) = map fst (qx_settled x)"
    using inv by (simp add: executor_inv_def slots_inv_def finished_uids_def case_prod_unfold comp_def)
  ultimately have "\<exists>es. own_finishes (qx_bus x) = map (\<lambda>e. (qe_bus e, e)) es \<and> map qe_uid es = map fst (qx_settled x)"
    by blast
  moreover have "qx_maxConcurrent x = nat (max 1 maxC) \<and> qx_maxQueued x = nat (max 0 maxQ)"
    using assms by (induction rule: executor_reachable.induct)
      (auto simp: new_executor_def dest: executor_step_limits)
  ultimately show ?thesis
    using inv by (auto simp: executor_inv_def slots_inv_def uids_def)
qed

definition demo_executor :: executor_state where
  "demo_executor = execute_q 3 ''u'' 7 ''t1'' ''c'' JUndef (execute_q 2 ''u'' 7 ''t1'' ''c'' JUndef
     (execute_q 1 ''u'' 7 ''t1'' ''c'' JUndef (new_executor 1 2 (new_telemetry None))))"

lemma demo_reachable: "executor_reachable 1 2 demo_executor"
  unfolding demo_executor_def
  by (intro ReachStep [OF _ StepExecute] ReachInit)

lemma demo_fields:
  "qx_running demo_executor = [\<lparr>rf_entry = \<lparr>qe_uid = 0, qe_bus = 7, qe_taskId = ''t1'', qe_contextId = ''c'', qe_agentId = JUndef\<rparr>,
      rf_startedAt = 1, rf_finalState = None, rf_error = None\<rparr>]"
  "qx_queue demo_executor = [\<lparr>qe_uid = 1, qe_bus = 7, qe_taskId = ''t1'', qe_contextId = ''c'', qe_agentId = JUndef\<rparr>,
      \<lparr>qe_uid = 2, qe_bus = 7, qe_taskId = ''t1'', qe_contextId = ''c'', qe_agentId = JUndef\<rparr>]"
  "qx_settled demo_executor = []"
  by (simp_all add: demo_executor_def new_executor_def execute_q_def Let_def runEntry_def queueDelete_def
      telemetered_def publish_def)

theorem executor_reachable_bounds_witness:
  "int (length (qx_running demo_executor)) \<le> 1 \<and> length (qx_queue demo_executor) = 2 \<and>
    qx_active demo_executor = 1"
  using executor_reachable_bounds [OF demo_reachable] by (simp add: demo_fields)

section \<open>First come, first served\<close>

lemma remove_first_id: "(\<forall>d \<in> set xs. \<not> P d) \<Longrightarrow> remove_first P xs = xs"
  by (induction xs) auto

lemma drain_one:
  assumes "qx_queue y = e # q" "qx_active y + 1 = qx_maxConcurrent y"
  shows "drainQueue now y = runEntry now e (y\<lparr>qx_queue := q\<rparr>)"
proof -
  have "drainQueue now y = drainQueue now (runEntry now e (y\<lparr>qx_queue := q\<rparr>))"
    using assms by (subst drainQueue.simps) simp
  also have "\<dots> = runEntry now e (y\<lparr>qx_queue := q\<rparr>)"
    using assms(2) by (subst drainQueue.simps) simp
  finally show ?thesis .
qed

lemma settle_starts_head:
  assumes "executor_inv x" "f \<in> set (qx_running x)" "qx_queue x = e # q"
  shows "qx_queue (delegate_settled now f outcome x) = remove_first (\<lambda>d. qe_taskId d = qe_taskId e) q \<and>
    qx_running (delegate_settled now f outcome x) = remove1 f (qx_running x) @
      [\<lparr>rf_entry = e, rf_startedAt = now, rf_finalState = None, rf_error = None\<rparr>] \<and>
    qx_settled (delegate_settled now f outcome x) = qx_settled x @ [(qe_uid (rf_entry f), outcome)] \<and>
    qx_next (delegate_settled now f outcome x) = qx_next x"
proof -
  obtain y where y: "delegate_settled now f outcome x = drainQueue now y" "qx_queue y = qx_queue x"
    "qx_running y = remove1 f (qx_running x)" "qx_active y = qx_active x - 1"
    "qx_settled y = qx_settled x @ [(qe_uid (rf_entry f), outcome)]"
    "qx_maxConcurrent y = qx_maxConcurrent x" "qx_maxQueued y = qx_maxQueued x" "qx_next y = qx_next x"
    by (rule delegate_settled_drain)
  have "qx_active y + 1 = qx_maxConcurrent y"
    using assms length_pos_if_in_set [OF assms(2)] by (auto simp: y executor_inv_def slots_inv_def)
  with drain_one [of y e q now] assms(3) show ?thesis by (simp add: y)
qed

text \<open>C21. First come, first served: when a running task settles while tasks with distinct ids wait,
  exactly the task at the head of the queue starts, the others keep their order, and the settled
  call is answered with its delegate's outcome.\<close>

theorem queue_fifo:
  assumes "executor_reachable maxC maxQ x" "f \<in> set (qx_running x)" "qx_queue x = e # q"
    and "qe_taskId e \<notin> qe_taskId ` set q"
  shows "qx_queue (delegate_settled now f outcome x) = q \<and>
    map rf_entry (qx_running (delegate_settled now f outcome x)) = map rf_entry (remove1 f (qx_running x)) @ [e] \<and>
    qx_settled (delegate_settled now f outcome x) = qx_settled x @ [(qe_uid (rf_entry f), outcome)]"
proof -
  have "remove_first (\<lambda>d. qe_taskId d = qe_taskId e) q = q"
    by (intro remove_first_id ballI notI) (metis assms(4) image_eqI)
  then show ?thesis using settle_starts_head [OF reachable_inv [OF assms(1)] assms(2,3)] by simp
qed

definition demo_two :: executor_state where
  "demo_two = execute_q 2 ''u'' 8 ''t2'' ''c'' JUndef (execute_q 1 ''u'' 7 ''t1'' ''c'' JUndef
     (new_executor 1 2 (new_telemetry None)))"

theorem queue_fifo_witness:
  "map rf_entry (qx_running (delegate_settled 9 (hd (qx_running demo_two)) None demo_two)) =
    [\<lparr>qe_uid = 1, qe_bus = 8, qe_taskId = ''t2'', qe_contextId = ''c'', qe_agentId = JUndef\<rparr>]"
proof -
  have r: "executor_reachable 1 2 demo_two" unfolding demo_two_def by (intro ReachStep [OF _ StepExecute] ReachInit)
  have f: "qx_running demo_two = [\<lparr>rf_entry = \<lparr>qe_uid = 0, qe_bus = 7, qe_taskId = ''t1'', qe_contextId = ''c'', qe_agentId = JUndef\<rparr>,
      rf_startedAt = 1, rf_finalState = None, rf_error = None\<rparr>]"
    "qx_queue demo_two = [\<lparr>qe_uid = 1, qe_bus = 8, qe_taskId = ''t2'', qe_contextId = ''c'', qe_agentId = JUndef\<rparr>]"
    by (simp_all add: demo_two_def new_executor_def execute_q_def Let_def runEntry_def queueDelete_def
        telemetered_def publish_def)
  have "hd (qx_running demo_two) \<in> set (qx_running demo_two)" by (simp add: f)
  from queue_fifo [OF r this f(2), of 9 None] f(1) show ?thesis by simp
qed

section \<open>Calls that are lost\<close>

text \<open>A call is lost when it has been made but is neither running nor queued nor settled.\<close>

definition lost :: "nat \<Rightarrow> executor_state \<Rightarrow> bool" where
  "lost u x \<longleftrightarrow> u < qx_next x \<and> u \<notin> set (uids x)"

lemma drain_uids: "mset (uids (drainQueue now x)) \<subseteq># mset (uids x) \<and> qx_next (drainQueue now x) = qx_next x"
proof (induction now x rule: drainQueue.induct)
  case (1 now x)
  show ?case
  proof (cases "qx_active x < qx_maxConcurrent x \<and> qx_queue x \<noteq> []")
    case True
    then obtain e q where q: "qx_queue x = e # q" by (cases "qx_queue x") auto
    have "mset (uids (runEntry now e (x\<lparr>qx_queue := q\<rparr>))) \<subseteq># mset (uids x)"
      using mset_remove_first [of qe_uid "\<lambda>d. qe_taskId d = qe_taskId e" q] q
      by (simp add: uids_def running_uids_def subset_mset.add_mono)
    with 1 [OF True] True q show ?thesis
      by (subst (1 2) drainQueue.simps) (auto intro: subset_mset.order_trans)
  next
    case False
    then have "drainQueue now x = x" by (subst drainQueue.simps) auto
    then show ?thesis by simp
  qed
qed

lemma lost_step:
  assumes "executor_step x y" "executor_inv x" "lost u x"
  shows "lost u y"
  using assms(1)
proof (cases rule: executor_step.cases)
  case (StepExecute now uuid bus tid cid aid)
  have "set (uids y) \<subseteq> insert (qx_next x) (set (uids x)) \<and> qx_next y = qx_next x + 1"
    unfolding StepExecute
    using set_submset [OF mset_remove_first [of qe_uid "\<lambda>d. qe_taskId d = tid" "qx_queue x"]]
    by (auto simp: execute_q_def Let_def uids_def running_uids_def)
  with assms(3) show ?thesis by (auto simp: lost_def)
next
  case (StepCancel now uuid tid bus)
  have "set (uids y) \<subseteq> set (uids x) \<and> qx_next y = qx_next x"
    unfolding StepCancel
    using set_submset [OF mset_remove_first [of qe_uid "\<lambda>d. qe_taskId d = tid" "qx_queue x"]]
    by (auto simp: cancelTask_q_def Let_def uids_def running_uids_def split: option.splits dest!: find_SomeD)
  with assms(3) show ?thesis by (auto simp: lost_def)
next
  case (StepPublish f ev)
  then show ?thesis using assms(3)
    by (simp add: lost_def uids_def running_publish) (simp add: delegate_publish_def)
next
  case (StepFinish f)
  then show ?thesis using assms(3) by (simp add: lost_def uids_def running_uids_def delegate_finished_def)
next
  case (StepCancelPublish tid bus ev)
  then show ?thesis using assms(3) by (simp add: lost_def uids_def running_uids_def)
next
  case (StepCancelFinish tid bus)
  then show ?thesis using assms(3) by (simp add: lost_def uids_def running_uids_def)
next
  case (StepSettle f now outcome)
  obtain z where z: "delegate_settled now f outcome x = drainQueue now z" and zs: "qx_queue z = qx_queue x"
    "qx_running z = remove1 f (qx_running x)" "qx_active z = qx_active x - 1"
    "qx_settled z = qx_settled x @ [(qe_uid (rf_entry f), outcome)]"
    "qx_maxConcurrent z = qx_maxConcurrent x" "qx_maxQueued z = qx_maxQueued x" "qx_next z = qx_next x"
    "finished_uids z = finished_uids x @ [qe_uid (rf_entry f)]" "right_buses z = right_buses x"
    by (rule delegate_settled_drain)
  have "set (uids z) = set (uids x)"
    using settle_slots(2) [OF assms(2) StepSettle(2) zs] by (rule mset_eq_setD)
  with set_submset [OF drain_uids [THEN conjunct1, of now z]] drain_uids [THEN conjunct2, of now z] assms(3)
  show ?thesis by (auto simp: lost_def StepSettle z zs(7))
qed

lemma lost_forever:
  "executor_step\<^sup>*\<^sup>* x y \<Longrightarrow> executor_inv x \<Longrightarrow> lost u x \<Longrightarrow> lost u y \<and> executor_inv y"
  by (induction rule: rtranclp_induct) (auto intro: lost_step executor_step_inv)

text \<open>C38. A duplicate task id loses a call: when two calls with the same task id wait and a slot
  frees, starting the first deletes the second from the queue. In no continuation, whatever callers and the delegate then do to
  the buses, does the second run or is its promise settled; nor does the executor ever finish a bus on its behalf.\<close>

theorem duplicate_task_id_lost:
  assumes "executor_reachable maxC maxQ x" "f \<in> set (qx_running x)"
    and "qx_queue x = e1 # q1 @ e2 # q2" "qe_taskId e2 = qe_taskId e1" "qe_taskId e1 \<notin> qe_taskId ` set q1"
    and "executor_step\<^sup>*\<^sup>* (delegate_settled now f outcome x) y"
  shows "qe_uid e2 \<notin> fst ` set (qx_settled y) \<and> qe_uid e2 \<notin> (\<lambda>(b, e). qe_uid e) ` set (own_finishes (qx_bus y)) \<and>
    qe_uid e2 \<notin> set (map qe_uid (qx_queue y)) \<and> qe_uid e2 \<notin> set (running_uids y)"
proof -
  let ?s = "delegate_settled now f outcome x"
  note inv = reachable_inv [OF assms(1)]
  have q: "remove_first (\<lambda>d. qe_taskId d = qe_taskId e1) (q1 @ e2 # q2) = q1 @ q2"
    using assms(4,5) by (induction q1) auto
  note s = settle_starts_head [OF inv assms(2,3), of now outcome, unfolded q]
  have d: "distinct (uids x)" "\<forall>u \<in> set (uids x). u < qx_next x" using inv by (simp_all add: executor_inv_def slots_inv_def)
  have "qe_uid e2 \<notin> set (map (\<lambda>g. qe_uid (rf_entry g)) (remove1 f (qx_running x)))"
    using d(1) set_remove1_subset [of f "qx_running x"] by (auto simp: uids_def running_uids_def assms(3))
  moreover have "qe_uid e2 \<noteq> qe_uid (rf_entry f)"
    using d(1) assms(2) by (auto simp: uids_def running_uids_def assms(3))
  ultimately have "lost (qe_uid e2) ?s"
    using d s by (auto simp: lost_def uids_def running_uids_def assms(3))
  moreover have "executor_inv ?s" using inv assms(2) by (rule settled_inv)
  ultimately have "lost (qe_uid e2) y" "executor_inv y" using lost_forever [OF assms(6)] by blast+
  then have out: "qe_uid e2 \<notin> set (uids y)" and fin: "finished_uids y = map fst (qx_settled y)"
    by (simp_all add: lost_def executor_inv_def slots_inv_def)
  have "qe_uid e2 \<notin> set (finished_uids y)"
    using out by (simp add: fin uids_def)
  then show ?thesis
    using out by (auto simp: finished_uids_def uids_def)
qed

theorem duplicate_task_id_lost_witness:
  "\<exists>f y. executor_step demo_executor y \<and> f \<in> set (qx_running demo_executor) \<and>
    2 \<in> set (map qe_uid (qx_queue demo_executor)) \<and> 2 \<notin> fst ` set (qx_settled y) \<and>
    2 \<notin> (\<lambda>(b, e). qe_uid e) ` set (own_finishes (qx_bus y)) \<and> 2 \<notin> set (map qe_uid (qx_queue y)) \<and> 2 \<notin> set (running_uids y)"
proof -
  let ?f = "hd (qx_running demo_executor)"
  have f: "?f \<in> set (qx_running demo_executor)" by (simp add: demo_fields)
  have "executor_step demo_executor (delegate_settled 9 ?f None demo_executor)" using f by (rule StepSettle)
  moreover note duplicate_task_id_lost [OF demo_reachable f, of
      "\<lparr>qe_uid = 1, qe_bus = 7, qe_taskId = ''t1'', qe_contextId = ''c'', qe_agentId = JUndef\<rparr>" "[]"
      "\<lparr>qe_uid = 2, qe_bus = 7, qe_taskId = ''t1'', qe_contextId = ''c'', qe_agentId = JUndef\<rparr>" "[]" 9 None
      "delegate_settled 9 ?f None demo_executor"]
  ultimately show ?thesis using f by (auto simp: demo_fields)
qed

end
