(* ===== verification/SharedContext.thy ===== *)
theory SharedContext
  imports Prelude
begin

text \<open>
  \<open>src/shared-context.ts\<close>: rooms, messages and artifacts kept as an append-only file of events.
  A line of the file is an event, or a foreign line that \<open>JSON.parse\<close> rejects and the reader skips;
  the JSON text of an event is not modelled. Arguments are the dynamic values the callers pass. An
  operation reads the file, decides, and appends: the decision is a function of the state it
  loaded, so that decisions taken on the same load can be committed one after the other. Identifiers
  (\<open>crypto.randomUUID\<close>) and the clock's ISO text are arguments. Errors are their messages.
\<close>

section \<open>Data\<close>

datatype room_status = RoomOpen | RoomArchived

record artifact_ref =
  ar_id :: string
  ar_roomId :: js
  ar_messageId :: js
  ar_kind :: string
  ar_name :: js
  ar_uri :: js
  ar_mimeType :: js
  ar_digest :: js
  ar_metadata :: js
  ar_createdAt :: string
  ar_createdBy :: string

record shared_room =
  sr_id :: string
  sr_title :: string
  sr_topic :: string
  sr_participants :: "string list"
  sr_tags :: "string list"
  sr_status :: room_status
  sr_createdAt :: string
  sr_updatedAt :: string
  sr_createdBy :: string
  sr_metadata :: js

record shared_message =
  sm_id :: string
  sm_roomId :: string
  sm_ts :: string
  sm_author :: string
  sm_kind :: string
  sm_content :: string
  sm_artifacts :: "artifact_ref list"
  sm_metadata :: js

datatype shared_event =
    RoomCreated string shared_room
  | RoomUpdated string shared_room
  | MessagePosted string shared_message
  | ArtifactAttached string artifact_ref

datatype file_line = EventLine shared_event | ForeignLine

record shared_options =
  so_enabled :: bool
  so_maxMessageChars :: int
  so_maxMessagesPerRead :: int

record shared_state =
  ss_rooms :: "(string \<times> shared_room) list"
  ss_messages :: "(string \<times> shared_message list) list"
  ss_artifacts :: "(string \<times> artifact_ref list) list"

type_synonym shared_file = "file_line list option"

definition shared_store_options :: "bool option \<Rightarrow> rat option \<Rightarrow> rat option \<Rightarrow> shared_options" where
  "shared_store_options enabled maxChars maxPerRead =
    \<lparr>so_enabled = opt_default True enabled,
     so_maxMessageChars = max 1 \<lfloor>opt_default 20000 maxChars\<rfloor>,
     so_maxMessagesPerRead = max 1 \<lfloor>opt_default 100 maxPerRead\<rfloor>\<rparr>"

section \<open>Normalisation\<close>

definition optionalText :: "js \<Rightarrow> string" where
  "optionalText v = (case v of JStr s \<Rightarrow> trim s | _ \<Rightarrow> [])"

definition requireText :: "js \<Rightarrow> string \<Rightarrow> string + string" where
  "requireText v name = (let t = optionalText v in
     if t = [] then Inl (name @ '' must be a non-empty string'') else Inr t)"

definition requireContentText :: "js \<Rightarrow> string \<Rightarrow> string + string" where
  "requireContentText v name = (case v of
     JStr s \<Rightarrow> if trim s = [] then Inl (name @ '' must be a non-empty string'') else Inr s
   | _ \<Rightarrow> Inl (name @ '' must be a non-empty string''))"

definition list_entry :: "js \<Rightarrow> string option" where
  "list_entry v = (case v of JStr s \<Rightarrow> if trim s = [] then None else Some (trim s) | _ \<Rightarrow> None)"

fun unique_entries :: "string list \<Rightarrow> js list \<Rightarrow> string list" where
  "unique_entries seen [] = []"
| "unique_entries seen (v # vs) = (case list_entry v of
     None \<Rightarrow> unique_entries seen vs
   | Some y \<Rightarrow> if y \<in> set seen then unique_entries seen vs else y # unique_entries (y # seen) vs)"

definition normalizeStringList :: "js \<Rightarrow> string list" where
  "normalizeStringList v = (case v of JArr vs \<Rightarrow> unique_entries [] vs | _ \<Rightarrow> [])"

definition normalizeMetadata :: "js \<Rightarrow> js" where
  "normalizeMetadata v = (case v of JObj fs \<Rightarrow> if fs = [] then JUndef else JObj fs | _ \<Rightarrow> JUndef)"

definition message_kinds :: "string list" where
  "message_kinds = [''text'', ''markdown'', ''code'', ''diff'', ''status_update'', ''summary'', ''question'',
     ''decision'', ''blocker'', ''artifact_ref'']"

definition normalizeMessageKind :: "js \<Rightarrow> string" where
  "normalizeMessageKind v = (let t = optionalText v in if t \<in> set message_kinds then t else ''markdown'')"

definition normalizeCount :: "js \<Rightarrow> int \<Rightarrow> int \<Rightarrow> int" where
  "normalizeCount v fallback mx = (case v of
     JNum (Fin q) \<Rightarrow> min (max 1 \<lfloor>q\<rfloor>) mx
   | _ \<Rightarrow> min (max 1 fallback) mx)"

definition normalizeArtifactRef :: "js \<Rightarrow> string \<Rightarrow> js \<Rightarrow> js \<Rightarrow> string \<Rightarrow> string \<Rightarrow> string + artifact_ref" where
  "normalizeArtifactRef v aid roomId messageId createdAt createdBy =
    (if \<not> truthy (get_prop v ''uri'') \<and> \<not> truthy (get_prop v ''digest'') \<and> \<not> truthy (get_prop v ''name'')
     then Inl ''artifact must include at least one of uri, digest, or name''
     else case requireText (get_prop v ''kind'') ''artifact.kind'' of
       Inl e \<Rightarrow> Inl e
     | Inr k \<Rightarrow> Inr \<lparr>ar_id = aid, ar_roomId = roomId, ar_messageId = messageId, ar_kind = k,
         ar_name = get_prop v ''name'', ar_uri = get_prop v ''uri'', ar_mimeType = get_prop v ''mimeType'',
         ar_digest = get_prop v ''digest'', ar_metadata = get_prop v ''metadata'',
         ar_createdAt = createdAt, ar_createdBy = createdBy\<rparr>)"

section \<open>The file and the state it denotes\<close>

definition empty_shared_state :: shared_state where
  "empty_shared_state = \<lparr>ss_rooms = [], ss_messages = [], ss_artifacts = []\<rparr>"

definition push_to :: "string \<Rightarrow> 'a \<Rightarrow> (string \<times> 'a list) list \<Rightarrow> (string \<times> 'a list) list" where
  "push_to k x m = AList.update k (opt_default [] (map_of m k) @ [x]) m"

definition applyEvent :: "shared_event \<Rightarrow> shared_state \<Rightarrow> shared_state" where
  "applyEvent ev st = (case ev of
     RoomCreated _ r \<Rightarrow> st\<lparr>ss_rooms := AList.update (sr_id r) r (ss_rooms st)\<rparr>
   | RoomUpdated _ r \<Rightarrow> st\<lparr>ss_rooms := AList.update (sr_id r) r (ss_rooms st)\<rparr>
   | MessagePosted _ m \<Rightarrow> st\<lparr>ss_messages := push_to (sm_roomId m) m (ss_messages st)\<rparr>
   | ArtifactAttached _ a \<Rightarrow> st\<lparr>ss_artifacts := push_to (js_text (ar_roomId a)) a (ss_artifacts st)\<rparr>)"

fun apply_line :: "file_line \<Rightarrow> shared_state \<Rightarrow> shared_state" where
  "apply_line (EventLine ev) st = applyEvent ev st"
| "apply_line ForeignLine st = st"

definition loadState :: "shared_file \<Rightarrow> shared_state" where
  "loadState f = (case f of None \<Rightarrow> empty_shared_state | Some ls \<Rightarrow> fold apply_line ls empty_shared_state)"

definition appendMany :: "shared_event list \<Rightarrow> shared_file \<Rightarrow> shared_file" where
  "appendMany evs f = Some (opt_default [] f @ map EventLine evs)"

definition requireEnabled :: "shared_options \<Rightarrow> string + unit" where
  "requireEnabled opts = (if so_enabled opts then Inr () else Inl ''shared context is disabled'')"

section \<open>Decisions\<close>

definition room_at :: "shared_state \<Rightarrow> js \<Rightarrow> shared_room option" where
  "room_at st v = (case v of JStr r \<Rightarrow> map_of (ss_rooms st) r | _ \<Rightarrow> None)"

definition or_unknown :: "string \<Rightarrow> string" where
  "or_unknown s = (if s = [] then ''unknown'' else s)"

definition createRoom :: "shared_options \<Rightarrow> string \<Rightarrow> string \<Rightarrow> js \<Rightarrow> string + (shared_event list \<times> shared_room)" where
  "createRoom opts now uuid input =
    (if \<not> so_enabled opts then Inl ''shared context is disabled''
     else case requireText (get_prop input ''title'') ''title'' of
       Inl e \<Rightarrow> Inl e
     | Inr title \<Rightarrow>
        let room = \<lparr>sr_id = ''room-'' @ uuid, sr_title = title, sr_topic = optionalText (get_prop input ''topic''),
              sr_participants = normalizeStringList (get_prop input ''participants''),
              sr_tags = map to_lower (normalizeStringList (get_prop input ''tags'')), sr_status = RoomOpen,
              sr_createdAt = now, sr_updatedAt = now,
              sr_createdBy = or_unknown (optionalText (get_prop input ''createdBy'')),
              sr_metadata = normalizeMetadata (get_prop input ''metadata'')\<rparr>
        in Inr ([RoomCreated now room], room))"

definition archiveRoom :: "shared_options \<Rightarrow> string \<Rightarrow> shared_state \<Rightarrow> js \<Rightarrow> string + (shared_event list \<times> shared_room)" where
  "archiveRoom opts now st roomId =
    (if \<not> so_enabled opts then Inl ''shared context is disabled''
     else case room_at st roomId of
       None \<Rightarrow> Inl (''shared room not found: '' @ js_text roomId)
     | Some room \<Rightarrow>
        let archived = room\<lparr>sr_status := RoomArchived, sr_updatedAt := now\<rparr>
        in Inr ([RoomUpdated now archived], archived))"

text \<open>The loop over \<open>input.artifacts\<close>: each gets its own identifier; the first invalid one throws.\<close>

fun post_artifacts :: "(nat \<Rightarrow> string) \<Rightarrow> string \<Rightarrow> js \<Rightarrow> string \<Rightarrow> string \<Rightarrow> nat \<Rightarrow> js list \<Rightarrow> string + artifact_ref list" where
  "post_artifacts uuids now roomId messageId author n [] = Inr []"
| "post_artifacts uuids now roomId messageId author n (v # vs) =
    (case normalizeArtifactRef v (''artifact-'' @ uuids n) roomId (JStr messageId) now author of
       Inl e \<Rightarrow> Inl e
     | Inr a \<Rightarrow> (case post_artifacts uuids now roomId messageId author (n + 1) vs of
                  Inl e \<Rightarrow> Inl e
                | Inr as \<Rightarrow> Inr (a # as)))"

definition artifact_inputs :: "js \<Rightarrow> string + js list" where
  "artifact_inputs v = (if nullish v then Inr [] else
     (case v of JArr vs \<Rightarrow> Inr vs | _ \<Rightarrow> Inl ''(input.artifacts ?? []).map is not a function''))"

definition postMessage :: "shared_options \<Rightarrow> string \<Rightarrow> (nat \<Rightarrow> string) \<Rightarrow> shared_state \<Rightarrow> js \<Rightarrow>
    string + (shared_event list \<times> shared_message)" where
  "postMessage opts now uuids st input =
    (let roomId = get_prop input ''roomId'' in
     if \<not> so_enabled opts then Inl ''shared context is disabled''
     else case room_at st roomId of
       None \<Rightarrow> Inl (''shared room not found: '' @ js_text roomId)
     | Some room \<Rightarrow>
        if sr_status room = RoomArchived then Inl (''shared room is archived: '' @ js_text roomId)
        else case requireContentText (get_prop input ''content'') ''content'' of
          Inl e \<Rightarrow> Inl e
        | Inr content \<Rightarrow>
            if so_maxMessageChars opts < int (length content)
            then Inl (''content exceeds maxMessageChars='' @ show_int (so_maxMessageChars opts))
            else
              let messageId = ''msg-'' @ uuids 0; author = or_unknown (optionalText (get_prop input ''author''))
              in case artifact_inputs (get_prop input ''artifacts'') of
                Inl e \<Rightarrow> Inl e
              | Inr vs \<Rightarrow>
                 (case post_artifacts uuids now roomId messageId author 1 vs of
                    Inl e \<Rightarrow> Inl e
                  | Inr artifacts \<Rightarrow>
                      let message = \<lparr>sm_id = messageId, sm_roomId = js_text roomId, sm_ts = now, sm_author = author,
                            sm_kind = normalizeMessageKind (get_prop input ''kind''), sm_content = content,
                            sm_artifacts = artifacts, sm_metadata = normalizeMetadata (get_prop input ''metadata'')\<rparr>
                      in Inr (MessagePosted now message # map (ArtifactAttached now) artifacts @
                              [RoomUpdated now (room\<lparr>sr_updatedAt := now\<rparr>)], message)))"

definition text_or_undef :: "js \<Rightarrow> js" where
  "text_or_undef v = (let t = optionalText v in if t = [] then JUndef else JStr t)"

definition attachArtifact :: "shared_options \<Rightarrow> string \<Rightarrow> string \<Rightarrow> shared_state \<Rightarrow> js \<Rightarrow>
    string + (shared_event list \<times> artifact_ref)" where
  "attachArtifact opts now uuid st input =
    (let roomId = get_prop input ''roomId''; messageId = get_prop input ''messageId'' in
     if \<not> so_enabled opts then Inl ''shared context is disabled''
     else case room_at st roomId of
       None \<Rightarrow> Inl (''shared room not found: '' @ js_text roomId)
     | Some room \<Rightarrow>
        if sr_status room = RoomArchived then Inl (''shared room is archived: '' @ js_text roomId)
        else if truthy messageId \<and>
           \<not> (\<exists>m \<in> set (opt_default [] (map_of (ss_messages st) (js_text roomId))). JStr (sm_id m) = messageId)
        then Inl (''shared message not found in room '' @ js_text roomId @ '': '' @ js_text messageId)
        else case requireText (get_prop input ''kind'') ''kind'' of
          Inl e \<Rightarrow> Inl e
        | Inr k \<Rightarrow>
           (case normalizeArtifactRef
                  (JObj [(''kind'', JStr k), (''name'', text_or_undef (get_prop input ''name'')),
                     (''uri'', text_or_undef (get_prop input ''uri'')),
                     (''mimeType'', text_or_undef (get_prop input ''mimeType'')),
                     (''digest'', text_or_undef (get_prop input ''digest'')),
                     (''metadata'', normalizeMetadata (get_prop input ''metadata''))])
                  (''artifact-'' @ uuid) roomId (text_or_undef messageId) now
                  (or_unknown (optionalText (get_prop input ''createdBy''))) of
              Inl e \<Rightarrow> Inl e
            | Inr a \<Rightarrow> Inr ([ArtifactAttached now a], a)))"

section \<open>Reads\<close>

definition sort_desc :: "('a \<Rightarrow> string) \<Rightarrow> 'a list \<Rightarrow> 'a list" where
  "sort_desc key xs = rev (sort_key key (rev xs))"

definition listRooms :: "shared_options \<Rightarrow> shared_state \<Rightarrow> js \<Rightarrow> room_status option \<Rightarrow> string \<Rightarrow> string \<Rightarrow>
    string + shared_room list" where
  "listRooms opts st cnt status participant tag =
    (if \<not> so_enabled opts then Inl ''shared context is disabled''
     else let rooms = map snd (ss_rooms st);
              r1 = filter (\<lambda>r. status = None \<or> status = Some (sr_status r)) rooms;
              r2 = filter (\<lambda>r. participant = [] \<or> participant \<in> set (sr_participants r)) r1;
              r3 = filter (\<lambda>r. tag = [] \<or> to_lower tag \<in> set (sr_tags r)) r2
          in Inr (take (nat (normalizeCount cnt 50 500)) (sort_desc sr_updatedAt r3)))"

definition getRoom :: "shared_options \<Rightarrow> shared_state \<Rightarrow> string \<Rightarrow> string + shared_room option" where
  "getRoom opts st roomId =
    (if \<not> so_enabled opts then Inl ''shared context is disabled'' else Inr (map_of (ss_rooms st) roomId))"

definition readMessages :: "shared_options \<Rightarrow> shared_state \<Rightarrow> string \<Rightarrow> js \<Rightarrow> string \<Rightarrow> string + shared_message list" where
  "readMessages opts st roomId cnt after =
    (if \<not> so_enabled opts then Inl ''shared context is disabled''
     else if map_of (ss_rooms st) roomId = None then Inl (''shared room not found: '' @ roomId)
     else let ms = opt_default [] (map_of (ss_messages st) roomId);
              ms' = (if after = [] then ms else filter (\<lambda>m. after < sm_ts m) ms)
          in Inr (last_n (nat (normalizeCount cnt 50 (so_maxMessagesPerRead opts))) ms'))"

fun unique_strings :: "string list \<Rightarrow> string list \<Rightarrow> string list" where
  "unique_strings seen [] = []"
| "unique_strings seen (s # ss) =
     (if s \<in> set seen then unique_strings seen ss else s # unique_strings (s # seen) ss)"

record room_summary =
  rs_room :: shared_room
  rs_messageCount :: nat
  rs_artifactCount :: nat
  rs_participants :: "string list"
  rs_recent :: "shared_message list"
  rs_blockers :: "shared_message list"
  rs_decisions :: "shared_message list"

definition summarizeRoom :: "shared_options \<Rightarrow> shared_state \<Rightarrow> string \<Rightarrow> js \<Rightarrow> string + room_summary" where
  "summarizeRoom opts st roomId cnt =
    (if \<not> so_enabled opts then Inl ''shared context is disabled''
     else case map_of (ss_rooms st) roomId of
       None \<Rightarrow> Inl (''shared room not found: '' @ roomId)
     | Some room \<Rightarrow>
        let ms = opt_default [] (map_of (ss_messages st) roomId);
            as = opt_default [] (map_of (ss_artifacts st) roomId)
        in Inr \<lparr>rs_room = room, rs_messageCount = length ms, rs_artifactCount = length as,
             rs_participants = sort (unique_strings [] (sr_participants room @ map sm_author ms)),
             rs_recent = last_n (nat (normalizeCount (coalesce cnt (JNum (Fin 20))) 20 (so_maxMessagesPerRead opts))) ms,
             rs_blockers = last_n 10 (filter (\<lambda>m. sm_kind m = ''blocker'') ms),
             rs_decisions = last_n 10 (filter (\<lambda>m. sm_kind m = ''decision'') ms)\<rparr>)"

section \<open>Deduplication\<close>

interpretation entries: dedupe_loop list_entry unique_entries
  by unfold_locales (auto split: option.splits)

interpretation names: dedupe_loop Some unique_strings
  by unfold_locales auto

lemma list_entry_SomeD: "list_entry v = Some y \<Longrightarrow> y \<noteq> [] \<and> trim y = y"
  by (auto simp: list_entry_def split: js.splits if_splits)

lemma normalizeStringList_props:
  "distinct (normalizeStringList v) \<and> (\<forall>s \<in> set (normalizeStringList v). s \<noteq> [] \<and> trim s = s)"
  by (auto simp: normalizeStringList_def entries.loop_distinct dest!: entries.loop_mem list_entry_SomeD split: js.splits)

text \<open>Normalising is idempotent: a stored list read back and normalised again is unchanged.\<close>

lemma normalizeStringList_idem:
  "normalizeStringList (JArr (map JStr (normalizeStringList v))) = normalizeStringList v"
proof -
  have "list_entry x = Some y \<Longrightarrow> list_entry (JStr y) = Some y" for x y
    using list_entry_SomeD [of x y] by (simp add: list_entry_def)
  from entries.loop_idem [of JStr, OF this] show ?thesis
    by (cases v) (simp_all add: normalizeStringList_def)
qed

text \<open>Tags are made distinct before they are lower-cased, so a room can carry a tag twice.\<close>

lemma createRoom_duplicate_tags:
  "\<exists>evs room. createRoom opts now uuid (JObj [(''title'', JStr ''t''), (''tags'', JArr [JStr ''A'', JStr ''a''])]) =
     Inr (evs, room) \<and> sr_tags room = [''a'', ''a'']"
  if "so_enabled opts"
proof -
  have "to_lower ''A'' = ''a''" "to_lower ''a'' = ''a''" "trim ''t'' = ''t''" "trim ''A'' = ''A''" "trim ''a'' = ''a''"
    by code_simp+
  with that show ?thesis
    by (simp add: createRoom_def requireText_def optionalText_def normalizeStringList_def list_entry_def Let_def)
qed

section \<open>The event log\<close>

lemma fold_lines: "fold apply_line (map EventLine evs) st = fold applyEvent evs st"
  by (induction evs arbitrary: st) simp_all

text \<open>Appending to the file is applying the events to the state it denotes.\<close>

lemma loadState_append: "loadState (appendMany evs f) = fold applyEvent evs (loadState f)"
  by (cases f) (simp_all add: loadState_def appendMany_def fold_lines)

lemma foreign_lines_skipped: "loadState (Some (ls @ [ForeignLine])) = loadState (Some ls)"
  by (simp add: loadState_def)

definition room_messages :: "shared_state \<Rightarrow> string \<Rightarrow> shared_message list" where
  "room_messages st r = opt_default [] (map_of (ss_messages st) r)"

definition room_artifacts :: "shared_state \<Rightarrow> string \<Rightarrow> artifact_ref list" where
  "room_artifacts st r = opt_default [] (map_of (ss_artifacts st) r)"

lemma lookup_push: "opt_default [] (map_of (push_to k x m) j) = opt_default [] (map_of m j) @ (if j = k then [x] else [])"
  by (simp add: push_to_def amap.get_put)

lemma applyEvent_effects [simp]:
  "map_of (ss_rooms (applyEvent (RoomCreated ts r) st)) j = (if j = sr_id r then Some r else map_of (ss_rooms st) j)"
  "map_of (ss_rooms (applyEvent (RoomUpdated ts r) st)) j = (if j = sr_id r then Some r else map_of (ss_rooms st) j)"
  "ss_rooms (applyEvent (MessagePosted ts m) st) = ss_rooms st"
  "ss_rooms (applyEvent (ArtifactAttached ts a) st) = ss_rooms st"
  "room_messages (applyEvent (RoomCreated ts r) st) j = room_messages st j"
  "room_messages (applyEvent (RoomUpdated ts r) st) j = room_messages st j"
  "room_messages (applyEvent (MessagePosted ts m) st) j = room_messages st j @ (if j = sm_roomId m then [m] else [])"
  "room_messages (applyEvent (ArtifactAttached ts a) st) j = room_messages st j"
  "room_artifacts (applyEvent (RoomCreated ts r) st) j = room_artifacts st j"
  "room_artifacts (applyEvent (RoomUpdated ts r) st) j = room_artifacts st j"
  "room_artifacts (applyEvent (MessagePosted ts m) st) j = room_artifacts st j"
  "room_artifacts (applyEvent (ArtifactAttached ts a) st) j = room_artifacts st j @ (if j = js_text (ar_roomId a) then [a] else [])"
  by (auto simp: applyEvent_def amap.get_put room_messages_def room_artifacts_def lookup_push)

lemma attach_events [simp]:
  "ss_rooms (fold applyEvent (map (ArtifactAttached ts) as) st) = ss_rooms st"
  "room_messages (fold applyEvent (map (ArtifactAttached ts) as) st) j = room_messages st j"
  by (induction as arbitrary: st) simp_all

lemma attach_events_artifacts:
  "(\<forall>a \<in> set as. js_text (ar_roomId a) = r) \<Longrightarrow>
   room_artifacts (fold applyEvent (map (ArtifactAttached ts) as) st) j = room_artifacts st j @ (if j = r then as else [])"
  by (induction as arbitrary: st) auto

lemma normalizeArtifactRef_room:
  "normalizeArtifactRef v aid roomId mid now by' = Inr a \<Longrightarrow> ar_roomId a = roomId \<and> ar_messageId a = mid \<and> ar_id a = aid"
  by (auto simp: normalizeArtifactRef_def split: if_splits sum.splits)

lemma post_artifacts_room:
  "post_artifacts uuids now roomId mid author n vs = Inr as \<Longrightarrow>
   (\<forall>a \<in> set as. ar_roomId a = roomId \<and> ar_messageId a = JStr mid) \<and> length as = length vs"
  by (induction vs arbitrary: n as)
     (auto split: sum.splits dest!: normalizeArtifactRef_room)

lemma room_at_SomeD: "room_at st v = Some room \<Longrightarrow> \<exists>r. v = JStr r \<and> map_of (ss_rooms st) r = Some room"
  by (auto simp: room_at_def split: js.splits)

text \<open>What a successful decision consists of.\<close>

lemma normalizeMessageKind_known: "normalizeMessageKind v \<in> set message_kinds"
  by (simp add: normalizeMessageKind_def Let_def) (simp add: message_kinds_def)

lemma requireContentText_InrD: "requireContentText v n = Inr c \<Longrightarrow> v = JStr c \<and> c \<noteq> []"
  by (auto simp: requireContentText_def split: js.splits if_splits)

lemma postMessage_InrE:
  assumes "postMessage opts now uuids st input = Inr (evs, m)"
  obtains r room as where "get_prop input ''roomId'' = JStr r" "map_of (ss_rooms st) r = Some room"
    "sr_status room \<noteq> RoomArchived" "sm_roomId m = r" "sm_id m = ''msg-'' @ uuids 0" "sm_content m \<noteq> []"
    "int (length (sm_content m)) \<le> so_maxMessageChars opts" "sm_kind m \<in> set message_kinds" "sm_artifacts m = as"
    "\<forall>a \<in> set as. ar_roomId a = JStr r \<and> ar_messageId a = JStr (sm_id m)"
    "get_prop input ''content'' = JStr (sm_content m)" "so_enabled opts"
    "evs = MessagePosted now m # map (ArtifactAttached now) as @ [RoomUpdated now (room\<lparr>sr_updatedAt := now\<rparr>)]"
proof -
  from assms obtain room where en: "so_enabled opts" and room: "room_at st (get_prop input ''roomId'') = Some room"
    by (auto simp: postMessage_def Let_def split: if_splits option.splits)
  then obtain r where r: "get_prop input ''roomId'' = JStr r" "map_of (ss_rooms st) r = Some room"
    using room_at_SomeD by metis
  from assms en room have op: "sr_status room \<noteq> RoomArchived" by (auto simp: postMessage_def Let_def)
  from assms en room op obtain c where c: "requireContentText (get_prop input ''content'') ''content'' = Inr c"
    by (auto simp: postMessage_def Let_def split: sum.splits)
  from assms en room op c have len: "int (length c) \<le> so_maxMessageChars opts"
    by (auto simp: postMessage_def Let_def split: if_splits)
  from assms en room op c len obtain vs where vs: "artifact_inputs (get_prop input ''artifacts'') = Inr vs"
    by (auto simp: postMessage_def Let_def split: sum.splits)
  from assms en room op c len vs obtain as where
    as: "post_artifacts uuids now (JStr r) (''msg-'' @ uuids 0) (or_unknown (optionalText (get_prop input ''author''))) 1 vs = Inr as"
    by (auto simp: postMessage_def Let_def r split: sum.splits)
  from assms en room op c len vs as have
    m: "m = \<lparr>sm_id = ''msg-'' @ uuids 0, sm_roomId = r, sm_ts = now,
          sm_author = or_unknown (optionalText (get_prop input ''author'')),
          sm_kind = normalizeMessageKind (get_prop input ''kind''), sm_content = c,
          sm_artifacts = as, sm_metadata = normalizeMetadata (get_prop input ''metadata'')\<rparr>"
    and evs: "evs = MessagePosted now m # map (ArtifactAttached now) as @ [RoomUpdated now (room\<lparr>sr_updatedAt := now\<rparr>)]"
    by (auto simp: postMessage_def Let_def r)
  show thesis
    using that [OF r op] requireContentText_InrD [OF c] len post_artifacts_room [OF as] en evs normalizeMessageKind_known
    by (simp add: m)
qed

lemma archiveRoom_InrE:
  assumes "archiveRoom opts now st v = Inr (evs, a)"
  obtains r room where "v = JStr r" "map_of (ss_rooms st) r = Some room"
    "a = room\<lparr>sr_status := RoomArchived, sr_updatedAt := now\<rparr>" "evs = [RoomUpdated now a]"
  using assms by (auto simp: archiveRoom_def Let_def split: if_splits option.splits dest!: room_at_SomeD)

lemma attachArtifact_InrE:
  assumes "attachArtifact opts now uuid st input = Inr (evs, a)"
  obtains r room where "get_prop input ''roomId'' = JStr r" "map_of (ss_rooms st) r = Some room"
    "sr_status room \<noteq> RoomArchived" "ar_roomId a = JStr r" "evs = [ArtifactAttached now a]"
  using assms
  by (auto simp: attachArtifact_def Let_def split: if_splits option.splits sum.splits
      dest!: room_at_SomeD normalizeArtifactRef_room)

section \<open>What a post does\<close>

text \<open>Posting: a successful post keeps the content unchanged and within the limit, appends
  exactly that message to its room and its artifacts to the room's artifacts, leaves every other
  room's messages alone, and a following read returns it as the newest of at most the configured
  number of messages.\<close>

theorem post_then_read:
  assumes "postMessage opts now uuids (loadState f) input = Inr (evs, m)"
    and "1 \<le> so_maxMessagesPerRead opts"
  shows "get_prop input ''content'' = JStr (sm_content m) \<and>
    int (length (sm_content m)) \<le> so_maxMessageChars opts \<and>
    (\<forall>r. room_messages (loadState (appendMany evs f)) r =
        room_messages (loadState f) r @ (if r = sm_roomId m then [m] else [])) \<and>
    (\<forall>r. room_artifacts (loadState (appendMany evs f)) r =
        room_artifacts (loadState f) r @ (if r = sm_roomId m then sm_artifacts m else [])) \<and>
    (\<exists>ms. readMessages opts (loadState (appendMany evs f)) (sm_roomId m) cnt [] = Inr (ms @ [m]) \<and>
        int (length (ms @ [m])) \<le> so_maxMessagesPerRead opts)"
proof -
  obtain r room as where x: "get_prop input ''roomId'' = JStr r" "map_of (ss_rooms (loadState f)) r = Some room"
    "sr_status room \<noteq> RoomArchived" "sm_roomId m = r" "sm_id m = ''msg-'' @ uuids 0" "sm_content m \<noteq> []"
    "int (length (sm_content m)) \<le> so_maxMessageChars opts" "sm_kind m \<in> set message_kinds" "sm_artifacts m = as"
    "\<forall>a \<in> set as. ar_roomId a = JStr r \<and> ar_messageId a = JStr (sm_id m)"
    "get_prop input ''content'' = JStr (sm_content m)" "so_enabled opts"
    "evs = MessagePosted now m # map (ArtifactAttached now) as @ [RoomUpdated now (room\<lparr>sr_updatedAt := now\<rparr>)]"
    using assms(1) by (rule postMessage_InrE)
  let ?st = "loadState (appendMany evs f)"
  have ms: "room_messages ?st j = room_messages (loadState f) j @ (if j = r then [m] else [])" for j
    by (simp add: loadState_append x(13) x(4))
  have ars: "room_artifacts ?st j = room_artifacts (loadState f) j @ (if j = r then as else [])" for j
    using attach_events_artifacts [of as r now] x(10) by (simp add: loadState_append x(13))
  have room: "map_of (ss_rooms ?st) r \<noteq> None"
    using x(2) by (simp add: loadState_append x(13))
  let ?n = "nat (normalizeCount cnt 50 (so_maxMessagesPerRead opts))"
  have n: "0 < ?n" "int ?n \<le> so_maxMessagesPerRead opts"
    using assms(2) by (auto simp: normalizeCount_def split: js.splits jnum.splits)
  have read: "readMessages opts ?st r cnt [] = Inr (last_n ?n (room_messages ?st r))"
    using room x(12) by (simp add: readMessages_def room_messages_def)
  have "\<exists>l. last_n k (xs @ [m]) = l @ [m] \<and> length (l @ [m]) \<le> k" if "0 < k" for k and xs :: "shared_message list"
    using that by (intro exI [of _ "drop (Suc (length xs) - k) xs"]) (auto simp: last_n_def)
  then obtain l where l: "last_n ?n (room_messages (loadState f) r @ [m]) = l @ [m]" "length (l @ [m]) \<le> ?n"
    using n(1) by blast
  have "readMessages opts ?st r cnt [] = Inr (l @ [m])"
    unfolding read ms [of r] using l(1) by simp
  moreover have "int (length (l @ [m])) \<le> so_maxMessagesPerRead opts"
    using l(2) n(2) by linarith
  ultimately have "\<exists>l. readMessages opts ?st r cnt [] = Inr (l @ [m]) \<and> int (length (l @ [m])) \<le> so_maxMessagesPerRead opts"
    by blast
  then show ?thesis using x ms ars by simp
qed

definition demo_opts :: shared_options where
  "demo_opts = shared_store_options None None None"

definition demo_file :: shared_file where
  "demo_file = Some [ForeignLine, EventLine (RoomCreated ''t0'' \<lparr>sr_id = ''room-1'', sr_title = ''t'', sr_topic = [],
     sr_participants = [], sr_tags = [], sr_status = RoomOpen, sr_createdAt = ''t0'', sr_updatedAt = ''t0'',
     sr_createdBy = ''a'', sr_metadata = JUndef\<rparr>)]"

definition demo_post :: js where
  "demo_post = JObj [(''roomId'', JStr ''room-1''), (''author'', JStr ''bob''), (''content'', JStr ''hi'')]"

lemma demo_posts:
  "\<exists>evs m. postMessage demo_opts ''t1'' (\<lambda>n. ''u'') (loadState demo_file) demo_post = Inr (evs, m) \<and> sm_content m = ''hi'' \<and>
     sm_roomId m = ''room-1''"
proof -
  have "trim ''hi'' = ''hi''" by code_simp
  then show ?thesis
    by (simp add: postMessage_def demo_opts_def shared_store_options_def demo_post_def demo_file_def loadState_def
        empty_shared_state_def applyEvent_def room_at_def requireContentText_def artifact_inputs_def nullish_def Let_def)
qed

theorem post_then_read_witness:
  "\<exists>evs m ms. postMessage demo_opts ''t1'' (\<lambda>n. ''u'') (loadState demo_file) demo_post = Inr (evs, m) \<and>
     readMessages demo_opts (loadState (appendMany evs demo_file)) ''room-1'' JUndef [] = Inr (ms @ [m])"
proof -
  obtain evs m where m: "postMessage demo_opts ''t1'' (\<lambda>n. ''u'') (loadState demo_file) demo_post = Inr (evs, m)"
    "sm_roomId m = ''room-1''" using demo_posts by blast
  have "1 \<le> so_maxMessagesPerRead demo_opts" by (simp add: demo_opts_def shared_store_options_def)
  from post_then_read [OF m(1) this, of JUndef] m show ?thesis by auto
qed

section \<open>Archived rooms\<close>

datatype shared_cmd =
    CmdCreate string string js
  | CmdArchive string js
  | CmdPost string "nat \<Rightarrow> string" js
  | CmdAttach string string js

text \<open>A command run to its end before the next one starts: load, decide, append.\<close>

definition commit :: "(string + (shared_event list \<times> 'a)) \<Rightarrow> shared_file \<Rightarrow> shared_file" where
  "commit d f = (case d of Inl _ \<Rightarrow> f | Inr (evs, _) \<Rightarrow> appendMany evs f)"

fun run_cmd :: "shared_options \<Rightarrow> shared_cmd \<Rightarrow> shared_file \<Rightarrow> shared_file" where
  "run_cmd opts (CmdCreate now uuid input) f = commit (createRoom opts now uuid input) f"
| "run_cmd opts (CmdArchive now v) f = commit (archiveRoom opts now (loadState f) v) f"
| "run_cmd opts (CmdPost now uuids input) f = commit (postMessage opts now uuids (loadState f) input) f"
| "run_cmd opts (CmdAttach now uuid input) f = commit (attachArtifact opts now uuid (loadState f) input) f"

definition frozen :: "string \<Rightarrow> shared_message list \<Rightarrow> artifact_ref list \<Rightarrow> shared_state \<Rightarrow> bool" where
  "frozen r ms as st \<longleftrightarrow> map_option sr_status (map_of (ss_rooms st) r) = Some RoomArchived \<and>
     room_messages st r = ms \<and> room_artifacts st r = as"

fun creates :: "string \<Rightarrow> shared_cmd \<Rightarrow> bool" where
  "creates r (CmdCreate now uuid input) = (r = ''room-'' @ uuid)"
| "creates r _ = False"

definition rooms_keyed :: "shared_state \<Rightarrow> bool" where
  "rooms_keyed st \<longleftrightarrow> (\<forall>k room. map_of (ss_rooms st) k = Some room \<longrightarrow> sr_id room = k)"

lemma rooms_keyed_apply: "rooms_keyed st \<Longrightarrow> rooms_keyed (applyEvent ev st)"
  by (cases ev) (auto simp: rooms_keyed_def split: if_splits)

lemma rooms_keyed_load: "rooms_keyed (loadState f)"
proof -
  have "rooms_keyed st \<Longrightarrow> rooms_keyed (fold apply_line ls st)" for ls st
  proof (induction ls arbitrary: st)
    case (Cons l ls)
    then show ?case by (cases l) (simp_all add: rooms_keyed_apply)
  qed simp
  moreover have "rooms_keyed empty_shared_state" by (simp add: rooms_keyed_def empty_shared_state_def)
  ultimately show ?thesis by (cases f) (simp_all add: loadState_def)
qed

lemma frozen_cmd:
  assumes fr: "frozen r ms as (loadState f)" and c: "\<not> creates r cmd"
  shows "frozen r ms as (loadState (run_cmd opts cmd f))"
proof (cases cmd)
  case (CmdCreate now uuid input)
  with fr c show ?thesis
    by (auto simp: commit_def createRoom_def Let_def frozen_def loadState_append split: sum.splits if_splits)
next
  case (CmdArchive now v)
  show ?thesis
  proof (cases "archiveRoom opts now (loadState f) v")
    case (Inr p)
    then obtain evs a where d: "archiveRoom opts now (loadState f) v = Inr (evs, a)" by (cases p) auto
    from d obtain j room where "v = JStr j" "map_of (ss_rooms (loadState f)) j = Some room"
      "a = room\<lparr>sr_status := RoomArchived, sr_updatedAt := now\<rparr>" "evs = [RoomUpdated now a]"
      by (rule archiveRoom_InrE)
    with fr d CmdArchive show ?thesis by (auto simp: commit_def frozen_def loadState_append)
  qed (use fr CmdArchive in \<open>simp add: commit_def\<close>)
next
  case (CmdPost now uuids input)
  show ?thesis
  proof (cases "postMessage opts now uuids (loadState f) input")
    case (Inr p)
    then obtain evs m where d: "postMessage opts now uuids (loadState f) input = Inr (evs, m)" by (cases p) auto
    from d obtain j room bs where p: "map_of (ss_rooms (loadState f)) j = Some room" "sr_status room \<noteq> RoomArchived"
      "sm_roomId m = j" "\<forall>a \<in> set bs. ar_roomId a = JStr j \<and> ar_messageId a = JStr (sm_id m)"
      "evs = MessagePosted now m # map (ArtifactAttached now) bs @ [RoomUpdated now (room\<lparr>sr_updatedAt := now\<rparr>)]"
      by (rule postMessage_InrE)
    have "sr_id room = j" using rooms_keyed_load [of f] p(1) by (simp add: rooms_keyed_def)
    moreover have "j \<noteq> r" using fr p(1,2) by (auto simp: frozen_def)
    ultimately show ?thesis
      using fr p attach_events_artifacts [of bs j now] d CmdPost
      by (simp add: commit_def frozen_def loadState_append)
  qed (use fr CmdPost in \<open>simp add: commit_def\<close>)
next
  case (CmdAttach now uuid input)
  show ?thesis
  proof (cases "attachArtifact opts now uuid (loadState f) input")
    case (Inr p)
    then obtain evs a where d: "attachArtifact opts now uuid (loadState f) input = Inr (evs, a)" by (cases p) auto
    from d obtain j room where p: "map_of (ss_rooms (loadState f)) j = Some room" "sr_status room \<noteq> RoomArchived"
      "ar_roomId a = JStr j" "evs = [ArtifactAttached now a]"
      by (rule attachArtifact_InrE)
    then have "j \<noteq> r" using fr by (auto simp: frozen_def)
    with fr p d CmdAttach show ?thesis by (simp add: commit_def frozen_def loadState_append)
  qed (use fr CmdAttach in \<open>simp add: commit_def\<close>)
qed

text \<open>C27. An archived room is frozen: through any sequence of complete operations (that do not
  create a room with its identifier) it stays archived and its messages and artifacts do not
  change.\<close>

theorem archived_room_frozen:
  assumes "map_option sr_status (map_of (ss_rooms (loadState f)) r) = Some RoomArchived"
    and "\<forall>c \<in> set cmds. \<not> creates r c"
  shows "map_option sr_status (map_of (ss_rooms (loadState (fold (run_cmd opts) cmds f))) r) = Some RoomArchived \<and>
    room_messages (loadState (fold (run_cmd opts) cmds f)) r = room_messages (loadState f) r \<and>
    room_artifacts (loadState (fold (run_cmd opts) cmds f)) r = room_artifacts (loadState f) r"
proof -
  have "frozen r ms as (loadState f) \<Longrightarrow> frozen r ms as (loadState (fold (run_cmd opts) cmds f))" for ms as
    using assms(2) by (induction cmds arbitrary: f) (simp_all add: frozen_cmd)
  with assms(1) show ?thesis by (simp add: frozen_def)
qed

theorem archived_room_frozen_witness:
  "map_option sr_status (map_of (ss_rooms (loadState (fold (run_cmd demo_opts) [CmdPost ''t2'' (\<lambda>n. ''v'') demo_post]
      (run_cmd demo_opts (CmdArchive ''t1'' (JStr ''room-1'')) demo_file)))) ''room-1'') = Some RoomArchived"
proof -
  have "map_option sr_status (map_of (ss_rooms (loadState
      (run_cmd demo_opts (CmdArchive ''t1'' (JStr ''room-1'')) demo_file))) ''room-1'') = Some RoomArchived"
    by (simp add: commit_def archiveRoom_def demo_opts_def shared_store_options_def demo_file_def loadState_def
        empty_shared_state_def applyEvent_def room_at_def appendMany_def Let_def)
  from archived_room_frozen [OF this, of "[CmdPost ''t2'' (\<lambda>n. ''v'') demo_post]" demo_opts] show ?thesis by simp
qed

text \<open>The same, event by event: what may be appended to the file, whenever it is decided, without touching a room.\<close>

definition leaves_room :: "string \<Rightarrow> shared_event \<Rightarrow> bool" where
  "leaves_room r ev = (case ev of
     RoomCreated _ x \<Rightarrow> sr_id x \<noteq> r
   | RoomUpdated _ x \<Rightarrow> sr_id x \<noteq> r \<or> sr_status x = RoomArchived
   | MessagePosted _ m \<Rightarrow> sm_roomId m \<noteq> r
   | ArtifactAttached _ a \<Rightarrow> js_text (ar_roomId a) \<noteq> r)"

lemma frozen_event: "frozen r ms as st \<Longrightarrow> leaves_room r ev \<Longrightarrow> frozen r ms as (applyEvent ev st)"
  by (cases ev) (auto simp: frozen_def leaves_room_def)

lemma frozen_events: "frozen r ms as st \<Longrightarrow> list_all (leaves_room r) evs \<Longrightarrow> frozen r ms as (fold applyEvent evs st)"
  by (induction evs arbitrary: st) (simp_all add: frozen_event)

text \<open>A decision taken on a state in which the room is archived leaves the room alone.\<close>

lemma create_leaves:
  "createRoom opts now uuid input = Inr (evs, x) \<Longrightarrow> r \<noteq> ''room-'' @ uuid \<Longrightarrow> list_all (leaves_room r) evs"
  by (auto simp: createRoom_def Let_def leaves_room_def split: sum.splits if_splits)

lemma archive_leaves: "archiveRoom opts now st v = Inr (evs, x) \<Longrightarrow> list_all (leaves_room r) evs"
  by (erule archiveRoom_InrE) (simp add: leaves_room_def)

lemma post_leaves:
  assumes "postMessage opts now uuids st input = Inr (evs, m)" "frozen r ms as st" "rooms_keyed st"
  shows "list_all (leaves_room r) evs"
  using assms(1)
proof (rule postMessage_InrE)
  fix j room bs
  assume p: "map_of (ss_rooms st) j = Some room" "sr_status room \<noteq> RoomArchived" "sm_roomId m = j"
    "\<forall>a \<in> set bs. ar_roomId a = JStr j \<and> ar_messageId a = JStr (sm_id m)"
    "evs = MessagePosted now m # map (ArtifactAttached now) bs @ [RoomUpdated now (room\<lparr>sr_updatedAt := now\<rparr>)]"
  have "sr_id room = j" using assms(3) p(1) by (simp add: rooms_keyed_def)
  moreover have "j \<noteq> r" using assms(2) p(1,2) by (auto simp: frozen_def)
  ultimately show ?thesis using p(3,4) by (simp add: p(5) leaves_room_def list_all_iff)
qed

lemma attach_leaves:
  assumes "attachArtifact opts now uuid st input = Inr (evs, a)" "frozen r ms as st"
  shows "list_all (leaves_room r) evs"
  using assms(1)
proof (rule attachArtifact_InrE)
  fix j room
  assume p: "map_of (ss_rooms st) j = Some room" "sr_status room \<noteq> RoomArchived" "ar_roomId a = JStr j"
    "evs = [ArtifactAttached now a]"
  have "j \<noteq> r" using assms(2) p(1,2) by (auto simp: frozen_def)
  then show ?thesis by (simp add: p(3,4) leaves_room_def)
qed

text \<open>The freeze does not survive interleaving: when a post has loaded the file before an archive
  commits, committing the post afterwards appends the room as it was loaded, so the room is open
  again and the archiving is lost, although both operations reported success.\<close>

theorem interleaved_post_unarchives:
  assumes "postMessage opts now uuids (loadState f) input = Inr (evs, m)"
    and "archiveRoom opts now' (loadState f) (JStr (sm_roomId m)) = Inr (evs', room')"
  shows "sr_status room' = RoomArchived \<and>
    map_option sr_status (map_of (ss_rooms (loadState (appendMany evs (appendMany evs' f)))) (sm_roomId m)) = Some RoomOpen"
proof -
  from assms(1) obtain j room bs where p: "map_of (ss_rooms (loadState f)) j = Some room" "sr_status room \<noteq> RoomArchived"
    "sm_roomId m = j"
    "evs = MessagePosted now m # map (ArtifactAttached now) bs @ [RoomUpdated now (room\<lparr>sr_updatedAt := now\<rparr>)]"
    by (rule postMessage_InrE)
  have "sr_id room = j" using rooms_keyed_load [of f] p(1) by (simp add: rooms_keyed_def)
  moreover have "sr_status room = RoomOpen" using p(2) by (cases "sr_status room") auto
  moreover have "sr_status room' = RoomArchived" using assms(2) by (rule archiveRoom_InrE) simp
  ultimately show ?thesis using p by (simp add: loadState_append)
qed

theorem interleaved_post_unarchives_witness:
  "\<exists>evs m evs' room'. postMessage demo_opts ''t1'' (\<lambda>n. ''u'') (loadState demo_file) demo_post = Inr (evs, m) \<and>
    archiveRoom demo_opts ''t2'' (loadState demo_file) (JStr ''room-1'') = Inr (evs', room') \<and>
    map_option sr_status (map_of (ss_rooms (loadState (appendMany evs (appendMany evs' demo_file)))) ''room-1'') = Some RoomOpen"
proof -
  obtain evs m where m: "postMessage demo_opts ''t1'' (\<lambda>n. ''u'') (loadState demo_file) demo_post = Inr (evs, m)"
    "sm_roomId m = ''room-1''" using demo_posts by blast
  obtain evs' room' where a: "archiveRoom demo_opts ''t2'' (loadState demo_file) (JStr (sm_roomId m)) = Inr (evs', room')"
    by (simp add: m(2) archiveRoom_def demo_opts_def shared_store_options_def demo_file_def loadState_def
        empty_shared_state_def applyEvent_def room_at_def Let_def)
  from interleaved_post_unarchives [OF m(1) a] m a show ?thesis by auto
qed

end
