(* ===== verification/TaskStore.thy ===== *)
theory TaskStore
  imports Telemetry
begin

text \<open>
  \<open>src/task-store.ts\<close> and \<open>src/task-cleanup.ts\<close>. The tasks directory is an association list from
  file names to contents, where a content is the JSON value the file parses to or \<^const>\<open>None\<close> for text
  that does not parse; the directory may not exist yet. The only file-system errors modelled are
  missing files; \<open>new Date\<close> is a parameter of the cleanup. Warnings omit the text of the error.
\<close>

section \<open>File names\<close>

definition unreserved :: "char \<Rightarrow> bool" where
  "unreserved c = (let n = (of_char c :: nat) in
     (65 \<le> n \<and> n \<le> 90) \<or> (97 \<le> n \<and> n \<le> 122) \<or> (48 \<le> n \<and> n \<le> 57) \<or>
     n \<in> {45, 95, 46, 33, 126, 42, 39, 40, 41})"

definition hex_upper :: "nat \<Rightarrow> char" where
  "hex_upper d = (if d < 10 then char_of (48 + d) else char_of (55 + d))"

definition percent_byte :: "nat \<Rightarrow> string" where
  "percent_byte n = [char_of (37 :: nat), hex_upper (n div 16), hex_upper (n mod 16)]"

text \<open>\<open>encodeURIComponent\<close>: a Latin-1 code unit above 127 has two UTF-8 bytes.\<close>

definition encode_char :: "char \<Rightarrow> string" where
  "encode_char c = (let n = (of_char c :: nat) in
     if unreserved c then [c]
     else if n < 128 then percent_byte n
     else percent_byte (192 + n div 64) @ percent_byte (128 + n mod 64))"

definition encodeURIComponent :: "string \<Rightarrow> string" where
  "encodeURIComponent s = concat (map encode_char s)"

definition hex_value :: "char \<Rightarrow> nat option" where
  "hex_value c = (let n = (of_char c :: nat) in
     if 48 \<le> n \<and> n \<le> 57 then Some (n - 48)
     else if 65 \<le> n \<and> n \<le> 70 then Some (n - 55)
     else if 97 \<le> n \<and> n \<le> 102 then Some (n - 87) else None)"

definition hex_byte :: "char \<Rightarrow> char \<Rightarrow> nat option" where
  "hex_byte a b = (case (hex_value a, hex_value b) of (Some x, Some y) \<Rightarrow> Some (16 * x + y) | _ \<Rightarrow> None)"

text \<open>\<open>decodeURIComponent\<close>; \<^const>\<open>None\<close> is a \<open>URIError\<close> or a character outside Latin-1.\<close>

fun decodeURIComponent :: "string \<Rightarrow> string option" where
  "decodeURIComponent [] = Some []"
| "decodeURIComponent (c # s) =
    (if c \<noteq> char_of (37 :: nat) then map_option (Cons c) (decodeURIComponent s)
     else case s of
       a # b # s1 \<Rightarrow>
         (case hex_byte a b of
            None \<Rightarrow> None
          | Some n \<Rightarrow>
              if n < 128 then map_option (Cons (char_of n)) (decodeURIComponent s1)
              else if n = 194 \<or> n = 195 then
                (case s1 of
                   p # a2 # b2 # s2 \<Rightarrow>
                     if p \<noteq> char_of (37 :: nat) then None
                     else (case hex_byte a2 b2 of
                             None \<Rightarrow> None
                           | Some m \<Rightarrow> if 128 \<le> m \<and> m < 192
                               then map_option (Cons (char_of ((n - 192) * 64 + (m - 128)))) (decodeURIComponent s2)
                               else None)
                 | _ \<Rightarrow> None)
              else None)
     | _ \<Rightarrow> None)"

definition taskFileName :: "string \<Rightarrow> string" where
  "taskFileName taskId = encodeURIComponent taskId @ ''.json''"

section \<open>The store\<close>

type_synonym task_content = "js option"
type_synonym task_dir = "(string \<times> task_content) list option"

datatype fs_error = ENOENT | SyntaxError | URIError | TypeError

definition dir_entries :: "task_dir \<Rightarrow> (string \<times> task_content) list" where
  "dir_entries d = opt_default [] d"

definition load_task :: "task_dir \<Rightarrow> string \<Rightarrow> fs_error + js option" where
  "load_task d taskId =
    (case map_of (dir_entries d) (taskFileName taskId) of
       None \<Rightarrow> Inr None
     | Some None \<Rightarrow> Inl SyntaxError
     | Some (Some v) \<Rightarrow> Inr (Some v))"

definition ensureDir :: "task_dir \<Rightarrow> task_dir" where
  "ensureDir d = (case d of None \<Rightarrow> Some [] | Some es \<Rightarrow> Some es)"

definition tmp_name :: "string \<Rightarrow> nat \<Rightarrow> int \<Rightarrow> string" where
  "tmp_name taskId pid now = taskFileName taskId @ ''.'' @ show_nat pid @ ''.'' @ show_int now @ ''.tmp''"

definition write_file :: "string \<Rightarrow> task_content \<Rightarrow> task_dir \<Rightarrow> task_dir" where
  "write_file name c d = map_option (AList.update name c) d"

definition rename_file :: "string \<Rightarrow> string \<Rightarrow> task_dir \<Rightarrow> fs_error + task_dir" where
  "rename_file old new d =
    (case map_of (dir_entries d) old of
       None \<Rightarrow> Inl ENOENT
     | Some c \<Rightarrow> Inr (map_option (\<lambda>es. AList.update new c (AList.delete old es)) d))"

text \<open>\<open>save\<close> in its two file-system steps: the temporary file, then the rename.\<close>

definition task_id :: "js \<Rightarrow> string" where
  "task_id task = js_text (get_prop task ''id'')"

definition save_write :: "nat \<Rightarrow> int \<Rightarrow> js \<Rightarrow> task_dir \<Rightarrow> task_dir" where
  "save_write pid now task d = write_file (tmp_name (task_id task) pid now) (json_clone task) (ensureDir d)"

definition save_rename :: "nat \<Rightarrow> int \<Rightarrow> js \<Rightarrow> task_dir \<Rightarrow> fs_error + task_dir" where
  "save_rename pid now task d = rename_file (tmp_name (task_id task) pid now) (taskFileName (task_id task)) d"

definition save_task :: "nat \<Rightarrow> int \<Rightarrow> js \<Rightarrow> task_dir \<Rightarrow> fs_error + task_dir" where
  "save_task pid now task d = save_rename pid now task (save_write pid now task d)"

fun decode_all :: "string list \<Rightarrow> fs_error + string list" where
  "decode_all [] = Inr []"
| "decode_all (n # ns) = (case decodeURIComponent (take (length n - 5) n) of
     None \<Rightarrow> Inl URIError
   | Some t \<Rightarrow> (case decode_all ns of Inl e \<Rightarrow> Inl e | Inr ts \<Rightarrow> Inr (t # ts)))"

definition listAll :: "task_dir \<Rightarrow> fs_error + string list" where
  "listAll d = decode_all (filter (\<lambda>n. ends_with n ''.json'') (map fst (dir_entries d)))"

definition delete_task :: "string \<Rightarrow> task_dir \<Rightarrow> bool \<times> task_dir" where
  "delete_task taskId d =
    (if map_of (dir_entries d) (taskFileName taskId) = None then (False, d)
     else (True, map_option (AList.delete (taskFileName taskId)) d))"

section \<open>Cleanup\<close>

definition TERMINAL_STATES :: "string list" where
  "TERMINAL_STATES = [''completed'', ''failed'', ''canceled'', ''rejected'']"

record cleanup_result =
  cr_expired :: nat
  cr_skipped :: nat
  cr_errors :: nat

record cleanup_world =
  cw_dir :: task_dir
  cw_result :: cleanup_result
  cw_telemetry :: telemetry
  cw_log :: "(bool \<times> string) list"

text \<open>\<open>{ state } = task.status\<close> throws when \<open>status\<close> is missing.\<close>

datatype verdict = VKeep | VError | VExpire string

definition judge :: "(js \<Rightarrow> int option) \<Rightarrow> int \<Rightarrow> int \<Rightarrow> js \<Rightarrow> verdict" where
  "judge date now ttlMs task =
    (let status = get_prop task ''status''; state = get_prop status ''state''; ts = get_prop status ''timestamp'' in
     if nullish status then VError
     else case state of
       JStr st \<Rightarrow>
         if st \<notin> set TERMINAL_STATES then VKeep
         else if \<not> truthy ts then VKeep
         else (case date ts of
                 None \<Rightarrow> VKeep
               | Some t \<Rightarrow> if now - t < ttlMs then VKeep else VExpire st)
     | _ \<Rightarrow> VKeep)"

definition skip_one :: "cleanup_world \<Rightarrow> cleanup_world" where
  "skip_one w = w\<lparr>cw_result := (cw_result w)\<lparr>cr_skipped := cr_skipped (cw_result w) + 1\<rparr>\<rparr>"

definition error_one :: "string \<Rightarrow> cleanup_world \<Rightarrow> cleanup_world" where
  "error_one msg w = w\<lparr>cw_result := (cw_result w)\<lparr>cr_errors := cr_errors (cw_result w) + 1\<rparr>,
     cw_log := cw_log w @ [(False, msg)]\<rparr>"

definition cleanup_one :: "(js \<Rightarrow> int option) \<Rightarrow> int \<Rightarrow> int \<Rightarrow> string \<Rightarrow> cleanup_world \<Rightarrow> cleanup_world" where
  "cleanup_one date now ttlMs taskId w =
    (case load_task (cw_dir w) taskId of
       Inl e \<Rightarrow> error_one (''claw-crony: task cleanup error for '' @ taskId) w
     | Inr None \<Rightarrow> w
     | Inr (Some task) \<Rightarrow>
        (case judge date now ttlMs task of
           VError \<Rightarrow> error_one (''claw-crony: task cleanup error for '' @ taskId) w
         | VKeep \<Rightarrow> skip_one w
         | VExpire st \<Rightarrow>
             (case delete_task taskId (cw_dir w) of
                (False, _) \<Rightarrow> skip_one w
              | (True, d) \<Rightarrow> w\<lparr>cw_dir := d,
                  cw_result := (cw_result w)\<lparr>cr_expired := cr_expired (cw_result w) + 1\<rparr>,
                  cw_telemetry := recordTaskExpired now taskId st (cw_telemetry w)\<rparr>)))"

definition zero_result :: cleanup_result where
  "zero_result = \<lparr>cr_expired = 0, cr_skipped = 0, cr_errors = 0\<rparr>"

definition runTaskCleanup :: "(js \<Rightarrow> int option) \<Rightarrow> bool \<Rightarrow> int \<Rightarrow> int \<Rightarrow> task_dir \<Rightarrow> telemetry \<Rightarrow> cleanup_world" where
  "runTaskCleanup date alreadyActive now ttlMs d t =
    (let w0 = \<lparr>cw_dir = d, cw_result = zero_result, cw_telemetry = t, cw_log = []\<rparr> in
     if alreadyActive then w0
     else case listAll d of
       Inl e \<Rightarrow> w0\<lparr>cw_log := [(False, ''claw-crony: task cleanup failed to list tasks'')]\<rparr>
     | Inr [] \<Rightarrow> w0
     | Inr ids \<Rightarrow>
        let w = fold (cleanup_one date now ttlMs) ids w0
        in if 0 < cr_expired (cw_result w) then w\<lparr>cw_log := cw_log w @ [(True,
              ''claw-crony: task cleanup completed - expired='' @ show_nat (cr_expired (cw_result w)) @
              '' skipped='' @ show_nat (cr_skipped (cw_result w)) @ '' errors='' @ show_nat (cr_errors (cw_result w)))]\<rparr>
           else w)"

section \<open>File names are a faithful, path-free encoding\<close>

lemma hex_value_upper: "d < 16 \<Longrightarrow> hex_value (hex_upper d) = Some d"
  by (auto simp: hex_value_def hex_upper_def Let_def)

lemma hex_byte_upper: "n < 256 \<Longrightarrow> hex_byte (hex_upper (n div 16)) (hex_upper (n mod 16)) = Some n"
  by (simp add: hex_byte_def hex_value_upper)

lemma unreserved_not_percent: "unreserved c \<Longrightarrow> c \<noteq> char_of (37 :: nat)"
  by (auto simp: unreserved_def Let_def)

lemma decode_percent:
  "n < 128 \<Longrightarrow> decodeURIComponent (percent_byte n @ s) = map_option (Cons (char_of n)) (decodeURIComponent s)"
  by (simp add: percent_byte_def hex_byte_upper)

lemma decode_percent2:
  assumes "128 \<le> n" "n < 256"
  shows "decodeURIComponent (percent_byte (192 + n div 64) @ percent_byte (128 + n mod 64) @ s) =
    map_option (Cons (char_of n)) (decodeURIComponent s)"
proof -
  have d: "n div 64 = 2 \<or> n div 64 = 3" using assms by auto
  have e: "(192 + n div 64 - 192) * 64 + (128 + n mod 64 - 128) = n" by simp
  have b1: "hex_byte (hex_upper ((192 + n div 64) div 16)) (hex_upper ((192 + n div 64) mod 16)) = Some (192 + n div 64)"
    by (rule hex_byte_upper) (use d in auto)
  have b2: "hex_byte (hex_upper ((128 + n mod 64) div 16)) (hex_upper ((128 + n mod 64) mod 16)) = Some (128 + n mod 64)"
    by (rule hex_byte_upper) (use mod_less_divisor [of 64 n] in linarith)
  have r: "128 \<le> 128 + n mod 64 \<and> 128 + n mod 64 < 192" by simp
  have "decodeURIComponent (percent_byte (192 + n div 64) @ percent_byte (128 + n mod 64) @ s) =
     map_option (Cons (char_of ((192 + n div 64 - 192) * 64 + (128 + n mod 64 - 128)))) (decodeURIComponent s)"
    using d r unfolding percent_byte_def append.simps
    by (subst decodeURIComponent.simps) (simp only: b1 b2 option.simps list.simps simp_thms if_True if_False, auto)
  then show ?thesis unfolding e .
qed

lemma decode_encode_char: "decodeURIComponent (encode_char c @ s) = map_option (Cons c) (decodeURIComponent s)"
proof (cases "unreserved c")
  case True
  then show ?thesis using unreserved_not_percent [OF True] by (simp add: encode_char_def Let_def)
next
  case False
  have "(of_char c :: nat) < 256" by simp
  then show ?thesis
    using False decode_percent [of "of_char c" s] decode_percent2 [of "of_char c" s]
    by (cases "(of_char c :: nat) < 128") (simp_all add: encode_char_def Let_def)
qed

lemma decode_encode: "decodeURIComponent (encodeURIComponent s) = Some s"
  by (induction s) (simp_all add: encodeURIComponent_def decode_encode_char)

lemma hex_upper_safe: "d < 16 \<Longrightarrow> unreserved (hex_upper d)"
  by (auto simp: hex_upper_def unreserved_def Let_def)

lemma encode_char_safe: "x \<in> set (encode_char c) \<Longrightarrow> unreserved x \<or> x = char_of (37 :: nat)"
proof -
  have n: "(of_char c :: nat) < 256" by simp
  then have "(192 + (of_char c :: nat) div 64) div 16 < 16" "(128 + (of_char c :: nat) mod 64) div 16 < 16"
    "(of_char c :: nat) div 16 < 16"
    using mod_less_divisor [of 64 "of_char c :: nat"] by linarith+
  then show "x \<in> set (encode_char c) \<Longrightarrow> unreserved x \<or> x = char_of (37 :: nat)"
    by (auto simp: encode_char_def Let_def percent_byte_def hex_upper_safe split: if_splits)
qed

text \<open>Task file names: every task identifier is recovered from its file name, so different
  tasks never share a file, and no identifier, however hostile, puts a path separator into the
  name.\<close>

theorem task_file_name_faithful:
  "decodeURIComponent (take (length (taskFileName t) - 5) (taskFileName t)) = Some t \<and>
   (taskFileName t = taskFileName u) = (t = u) \<and>
   CHR ''/'' \<notin> set (taskFileName t) \<and> CHR 0x5C \<notin> set (taskFileName t)"
proof -
  have safe: "x \<in> set (encodeURIComponent t) \<Longrightarrow> unreserved x \<or> x = char_of (37 :: nat)" for x
    by (auto simp: encodeURIComponent_def dest: encode_char_safe)
  have "\<not> unreserved (CHR ''/'')" "\<not> unreserved (CHR 0x5C)" by (simp_all add: unreserved_def)
  moreover have slash: "CHR ''/'' \<noteq> char_of (37 :: nat)" "CHR 0x5C \<noteq> char_of (37 :: nat)" by code_simp+
  ultimately have "CHR ''/'' \<notin> set (encodeURIComponent t)" "CHR 0x5C \<notin> set (encodeURIComponent t)"
    using safe [of "CHR ''/''"] safe [of "CHR 0x5C"] slash by auto
  moreover have "(taskFileName t = taskFileName u) = (t = u)"
    by (metis append_same_eq decode_encode option.inject taskFileName_def)
  ultimately show ?thesis by (simp add: taskFileName_def decode_encode)
qed

lemma taskFileName_inj: "taskFileName t = taskFileName u \<longleftrightarrow> t = u"
  by (metis append_same_eq decode_encode option.inject taskFileName_def)

section \<open>Saving is atomic\<close>

lemma last_ends_with: "ends_with s p \<Longrightarrow> p \<noteq> [] \<Longrightarrow> last s = last p"
  by (auto simp: ends_with_iff)

lemma tmp_not_json: "\<not> ends_with (tmp_name t pid now) ''.json''"
  by (auto dest!: last_ends_with simp: tmp_name_def)

lemma json_suffix: "ends_with (taskFileName t) ''.json''"
  by (auto simp: ends_with_iff taskFileName_def)

lemma tmp_not_task: "tmp_name t pid now \<noteq> taskFileName u"
  using tmp_not_json json_suffix by metis

lemma filter_keys_update:
  "\<not> P k \<Longrightarrow> filter P (map fst (AList.update k v es)) = filter P (map fst es)"
  by (induction es) auto

lemma save_write_invisible:
  "load_task (save_write pid now task d) j = load_task d j \<and> listAll (save_write pid now task d) = listAll d"
proof -
  have dir: "dir_entries (save_write pid now task d) = AList.update (tmp_name (task_id task) pid now) (json_clone task) (dir_entries d)"
    by (cases d) (simp_all add: save_write_def write_file_def ensureDir_def dir_entries_def)
  show ?thesis
    by (simp add: load_task_def listAll_def dir amap.get_put filter_keys_update tmp_not_json tmp_not_task [symmetric])
qed

text \<open>C25. Saving is atomic for readers: after the temporary file has been written every load and
  listing still sees the old state, and the rename then makes the new task visible under its own
  identifier and changes no other task.\<close>

theorem save_atomic:
  assumes "json_clone task = Some v"
  shows "(\<forall>j. load_task (save_write pid now task d) j = load_task d j) \<and>
    listAll (save_write pid now task d) = listAll d \<and>
    (\<exists>d'. save_task pid now task d = Inr d' \<and> load_task d' (task_id task) = Inr (Some v) \<and>
       (\<forall>j. j \<noteq> task_id task \<longrightarrow> load_task d' j = load_task d j))"
proof -
  let ?es = "AList.update (tmp_name (task_id task) pid now) (Some v) (dir_entries d)"
  let ?d = "Some (AList.update (taskFileName (task_id task)) (Some v) (AList.delete (tmp_name (task_id task) pid now) ?es))"
  have w: "save_write pid now task d = Some ?es"
    using assms by (cases d) (simp_all add: save_write_def write_file_def ensureDir_def dir_entries_def)
  have "save_task pid now task d = Inr ?d"
    by (simp add: save_task_def w) (simp add: save_rename_def rename_file_def amap.get_put dir_entries_def)
  moreover have "load_task ?d (task_id task) = Inr (Some v)"
    by (simp add: load_task_def dir_entries_def amap.get_put)
  moreover have "load_task ?d j = load_task d j" if "j \<noteq> task_id task" for j
    using that by (simp add: load_task_def dir_entries_def amap.get_put amap.get_del taskFileName_inj tmp_not_task [symmetric])
  ultimately show ?thesis using save_write_invisible by blast
qed

definition demo_task :: "string \<Rightarrow> string \<Rightarrow> js" where
  "demo_task i st = JObj [(''id'', JStr i), (''status'', JObj [(''state'', JStr st), (''timestamp'', JStr ''T'')])]"

theorem save_atomic_witness:
  "\<exists>d'. save_task 7 1 (demo_task ''a/b'' ''working'') None = Inr d' \<and> load_task d' ''a/b'' = Inr (Some (demo_task ''a/b'' ''working''))"
proof -
  have "json_clone (demo_task ''a/b'' ''working'') = Some (demo_task ''a/b'' ''working'')"
    by (simp add: demo_task_def)
  from save_atomic [OF this, of 7 1 None] show ?thesis by (auto simp: task_id_def) (simp add: demo_task_def)
qed

text \<open>Two saves of the same task in the same millisecond share a temporary file: interleaved,
  the first rename publishes the other save's content and the second save fails with \<open>ENOENT\<close>.\<close>

theorem concurrent_saves_collide:
  assumes "task_id t1 = task_id t2" "json_clone t2 = Some v2"
  shows "\<exists>d'. save_rename pid now t1 (save_write pid now t2 (save_write pid now t1 d)) = Inr d' \<and>
    load_task d' (task_id t1) = Inr (Some v2) \<and> save_rename pid now t2 d' = Inl ENOENT"
proof -
  let ?tmp = "tmp_name (task_id t2) pid now"
  let ?es = "AList.update ?tmp (Some v2) (dir_entries (save_write pid now t1 d))"
  let ?d = "Some (AList.update (taskFileName (task_id t2)) (Some v2) (AList.delete ?tmp ?es))"
  obtain es where "save_write pid now t1 d = Some es"
    by (cases d) (simp_all add: save_write_def write_file_def ensureDir_def)
  then have w: "save_write pid now t2 (save_write pid now t1 d) = Some ?es"
    using assms(2) by (simp add: save_write_def [of _ _ t2] write_file_def ensureDir_def dir_entries_def)
  have "save_rename pid now t1 (Some ?es) = Inr ?d"
    using assms(1) by (simp add: save_rename_def rename_file_def amap.get_put dir_entries_def)
  moreover have "load_task ?d (task_id t1) = Inr (Some v2)"
    using assms(1) by (simp add: load_task_def dir_entries_def amap.get_put)
  moreover have "save_rename pid now t2 ?d = Inl ENOENT"
    by (simp add: save_rename_def rename_file_def dir_entries_def amap.get_put amap.get_del tmp_not_task)
  ultimately show ?thesis unfolding w by blast
qed

theorem concurrent_saves_collide_witness:
  "\<exists>d'. save_rename 7 1 (demo_task ''a'' ''x'') (save_write 7 1 (demo_task ''a'' ''y'') (save_write 7 1 (demo_task ''a'' ''x'') None)) = Inr d' \<and>
    save_rename 7 1 (demo_task ''a'' ''y'') d' = Inl ENOENT"
  using concurrent_saves_collide [of "demo_task ''a'' ''x''" "demo_task ''a'' ''y''" "demo_task ''a'' ''y''" 7 1 None]
  by (auto simp: task_id_def demo_task_def)

section \<open>Cleanup removes exactly the expired tasks\<close>

text \<open>What is to be deleted, said of the stored task alone: its state is one of the four final ones, it has a timestamp, and that is a
  date at least \<open>ttlMs\<close> before now.\<close>

definition expirable :: "(js \<Rightarrow> int option) \<Rightarrow> int \<Rightarrow> int \<Rightarrow> task_dir \<Rightarrow> string \<Rightarrow> bool" where
  "expirable date now ttlMs d t = (case load_task d t of
     Inr (Some task) \<Rightarrow>
       let status = get_prop task ''status''; timestamp = get_prop status ''timestamp'' in
       (get_prop status ''state'' = JStr ''completed'' \<or> get_prop status ''state'' = JStr ''failed'' \<or>
        get_prop status ''state'' = JStr ''canceled'' \<or> get_prop status ''state'' = JStr ''rejected'') \<and>
       truthy timestamp \<and> (case date timestamp of None \<Rightarrow> False | Some time \<Rightarrow> time + ttlMs \<le> now)
   | _ \<Rightarrow> False)"

lemma expirable_judge:
  "expirable date now ttlMs d t = (case load_task d t of
     Inr (Some task) \<Rightarrow> (case judge date now ttlMs task of VExpire _ \<Rightarrow> True | _ \<Rightarrow> False)
   | _ \<Rightarrow> False)"
proof -
  have "(case judge date now ttlMs task of VExpire _ \<Rightarrow> True | _ \<Rightarrow> False) =
      ((get_prop (get_prop task ''status'') ''state'' \<in> {JStr ''completed'', JStr ''failed'', JStr ''canceled'', JStr ''rejected''}) \<and>
       truthy (get_prop (get_prop task ''status'') ''timestamp'') \<and>
       (case date (get_prop (get_prop task ''status'') ''timestamp'') of None \<Rightarrow> False | Some time \<Rightarrow> time + ttlMs \<le> now))" for task
    by (cases "get_prop (get_prop task ''status'') ''state''"; cases "nullish (get_prop task ''status'')")
       (auto simp: judge_def Let_def TERMINAL_STATES_def nullish_def algebra_simps split: option.splits)
  then show ?thesis
    by (simp add: expirable_def Let_def split: sum.split option.split)
qed

lemma load_delete: "load_task (snd (delete_task t d)) j = (if j = t then Inr None else load_task d j)"
  by (cases d) (auto simp: delete_task_def load_task_def dir_entries_def amap.get_del taskFileName_inj)

lemma delete_present: "load_task d t \<noteq> Inr None \<Longrightarrow> fst (delete_task t d)"
  by (auto simp: delete_task_def load_task_def split: option.splits)

lemma cleanup_one_load:
  "load_task (cw_dir (cleanup_one date now ttl t w)) j =
     (if j = t \<and> expirable date now ttl (cw_dir w) t then Inr None else load_task (cw_dir w) j)"
proof (cases "expirable date now ttl (cw_dir w) t")
  case True
  then obtain task st where l: "load_task (cw_dir w) t = Inr (Some task)" "judge date now ttl task = VExpire st"
    by (auto simp: expirable_judge split: sum.splits option.splits verdict.splits)
  then obtain d where "delete_task t (cw_dir w) = (True, d)"
    using delete_present [of "cw_dir w" t] by (cases "delete_task t (cw_dir w)") auto
  with l load_delete [of t "cw_dir w" j] True show ?thesis by (simp add: cleanup_one_def)
next
  case False
  then show ?thesis
    by (auto simp: cleanup_one_def expirable_judge skip_one_def error_one_def split: sum.splits option.splits verdict.splits)
qed

lemma cleanup_one_counts:
  "cr_expired (cw_result (cleanup_one date now ttl t w)) =
     cr_expired (cw_result w) + (if expirable date now ttl (cw_dir w) t then 1 else 0) \<and>
   expired (tl_tasks (cw_telemetry (cleanup_one date now ttl t w))) =
     expired (tl_tasks (cw_telemetry w)) + (if expirable date now ttl (cw_dir w) t then 1 else 0)"
proof (cases "expirable date now ttl (cw_dir w) t")
  case True
  then obtain task st where l: "load_task (cw_dir w) t = Inr (Some task)" "judge date now ttl task = VExpire st"
    by (auto simp: expirable_judge split: sum.splits option.splits verdict.splits)
  then obtain d where "delete_task t (cw_dir w) = (True, d)"
    using delete_present [of "cw_dir w" t] by (cases "delete_task t (cw_dir w)") auto
  with l True show ?thesis by (simp add: cleanup_one_def recordTaskExpired_def)
next
  case False
  then show ?thesis
    by (auto simp: cleanup_one_def expirable_judge skip_one_def error_one_def split: sum.splits option.splits verdict.splits)
qed

lemma cleanup_fold:
  "distinct ids \<Longrightarrow>
   (\<forall>j. load_task (cw_dir (fold (cleanup_one date now ttl) ids w)) j =
      (if j \<in> set ids \<and> expirable date now ttl (cw_dir w) j then Inr None else load_task (cw_dir w) j)) \<and>
   cr_expired (cw_result (fold (cleanup_one date now ttl) ids w)) =
     cr_expired (cw_result w) + length (filter (expirable date now ttl (cw_dir w)) ids) \<and>
   expired (tl_tasks (cw_telemetry (fold (cleanup_one date now ttl) ids w))) =
     expired (tl_tasks (cw_telemetry w)) + length (filter (expirable date now ttl (cw_dir w)) ids)"
proof (induction ids arbitrary: w)
  case (Cons t ids)
  let ?w = "cleanup_one date now ttl t w"
  have other: "expirable date now ttl (cw_dir ?w) j = expirable date now ttl (cw_dir w) j" if "j \<noteq> t" for j
    using that by (simp add: expirable_judge cleanup_one_load)
  have f: "filter (expirable date now ttl (cw_dir ?w)) ids = filter (expirable date now ttl (cw_dir w)) ids"
    using Cons.prems by (intro filter_cong) (auto intro!: other)
  have "load_task (cw_dir (fold (cleanup_one date now ttl) ids ?w)) j =
      (if j \<in> set (t # ids) \<and> expirable date now ttl (cw_dir w) j then Inr None else load_task (cw_dir w) j)" for j
    using Cons.IH [of ?w] Cons.prems other [of j] by (auto simp: cleanup_one_load)
  moreover note Cons.IH [of ?w] cleanup_one_counts [of date now ttl t w] f
  ultimately show ?case using Cons.prems by auto
qed simp

lemma decode_all_names: "decode_all (map taskFileName ids) = Inr ids"
  by (induction ids) (simp_all add: taskFileName_def decode_encode)

text \<open>C26. Cleanup: over a directory whose \<open>.json\<close> files are task files, a run deletes exactly the
  tasks that are terminal, carry a timestamp that parses and are at least \<open>ttlMs\<close> old; every other
  task loads as before, and the result and the telemetry count the deletions.\<close>

theorem cleanup_exact:
  assumes "distinct ids" "filter (\<lambda>n. ends_with n ''.json'') (map fst (dir_entries d)) = map taskFileName ids"
  shows "(\<forall>j. load_task (cw_dir (runTaskCleanup date False now ttl d t)) j =
      (if expirable date now ttl d j then Inr None else load_task d j)) \<and>
    cr_expired (cw_result (runTaskCleanup date False now ttl d t)) = length (filter (expirable date now ttl d) ids) \<and>
    expired (tl_tasks (cw_telemetry (runTaskCleanup date False now ttl d t))) =
      expired (tl_tasks t) + length (filter (expirable date now ttl d) ids)"
proof -
  define w0 where "w0 = \<lparr>cw_dir = d, cw_result = zero_result, cw_telemetry = t, cw_log = []\<rparr>"
  define w1 where "w1 = fold (cleanup_one date now ttl) ids w0"
  have list: "listAll d = Inr ids" by (simp add: listAll_def assms(2) decode_all_names)
  have w: "cw_dir (runTaskCleanup date False now ttl d t) = cw_dir w1 \<and>
      cw_result (runTaskCleanup date False now ttl d t) = cw_result w1 \<and>
      cw_telemetry (runTaskCleanup date False now ttl d t) = cw_telemetry w1"
    by (cases ids) (simp_all add: runTaskCleanup_def list Let_def w1_def w0_def)
  have present: "j \<in> set ids" if "expirable date now ttl d j" for j
  proof -
    have "map_of (dir_entries d) (taskFileName j) \<noteq> None"
      using that by (auto simp: expirable_judge load_task_def split: option.splits)
    then have "taskFileName j \<in> set (map fst (dir_entries d))" by (auto simp: map_of_eq_None_iff)
    then have "taskFileName j \<in> set (map taskFileName ids)"
      using json_suffix [of j] unfolding assms(2) [symmetric] by simp
    then show ?thesis by (auto simp: taskFileName_inj)
  qed
  show ?thesis
    using cleanup_fold [OF assms(1), of date now ttl w0] present
    unfolding w [THEN conjunct1] w [THEN conjunct2, THEN conjunct1] w [THEN conjunct2, THEN conjunct2] w1_def [symmetric]
    by (auto simp: w0_def zero_result_def)
qed

theorem cleanup_exact_witness:
  "cr_expired (cw_result (runTaskCleanup (\<lambda>v. Some 0) False 5000 1000
      (Some [(taskFileName ''a'', Some (demo_task ''a'' ''completed'')), (taskFileName ''b'', Some (demo_task ''b'' ''working''))])
      (new_telemetry None))) = 1"
proof -
  let ?d = "Some [(taskFileName ''a'', Some (demo_task ''a'' ''completed'')), (taskFileName ''b'', Some (demo_task ''b'' ''working''))]"
  have a: "expirable (\<lambda>v. Some 0) 5000 1000 ?d ''a'' \<and> \<not> expirable (\<lambda>v. Some 0) 5000 1000 ?d ''b''"
    by (simp add: expirable_def load_task_def dir_entries_def taskFileName_inj demo_task_def)
  have "filter (\<lambda>n. ends_with n ''.json'') (map fst (dir_entries ?d)) = map taskFileName [''a'', ''b'']"
    by (simp add: dir_entries_def json_suffix)
  from cleanup_exact [OF _ this, of "\<lambda>v. Some 0" 5000 1000 "new_telemetry None"] a show ?thesis by simp
qed

lemma cleanup_reentrant: "cw_dir (runTaskCleanup date True now ttl d t) = d \<and>
    cw_result (runTaskCleanup date True now ttl d t) = zero_result"
  by (simp add: runTaskCleanup_def Let_def)

end
