(* ===== verification/JsonlLogs.thy ===== *)
theory JsonlLogs
  imports Prelude
begin

text \<open>
  \<open>src/history.ts\<close> and \<open>src/audit.ts\<close>: two append-only JSON-lines files. A file is a list of
  lines; a line is the JSON value it parses to, or a foreign line the readers skip. Written values
  pass through \<^const>\<open>json_clone\<close>, the effect of \<open>JSON.stringify\<close> followed by \<open>JSON.parse\<close>. A
  write that fails is swallowed by the code and leaves the file unchanged (\<open>ok\<close> is its outcome).
\<close>

datatype json_line = JsonLine js | BadLine

type_synonym json_file = "json_line list option"

definition write_line :: "bool \<Rightarrow> js \<Rightarrow> json_file \<Rightarrow> json_file" where
  "write_line ok v f = (if ok then Some (opt_default [] f @ [case json_clone v of Some w \<Rightarrow> JsonLine w | None \<Rightarrow> BadLine]) else f)"

fun parsed_lines :: "json_line list \<Rightarrow> js list" where
  "parsed_lines [] = []"
| "parsed_lines (JsonLine v # ls) = v # parsed_lines ls"
| "parsed_lines (BadLine # ls) = parsed_lines ls"

definition parsed :: "json_file \<Rightarrow> js list" where
  "parsed f = parsed_lines (opt_default [] f)"

section \<open>History\<close>

definition SECRET_KEY_NAMES :: "string list" where
  "SECRET_KEY_NAMES = [''token'', ''secret'', ''password'', ''authorization'', ''ciphertext'', ''privatekey'', ''private_key'']"

definition secret_key :: "string \<Rightarrow> bool" where
  "secret_key k = (\<exists>name \<in> set SECRET_KEY_NAMES. str_includes (to_lower k) name)"

definition redacted :: js where
  "redacted = JStr ''[redacted]''"

fun redactUnknown :: "bool \<Rightarrow> js \<Rightarrow> js" where
  "redactUnknown inc (JArr xs) = JArr (map (redactUnknown inc) xs)"
| "redactUnknown inc (JObj fs) = JObj (map (\<lambda>(k, v).
     (k, if secret_key k
         then (if str_includes (to_lower k) ''ciphertext'' \<and> inc then v else redacted)
         else redactUnknown inc v)) fs)"
| "redactUnknown inc v = v"

definition redactValue :: "bool \<Rightarrow> string \<Rightarrow> js \<Rightarrow> js" where
  "redactValue inc k v =
    (if secret_key k then (if str_includes (to_lower k) ''ciphertext'' \<and> inc then v else redacted)
     else redactUnknown inc v)"

definition redactObject :: "bool \<Rightarrow> (string \<times> js) list \<Rightarrow> (string \<times> js) list" where
  "redactObject inc fs = map (\<lambda>(k, v). (k, redactValue inc k v)) fs"

record history_options =
  ho_enabled :: bool
  ho_includeEncrypted :: bool

definition history_store_options :: "bool option \<Rightarrow> bool option \<Rightarrow> history_options" where
  "history_store_options enabled inc =
    \<lparr>ho_enabled = opt_default True enabled, ho_includeEncrypted = opt_default False inc\<rparr>"

text \<open>\<open>{...entry, ts, detail}\<close>: a spread followed by members that override it in place.\<close>

definition set_member :: "string \<Rightarrow> js \<Rightarrow> (string \<times> js) list \<Rightarrow> (string \<times> js) list" where
  "set_member k v fs = AList.update k v fs"

text \<open>\<open>entry.detail ? Object.entries(entry.detail) : ...\<close>.\<close>

definition detail_entries :: "js \<Rightarrow> (string \<times> js) list option" where
  "detail_entries d = (if \<not> truthy d then None else Some (case d of
     JObj fs \<Rightarrow> fs
   | JArr xs \<Rightarrow> map (\<lambda>(i, x). (show_nat i, x)) (enumerate 0 xs)
   | JStr s \<Rightarrow> map (\<lambda>(i, c). (show_nat i, JStr [c])) (enumerate 0 s)
   | _ \<Rightarrow> []))"

definition history_entry :: "history_options \<Rightarrow> int \<Rightarrow> (string \<times> js) list \<Rightarrow> js" where
  "history_entry opts now entry =
    (let e1 = set_member ''ts'' (coalesce (jprop ''ts'' entry) (JStr (iso_date now))) entry
     in JObj (case detail_entries (jprop ''detail'' entry) of
                Some d \<Rightarrow> set_member ''detail'' (JObj (redactObject (ho_includeEncrypted opts) d)) e1
              | None \<Rightarrow> e1))"

definition record_history :: "history_options \<Rightarrow> int \<Rightarrow> bool \<Rightarrow> (string \<times> js) list \<Rightarrow> json_file \<Rightarrow> json_file" where
  "record_history opts now ok entry f =
    (if \<not> ho_enabled opts then f else write_line ok (history_entry opts now entry) f)"

record history_filter =
  hf_count :: "rat option"
  hf_type :: string
  hf_status :: string
  hf_direction :: string
  hf_matchId :: "js option"
  hf_peer :: string

text \<open>An entry that is \<open>null\<close> makes a filter that reads it throw, which skips the line: reading
  it as having no members gives the same answer.\<close>

definition matchesFilter :: "history_filter \<Rightarrow> js \<Rightarrow> bool" where
  "matchesFilter flt e =
    (if hf_type flt \<noteq> [] \<and> get_prop e ''type'' \<noteq> JStr (hf_type flt) then False
     else if hf_status flt \<noteq> [] \<and> get_prop e ''status'' \<noteq> JStr (hf_status flt) then False
     else if hf_direction flt \<noteq> [] \<and> get_prop e ''direction'' \<noteq> JStr (hf_direction flt) then False
     else if hf_matchId flt \<noteq> None \<and> Some (get_prop e ''matchId'') \<noteq> hf_matchId flt then False
     else if hf_peer flt \<noteq> [] \<and> get_prop e ''peer'' \<noteq> JStr (hf_peer flt) then False
     else True)"

definition tail_history :: "history_filter \<Rightarrow> json_file \<Rightarrow> js list" where
  "tail_history flt f =
    (let cnt = min (max 1 \<lfloor>opt_default 50 (hf_count flt)\<rfloor>) 500
     in rev (last_n (nat cnt) (filter (matchesFilter flt) (parsed f))))"

section \<open>Audit\<close>

definition audit_inbound :: "int \<Rightarrow> string \<Rightarrow> string \<Rightarrow> string \<Rightarrow> rat \<Rightarrow> js" where
  "audit_inbound now taskId contextId status durationMs =
    JObj [(''ts'', JStr (iso_date now)), (''direction'', JStr ''inbound''), (''type'', JStr ''task''),
      (''taskId'', JStr taskId), (''contextId'', JStr contextId), (''status'', JStr status),
      (''durationMs'', JNum (Fin durationMs))]"

definition audit_outbound :: "int \<Rightarrow> string \<Rightarrow> bool \<Rightarrow> rat \<Rightarrow> rat \<Rightarrow> js" where
  "audit_outbound now peer okv statusCode durationMs =
    JObj [(''ts'', JStr (iso_date now)), (''direction'', JStr ''outbound''), (''type'', JStr ''task''),
      (''peer'', JStr peer), (''status'', JStr (if okv then ''success'' else ''failure'')),
      (''statusCode'', JNum (Fin statusCode)), (''durationMs'', JNum (Fin durationMs))]"

definition audit_security :: "int \<Rightarrow> string \<Rightarrow> string \<Rightarrow> js" where
  "audit_security now surface reason =
    JObj [(''ts'', JStr (iso_date now)), (''direction'', JStr ''inbound''), (''type'', JStr ''security''),
      (''status'', JStr ''rejected''), (''detail'', JStr (surface @ '': '' @ reason))]"

definition write_audit :: "bool \<Rightarrow> js \<Rightarrow> json_file \<Rightarrow> json_file" where
  "write_audit ok e f = write_line ok e f"

text \<open>\<open>slice(-count)\<close> for any number: a positive count takes the end, zero or a fraction in
  between takes everything, and a negative one drops from the front.\<close>

definition slice_last :: "int \<Rightarrow> 'a list \<Rightarrow> 'a list" where
  "slice_last n xs = (if 0 < n then last_n (nat n) xs else drop (nat (- n)) xs)"

definition tail_audit :: "int \<Rightarrow> json_file \<Rightarrow> js list" where
  "tail_audit cnt f = rev (slice_last cnt (parsed f))"

section \<open>Redaction\<close>

text \<open>No member under a secret key shows its value, at any depth; \<open>inc\<close> exempts ciphertexts.\<close>

fun clean :: "bool \<Rightarrow> js \<Rightarrow> bool" where
  "clean inc (JArr xs) = (\<forall>x \<in> set xs. clean inc x)"
| "clean inc (JObj fs) = (\<forall>(k, v) \<in> set fs.
     if secret_key k then v = redacted \<or> (str_includes (to_lower k) ''ciphertext'' \<and> inc) else clean inc v)"
| "clean inc v = True"

lemma redactUnknown_clean: "clean inc (redactUnknown inc v)"
  by (induction inc v rule: redactUnknown.induct) (auto split: prod.splits)

lemma redactUnknown_idem: "redactUnknown inc (redactUnknown inc v) = redactUnknown inc v"
  by (induction inc v rule: redactUnknown.induct) (auto split: prod.splits)

text \<open>Redaction only touches what it has to.\<close>

lemma redactUnknown_fixed: "clean inc v \<Longrightarrow> redactUnknown inc v = v"
proof (induction inc v rule: redactUnknown.induct)
  case (1 inc xs)
  then show ?case by (simp add: map_idI)
next
  case (2 inc fs)
  have "(\<lambda>(k, v). (k, if secret_key k then (if str_includes (to_lower k) ''ciphertext'' \<and> inc then v else redacted)
      else redactUnknown inc v)) kv = kv" if "kv \<in> set fs" for kv
    using 2 that by (cases kv) fastforce
  then show ?case by (simp add: map_idI)
qed simp_all

lemma redactObject_unknown: "JObj (redactObject inc fs) = redactUnknown inc (JObj fs)"
  by (simp add: redactObject_def redactValue_def)

lemma clone_members:
  "(k, w) \<in> set (concat (map (\<lambda>(k, v). case json_clone v of None \<Rightarrow> [] | Some w \<Rightarrow> [(k, w)]) fs)) \<longleftrightarrow>
   (\<exists>v. (k, v) \<in> set fs \<and> json_clone v = Some w)"
  by (induction fs) (auto split: option.splits)

lemma clean_clone: "json_clone v = Some w \<Longrightarrow> clean inc v \<Longrightarrow> clean inc w"
proof (induction v arbitrary: w rule: json_clone.induct)
  case (6 xs)
  have "clean inc (opt_default JNull (json_clone x))" if "x \<in> set xs" for x
    using 6(1) [OF that] 6(3) that by (cases "json_clone x") auto
  with 6(2) show ?case by auto
next
  case (7 fs)
  have "if secret_key k then w' = redacted \<or> (str_includes (to_lower k) ''ciphertext'' \<and> inc) else clean inc w'"
    if kv: "(k, v) \<in> set fs" "json_clone v = Some w'" for k v w'
  proof -
    have "if secret_key k then v = redacted \<or> (str_includes (to_lower k) ''ciphertext'' \<and> inc) else clean inc v"
      using 7(3) kv(1) by auto
    moreover have "clean inc v \<Longrightarrow> clean inc w'" using 7(1) [OF kv(1) refl kv(2)] .
    ultimately show ?thesis using kv(2) by (auto simp: redacted_def split: if_splits)
  qed
  with 7(2) show ?case by (auto simp only: json_clone.simps option.inject clean.simps clone_members)
qed (auto split: jnum.splits)

lemma jprop_clone:
  "json_clone (JObj fs) = Some w \<Longrightarrow> distinct (map fst fs) \<Longrightarrow>
   get_prop w k = opt_default JUndef (json_clone (jprop k fs))"
proof -
  let ?g = "\<lambda>(k, v). case json_clone v of None \<Rightarrow> [] | Some w \<Rightarrow> [(k, w)]"
  have keys: "fst ` set (concat (map ?g fs)) \<subseteq> fst ` set fs" for fs
  proof
    fix x assume "x \<in> fst ` set (concat (map ?g fs))"
    then obtain p where p: "p \<in> set (concat (map ?g fs))" "x = fst p" by (rule imageE) 
    have "(fst p, snd p) \<in> set (concat (map ?g fs))" using p(1) by (simp only: prod.collapse)
    then obtain v where "(x, v) \<in> set fs" unfolding clone_members p(2) by blast
    then have "fst (x, v) \<in> fst ` set fs" by (rule imageI)
    then show "x \<in> fst ` set fs" by simp
  qed
  have "jprop k (concat (map ?g fs)) = opt_default JUndef (json_clone (jprop k fs))" if "distinct (map fst fs)"
    using that
  proof (induction fs)
    case (Cons a fs)
    obtain j v where a: "a = (j, v)" by (cases a)
    have "jprop k (concat (map ?g fs)) = JUndef" if "k \<notin> fst ` set fs"
    proof -
      have "k \<notin> fst ` set (concat (map ?g fs))" using that keys [of fs] by blast
      then have "map_of (concat (map ?g fs)) k = None" by (simp only: map_of_eq_None_iff not_False_eq_True)
      then show ?thesis by (simp add: jprop_def)
    qed
    with Cons a show ?case by (auto split: option.splits)
  qed simp
  then show "json_clone (JObj fs) = Some w \<Longrightarrow> distinct (map fst fs) \<Longrightarrow>
   get_prop w k = opt_default JUndef (json_clone (jprop k fs))" by auto
qed

section \<open>The history file\<close>

lemma parsed_write:
  "parsed (write_line ok v f) = parsed f @ (if ok then (case json_clone v of Some w \<Rightarrow> [w] | None \<Rightarrow> []) else [])"
proof -
  have "parsed_lines (xs @ ys) = parsed_lines xs @ parsed_lines ys" for xs ys
    by (induction xs rule: parsed_lines.induct) simp_all
  then show ?thesis by (simp add: write_line_def parsed_def split: option.splits)
qed

lemma history_entry_detail:
  assumes "distinct (map fst entry)" "json_clone (history_entry opts now entry) = Some w"
  shows "clean (ho_includeEncrypted opts) (get_prop w ''detail'')"
proof -
  let ?e1 = "set_member ''ts'' (coalesce (jprop ''ts'' entry) (JStr (iso_date now))) entry"
  obtain fs where fs: "history_entry opts now entry = JObj fs" "distinct (map fst fs)"
    "clean (ho_includeEncrypted opts) (jprop ''detail'' fs)"
  proof (cases "detail_entries (jprop ''detail'' entry)")
    case None
    have "jprop ''detail'' ?e1 = jprop ''detail'' entry"
      by (simp add: jprop_def set_member_def amap.get_put)
    moreover from None have "\<not> truthy (jprop ''detail'' entry)" by (auto simp: detail_entries_def split: if_splits)
    then have "clean (ho_includeEncrypted opts) (jprop ''detail'' entry)" by (cases "jprop ''detail'' entry") auto
    moreover have "distinct (map fst ?e1)" using assms(1) by (simp add: set_member_def distinct_update)
    ultimately show thesis using that [of ?e1] None by (simp add: history_entry_def Let_def)
  next
    case (Some d)
    let ?e2 = "set_member ''detail'' (JObj (redactObject (ho_includeEncrypted opts) d)) ?e1"
    have "jprop ''detail'' ?e2 = JObj (redactObject (ho_includeEncrypted opts) d)"
      by (simp add: jprop_def set_member_def amap.get_put)
    moreover have "distinct (map fst ?e2)" using assms(1) by (simp add: set_member_def distinct_update)
    ultimately show thesis
      using that [of ?e2] Some redactUnknown_clean [of "ho_includeEncrypted opts" "JObj d"]
      by (simp add: history_entry_def Let_def redactObject_unknown del: redactUnknown.simps)
  qed
  have "get_prop w ''detail'' = opt_default JUndef (json_clone (jprop ''detail'' fs))"
    using jprop_clone [of fs w] assms(2) fs(1,2) by simp
  then show ?thesis
    using fs(3) clean_clone by (cases "json_clone (jprop ''detail'' fs)") auto
qed

lemma record_clean:
  assumes "distinct (map fst entry)"
    and "\<forall>x \<in> set (parsed f). clean (ho_includeEncrypted opts) (get_prop x ''detail'')"
  shows "\<forall>x \<in> set (parsed (record_history opts now ok entry f)). clean (ho_includeEncrypted opts) (get_prop x ''detail'')"
proof (cases "ho_enabled opts \<and> ok")
  case True
  obtain w where w: "json_clone (history_entry opts now entry) = Some w"
    by (simp add: history_entry_def Let_def)
  have "parsed (record_history opts now ok entry f) = parsed f @ [w]"
    using True w by (simp add: record_history_def parsed_write)
  with assms(2) history_entry_detail [OF assms(1) w] show ?thesis by simp
next
  case False
  then show ?thesis using assms(2) by (auto simp: record_history_def parsed_write)
qed

text \<open>C28. No secret reaches the history: after any sequence of records, whatever details the callers
  pass, every entry a reader gets back has each member with a secret key redacted at every depth of
  its detail (ciphertexts excepted when the option asks for them).\<close>

theorem history_never_leaks:
  assumes "\<forall>(now, ok, entry) \<in> set recs. distinct (map fst entry)"
    and "e \<in> set (tail_history flt (fold (\<lambda>(now, ok, entry). record_history opts now ok entry) recs None))"
  shows "clean (ho_includeEncrypted opts) (get_prop e ''detail'')"
proof -
  have "\<forall>x \<in> set (parsed (fold (\<lambda>(now, ok, entry). record_history opts now ok entry) recs f)).
      clean (ho_includeEncrypted opts) (get_prop x ''detail'')"
    if "\<forall>x \<in> set (parsed f). clean (ho_includeEncrypted opts) (get_prop x ''detail'')" for f
    using assms(1) that
  proof (induction recs arbitrary: f)
    case (Cons r recs)
    obtain now ok entry where r: "r = (now, ok, entry)" by (cases r)
    have "distinct (map fst entry)" using Cons.prems(1) r by simp
    note record_clean [OF this Cons.prems(2), of now ok]
    with Cons show ?case by (simp add: r)
  qed simp
  from this [of None] have all: "\<forall>x \<in> set (parsed (fold (\<lambda>(now, ok, entry). record_history opts now ok entry) recs None)).
      clean (ho_includeEncrypted opts) (get_prop x ''detail'')"
    by (simp add: parsed_def)
  moreover have "e \<in> set (parsed (fold (\<lambda>(now, ok, entry). record_history opts now ok entry) recs None))"
    using assms(2) set_last_n [of _ "filter (matchesFilter flt) (parsed (fold (\<lambda>(now, ok, entry). record_history opts now ok entry) recs None))"]
    by (auto simp: tail_history_def Let_def)
  ultimately show ?thesis by blast
qed

definition demo_filter :: history_filter where
  "demo_filter = \<lparr>hf_count = None, hf_type = [], hf_status = [], hf_direction = [], hf_matchId = None, hf_peer = []\<rparr>"

definition demo_entry :: "(string \<times> js) list" where
  "demo_entry = [(''type'', JStr ''send.started''), (''status'', JStr ''started''),
     (''detail'', JObj [(''apiToken'', JStr ''s3cret''), (''peer'', JStr ''bob'')])]"

lemma demo_tail:
  "tail_history demo_filter (record_history (history_store_options None None) 0 True demo_entry None) =
    [JObj [(''type'', JStr ''send.started''), (''status'', JStr ''started''),
     (''detail'', JObj [(''apiToken'', redacted), (''peer'', JStr ''bob'')]), (''ts'', JStr (iso_date 0))]]"
proof -
  have k: "secret_key ''apiToken''" "\<not> secret_key ''peer''" by code_simp+
  show ?thesis
    by (simp add: tail_history_def record_history_def history_store_options_def write_line_def history_entry_def
        demo_entry_def demo_filter_def detail_entries_def set_member_def coalesce_def nullish_def redactObject_def
        redactValue_def k parsed_def matchesFilter_def last_n_def redacted_def Let_def)
qed

theorem history_never_leaks_witness:
  "clean False (get_prop (hd (tail_history demo_filter (fold (\<lambda>(now, ok, entry).
      record_history (history_store_options None None) now ok entry) [(0, True, demo_entry)] None))) ''detail'')"
proof -
  have d: "\<forall>(now :: int, ok :: bool, entry) \<in> set [(0, True, demo_entry)]. distinct (map fst entry)"
    by (simp add: demo_entry_def)
  have "hd (tail_history demo_filter (fold (\<lambda>(now, ok, entry). record_history (history_store_options None None) now ok entry)
      [(0, True, demo_entry)] None)) \<in> set (tail_history demo_filter (fold (\<lambda>(now, ok, entry).
        record_history (history_store_options None None) now ok entry) [(0, True, demo_entry)] None))"
    by (simp add: demo_tail)
  from history_never_leaks [OF d this] show ?thesis
    by (simp add: history_store_options_def)
qed

text \<open>The newest matching entry comes first, and at most 500 are returned.\<close>

lemma tail_newest_first:
  assumes "ho_enabled opts" "json_clone (history_entry opts now entry) = Some w" "matchesFilter flt w"
  shows "\<exists>es. tail_history flt (record_history opts now True entry f) = w # es \<and> length es < 500"
proof -
  define k where "k = nat (min (max 1 \<lfloor>opt_default 50 (hf_count flt)\<rfloor>) 500)"
  have k: "0 < k" "k \<le> 500" by (simp_all add: k_def)
  define xs where "xs = filter (matchesFilter flt) (parsed f)"
  have "filter (matchesFilter flt) (parsed (record_history opts now True entry f)) = xs @ [w]"
    using assms by (simp add: record_history_def parsed_write xs_def)
  then have "tail_history flt (record_history opts now True entry f) = rev (last_n k (xs @ [w]))"
    by (simp add: tail_history_def k_def Let_def)
  also have "last_n k (xs @ [w]) = drop (Suc (length xs) - k) xs @ [w]"
    using k by (simp add: last_n_def)
  finally show ?thesis using k by simp
qed

lemma expiry_times_redacted: "secret_key ''tokenExpiresAt''"
  by code_simp

lemma tail_audit_newest_first:
  "0 < n \<Longrightarrow> json_clone e = Some w \<Longrightarrow> \<exists>es. tail_audit n (write_audit True e f) = w # es \<and> int (length es) < n"
  by (auto simp: tail_audit_def write_audit_def parsed_write slice_last_def last_n_def)

end
