(* ===== verification/Connection.thy ===== *)
theory Connection
  imports Prelude
begin

text \<open>
  Connection descriptors and the local connection state: \<open>src/connection-descriptor.ts\<close>,
  \<open>src/protocols/generic.ts\<close>, \<open>src/protocols/a2a.ts\<close>, \<open>src/connection-session.ts\<close> and
  \<open>src/connection-state.ts\<close>. Optional fields are options (\<open>null\<close> and \<open>undefined\<close> alike);
  \<open>new URL\<close> is a parameter giving protocol and origin. The state file holds the JSON value it
  parses to, or text that does not parse.
\<close>

section \<open>Descriptors\<close>

record connection_endpoint =
  ce_protocol :: string
  ce_transport :: string
  ce_url :: string
  ce_auth :: "string option"
  ce_metadata :: js

record connection_descriptor =
  cd_clientId :: string
  cd_protocols :: "string list option"
  cd_endpoints :: "connection_endpoint list option"

type_synonym url_parser = "string \<Rightarrow> (string \<times> string) option"

definition A2A_TRANSPORT_PRIORITY :: "string list" where
  "A2A_TRANSPORT_PRIORITY = [''jsonrpc'', ''http-json'', ''grpc'']"

definition normalize :: "string option \<Rightarrow> string" where
  "normalize v = to_lower (trim (opt_default [] v))"

fun position :: "'a \<Rightarrow> 'a list \<Rightarrow> nat option" where
  "position x [] = None"
| "position x (y # ys) = (if x = y then Some 0 else map_option Suc (position x ys))"

definition priority :: "connection_endpoint \<Rightarrow> nat" where
  "priority e = opt_default (length A2A_TRANSPORT_PRIORITY)
     (position (normalize (Some (ce_transport e))) A2A_TRANSPORT_PRIORITY)"

definition metadataAgentCardUrl :: "connection_endpoint \<Rightarrow> string option" where
  "metadataAgentCardUrl e = (case get_prop (ce_metadata e) ''agentCardUrl'' of
     JStr s \<Rightarrow> if trim s = [] then None else Some (trim s) | _ \<Rightarrow> None)"

definition deriveAgentCardUrlFromEndpoint :: "url_parser \<Rightarrow> string \<Rightarrow> string option" where
  "deriveAgentCardUrlFromEndpoint parse u = (case parse u of
     None \<Rightarrow> None
   | Some (protocol, origin) \<Rightarrow>
       if protocol \<noteq> ''http:'' \<and> protocol \<noteq> ''https:'' then None
       else Some (origin @ ''/.well-known/agent.json''))"

definition strip_slash :: "string \<Rightarrow> string" where
  "strip_slash s = (if ends_with s ''/'' then butlast s else s)"

definition buildAgentCardUrlFromAddress :: "string \<Rightarrow> string \<Rightarrow> string" where
  "buildAgentCardUrlFromAddress address agentCardPath =
    (let addr = (if starts_with address ''http://'' \<or> starts_with address ''https://'' then address
                 else ''http://'' @ address);
         path = (if starts_with agentCardPath ''/'' then agentCardPath else ''/'' @ agentCardPath)
     in strip_slash addr @ path)"

fun first_some :: "('a \<Rightarrow> 'b option) \<Rightarrow> 'a list \<Rightarrow> 'b option" where
  "first_some f [] = None"
| "first_some f (x # xs) = (case f x of Some y \<Rightarrow> Some y | None \<Rightarrow> first_some f xs)"

definition is_a2a :: "connection_endpoint \<Rightarrow> bool" where
  "is_a2a e = (normalize (Some (ce_protocol e)) = ''a2a'')"

definition descriptor_endpoints :: "connection_descriptor option \<Rightarrow> connection_endpoint list" where
  "descriptor_endpoints d = (case d of None \<Rightarrow> [] | Some x \<Rightarrow> opt_default [] (cd_endpoints x))"

definition resolveA2aAgentCardUrl :: "url_parser \<Rightarrow> connection_descriptor option \<Rightarrow> string option" where
  "resolveA2aAgentCardUrl parse d =
    (let endpoints = sort_key priority (filter is_a2a (descriptor_endpoints d))
     in case first_some metadataAgentCardUrl endpoints of
          Some u \<Rightarrow> Some u
        | None \<Rightarrow> first_some (\<lambda>e. deriveAgentCardUrlFromEndpoint parse (ce_url e)) endpoints)"

definition resolvePeerAgentCardUrl :: "url_parser \<Rightarrow> connection_descriptor option \<Rightarrow> string \<Rightarrow> string \<Rightarrow> string" where
  "resolvePeerAgentCardUrl parse d fallbackAddress fallbackPath =
    (case resolveA2aAgentCardUrl parse d of
       Some u \<Rightarrow> u
     | None \<Rightarrow> buildAgentCardUrlFromAddress fallbackAddress fallbackPath)"

section \<open>Protocols\<close>

definition norm_value :: "string \<Rightarrow> string option" where
  "norm_value s = (let n = to_lower (trim s) in if n = [] then None else Some n)"

fun collect_loop :: "string list \<Rightarrow> string list \<Rightarrow> string list" where
  "collect_loop seen [] = []"
| "collect_loop seen (v # vs) = (case norm_value v of
     None \<Rightarrow> collect_loop seen vs
   | Some n \<Rightarrow> if n \<in> set seen then collect_loop seen vs else n # collect_loop (n # seen) vs)"

definition collectProtocols :: "connection_descriptor option \<Rightarrow> string list" where
  "collectProtocols d = collect_loop []
     ((case d of None \<Rightarrow> [] | Some x \<Rightarrow> opt_default [] (cd_protocols x)) @
      map ce_protocol (descriptor_endpoints d))"

definition describeEndpoint :: "connection_endpoint \<Rightarrow> string" where
  "describeEndpoint e = join '' '' ([ce_protocol e @ ''/'' @ ce_transport e @ '': '' @ ce_url e] @
     (case ce_auth e of Some a \<Rightarrow> if a = [] then [] else [''auth='' @ a] | None \<Rightarrow> []))"

definition describeDescriptor :: "string \<Rightarrow> connection_descriptor option \<Rightarrow> string list" where
  "describeDescriptor label d = (case d of
     None \<Rightarrow> [label @ '': no connection descriptor'']
   | Some x \<Rightarrow>
      let protocols = collectProtocols d;
          endpoints = map (\<lambda>e. ''  - '' @ describeEndpoint e) (descriptor_endpoints d)
      in [label @ '': clientId='' @ cd_clientId x,
          ''  protocols=['' @ (if protocols = [] then ''(none)'' else join '', '' protocols) @ '']''] @
         (if endpoints = [] then [''  endpoints=(none)''] else endpoints))"

record a2a_plan =
  ap_available :: bool
  ap_agentCardUrl :: "string option"
  ap_endpoint :: "connection_endpoint option"
  ap_reason :: "string option"

definition selectA2aEndpoint :: "connection_descriptor option \<Rightarrow> connection_endpoint option" where
  "selectA2aEndpoint d = find is_a2a (descriptor_endpoints d)"

definition planA2aAdapter :: "url_parser \<Rightarrow> connection_descriptor option \<Rightarrow> a2a_plan" where
  "planA2aAdapter parse d =
    (if d = None then
       \<lparr>ap_available = False, ap_agentCardUrl = None, ap_endpoint = None,
        ap_reason = Some ''peer did not publish a connection descriptor''\<rparr>
     else let ep = selectA2aEndpoint d; url = resolveA2aAgentCardUrl parse d in
       if ep = None \<and> (url = None \<or> url = Some []) then
         \<lparr>ap_available = False, ap_agentCardUrl = None, ap_endpoint = None,
          ap_reason = Some ''peer did not publish an A2A endpoint''\<rparr>
       else if url = None \<or> url = Some [] then
         \<lparr>ap_available = False, ap_agentCardUrl = None, ap_endpoint = ep,
          ap_reason = Some ''peer published A2A metadata but no agent card URL could be resolved''\<rparr>
       else \<lparr>ap_available = True, ap_agentCardUrl = url, ap_endpoint = ep, ap_reason = None\<rparr>)"

section \<open>Sessions\<close>

record connection_session =
  cs_id :: int
  cs_requestId :: int
  cs_offerId :: int
  cs_requesterAgentId :: "int option"
  cs_responderAgentId :: int
  cs_requesterClientId :: "string option"
  cs_requesterPublicKey :: "string option"
  cs_requesterSigningKey :: "string option"
  cs_requesterDescriptor :: "connection_descriptor option"
  cs_responderClientId :: "string option"
  cs_responderPublicKey :: "string option"
  cs_responderSigningKey :: "string option"
  cs_responderDescriptor :: "connection_descriptor option"
  cs_status :: string
  cs_sharedContextRoomId :: "string option"
  cs_createdAt :: "string option"

datatype participant_role = RequesterRole | ResponderRole

record participant_view =
  pv_role :: participant_role
  pv_agentId :: "int option"
  pv_clientId :: "string option"
  pv_encryptionKey :: "string option"
  pv_signingKey :: "string option"
  pv_descriptor :: "connection_descriptor option"
  pv_protocols :: "string list"

record session_view =
  sv_sessionId :: int
  sv_requestId :: int
  sv_offerId :: int
  sv_status :: string
  sv_requester :: participant_view
  sv_responder :: participant_view
  sv_a2a_mode :: bool
  sv_a2a :: a2a_plan
  sv_protocols :: "string list"
  sv_endpointCount :: nat
  sv_nextSteps :: "string list"

definition dedupe :: "string list \<Rightarrow> string list" where
  "dedupe vs = collect_loop [] vs"

definition buildParticipant :: "participant_role \<Rightarrow> int option \<Rightarrow> string option \<Rightarrow> string option \<Rightarrow> string option \<Rightarrow>
    connection_descriptor option \<Rightarrow> participant_view" where
  "buildParticipant role agentId clientId enc sig d =
    \<lparr>pv_role = role, pv_agentId = agentId, pv_clientId = clientId, pv_encryptionKey = enc, pv_signingKey = sig,
     pv_descriptor = d, pv_protocols = collectProtocols d\<rparr>"

definition buildNextSteps :: "bool \<Rightarrow> a2a_plan \<Rightarrow> string list \<Rightarrow> nat \<Rightarrow> string list" where
  "buildNextSteps a2aMode plan protocols endpointCount =
    (if a2aMode then
       [''A2A is available via '' @ opt_default ''undefined'' (ap_agentCardUrl plan) @
          ''. Use it only if both sides want the built-in A2A workflow.'',
        ''For non-A2A collaboration, use the published descriptors and public keys directly.'']
     else
       [''A2A is not selected: '' @ opt_default ''no A2A endpoint was resolved'' (ap_reason plan) @ ''.'',
        if 0 < endpointCount then
          ''Use one of the generic protocols/endpoints instead: '' @
            (if join '', '' protocols = [] then ''(none declared)'' else join '', '' protocols) @ ''.''
        else ''No generic endpoint was published; the Hub session still exchanged client ids and public keys for an out-of-band connection.''])"

definition buildConnectionSessionView :: "url_parser \<Rightarrow> connection_session \<Rightarrow> session_view" where
  "buildConnectionSessionView parse s =
    (let requester = buildParticipant RequesterRole (cs_requesterAgentId s) (cs_requesterClientId s)
           (cs_requesterPublicKey s) (cs_requesterSigningKey s) (cs_requesterDescriptor s);
         responder = buildParticipant ResponderRole (Some (cs_responderAgentId s)) (cs_responderClientId s)
           (cs_responderPublicKey s) (cs_responderSigningKey s) (cs_responderDescriptor s);
         a2a = planA2aAdapter parse (pv_descriptor responder);
         protocols = dedupe (pv_protocols requester @ pv_protocols responder);
         endpointCount = length (descriptor_endpoints (pv_descriptor requester)) +
           length (descriptor_endpoints (pv_descriptor responder))
     in \<lparr>sv_sessionId = cs_id s, sv_requestId = cs_requestId s, sv_offerId = cs_offerId s, sv_status = cs_status s,
         sv_requester = requester, sv_responder = responder, sv_a2a_mode = ap_available a2a, sv_a2a = a2a,
         sv_protocols = protocols, sv_endpointCount = endpointCount,
         sv_nextSteps = buildNextSteps (ap_available a2a) a2a protocols endpointCount\<rparr>)"

definition formatConnectionSession :: "url_parser \<Rightarrow> connection_session \<Rightarrow> string" where
  "formatConnectionSession parse s =
    (let view = buildConnectionSessionView parse s in
     join newline ([
      ''Connection session #'' @ show_int (cs_id s) @ '' is '' @ cs_status s @ ''.'',
      ''requestId='' @ show_int (cs_requestId s) @ '' offerId='' @ show_int (cs_offerId s),
      ''recommendedMode='' @ (if sv_a2a_mode view then ''a2a'' else ''generic''),
      [],
      ''Requester identity:'',
      ''  agentId='' @ (case cs_requesterAgentId s of None \<Rightarrow> ''(unknown)'' | Some i \<Rightarrow> show_int i),
      ''  clientId='' @ opt_default ''(unknown)'' (cs_requesterClientId s),
      ''  x25519='' @ opt_default ''(none)'' (cs_requesterPublicKey s),
      ''  ed25519='' @ opt_default ''(none)'' (cs_requesterSigningKey s),
      [],
      ''Responder identity:'',
      ''  agentId='' @ show_int (cs_responderAgentId s),
      ''  clientId='' @ opt_default ''(unknown)'' (cs_responderClientId s),
      ''  x25519='' @ opt_default ''(none)'' (cs_responderPublicKey s),
      ''  ed25519='' @ opt_default ''(none)'' (cs_responderSigningKey s),
      []] @
      describeDescriptor ''Requester descriptor'' (cs_requesterDescriptor s) @ [[]] @
      describeDescriptor ''Responder descriptor'' (cs_responderDescriptor s) @ [[],
      (if ap_available (sv_a2a view)
       then ''A2A adapter: available ('' @ opt_default ''undefined'' (ap_agentCardUrl (sv_a2a view)) @ '')''
       else ''A2A adapter: unavailable ('' @ opt_default ''not resolved'' (ap_reason (sv_a2a view)) @ '')''),
      ''Next steps:''] @
      map (\<lambda>step. ''- '' @ step) (sv_nextSteps view)))"

section \<open>The connection state file\<close>

definition MAX_RECORDS :: nat where
  "MAX_RECORDS = 100"

record connection_state =
  st_updatedAt :: js
  st_requestIds :: "int list"
  st_offerIds :: "int list"
  st_sessionIds :: "int list"
  st_requests :: "js list"
  st_offers :: "js list"
  st_sessions :: "js list"

definition defaultState :: connection_state where
  "defaultState = \<lparr>st_updatedAt = JUndef, st_requestIds = [], st_offerIds = [], st_sessionIds = [],
     st_requests = [], st_offers = [], st_sessions = []\<rparr>"

definition valid_id :: "js \<Rightarrow> int option" where
  "valid_id v = (case v of
     JNum (Fin q) \<Rightarrow> if is_integer q \<and> 0 < \<lfloor>q\<rfloor> then Some \<lfloor>q\<rfloor> else None
   | _ \<Rightarrow> None)"

fun id_loop :: "int list \<Rightarrow> js list \<Rightarrow> int list" where
  "id_loop seen [] = []"
| "id_loop seen (v # vs) = (case valid_id v of
     None \<Rightarrow> id_loop seen vs
   | Some n \<Rightarrow> if n \<in> set seen then id_loop seen vs else n # id_loop (n # seen) vs)"

definition uniqueNewest :: "js list \<Rightarrow> int list" where
  "uniqueNewest ids = take MAX_RECORDS (id_loop [] ids)"

definition id_js :: "int \<Rightarrow> js" where
  "id_js i = JNum (Fin (of_int i))"

text \<open>\<open>record.id\<close> throws on a \<open>null\<close> record: \<^const>\<open>None\<close>.\<close>

definition upsertNewest :: "js list \<Rightarrow> js \<Rightarrow> js list option" where
  "upsertNewest records nxt =
    (if \<exists>r \<in> set records. nullish r then None
     else Some (take MAX_RECORDS (nxt # filter (\<lambda>r. get_prop r ''id'' \<noteq> get_prop nxt ''id'') records)))"

definition normalizeState :: "js \<Rightarrow> connection_state" where
  "normalizeState raw = (case raw of
     JObj fs \<Rightarrow>
       \<lparr>st_updatedAt = (case jprop ''updatedAt'' fs of JStr s \<Rightarrow> JStr s | _ \<Rightarrow> JUndef),
        st_requestIds = uniqueNewest (array_or_empty (jprop ''createdRequestIds'' fs)),
        st_offerIds = uniqueNewest (array_or_empty (jprop ''createdOfferIds'' fs)),
        st_sessionIds = uniqueNewest (array_or_empty (jprop ''acceptedSessionIds'' fs)),
        st_requests = take MAX_RECORDS (array_or_empty (jprop ''requests'' fs)),
        st_offers = take MAX_RECORDS (array_or_empty (jprop ''offers'' fs)),
        st_sessions = take MAX_RECORDS (array_or_empty (jprop ''sessions'' fs))\<rparr>
   | _ \<Rightarrow> defaultState)"

type_synonym state_file = "js option"

definition load_state :: "state_file \<Rightarrow> connection_state" where
  "load_state f = (case f of None \<Rightarrow> defaultState | Some v \<Rightarrow> normalizeState v)"

definition state_js :: "connection_state \<Rightarrow> js" where
  "state_js s = JObj [(''version'', JNum (Fin 1)),
     (''updatedAt'', st_updatedAt s),
     (''createdRequestIds'', JArr (map id_js (st_requestIds s))),
     (''createdOfferIds'', JArr (map id_js (st_offerIds s))),
     (''acceptedSessionIds'', JArr (map id_js (st_sessionIds s))),
     (''requests'', JArr (st_requests s)), (''offers'', JArr (st_offers s)), (''sessions'', JArr (st_sessions s))]"

definition save_state :: "connection_state \<Rightarrow> state_file" where
  "save_state s = json_clone (state_js s)"

definition update_state :: "string \<Rightarrow> (connection_state \<Rightarrow> connection_state option) \<Rightarrow> state_file \<Rightarrow>
    connection_state option \<times> state_file" where
  "update_state now mutator f =
    (case mutator (load_state f) of
       None \<Rightarrow> (None, f)
     | Some s \<Rightarrow> let s' = s\<lparr>st_updatedAt := JStr now\<rparr> in (Some s', save_state s'))"

definition recordRequest :: "string \<Rightarrow> js \<Rightarrow> state_file \<Rightarrow> connection_state option \<times> state_file" where
  "recordRequest now request = update_state now (\<lambda>s.
     map_option (\<lambda>rs. s\<lparr>st_requestIds := uniqueNewest (get_prop request ''id'' # map id_js (st_requestIds s)), st_requests := rs\<rparr>)
       (upsertNewest (st_requests s)
         (JObj [(''id'', get_prop request ''id''), (''title'', get_prop request ''title''),
            (''summary'', get_prop request ''summary''), (''requestType'', get_prop request ''requestType''),
            (''status'', get_prop request ''status''), (''moderationStatus'', get_prop request ''moderationStatus''),
            (''createdAt'', get_prop request ''createdAt''), (''cachedAt'', JStr now)])))"

definition recordOffer :: "string \<Rightarrow> js \<Rightarrow> state_file \<Rightarrow> connection_state option \<times> state_file" where
  "recordOffer now offer = update_state now (\<lambda>s.
     map_option (\<lambda>rs. s\<lparr>st_offerIds := uniqueNewest (get_prop offer ''id'' # map id_js (st_offerIds s)), st_offers := rs\<rparr>)
       (upsertNewest (st_offers s)
         (JObj [(''id'', get_prop offer ''id''), (''requestId'', get_prop offer ''requestId''),
            (''message'', get_prop offer ''message''), (''status'', get_prop offer ''status''),
            (''moderationStatus'', get_prop offer ''moderationStatus''),
            (''createdAt'', get_prop offer ''createdAt''), (''cachedAt'', JStr now)])))"

definition opt_js :: "string option \<Rightarrow> js" where
  "opt_js v = (case v of None \<Rightarrow> JUndef | Some s \<Rightarrow> JStr s)"

definition recordSession :: "string \<Rightarrow> connection_session \<Rightarrow> session_view option \<Rightarrow> state_file \<Rightarrow>
    connection_state option \<times> state_file" where
  "recordSession now session view = update_state now (\<lambda>s.
     map_option (\<lambda>rs. s\<lparr>st_sessionIds := uniqueNewest (id_js (cs_id session) # map id_js (st_sessionIds s)), st_sessions := rs\<rparr>)
       (upsertNewest (st_sessions s)
         (JObj [(''id'', id_js (cs_id session)), (''requestId'', id_js (cs_requestId session)),
            (''offerId'', id_js (cs_offerId session)), (''status'', JStr (cs_status session)),
            (''requesterClientId'', opt_js (cs_requesterClientId session)),
            (''responderClientId'', opt_js (cs_responderClientId session)),
            (''recommendedMode'', case view of None \<Rightarrow> JUndef
                | Some v \<Rightarrow> JStr (if sv_a2a_mode v then ''a2a'' else ''generic'')),
            (''protocols'', case view of None \<Rightarrow> JUndef | Some v \<Rightarrow> JArr (map JStr (sv_protocols v))),
            (''a2aAgentCardUrl'', case view of None \<Rightarrow> JUndef | Some v \<Rightarrow> opt_js (ap_agentCardUrl (sv_a2a v))),
            (''sharedContextRoomId'', opt_js (cs_sharedContextRoomId session)),
            (''createdAt'', opt_js (cs_createdAt session)), (''cachedAt'', JStr now)])))"

definition status_text :: "js \<Rightarrow> string" where
  "status_text r = js_text (coalesce (get_prop r ''status'') (JStr ''unknown''))"

definition formatConnectionState :: "connection_state \<Rightarrow> string" where
  "formatConnectionState s =
    (let requestLines = (if st_requests s = [] then ''- none'' else join newline (map (\<lambda>r.
           ''- request #'' @ js_text (get_prop r ''id'') @ '' ['' @ status_text r @ ''] '' @ js_text (get_prop r ''title'')) (st_requests s)));
         offerLines = (if st_offers s = [] then ''- none'' else join newline (map (\<lambda>r.
           ''- offer #'' @ js_text (get_prop r ''id'') @ '' -> request #'' @ js_text (get_prop r ''requestId'') @ '' ['' @
             status_text r @ ''] '' @ js_text (get_prop r ''message'')) (st_offers s)));
         sessionLines = (if st_sessions s = [] then ''- none'' else join newline (map (\<lambda>r.
           ''- session #'' @ js_text (get_prop r ''id'') @ '' request #'' @ js_text (get_prop r ''requestId'') @
             '' offer #'' @ js_text (get_prop r ''offerId'') @
             (if truthy (get_prop r ''recommendedMode'') then '' mode='' @ js_text (get_prop r ''recommendedMode'') else []) @
             (if truthy (get_prop r ''responderClientId'') then '' responder='' @ js_text (get_prop r ''responderClientId'') else []))
             (st_sessions s)))
     in join newline [''Connection state updated: '' @ js_text (coalesce (st_updatedAt s) (JStr ''(never)'')), [],
          ''Created requests:'', requestLines, [], ''Created offers:'', offerLines, [],
          ''Accepted/read sessions:'', sessionLines])"

section \<open>Descriptors: what is chosen\<close>

interpretation protocols: dedupe_loop norm_value collect_loop
  by unfold_locales (auto split: option.splits)

interpretation ids: dedupe_loop valid_id id_loop
  by unfold_locales (auto split: option.splits)

lemma norm_value_fixed: "norm_value x = Some y \<Longrightarrow> norm_value y = Some y"
  by (auto simp: norm_value_def Let_def trim_to_lower split: if_splits)

lemma collectProtocols_normal:
  "distinct (collectProtocols d) \<and> (\<forall>p \<in> set (collectProtocols d). p \<noteq> [] \<and> to_lower (trim p) = p)"
proof -
  have "p \<noteq> [] \<and> to_lower (trim p) = p" if "norm_value x = Some p" for x p
    using norm_value_fixed [OF that] that by (auto simp: norm_value_def Let_def split: if_splits)
  then show ?thesis
    by (auto simp: collectProtocols_def protocols.loop_distinct dest!: protocols.loop_mem)
qed

lemma dedupe_idem: "dedupe (dedupe vs) = dedupe vs"
  using protocols.loop_idem [of "\<lambda>x. x" vs] norm_value_fixed by (simp add: dedupe_def)

lemma first_some_None: "first_some f xs = None \<longleftrightarrow> (\<forall>x \<in> set xs. f x = None)"
  by (induction xs) (auto split: option.splits)

lemma first_some_SomeD:
  "first_some f xs = Some y \<Longrightarrow> \<exists>us x vs. xs = us @ x # vs \<and> f x = Some y \<and> (\<forall>u \<in> set us. f u = None)"
proof (induction xs)
  case (Cons x xs)
  show ?case
  proof (cases "f x")
    case None
    with Cons obtain us z vs where "xs = us @ z # vs" "f z = Some y" "\<forall>u \<in> set us. f u = None" by auto
    with None have "x # xs = (x # us) @ z # vs \<and> f z = Some y \<and> (\<forall>u \<in> set (x # us). f u = None)" by simp
    then show ?thesis by blast
  next
    case (Some w)
    with Cons.prems have "x # xs = [] @ x # xs \<and> f x = Some y \<and> (\<forall>u \<in> set []. f u = None)" by simp
    then show ?thesis by blast
  qed
qed simp

lemma first_some_least:
  assumes "sorted (map k xs)" "first_some f xs = Some y"
  shows "\<exists>x \<in> set xs. f x = Some y \<and> (\<forall>z \<in> set xs. f z \<noteq> None \<longrightarrow> k x \<le> k z)"
proof -
  obtain us x vs where x: "xs = us @ x # vs" "f x = Some y" "\<forall>u \<in> set us. f u = None"
    using first_some_SomeD [OF assms(2)] by blast
  have "k x \<le> k z" if "z \<in> set xs" "f z \<noteq> None" for z
  proof -
    from that x have "z = x \<or> z \<in> set vs" by auto
    then show ?thesis using assms(1) by (auto simp: x(1) sorted_append)
  qed
  with x show ?thesis by auto
qed

text \<open>Choosing a peer's agent card: only endpoints of the A2A protocol count; a card URL in an
  endpoint's metadata wins over a derived one, the transport with the best priority wins among
  those, and there is no answer exactly when no A2A endpoint gives one.\<close>

theorem resolveA2aAgentCardUrl_choice:
  "(resolveA2aAgentCardUrl parse d = None \<longleftrightarrow>
     (\<forall>e \<in> set (descriptor_endpoints d). is_a2a e \<longrightarrow>
        metadataAgentCardUrl e = None \<and> deriveAgentCardUrlFromEndpoint parse (ce_url e) = None)) \<and>
   ((\<exists>e \<in> set (descriptor_endpoints d). is_a2a e \<and> metadataAgentCardUrl e \<noteq> None) \<longrightarrow>
     (\<exists>e \<in> set (descriptor_endpoints d). is_a2a e \<and> metadataAgentCardUrl e \<noteq> None \<and>
        resolveA2aAgentCardUrl parse d = metadataAgentCardUrl e \<and>
        (\<forall>z \<in> set (descriptor_endpoints d). is_a2a z \<and> metadataAgentCardUrl z \<noteq> None \<longrightarrow> priority e \<le> priority z)))"
proof (rule conjI)
  show "resolveA2aAgentCardUrl parse d = None \<longleftrightarrow>
     (\<forall>e \<in> set (descriptor_endpoints d). is_a2a e \<longrightarrow>
        metadataAgentCardUrl e = None \<and> deriveAgentCardUrlFromEndpoint parse (ce_url e) = None)"
  proof (cases "first_some metadataAgentCardUrl (sort_key priority (filter is_a2a (descriptor_endpoints d)))")
    case None
    then have "resolveA2aAgentCardUrl parse d = first_some (\<lambda>e. deriveAgentCardUrlFromEndpoint parse (ce_url e))
        (sort_key priority (filter is_a2a (descriptor_endpoints d)))"
      by (simp add: resolveA2aAgentCardUrl_def Let_def)
    with None show ?thesis by (auto simp: first_some_None)
  next
    case (Some u)
    then show ?thesis
      using first_some_None [of metadataAgentCardUrl "sort_key priority (filter is_a2a (descriptor_endpoints d))"]
      by (auto simp: resolveA2aAgentCardUrl_def Let_def)
  qed
  let ?es = "sort_key priority (filter is_a2a (descriptor_endpoints d))"
  show "(\<exists>e \<in> set (descriptor_endpoints d). is_a2a e \<and> metadataAgentCardUrl e \<noteq> None) \<longrightarrow>
     (\<exists>e \<in> set (descriptor_endpoints d). is_a2a e \<and> metadataAgentCardUrl e \<noteq> None \<and>
        resolveA2aAgentCardUrl parse d = metadataAgentCardUrl e \<and>
        (\<forall>z \<in> set (descriptor_endpoints d). is_a2a z \<and> metadataAgentCardUrl z \<noteq> None \<longrightarrow> priority e \<le> priority z))"
  proof
    assume "\<exists>e \<in> set (descriptor_endpoints d). is_a2a e \<and> metadataAgentCardUrl e \<noteq> None"
    then obtain u where u: "first_some metadataAgentCardUrl ?es = Some u"
      using first_some_None [of metadataAgentCardUrl ?es] by (cases "first_some metadataAgentCardUrl ?es") auto
    have "sorted (map priority ?es)" by simp
    from first_some_least [OF this u] obtain e where
      "e \<in> set ?es" "metadataAgentCardUrl e = Some u" "\<forall>z \<in> set ?es. metadataAgentCardUrl z \<noteq> None \<longrightarrow> priority e \<le> priority z"
      by blast
    moreover have "resolveA2aAgentCardUrl parse d = Some u"
      using u by (simp add: resolveA2aAgentCardUrl_def Let_def)
    ultimately show "\<exists>e \<in> set (descriptor_endpoints d). is_a2a e \<and> metadataAgentCardUrl e \<noteq> None \<and>
        resolveA2aAgentCardUrl parse d = metadataAgentCardUrl e \<and>
        (\<forall>z \<in> set (descriptor_endpoints d). is_a2a z \<and> metadataAgentCardUrl z \<noteq> None \<longrightarrow> priority e \<le> priority z)"
      by auto
  qed
qed

definition demo_endpoint :: "string \<Rightarrow> string \<Rightarrow> connection_endpoint" where
  "demo_endpoint t u = \<lparr>ce_protocol = ''A2A'', ce_transport = t, ce_url = u, ce_auth = None,
     ce_metadata = JObj [(''agentCardUrl'', JStr u)]\<rparr>"

definition demo_descriptor :: connection_descriptor where
  "demo_descriptor = \<lparr>cd_clientId = ''c'', cd_protocols = None,
     cd_endpoints = Some [demo_endpoint ''grpc'' ''g'', demo_endpoint ''JSONRPC'' ''j'']\<rparr>"

theorem resolveA2aAgentCardUrl_choice_witness:
  "resolveA2aAgentCardUrl (\<lambda>_. None) (Some demo_descriptor) = Some ''j''"
proof -
  have n: "to_lower (trim ''A2A'') = ''a2a''" "to_lower (trim ''grpc'') = ''grpc''" "to_lower (trim ''JSONRPC'') = ''jsonrpc''"
    "trim ''g'' = ''g''" "trim ''j'' = ''j''" by code_simp+
  have f: "is_a2a (demo_endpoint t u)" "metadataAgentCardUrl (demo_endpoint ''grpc'' ''g'') = Some ''g''"
    "metadataAgentCardUrl (demo_endpoint ''JSONRPC'' ''j'') = Some ''j''"
    "priority (demo_endpoint ''grpc'' ''g'') = 2" "priority (demo_endpoint ''JSONRPC'' ''j'') = 0" for t u
    by (simp_all add: is_a2a_def normalize_def metadataAgentCardUrl_def priority_def A2A_TRANSPORT_PRIORITY_def
        demo_endpoint_def n)
  have es: "descriptor_endpoints (Some demo_descriptor) = [demo_endpoint ''grpc'' ''g'', demo_endpoint ''JSONRPC'' ''j'']"
    by (simp add: descriptor_endpoints_def demo_descriptor_def)
  show ?thesis
    using resolveA2aAgentCardUrl_choice [of "\<lambda>_. None" "Some demo_descriptor", unfolded es] by (auto simp: f)
qed

section \<open>The state file\<close>

definition ids_ok :: "int list \<Rightarrow> bool" where
  "ids_ok is \<longleftrightarrow> distinct is \<and> length is \<le> MAX_RECORDS \<and> (\<forall>i \<in> set is. 0 < i)"

definition state_ok :: "connection_state \<Rightarrow> bool" where
  "state_ok s \<longleftrightarrow> ids_ok (st_requestIds s) \<and> ids_ok (st_offerIds s) \<and> ids_ok (st_sessionIds s) \<and>
     length (st_requests s) \<le> MAX_RECORDS \<and> length (st_offers s) \<le> MAX_RECORDS \<and>
     length (st_sessions s) \<le> MAX_RECORDS \<and> (st_updatedAt s = JUndef \<or> (\<exists>t. st_updatedAt s = JStr t))"

lemma valid_id_js [simp]: "0 < i \<Longrightarrow> valid_id (id_js i) = Some i"
  by (simp add: valid_id_def id_js_def)

lemma valid_id_pos: "valid_id v = Some i \<Longrightarrow> 0 < i"
  by (auto simp: valid_id_def split: js.splits jnum.splits if_splits)

lemma uniqueNewest_ok: "ids_ok (uniqueNewest vs)"
  by (auto simp: ids_ok_def uniqueNewest_def ids.loop_distinct distinct_take
      dest!: in_set_takeD ids.loop_mem valid_id_pos)

lemma uniqueNewest_fixed: "ids_ok is \<Longrightarrow> uniqueNewest (map id_js is) = is"
  using ids.loop_fixed [of "is" id_js "[]"] by (simp add: uniqueNewest_def ids_ok_def)

lemma uniqueNewest_head: "0 < i \<Longrightarrow> \<exists>is. uniqueNewest (id_js i # vs) = i # is"
  by (simp add: uniqueNewest_def MAX_RECORDS_def take_Cons')

lemma load_state_ok: "state_ok (load_state f)"
  by (auto simp: load_state_def state_ok_def normalizeState_def defaultState_def uniqueNewest_ok
      split: option.splits js.splits) (simp_all add: ids_ok_def)

lemma take_records: "take MAX_RECORDS (x # xs) = x # take 99 xs"
  by (simp add: MAX_RECORDS_def take_Cons')

definition cloned :: "js list \<Rightarrow> js list" where
  "cloned xs = map (\<lambda>x. opt_default JNull (json_clone x)) xs"

lemma json_clone_id [simp]: "json_clone (id_js i) = Some (id_js i)"
  by (simp add: id_js_def)

lemma load_save:
  assumes "state_ok s"
  shows "load_state (save_state s) = s\<lparr>st_requests := cloned (st_requests s), st_offers := cloned (st_offers s),
    st_sessions := cloned (st_sessions s)\<rparr>"
proof -
  show ?thesis
    using assms
    by (cases s) (auto simp: load_state_def save_state_def state_js_def normalizeState_def array_or_empty_def
        state_ok_def uniqueNewest_fixed cloned_def comp_def)
qed

text \<open>Recording a request: the state read back afterwards has that request newest, once, in
  both the identifier list and the records; the other records keep their order behind it, nothing
  exceeds a hundred entries, and the state invariant holds again.\<close>

theorem recordRequest_newest:
  assumes "get_prop request ''id'' = id_js n" "0 < n" "\<not> (\<exists>r \<in> set (st_requests (load_state f)). nullish r)"
  shows "\<exists>s f' r rest. recordRequest now request f = (Some s, f') \<and> state_ok (load_state f') \<and>
    hd (st_requestIds (load_state f')) = n \<and> st_requests (load_state f') = r # rest \<and>
    get_prop r ''id'' = id_js n \<and>
    rest = cloned (take 99 (filter (\<lambda>x. get_prop x ''id'' \<noteq> id_js n) (st_requests (load_state f)))) \<and>
    st_offers (load_state f') = cloned (st_offers (load_state f)) \<and>
    st_offerIds (load_state f') = st_offerIds (load_state f)"
proof -
  let ?old = "load_state f"
  let ?r = "JObj [(''id'', get_prop request ''id''), (''title'', get_prop request ''title''),
            (''summary'', get_prop request ''summary''), (''requestType'', get_prop request ''requestType''),
            (''status'', get_prop request ''status''), (''moderationStatus'', get_prop request ''moderationStatus''),
            (''createdAt'', get_prop request ''createdAt''), (''cachedAt'', JStr now)]"
  let ?rest = "take 99 (filter (\<lambda>x. get_prop x ''id'' \<noteq> id_js n) (st_requests ?old))"
  let ?s = "?old\<lparr>st_requestIds := uniqueNewest (id_js n # map id_js (st_requestIds ?old)), st_requests := ?r # ?rest,
     st_updatedAt := JStr now\<rparr>"
  have nn: "(\<exists>r \<in> set (st_requests ?old). nullish r) = False" using assms(3) by blast
  have up: "upsertNewest (st_requests ?old) ?r = Some (?r # ?rest)"
    by (simp only: upsertNewest_def nn if_False take_records get_prop_simps jprop_simps if_True simp_thms refl assms(1))
  have rec: "recordRequest now request f = (Some ?s, save_state ?s)"
    unfolding recordRequest_def update_state_def up by (simp add: assms(1) Let_def)
  have ok: "state_ok ?s"
    using load_state_ok [of f] uniqueNewest_ok by (simp add: state_ok_def MAX_RECORDS_def)
  have id: "get_prop (opt_default JNull (json_clone ?r)) ''id'' = id_js n"
    using assms(1) by (simp add: id_js_def)
  obtain "is" where "uniqueNewest (id_js n # map id_js (st_requestIds ?old)) = n # is"
    using uniqueNewest_head [OF assms(2)] by blast
  with load_save [OF ok] have ld: "hd (st_requestIds (load_state (save_state ?s))) = n"
    "st_requests (load_state (save_state ?s)) = opt_default JNull (json_clone ?r) # cloned ?rest"
    "st_offers (load_state (save_state ?s)) = cloned (st_offers ?old)"
    "st_offerIds (load_state (save_state ?s)) = st_offerIds ?old"
    by (simp_all add: cloned_def del: json_clone.simps)
  show ?thesis
    using rec load_state_ok ld id by blast
qed

definition demo_request :: js where
  "demo_request = JObj [(''id'', id_js 7), (''title'', JStr ''t''), (''summary'', JStr ''s'')]"

theorem recordRequest_newest_witness:
  "\<exists>s f'. recordRequest ''T'' demo_request None = (Some s, f') \<and> hd (st_requestIds (load_state f')) = 7"
  using recordRequest_newest [of demo_request 7 None "''T''"]
  by (auto simp: demo_request_def load_state_def defaultState_def)

end
