(* ===== verification/FileSecurity.thy ===== *)
theory FileSecurity
  imports Prelude
begin

unbundle bit_operations_syntax

text \<open>
  \<open>src/file-security.ts\<close>: SSRF protection, MIME types and file sizes. \<open>net.isIPv4\<close> and
  \<open>net.isIPv6\<close> follow Node's grammar. \<open>new URL\<close> is a parameter giving the protocol and host name
  (\<^const>\<open>None\<close> when it throws), DNS resolution one giving an address or an error text.
\<close>

record file_security_config =
  fs_allowedMimeTypes :: "string list"
  fs_maxFileSizeBytes :: rat
  fs_maxInlineFileSizeBytes :: rat
  fs_fileUriAllowlist :: "string list"

type_synonym url_fields = "string \<Rightarrow> (string \<times> string) option"
type_synonym security_result = "string option"

section \<open>Helpers\<close>

definition stripBrackets :: "string \<Rightarrow> string" where
  "stripBrackets h = (if starts_with h ''['' \<and> ends_with h '']'' then take (length h - 2) (drop 1 h) else h)"

definition decodedBase64Size :: "string \<Rightarrow> int" where
  "decodedBase64Size b = (let len = length b in
     if len = 0 then 0
     else let p1 = (if b ! (len - 1) = CHR ''='' then 1 else 0);
              p2 = (if 1 < len \<and> b ! (len - 2) = CHR ''='' then 1 else 0)
          in int (len * 3 div 4) - (p1 + p2))"

definition is_digit :: "char \<Rightarrow> bool" where
  "is_digit c = (let n = (of_char c :: nat) in 48 \<le> n \<and> n \<le> 57)"

definition digit_value :: "char \<Rightarrow> nat" where
  "digit_value c = (of_char c :: nat) - 48"

definition dec_value :: "string \<Rightarrow> nat" where
  "dec_value s = foldl (\<lambda>n c. 10 * n + digit_value c) 0 s"

text \<open>\<open>Number(part)\<close> on a part of digits; anything else counts as \<open>NaN\<close>.\<close>

definition number_part :: "string \<Rightarrow> nat option" where
  "number_part s = (if s \<noteq> [] \<and> list_all is_digit s then Some (dec_value s) else None)"

definition is_hex :: "char \<Rightarrow> bool" where
  "is_hex c = (let n = (of_char c :: nat) in
     (48 \<le> n \<and> n \<le> 57) \<or> (65 \<le> n \<and> n \<le> 70) \<or> (97 \<le> n \<and> n \<le> 102))"

definition hex_digit_value :: "char \<Rightarrow> int" where
  "hex_digit_value c = (let n = int (of_char c :: nat) in
     if n \<le> 57 then n - 48 else if n \<le> 70 then n - 55 else n - 87)"

text \<open>\<open>parseInt(s, 16)\<close>: the value of the longest hexadecimal prefix, \<open>NaN\<close> when it is empty.\<close>

definition parse_hex :: "string \<Rightarrow> int option" where
  "parse_hex s = (let p = takeWhile is_hex s in
     if p = [] then None else Some (foldl (\<lambda>n c. 16 * n + hex_digit_value c) 0 p))"

section \<open>Node's address grammar\<close>

definition v4_octet :: "string \<Rightarrow> bool" where
  "v4_octet s = (list_all is_digit s \<and> s \<noteq> [] \<and> length s \<le> 3 \<and>
     (length s = 1 \<or> hd s \<noteq> CHR ''0'') \<and> dec_value s \<le> 255)"

definition isIPv4 :: "string \<Rightarrow> bool" where
  "isIPv4 s = (let parts = split_on CHR ''.'' s in length parts = 4 \<and> list_all v4_octet parts)"

definition v6_segment :: "string \<Rightarrow> bool" where
  "v6_segment s = (s \<noteq> [] \<and> length s \<le> 4 \<and> list_all is_hex s)"

text \<open>The text before and after the first \<open>::\<close>, and the number of 16-bit groups of a side.\<close>

fun split_double :: "string \<Rightarrow> string \<times> string option" where
  "split_double [] = ([], None)"
| "split_double (c # s) =
    (case s of
       d # s' \<Rightarrow> if c = CHR '':'' \<and> d = CHR '':'' then ([], Some s')
                 else (case split_double s of (l, r) \<Rightarrow> (c # l, r))
     | [] \<Rightarrow> ([c], None))"

fun groups :: "bool \<Rightarrow> string list \<Rightarrow> nat option" where
  "groups v4_ok [] = Some 0"
| "groups v4_ok [s] = (if v6_segment s then Some 1 else if v4_ok \<and> isIPv4 s then Some 2 else None)"
| "groups v4_ok (s # ss) = (if v6_segment s then map_option Suc (groups v4_ok ss) else None)"

definition side_groups :: "bool \<Rightarrow> string \<Rightarrow> nat option" where
  "side_groups v4_ok s = (if s = [] then Some 0 else groups v4_ok (split_on CHR '':'' s))"

definition zone_char :: "char \<Rightarrow> bool" where
  "zone_char c = (let n = (of_char c :: nat) in
     (48 \<le> n \<and> n \<le> 57) \<or> (65 \<le> n \<and> n \<le> 90) \<or> (97 \<le> n \<and> n \<le> 122) \<or> n = 45 \<or> n = 46 \<or> n = 58)"

definition without_zone :: "string \<Rightarrow> string option" where
  "without_zone s = (let rest = dropWhile (\<lambda>c. c \<noteq> CHR ''%'') s in
     if rest = [] then Some s
     else if tl rest \<noteq> [] \<and> list_all zone_char (tl rest) then Some (takeWhile (\<lambda>c. c \<noteq> CHR ''%'') s)
     else None)"

definition isIPv6 :: "string \<Rightarrow> bool" where
  "isIPv6 s0 = (case without_zone s0 of
     None \<Rightarrow> False
   | Some s \<Rightarrow>
      (case split_double s of
         (l, None) \<Rightarrow> s \<noteq> [] \<and> side_groups True l = Some 8
       | (l, Some r) \<Rightarrow>
           (case (side_groups False l, side_groups True r) of
              (Some a, Some b) \<Rightarrow> a + b \<le> 7
            | _ \<Rightarrow> False)))"

definition isIP :: "string \<Rightarrow> bool" where
  "isIP s = (isIPv4 s \<or> isIPv6 s)"

section \<open>Private addresses\<close>

definition isPrivateIpv4 :: "string \<Rightarrow> bool" where
  "isPrivateIpv4 ip =
    (let parts = map number_part (split_on CHR ''.'' ip) in
     case parts of
       [Some a, Some b, Some c, Some d] \<Rightarrow>
         if 255 < a \<or> 255 < b \<or> 255 < c \<or> 255 < d then True
         else if a = 0 then True
         else if a = 10 then True
         else if a = 127 then True
         else if a = 172 \<and> 16 \<le> b \<and> b \<le> 31 then True
         else if a = 192 \<and> b = 168 then True
         else if a = 169 \<and> b = 254 then True
         else False
     | _ \<Rightarrow> True)"

definition pad4 :: "string \<Rightarrow> string" where
  "pad4 s = to_lower (pad_left 4 s)"

fun split_all_double :: "nat \<Rightarrow> string \<Rightarrow> string list" where
  "split_all_double 0 s = [s]"
| "split_all_double (Suc k) s = (case split_double s of
     (l, None) \<Rightarrow> [l]
   | (l, Some r) \<Rightarrow> l # split_all_double k r)"

definition colon_parts :: "string \<Rightarrow> string list" where
  "colon_parts s = (if s = [] then [] else split_on CHR '':'' s)"

text \<open>Halves at \<open>::\<close> (the fuel is the length of the text), the missing groups filled with zeros; a
  negative count would throw, which no text that \<^const>\<open>isIPv6\<close> accepts reaches.\<close>

definition normalizeIpv6 :: "string \<Rightarrow> string" where
  "normalizeIpv6 ip =
    (let halves = split_all_double (length ip) ip;
         segments = (case halves of
            [l, r] \<Rightarrow> colon_parts l @ replicate (8 - length (colon_parts l) - length (colon_parts r)) ''0'' @ colon_parts r
          | _ \<Rightarrow> split_on CHR '':'' ip)
     in join '':'' (map pad4 segments))"

definition mapped_prefix :: string where
  "mapped_prefix = ''0000:0000:0000:0000:0000:ffff:''"

text \<open>The bytes of a group; a missing or unparsable group counts as 0 in the bit operations.\<close>

definition byte_pair :: "int option \<Rightarrow> string" where
  "byte_pair v = (let n = opt_default 0 v in
     show_int (drop_bit 8 n AND 255) @ ''.'' @ show_int (n AND 255))"

definition isPrivateIpv6 :: "string \<Rightarrow> bool" where
  "isPrivateIpv6 ip =
    (let normalized = normalizeIpv6 ip;
         firstSegment = opt_default 0 (parse_hex (take 4 normalized))
     in if normalized = ''0000:0000:0000:0000:0000:0000:0000:0001'' then True
        else if normalized = ''0000:0000:0000:0000:0000:0000:0000:0000'' then True
        else if firstSegment AND 65024 = 64512 then True
        else if firstSegment AND 65472 = 65152 then True
        else if starts_with normalized mapped_prefix then
          (let parts = map parse_hex (split_on CHR '':'' (drop 30 normalized));
               hi = (case parts of h # _ \<Rightarrow> h | [] \<Rightarrow> None);
               lo = (case parts of _ # l # _ \<Rightarrow> l | _ \<Rightarrow> None)
           in isPrivateIpv4 (byte_pair hi @ ''.'' @ byte_pair lo))
        else False)"

text \<open>The regular expression for \<open>::ffff:\<close> followed by four groups of one to three digits.\<close>

definition mapped_match :: "string \<Rightarrow> string option" where
  "mapped_match ip =
    (if to_lower (take 7 ip) = ''::ffff:'' \<and>
        length (split_on CHR ''.'' (drop 7 ip)) = 4 \<and>
        list_all (\<lambda>p. p \<noteq> [] \<and> length p \<le> 3 \<and> list_all is_digit p) (split_on CHR ''.'' (drop 7 ip))
     then Some (drop 7 ip) else None)"

definition isPrivateIp :: "string \<Rightarrow> bool" where
  "isPrivateIp ip =
    (case mapped_match ip of
       Some v4 \<Rightarrow> isPrivateIpv4 v4
     | None \<Rightarrow>
        if isIPv4 ip then isPrivateIpv4 ip
        else if isIPv6 ip then isPrivateIpv6 ip
        else True)"

section \<open>URIs\<close>

definition remove_colon :: "string \<Rightarrow> string" where
  "remove_colon s = remove1 CHR '':'' s"

definition validateUriSchemeAndIp :: "url_fields \<Rightarrow> string \<Rightarrow> string option" where
  "validateUriSchemeAndIp parse uri =
    (case parse uri of
       None \<Rightarrow> Some ''Invalid URI''
     | Some (protocol, rawHostname) \<Rightarrow>
        let scheme = to_lower protocol; hostname = stripBrackets rawHostname in
        if scheme \<noteq> ''http:'' \<and> scheme \<noteq> ''https:'' then Some (''Blocked scheme: '' @ remove_colon scheme)
        else if rawHostname = [] then Some ''URI has no hostname''
        else if isIP hostname \<and> isPrivateIp hostname then Some (''Blocked private IP: '' @ hostname)
        else None)"

definition matchHostname :: "string \<Rightarrow> string \<Rightarrow> bool" where
  "matchHostname hostname pattern =
    (let h = to_lower hostname; p = to_lower pattern in
     if starts_with p ''*.'' then ends_with h (drop 1 p) \<or> h = drop 2 p
     else h = p)"

definition quoted :: "string \<Rightarrow> string" where
  "quoted s = [CHR 0x22] @ s @ [CHR 0x22]"

definition validateUri :: "url_fields \<Rightarrow> (string \<Rightarrow> string + string) \<Rightarrow> file_security_config \<Rightarrow> string \<Rightarrow> security_result" where
  "validateUri parse resolve config uri =
    (case parse uri of
       None \<Rightarrow> Some ''Invalid URI''
     | Some (protocol, rawHostname) \<Rightarrow>
        let scheme = to_lower protocol; hostname = stripBrackets rawHostname in
        if scheme \<noteq> ''http:'' \<and> scheme \<noteq> ''https:'' then Some (''Blocked scheme: '' @ remove_colon scheme)
        else if rawHostname = [] then Some ''URI has no hostname''
        else if fs_fileUriAllowlist config \<noteq> [] \<and> \<not> list_ex (matchHostname hostname) (fs_fileUriAllowlist config)
        then Some (''Hostname '' @ quoted hostname @ '' not in URI allowlist'')
        else if isIP hostname then
          (if isPrivateIp hostname then Some (''Blocked private IP: '' @ hostname) else None)
        else (case resolve hostname of
                Inl msg \<Rightarrow> Some (''DNS resolution failed for '' @ quoted hostname @ '': '' @ msg)
              | Inr address \<Rightarrow>
                  if isPrivateIp address
                  then Some (''Hostname '' @ quoted hostname @ '' resolves to private IP '' @ address)
                  else None))"

section \<open>MIME types, sizes and log copies\<close>

definition stripMimeParams :: "string \<Rightarrow> string" where
  "stripMimeParams m = trim (takeWhile (\<lambda>c. c \<noteq> CHR '';'') m)"

definition mime_matches :: "string \<Rightarrow> string \<Rightarrow> bool" where
  "mime_matches normalized pattern =
    (let p = to_lower (stripMimeParams pattern) in
     normalized = p \<or> (ends_with p ''/*'' \<and> starts_with normalized (butlast p)))"

definition validateMimeType :: "string \<Rightarrow> string list \<Rightarrow> bool" where
  "validateMimeType mimeType allowed =
    (let normalized = to_lower (stripMimeParams mimeType) in
     normalized \<noteq> [] \<and> list_ex (mime_matches normalized) allowed)"

definition to_fixed1 :: "rat \<Rightarrow> string" where
  "to_fixed1 q = (let n = nat \<lfloor>q * 10 + 1 / 2\<rfloor> in show_nat (n div 10) @ ''.'' @ show_nat (n mod 10))"

definition checkFileSize :: "rat \<Rightarrow> rat \<Rightarrow> security_result" where
  "checkFileSize sizeBytes maxBytes =
    (if maxBytes < sizeBytes
     then Some (''File size '' @ to_fixed1 (sizeBytes / 1048576) @ ''MB exceeds limit '' @ to_fixed1 (maxBytes / 1048576) @ ''MB'')
     else None)"

definition MIME_MAP :: "(string \<times> string) list" where
  "MIME_MAP = [(''.jpg'', ''image/jpeg''), (''.jpeg'', ''image/jpeg''), (''.png'', ''image/png''),
     (''.gif'', ''image/gif''), (''.webp'', ''image/webp''), (''.svg'', ''image/svg+xml''), (''.bmp'', ''image/bmp''),
     (''.ico'', ''image/x-icon''), (''.pdf'', ''application/pdf''), (''.txt'', ''text/plain''), (''.csv'', ''text/csv''),
     (''.json'', ''application/json''), (''.xml'', ''application/xml''), (''.html'', ''text/html''),
     (''.mp3'', ''audio/mpeg''), (''.wav'', ''audio/wav''), (''.ogg'', ''audio/ogg''), (''.mp4'', ''video/mp4''),
     (''.webm'', ''video/webm''), (''.zip'', ''application/zip''), (''.gz'', ''application/gzip''),
     (''.tar'', ''application/x-tar'')]"

text \<open>\<open>path.extname\<close>: from the last dot of the base name, empty when the name starts with it.\<close>

definition extname :: "string \<Rightarrow> string" where
  "extname path =
    (let base = rev (takeWhile (\<lambda>c. c \<noteq> CHR ''/'') (dropWhile (\<lambda>c. c = CHR ''/'') (rev path)));
         tail = rev (takeWhile (\<lambda>c. c \<noteq> CHR ''.'') (rev base))
     in if CHR ''.'' \<notin> set base \<or> length tail + 1 = length base \<or> base = ''..'' then [] else CHR ''.'' # tail)"

definition detectMimeType :: "string \<Rightarrow> string" where
  "detectMimeType path = opt_default ''application/octet-stream'' (map_of MIME_MAP (to_lower (extname path)))"

text \<open>The URL with credentials, query and fragment removed is a parameter (\<^const>\<open>None\<close>: not a URL).\<close>

definition sanitizeUriForLog :: "(string \<Rightarrow> string option) \<Rightarrow> string \<Rightarrow> nat \<Rightarrow> string" where
  "sanitizeUriForLog bare uri maxLength =
    (let s = opt_default uri (bare uri) in
     if length s \<le> maxLength then s else take maxLength s @ ''...'')"

definition sanitizeFilePartForLog :: "(string \<Rightarrow> string option) \<Rightarrow> (string \<times> js) list \<Rightarrow> (string \<times> js) list" where
  "sanitizeFilePartForLog bare part =
    (case jprop ''file'' part of
       JObj fds \<Rightarrow>
         let f1 = (if map_of fds ''bytes'' \<noteq> None then AList.update ''bytes'' (JStr ''[REDACTED]'') fds else fds);
             f2 = (case jprop ''uri'' f1 of
                     JStr u \<Rightarrow> AList.update ''uri'' (JStr (sanitizeUriForLog bare u 200)) f1
                   | _ \<Rightarrow> f1)
         in AList.update ''file'' (JObj f2) part
     | JArr xs \<Rightarrow> AList.update ''file'' (JObj (map (\<lambda>(i, x). (show_nat i, x)) (enumerate 0 xs))) part
          | _ \<Rightarrow> part)"

section \<open>Decimal notation\<close>

lemma char_digit: "n < 10 \<Longrightarrow> is_digit (char_of (48 + n)) \<and> digit_value (char_of (48 + n)) = n"
  by (simp add: is_digit_def digit_value_def Let_def)

lemma show_nat_digits: "list_all is_digit (show_nat n) \<and> show_nat n \<noteq> []"
proof (induction n rule: show_nat.induct)
  case (1 n)
  then show ?case by (subst (1 2) show_nat.simps) (auto simp: char_digit)
qed

lemma dec_value_append: "dec_value (s @ [c]) = 10 * dec_value s + digit_value c"
  by (simp add: dec_value_def)

lemma dec_value_show: "dec_value (show_nat n) = n"
proof (induction n rule: show_nat.induct)
  case (1 n)
  show ?case
  proof (cases "n < 10")
    case True
    then show ?thesis by (subst show_nat.simps) (simp add: dec_value_def char_digit)
  next
    case False
    with 1 show ?thesis by (subst show_nat.simps) (simp add: dec_value_append char_digit)
  qed
qed

lemma show_nat_length: "n < 1000 \<Longrightarrow> length (show_nat n) \<le> 3"
  by (subst show_nat.simps, subst show_nat.simps, subst show_nat.simps) auto

lemma show_nat_hd: "10 \<le> n \<Longrightarrow> hd (show_nat n) \<noteq> CHR ''0''"
proof (induction n rule: show_nat.induct)
  case (1 n)
  have step: "hd (show_nat n) = hd (show_nat (n div 10))"
    using 1(2) show_nat_digits [of "n div 10"] by (subst show_nat.simps) (simp add: hd_append)
  show ?case
  proof (cases "10 \<le> n div 10")
    case True
    with 1 step show ?thesis by simp
  next
    case False
    have "show_nat (n div 10) = [char_of (48 + n div 10)]" using False by (subst show_nat.simps) simp
    moreover have "digit_value (char_of (48 + n div 10)) = n div 10" using False char_digit [of "n div 10"] by simp
    moreover have "n div 10 \<noteq> 0" using 1(2) by auto
    moreover have "digit_value CHR ''0'' = 0" by (simp add: digit_value_def)
    ultimately show ?thesis using step by (metis list.sel(1))
  qed
qed

lemma show_octet: "n \<le> 255 \<Longrightarrow> v4_octet (show_nat n)"
  using show_nat_digits [of n] show_nat_length [of n] show_nat_hd [of n] dec_value_show [of n]
  by (cases "n < 10") (auto simp: v4_octet_def show_nat.simps [of n])

lemma number_part_show: "number_part (show_nat n) = Some n"
  using show_nat_digits [of n] by (simp add: number_part_def dec_value_show)

lemma digits_no_dot: "list_all is_digit s \<Longrightarrow> CHR ''.'' \<notin> set s"
  by (induction s) (auto simp: is_digit_def)

lemma split_on_none: "d \<notin> set s \<Longrightarrow> split_on d s = [s]"
  by (induction s) auto

lemma split_on_first: "d \<notin> set s \<Longrightarrow> split_on d (s @ d # t) = s # split_on d t"
  by (induction s) auto

definition dotted :: "nat \<Rightarrow> nat \<Rightarrow> nat \<Rightarrow> nat \<Rightarrow> string" where
  "dotted a b c d = show_nat a @ CHR ''.'' # show_nat b @ CHR ''.'' # show_nat c @ CHR ''.'' # show_nat d"

lemma split_dotted: "split_on CHR ''.'' (dotted a b c d) = [show_nat a, show_nat b, show_nat c, show_nat d]"
  using show_nat_digits [THEN conjunct1, THEN digits_no_dot]
  by (simp add: dotted_def split_on_first split_on_none)

section \<open>Private ranges\<close>

definition private_range :: "nat \<Rightarrow> nat \<Rightarrow> bool" where
  "private_range a b \<longleftrightarrow> a = 0 \<or> a = 10 \<or> a = 127 \<or> (a = 172 \<and> 16 \<le> b \<and> b \<le> 31) \<or> (a = 192 \<and> b = 168) \<or>
     (a = 169 \<and> b = 254)"

lemma isPrivateIpv4_dotted:
  "a \<le> 255 \<Longrightarrow> b \<le> 255 \<Longrightarrow> c \<le> 255 \<Longrightarrow> d \<le> 255 \<Longrightarrow> isPrivateIpv4 (dotted a b c d) = private_range a b"
  by (auto simp: isPrivateIpv4_def split_dotted number_part_show private_range_def)

lemma dotted_hd: "is_digit (hd (dotted a b c d)) \<and> dotted a b c d \<noteq> []"
  using show_nat_digits [of a] by (cases "show_nat a") (auto simp: dotted_def)

lemma mapped_match_dotted: "mapped_match (dotted a b c d) = None"
proof -
  obtain x xs where x: "dotted a b c d = x # xs" "is_digit x"
    using dotted_hd [of a b c d] by (cases "dotted a b c d") auto
  have "lower_char x \<noteq> CHR '':''" using x(2) by (auto simp: lower_char_def is_digit_def Let_def)
  then show ?thesis by (simp add: mapped_match_def x to_lower_def)
qed

lemma mapped_match_mapped:
  assumes "a \<le> 255" "b \<le> 255" "c \<le> 255" "d \<le> 255"
  shows "mapped_match (''::ffff:'' @ dotted a b c d) = Some (dotted a b c d)"
proof -
  have l: "to_lower ''::ffff:'' = ''::ffff:''" by code_simp
  have t: "take 7 (''::ffff:'' @ dotted a b c d) = ''::ffff:''" and dr: "drop 7 (''::ffff:'' @ dotted a b c d) = dotted a b c d"
    by simp_all
  show ?thesis
    using show_octet [OF assms(1)] show_octet [OF assms(2)] show_octet [OF assms(3)] show_octet [OF assms(4)]
    unfolding mapped_match_def t dr l split_dotted by (simp add: v4_octet_def)
qed

text \<open>C29. Private IPv4 addresses: for every one of the 2^32 addresses, written in dotted decimal or as
  an IPv4-mapped IPv6 address, the check answers exactly whether it lies in one of the six reserved
  ranges.\<close>

theorem isPrivateIp_ipv4_exact:
  assumes "a \<le> 255" "b \<le> 255" "c \<le> 255" "d \<le> 255"
  shows "isPrivateIp (dotted a b c d) = private_range a b \<and>
    isPrivateIp (''::ffff:'' @ dotted a b c d) = private_range a b"
proof
  have "isIPv4 (dotted a b c d)"
    using assms by (simp add: isIPv4_def split_dotted show_octet)
  then show "isPrivateIp (dotted a b c d) = private_range a b"
    using assms by (simp add: isPrivateIp_def mapped_match_dotted isPrivateIpv4_dotted)
  show "isPrivateIp (''::ffff:'' @ dotted a b c d) = private_range a b"
    unfolding isPrivateIp_def mapped_match_mapped [OF assms] using assms by (simp add: isPrivateIpv4_dotted)
qed

theorem isPrivateIp_ipv4_exact_witness:
  "isPrivateIp (dotted 172 31 0 1) \<and> \<not> isPrivateIp (dotted 172 32 0 1) \<and> isPrivateIp (''::ffff:'' @ dotted 127 0 0 1)"
  using isPrivateIp_ipv4_exact [of 172 31 0 1] isPrivateIp_ipv4_exact [of 172 32 0 1] isPrivateIp_ipv4_exact [of 127 0 0 1]
  by (simp add: private_range_def)

text \<open>Three spellings of the IPv4 loopback address and one of the IPv6 one are accepted as IP
  addresses by Node and pass the check as public: the uncompressed mapped form with a dotted tail,
  the IPv4-compatible form, and a loopback address with a zone.\<close>

theorem private_spellings_missed:
  "isIPv6 ''0:0:0:0:0:ffff:127.0.0.1'' \<and> \<not> isPrivateIp ''0:0:0:0:0:ffff:127.0.0.1'' \<and>
   isIPv6 ''::127.0.0.1'' \<and> \<not> isPrivateIp ''::127.0.0.1'' \<and>
   isIPv6 ''::1%lo'' \<and> \<not> isPrivateIp ''::1%lo'' \<and> isPrivateIp ''::1'' \<and> isPrivateIp ''::ffff:7f00:1''"
  by code_simp

section \<open>URIs\<close>

text \<open>An accepted URI is safe to fetch: validation passes exactly when the URI parses, its scheme
  is HTTP or HTTPS, its host is not empty and matches the allow-list when there is one, and the
  address it stands for, literal or resolved, is not private; anything that is not an address
  counts as private.\<close>

theorem validateUri_accepts_iff:
  "validateUri parse resolve config uri = None \<longleftrightarrow>
    (case parse uri of
       None \<Rightarrow> False
     | Some (protocol, raw) \<Rightarrow>
         to_lower protocol \<in> {''http:'', ''https:''} \<and> raw \<noteq> [] \<and>
         (fs_fileUriAllowlist config = [] \<or> list_ex (matchHostname (stripBrackets raw)) (fs_fileUriAllowlist config)) \<and>
         (if isIP (stripBrackets raw) then \<not> isPrivateIp (stripBrackets raw)
          else (case resolve (stripBrackets raw) of Inl _ \<Rightarrow> False | Inr address \<Rightarrow> \<not> isPrivateIp address)))"
  by (auto simp: validateUri_def Let_def split: option.splits sum.splits)

lemma not_an_ip_is_private: "\<not> isIP s \<Longrightarrow> mapped_match s = None \<Longrightarrow> isPrivateIp s"
  by (simp add: isPrivateIp_def isIP_def)

lemma inbound_check_ignores_names:
  "parse uri = Some (protocol, host) \<Longrightarrow> \<not> isIP (stripBrackets host) \<Longrightarrow> host \<noteq> [] \<Longrightarrow>
   to_lower protocol = ''https:'' \<Longrightarrow> validateUriSchemeAndIp parse uri = None"
  by (simp add: validateUriSchemeAndIp_def)

section \<open>Sizes\<close>

text \<open>The size of decoded base64: \<open>3 k - p\<close> bytes for \<open>4 k\<close> characters with \<open>p\<close> padding characters.\<close>

lemma decodedBase64Size_padded:
  assumes "length b + p = 4 * k" "p \<le> 2" "k \<noteq> 0" "CHR ''='' \<notin> set b"
  shows "decodedBase64Size (b @ replicate p CHR ''='') = 3 * int k - int p"
proof -
  have last: "b ! i \<noteq> CHR ''=''" if "i < length b" for i using that assms(4) by (metis nth_mem)
  have q: "(length b + p) * 3 div 4 = 3 * k" using assms(1) by simp
  have b2: "2 \<le> length b" using assms(1-3) by linarith
  consider "p = 0" | "p = 1" | "p = 2" using assms(2) by linarith
  then show ?thesis
  proof cases
    case 1
    with q b2 last [of "length b - 1"] last [of "length b - 2"] show ?thesis
      by (auto simp: decodedBase64Size_def Let_def)
  next
    case 2
    with q b2 last [of "length b - 1"] show ?thesis
      by (simp add: decodedBase64Size_def Let_def nth_append)
  next
    case 3
    with q b2 show ?thesis
      by (simp add: decodedBase64Size_def Let_def nth_append numeral_2_eq_2)
  qed
qed

lemma size_limit: "checkFileSize n m = None \<longleftrightarrow> n \<le> m"
  by (auto simp: checkFileSize_def)

end
