(* ===== verification/RoutingRules.thy ===== *)
theory RoutingRules
  imports Prelude
begin

text \<open>
  \<open>src/routing-rules.ts\<close>: rules that choose a peer for an outgoing message. \<open>RegExp\<close> with the
  flag \<open>i\<close> is a parameter: whether the pattern matches the text, \<^const>\<open>None\<close> when it is invalid.
\<close>

record routing_rule =
  rl_name :: string
  rl_pattern :: "string option"
  rl_tags :: "string list option"
  rl_skills :: "string list option"
  rl_peer :: string
  rl_agentId :: "string option"
  rl_priority :: rat

record routing_match =
  rm_peer :: string
  rm_agentId :: "string option"

type_synonym regex = "string \<Rightarrow> string \<Rightarrow> bool option"

definition js_string :: "js \<Rightarrow> string option" where
  "js_string v = (case v of JStr s \<Rightarrow> Some s | _ \<Rightarrow> None)"

definition trimmed_text :: "js \<Rightarrow> string" where
  "trimmed_text v = (case v of JStr s \<Rightarrow> trim s | _ \<Rightarrow> [])"

fun string_entries :: "js list \<Rightarrow> string list" where
  "string_entries [] = []"
| "string_entries (v # vs) = (case v of JStr s \<Rightarrow> if s = [] then string_entries vs else s # string_entries vs
     | _ \<Rightarrow> string_entries vs)"

definition opt_entries :: "js \<Rightarrow> string list option" where
  "opt_entries v = (case v of JArr vs \<Rightarrow> Some (string_entries vs) | _ \<Rightarrow> None)"

definition nonempty :: "'a list option \<Rightarrow> 'a list option" where
  "nonempty v = (case v of Some xs \<Rightarrow> if xs = [] then None else Some xs | None \<Rightarrow> None)"

definition is_object :: "js \<Rightarrow> bool" where
  "is_object v = (case v of JObj _ \<Rightarrow> True | JArr _ \<Rightarrow> True | _ \<Rightarrow> False)"

definition finite_number :: "js \<Rightarrow> rat option" where
  "finite_number v = (case v of JNum (Fin q) \<Rightarrow> Some q | _ \<Rightarrow> None)"

definition parse_rule :: "js \<Rightarrow> routing_rule option" where
  "parse_rule entry =
    (if \<not> is_object entry then None
     else let name = trimmed_text (get_prop entry ''name''); m = get_prop entry ''match'' in
       if name = [] then None
       else if \<not> is_object m then None
       else let pattern = nonempty (js_string (get_prop m ''pattern''));
                tags = nonempty (opt_entries (get_prop m ''tags''));
                skills = nonempty (opt_entries (get_prop m ''skills''))
            in if pattern = None \<and> tags = None \<and> skills = None then None
               else if \<not> is_object (get_prop entry ''target'') then None
               else let peer = trimmed_text (get_prop (get_prop entry ''target'') ''peer'');
                        agentId = nonempty (Some (trimmed_text (get_prop (get_prop entry ''target'') ''agentId'')))
                    in if peer = [] then None
                       else Some \<lparr>rl_name = name, rl_pattern = pattern, rl_tags = tags, rl_skills = skills,
                              rl_peer = peer, rl_agentId = agentId,
                              rl_priority = opt_default 0 (finite_number (get_prop entry ''priority''))\<rparr>)"

definition parseRoutingRules :: "js \<Rightarrow> routing_rule list" where
  "parseRoutingRules raw = (case raw of
     JArr entries \<Rightarrow> sort_key (\<lambda>r. - rl_priority r) (List.map_filter parse_rule entries)
   | _ \<Rightarrow> [])"

record routing_message =
  ms_text :: string
  ms_tags :: "string list option"

definition matchesRule :: "regex \<Rightarrow> routing_message \<Rightarrow> (string \<times> string list) list option \<Rightarrow> routing_rule \<Rightarrow> bool" where
  "matchesRule re msg peerSkills rule =
    ((case rl_pattern rule of
        None \<Rightarrow> True
      | Some p \<Rightarrow> p = [] \<or> (length p \<le> 500 \<and> re p (take 10000 (ms_text msg)) = Some True)) \<and>
     (case rl_tags rule of
        None \<Rightarrow> True
      | Some ts \<Rightarrow> ts = [] \<or> list_ex (\<lambda>t. t \<in> set (opt_default [] (ms_tags msg))) ts) \<and>
     (case rl_skills rule of
        None \<Rightarrow> True
      | Some ss \<Rightarrow> ss = [] \<or> list_ex (\<lambda>s. s \<in> set (opt_default []
            (case peerSkills of None \<Rightarrow> None | Some m \<Rightarrow> map_of m (rl_peer rule)))) ss))"

definition matchRule :: "regex \<Rightarrow> routing_rule list \<Rightarrow> routing_message \<Rightarrow> (string \<times> string list) list option \<Rightarrow>
    routing_match option" where
  "matchRule re rules msg peerSkills =
    (case find (matchesRule re msg peerSkills) rules of
       None \<Rightarrow> None
     | Some rule \<Rightarrow> Some \<lparr>rm_peer = rl_peer rule, rm_agentId = nonempty (rl_agentId rule)\<rparr>)"

section \<open>Parsing\<close>

definition rule_ok :: "routing_rule \<Rightarrow> bool" where
  "rule_ok r \<longleftrightarrow> rl_name r \<noteq> [] \<and> trim (rl_name r) = rl_name r \<and> rl_peer r \<noteq> [] \<and> trim (rl_peer r) = rl_peer r \<and>
     (rl_pattern r \<noteq> None \<or> rl_tags r \<noteq> None \<or> rl_skills r \<noteq> None) \<and>
     rl_pattern r \<noteq> Some [] \<and> rl_tags r \<noteq> Some [] \<and> rl_skills r \<noteq> Some [] \<and> rl_agentId r \<noteq> Some []"

lemma trimmed_text_fixed: "trim (trimmed_text v) = trimmed_text v"
  by (cases v) (simp_all add: trimmed_text_def)

lemma nonempty_not_Nil: "nonempty v \<noteq> Some []"
  by (auto simp: nonempty_def split: option.splits)

lemma parse_rule_ok: "parse_rule v = Some r \<Longrightarrow> rule_ok r"
  by (auto simp: parse_rule_def rule_ok_def Let_def trimmed_text_fixed nonempty_not_Nil split: if_splits)

lemma map_filter_mem: "r \<in> set (List.map_filter f xs) \<longleftrightarrow> (\<exists>x \<in> set xs. f x = Some r)"
  by (induction xs) (auto simp: map_filter_simps split: option.splits)

lemma find_sorted_least:
  assumes "sorted (map k xs)" "find P xs = Some x" "y \<in> set xs" "P y"
  shows "k x \<le> (k y :: rat)"
  using assms by (induction xs) (auto split: if_splits dest: find_SomeD)

text \<open>Routing: parsing keeps exactly the entries that are valid rules, and the rule that decides a
  message matches it, has the highest priority among all configured rules that match, and nothing is
  chosen exactly when no rule matches.\<close>

theorem matchRule_highest_priority:
  "(matchRule re (parseRoutingRules (JArr entries)) msg skills = None \<longleftrightarrow>
     (\<forall>v \<in> set entries. case parse_rule v of None \<Rightarrow> True | Some r \<Rightarrow> \<not> matchesRule re msg skills r)) \<and>
   (\<forall>m. matchRule re (parseRoutingRules (JArr entries)) msg skills = Some m \<longrightarrow>
     (\<exists>v \<in> set entries. \<exists>r. parse_rule v = Some r \<and> rule_ok r \<and> matchesRule re msg skills r \<and>
        rm_peer m = rl_peer r \<and> rm_agentId m = rl_agentId r \<and>
        (\<forall>w \<in> set entries. case parse_rule w of None \<Rightarrow> True
           | Some q \<Rightarrow> matchesRule re msg skills q \<longrightarrow> rl_priority q \<le> rl_priority r)))"
proof (intro conjI allI impI)
  let ?rules = "parseRoutingRules (JArr entries)"
  have mem: "r \<in> set ?rules \<longleftrightarrow> (\<exists>v \<in> set entries. parse_rule v = Some r)" for r
    by (simp add: parseRoutingRules_def map_filter_mem)
  have none: "matchRule re ?rules msg skills = None \<longleftrightarrow> (\<forall>r \<in> set ?rules. \<not> matchesRule re msg skills r)"
    by (auto simp: matchRule_def find_None_iff split: option.splits dest: find_SomeD)
  show "matchRule re ?rules msg skills = None \<longleftrightarrow>
     (\<forall>v \<in> set entries. case parse_rule v of None \<Rightarrow> True | Some r \<Rightarrow> \<not> matchesRule re msg skills r)"
    unfolding none by (auto simp: mem split: option.splits)
  fix m
  assume "matchRule re ?rules msg skills = Some m"
  then obtain r where r: "find (matchesRule re msg skills) ?rules = Some r"
    "m = \<lparr>rm_peer = rl_peer r, rm_agentId = nonempty (rl_agentId r)\<rparr>"
    by (auto simp: matchRule_def split: option.splits)
  from find_SomeD [OF r(1)] obtain v where v: "v \<in> set entries" "parse_rule v = Some r" "matchesRule re msg skills r"
    by (auto simp: mem)
  have ok: "rule_ok r" using v(2) by (rule parse_rule_ok)
  then have ag: "nonempty (rl_agentId r) = rl_agentId r" by (auto simp: rule_ok_def nonempty_def split: option.splits)
  have best: "rl_priority q \<le> rl_priority r" if "w \<in> set entries" "parse_rule w = Some q" "matchesRule re msg skills q" for w q
  proof -
    have "sorted (map (\<lambda>r. - rl_priority r) ?rules)" by (simp add: parseRoutingRules_def)
    moreover have "q \<in> set ?rules" using that by (auto simp: mem)
    ultimately have "- rl_priority r \<le> - rl_priority q"
      using find_sorted_least [of "\<lambda>r. - rl_priority r" ?rules] r(1) that(3) by blast
    then show ?thesis by simp
  qed
  show "\<exists>v \<in> set entries. \<exists>r. parse_rule v = Some r \<and> rule_ok r \<and> matchesRule re msg skills r \<and>
        rm_peer m = rl_peer r \<and> rm_agentId m = rl_agentId r \<and>
        (\<forall>w \<in> set entries. case parse_rule w of None \<Rightarrow> True
           | Some q \<Rightarrow> matchesRule re msg skills q \<longrightarrow> rl_priority q \<le> rl_priority r)"
    using v ok ag best r(2) by (auto split: option.splits intro!: bexI [of _ v] exI [of _ r])
qed

definition demo_rule :: "string \<Rightarrow> string \<Rightarrow> rat \<Rightarrow> js" where
  "demo_rule n p k = JObj [(''name'', JStr n), (''match'', JObj [(''tags'', JArr [JStr ''t''])]),
     (''target'', JObj [(''peer'', JStr p)]), (''priority'', JNum (Fin k))]"

theorem matchRule_highest_priority_witness:
  "matchRule (\<lambda>_ _. None) (parseRoutingRules (JArr [demo_rule ''a'' ''x'' 1, demo_rule ''b'' ''y'' 5]))
     \<lparr>ms_text = [], ms_tags = Some [''t'']\<rparr> None = Some \<lparr>rm_peer = ''y'', rm_agentId = None\<rparr>"
proof -
  let ?r = "matchRule (\<lambda>_ _. None) (parseRoutingRules (JArr [demo_rule ''a'' ''x'' 1, demo_rule ''b'' ''y'' 5]))
     \<lparr>ms_text = [], ms_tags = Some [''t'']\<rparr> None"
  have t: "trim ''a'' = ''a''" "trim ''b'' = ''b''" "trim ''x'' = ''x''" "trim ''y'' = ''y''" by code_simp+
  have p: "parse_rule (demo_rule n q k) = (if trim n = [] \<or> trim q = [] then None else
      Some \<lparr>rl_name = trim n, rl_pattern = None, rl_tags = Some [''t''], rl_skills = None,
       rl_peer = trim q, rl_agentId = None, rl_priority = k\<rparr>)" for n q k
    by (simp add: parse_rule_def demo_rule_def is_object_def trimmed_text_def nonempty_def js_string_def
        opt_entries_def finite_number_def Let_def)
  have c: "?r \<noteq> None"
    using matchRule_highest_priority [of "\<lambda>_ _. None" "[demo_rule ''a'' ''x'' 1, demo_rule ''b'' ''y'' 5]"
        "\<lparr>ms_text = [], ms_tags = Some [''t'']\<rparr>" None, THEN conjunct1]
    by (simp add: p t matchesRule_def)
  then obtain m where m: "?r = Some m" by blast
  with matchRule_highest_priority [of "\<lambda>_ _. None" "[demo_rule ''a'' ''x'' 1, demo_rule ''b'' ''y'' 5]"
      "\<lparr>ms_text = [], ms_tags = Some [''t'']\<rparr>" None, THEN conjunct2]
  have "rm_peer m = ''y'' \<and> rm_agentId m = None"
    by (auto simp: p t matchesRule_def)
  with m show ?thesis by (cases m) simp
qed

lemma long_pattern_never_matches:
  "rl_pattern rule = Some p \<Longrightarrow> 500 < length p \<Longrightarrow> \<not> matchesRule re msg skills rule"
  by (auto simp: matchesRule_def)

lemma invalid_pattern_never_matches:
  "rl_pattern rule = Some p \<Longrightarrow> p \<noteq> [] \<Longrightarrow> re p (take 10000 (ms_text msg)) = None \<Longrightarrow> \<not> matchesRule re msg skills rule"
  by (auto simp: matchesRule_def)

end
