(* ===== verification/Catalog.thy ===== *)
theory Catalog
  imports Client
begin

text \<open>
  \<open>src/skill-catalog.ts\<close> and \<open>src/agent-card.ts\<close>: the normalisation of configured skills and the
  agent card the gateway publishes. \<open>new URL\<close> is a parameter giving host name and origin
  (\<^const>\<open>None\<close> when it throws, which makes building the card throw).
\<close>

section \<open>Skills\<close>

function (sequential) collapse :: "(char \<Rightarrow> bool) \<Rightarrow> string \<Rightarrow> string" where
  "collapse P [] = []"
| "collapse P (c # s) = (if P c then CHR ''_'' # collapse P (dropWhile P s) else c # collapse P s)"
  by pat_completeness auto
termination
  by (relation "measure (\<lambda>(P, s). length s)") (auto simp: length_dropWhile_le le_imp_less_Suc)

definition is_separator :: "char \<Rightarrow> bool" where
  "is_separator c = (is_js_space c \<or> c = CHR ''-'')"

definition normalizeConfiguredSkillName :: "string \<Rightarrow> string" where
  "normalizeConfiguredSkillName s = collapse (\<lambda>c. c = CHR ''_'') (collapse is_separator (to_lower (trim s)))"

record skill_config =
  sk_id :: "string option"
  sk_name :: string
  sk_description :: "string option"

datatype skill_entry = SkillName string | SkillObject skill_config

definition chat_skill :: skill_entry where
  "chat_skill = SkillObject \<lparr>sk_id = Some ''chat'', sk_name = ''chat'', sk_description = Some ''Chat bridge''\<rparr>"

definition entry_name :: "skill_entry \<Rightarrow> string" where
  "entry_name e = (case e of SkillName s \<Rightarrow> s | SkillObject c \<Rightarrow> sk_name c)"

definition present_text :: "string option \<Rightarrow> string option" where
  "present_text v = (case v of None \<Rightarrow> None | Some s \<Rightarrow> if s = [] then None else Some s)"

definition normalize_entry :: "skill_entry \<Rightarrow> skill_entry" where
  "normalize_entry e = (case e of
     SkillName s \<Rightarrow> SkillName (normalizeConfiguredSkillName s)
   | SkillObject c \<Rightarrow>
      let n = normalizeConfiguredSkillName (sk_name c) in
      SkillObject \<lparr>sk_id = Some (case present_text (sk_id c) of Some i \<Rightarrow> normalizeConfiguredSkillName i | None \<Rightarrow> n),
        sk_name = n,
        sk_description = Some (case present_text (map_option trim (sk_description c)) of Some d \<Rightarrow> d | None \<Rightarrow> n)\<rparr>)"

fun skills_loop :: "string list \<Rightarrow> skill_entry list \<Rightarrow> skill_entry list" where
  "skills_loop seen [] = []"
| "skills_loop seen (e # es) =
     (let n = normalizeConfiguredSkillName (entry_name e) in
      if n = [] \<or> n \<in> set seen then skills_loop seen es
      else normalize_entry e # skills_loop (n # seen) es)"

definition normalizeAgentCardSkills :: "skill_entry list option \<Rightarrow> skill_entry list" where
  "normalizeAgentCardSkills raw =
    (case raw of
       None \<Rightarrow> [chat_skill]
     | Some es \<Rightarrow> if es = [] then [chat_skill]
                 else let n = skills_loop [] es in if n = [] then [chat_skill] else n)"

section \<open>The agent card\<close>

record card_config =
  cc_name :: string
  cc_description :: "string option"
  cc_url :: "string option"
  cc_skills :: "skill_entry list"
  cc_host :: string
  cc_port :: int
  cc_bearer :: bool

type_synonym url_host = "string \<Rightarrow> (string \<times> string) option"

definition or_text :: "string option \<Rightarrow> string \<Rightarrow> string" where
  "or_text v d = opt_default d (present_text v)"

definition toSkill :: "nat \<Rightarrow> skill_entry \<Rightarrow> js" where
  "toSkill index entry = (case entry of
     SkillName s \<Rightarrow> JObj [(''id'', JStr (''skill-'' @ show_nat (index + 1))), (''name'', JStr s),
        (''description'', JStr s), (''tags'', JArr [])]
   | SkillObject c \<Rightarrow> JObj [(''id'', JStr (or_text (sk_id c) (''skill-'' @ show_nat (index + 1)))),
        (''name'', JStr (sk_name c)), (''description'', JStr (or_text (sk_description c) (sk_name c))),
        (''tags'', JArr [])])"

definition fallback_url :: "card_config \<Rightarrow> string" where
  "fallback_url c = ''http://'' @ (if cc_host c = ''0.0.0.0'' then ''localhost'' else cc_host c) @ '':'' @
     show_int (cc_port c) @ ''/a2a/jsonrpc''"

definition card_url :: "card_config \<Rightarrow> string" where
  "card_url c = or_text (cc_url c) (fallback_url c)"

definition interface_js :: "string \<Rightarrow> string \<Rightarrow> js" where
  "interface_js u t = JObj [(''url'', JStr u), (''transport'', JStr t)]"

definition grpc_host :: "url_host \<Rightarrow> card_config \<Rightarrow> string option" where
  "grpc_host parse c =
    (if cc_host c = ''0.0.0.0'' then
       (case present_text (cc_url c) of
          Some u \<Rightarrow> map_option fst (parse u)
        | None \<Rightarrow> Some ''localhost'')
     else Some (cc_host c))"

definition buildAgentCard :: "url_host \<Rightarrow> card_config \<Rightarrow> js option" where
  "buildAgentCard parse c =
    (case grpc_host parse c of
       None \<Rightarrow> None
     | Some host \<Rightarrow>
        (case parse (card_url c) of
           None \<Rightarrow> None
         | Some (_, origin) \<Rightarrow> Some (JObj
            [(''protocolVersion'', JStr ''0.3.0''), (''version'', JStr ''1.0.0''),
             (''name'', JStr (if cc_name c = [] then ''OpenClaw A2A Gateway'' else cc_name c)),
             (''description'', JStr (or_text (cc_description c) ''A2A bridge for OpenClaw agents'')),
             (''url'', JStr (card_url c)),
             (''skills'', JArr (map (\<lambda>(i, e). toSkill i e) (enumerate 0 (cc_skills c)))),
             (''capabilities'', JObj [(''streaming'', JBool True), (''pushNotifications'', JBool False),
                (''stateTransitionHistory'', JBool False)]),
             (''securitySchemes'', JObj (if cc_bearer c then
                [(''bearer'', JObj [(''type'', JStr ''http''), (''scheme'', JStr ''bearer'')])] else [])),
             (''security'', JArr (if cc_bearer c then [JObj [(''bearer'', JArr [])]] else [])),
             (''supportsAuthenticatedExtendedCard'', JBool False),
             (''defaultInputModes'', JArr [JStr ''text'']), (''defaultOutputModes'', JArr [JStr ''text'']),
             (''additionalInterfaces'', JArr [interface_js (card_url c) ''JSONRPC'',
                interface_js (origin @ ''/a2a/rest'') ''HTTP+JSON'',
                interface_js (host @ '':'' @ show_int (cc_port c + 1)) ''GRPC''])])))"

section \<open>Normalised skill names\<close>

lemma collapse_none: "(\<forall>c \<in> set s. \<not> P c) \<Longrightarrow> collapse P s = s"
  by (induction s) auto

lemma collapse_set: "set (collapse P s) \<subseteq> insert CHR ''_'' {c \<in> set s. \<not> P c}"
proof (induction P s rule: collapse.induct)
  case (2 P c s)
  show ?case
  proof (cases "P c")
    case True
    from 2(1) [OF True] have "set (collapse P (dropWhile P s)) \<subseteq> insert CHR ''_'' {c \<in> set s. \<not> P c}"
      using set_dropWhileD [of _ P s] by fastforce
    with True show ?thesis by auto
  next
    case False
    from 2(2) [OF False] False show ?thesis by auto
  qed
qed simp

lemma underscore_plain: "\<not> is_separator CHR ''_''" "lower_char CHR ''_'' = CHR ''_''"
  by code_simp+

fun no_double :: "string \<Rightarrow> bool" where
  "no_double (a # b # s) = (\<not> (a = CHR ''_'' \<and> b = CHR ''_'') \<and> no_double (b # s))"
| "no_double _ = True"

lemma collapse_hd: "collapse (\<lambda>c. c = CHR ''_'') s = a # t \<Longrightarrow> s \<noteq> [] \<and> (a = hd s)"
  by (cases s) (auto split: if_splits)

lemma no_double_collapse: "no_double (collapse (\<lambda>c. c = CHR ''_'') s)"
proof (induction "\<lambda>c. c = CHR ''_''" s rule: collapse.induct)
  case (2 c s)
  show ?case
  proof (cases "c = CHR ''_''")
    case True
    have nd: "no_double (collapse (\<lambda>c. c = CHR ''_'') (dropWhile (\<lambda>c. c = CHR ''_'') s))" using 2(1) True by simp
    have hd: "\<not> (\<exists>t. collapse (\<lambda>c. c = CHR ''_'') (dropWhile (\<lambda>c. c = CHR ''_'') s) = CHR ''_'' # t)"
    proof
      assume "\<exists>t. collapse (\<lambda>c. c = CHR ''_'') (dropWhile (\<lambda>c. c = CHR ''_'') s) = CHR ''_'' # t"
      then have h: "dropWhile (\<lambda>c. c = CHR ''_'') s \<noteq> []" "CHR ''_'' = hd (dropWhile (\<lambda>c. c = CHR ''_'') s)"
        using collapse_hd by blast+
      from hd_dropWhile [OF h(1)] h(2) show False by simp
    qed
    show ?thesis
      using nd hd by (cases "collapse (\<lambda>c. c = CHR ''_'') (dropWhile (\<lambda>c. c = CHR ''_'') s)") (simp_all add: True)
  next
    case False
    have "no_double (collapse (\<lambda>c. c = CHR ''_'') s)" using 2(2) [OF False] by simp
    with False show ?thesis by (cases "collapse (\<lambda>c. c = CHR ''_'') s") simp_all
  qed
qed simp

lemma collapse_no_double: "no_double s \<Longrightarrow> collapse (\<lambda>c. c = CHR ''_'') s = s"
proof (induction s rule: no_double.induct)
  case (1 a b s)
  then show ?case by (cases "a = CHR ''_''") auto
qed auto

lemma normal_name_chars:
  assumes "c \<in> set (normalizeConfiguredSkillName s)"
  shows "\<not> is_separator c \<and> lower_char c = c"
proof -
  from assms have "c = CHR ''_'' \<or> (c \<in> set (to_lower (trim s)) \<and> \<not> is_separator c)"
    using collapse_set [of "\<lambda>c. c = CHR ''_''" "collapse is_separator (to_lower (trim s))"]
      collapse_set [of is_separator "to_lower (trim s)"]
    by (auto simp: normalizeConfiguredSkillName_def)
  then show ?thesis by (auto simp: underscore_plain to_lower_def)
qed

lemma trim_fixed: "(\<forall>c \<in> set s. \<not> is_js_space c) \<Longrightarrow> trim s = s"
proof -
  assume a: "\<forall>c \<in> set s. \<not> is_js_space c"
  have "dropWhile is_js_space t = t" if "\<forall>c \<in> set t. \<not> is_js_space c" for t
    using that by (cases t) auto
  from this [of s] this [of "rev s"] a show "trim s = s" by (simp add: trim_def)
qed

text \<open>Normalising a skill name is idempotent, and a normalised name has no upper-case letters,
  white space, hyphens or repeated underscores, so skills that differ only in these are one skill.\<close>

theorem skill_name_normal_form:
  "normalizeConfiguredSkillName (normalizeConfiguredSkillName s) = normalizeConfiguredSkillName s \<and>
   no_double (normalizeConfiguredSkillName s)"
proof -
  let ?n = "normalizeConfiguredSkillName s"
  have sp: "\<forall>c \<in> set ?n. \<not> is_js_space c" using normal_name_chars by (auto simp: is_separator_def)
  have "to_lower (trim ?n) = ?n"
    unfolding trim_fixed [OF sp] to_lower_def using normal_name_chars by (intro map_idI) blast
  moreover have "collapse is_separator ?n = ?n" using normal_name_chars by (intro collapse_none) blast
  moreover have nd: "no_double ?n" by (simp add: normalizeConfiguredSkillName_def no_double_collapse)
  ultimately show ?thesis
    using collapse_no_double [OF nd] by (simp add: normalizeConfiguredSkillName_def [of ?n])
qed

lemma entry_name_normalize: "entry_name (normalize_entry e) = normalizeConfiguredSkillName (entry_name e)"
  by (cases e) (simp_all add: normalize_entry_def entry_name_def Let_def)

lemma skills_loop_names:
  "distinct (map entry_name (skills_loop seen es)) \<and> set (map entry_name (skills_loop seen es)) \<inter> set seen = {} \<and>
   [] \<notin> set (map entry_name (skills_loop seen es))"
proof (induction es arbitrary: seen)
  case (Cons e es)
  show ?case
    using Cons.IH [of seen] Cons.IH [of "normalizeConfiguredSkillName (entry_name e) # seen"]
    by (auto simp: Let_def entry_name_normalize)
qed simp

lemma skills_never_empty:
  "normalizeAgentCardSkills raw \<noteq> [] \<and> distinct (map entry_name (normalizeAgentCardSkills raw))"
  using skills_loop_names [of "[]"] by (auto simp: normalizeAgentCardSkills_def Let_def split: option.splits)

section \<open>Gateway to gateway\<close>

text \<open>What one gateway publishes another one can use: the sending client reads from the published
  card exactly the three interfaces it advertises, JSON-RPC first, then REST, then gRPC.\<close>

theorem published_card_is_usable:
  assumes "buildAgentCard parse c = Some card'"
  shows "\<exists>origin host. parse (card_url c) = Some (host, origin) \<and>
    map ep_key (card_interfaces base card') = [(''JSONRPC'', card_url c), (''HTTP+JSON'', origin @ ''/a2a/rest''),
      (''GRPC'', the (grpc_host parse c) @ '':'' @ show_int (cc_port c + 1))]"
proof -
  from assms obtain gh host origin where g: "grpc_host parse c = Some gh" "parse (card_url c) = Some (host, origin)"
    and card: "get_prop card' ''preferredTransport'' = JUndef" "get_prop card' ''url'' = JStr (card_url c)"
    "get_prop card' ''additionalInterfaces'' = JArr [interface_js (card_url c) ''JSONRPC'',
        interface_js (origin @ ''/a2a/rest'') ''HTTP+JSON'', interface_js (gh @ '':'' @ show_int (cc_port c + 1)) ''GRPC'']"
    by (auto simp: buildAgentCard_def split: option.splits)
  have "map ep_key (card_interfaces base card') = [(''JSONRPC'', card_url c), (''HTTP+JSON'', origin @ ''/a2a/rest''),
      (''GRPC'', gh @ '':'' @ show_int (cc_port c + 1))]"
    by (simp add: card_interfaces_def card coalesce_def nullish_def endpoint_of_def interface_js_def
        orderTransports_def PRIORITY_ORDER_def)
  with g show ?thesis by auto
qed

definition demo_card :: card_config where
  "demo_card = \<lparr>cc_name = [], cc_description = None, cc_url = None, cc_skills = [chat_skill], cc_host = ''h'',
     cc_port = 18800, cc_bearer = True\<rparr>"

theorem published_card_is_usable_witness:
  "\<exists>card'. buildAgentCard (\<lambda>u. Some (''h'', ''http://h'')) demo_card = Some card' \<and>
    map fst (map ep_key (card_interfaces [] card')) = [''JSONRPC'', ''HTTP+JSON'', ''GRPC'']"
proof -
  obtain card' where c: "buildAgentCard (\<lambda>u. Some (''h'', ''http://h'')) demo_card = Some card'"
    by (simp add: buildAgentCard_def demo_card_def grpc_host_def)
  from published_card_is_usable [OF c, of "[]"] c show ?thesis by auto
qed

end
