(* ===== verification/AgentText.thy ===== *)
theory AgentText
  imports FileSecurity
begin

text \<open>
  Model of the pure functions of \<open>src/src/executor.ts\<close> (lines 44 to 323): reading the text
  out of an inbound A2A message, serialising file and data parts for the text-only agent
  channel, and reading the agent's reply. Code units outside Latin-1 in the source's literals
  (the ellipsis, the arrow, the dash) are written as their UTF-8 bytes. A \<open>JSON.stringify\<close>
  that throws (cyclic or big-integer values) has no counterpart among the values modelled.
\<close>

section \<open>Reading the inbound message\<close>

definition pickAgentId_exec :: "js \<Rightarrow> string \<Rightarrow> string" where
  "pickAgentId_exec userMessage fallbackAgentId =
    (case get_prop userMessage ''agentId'' of
       JStr explicit \<Rightarrow> if explicit = [] then fallbackAgentId else explicit
     | _ \<Rightarrow> fallbackAgentId)"

definition asFiniteNumber :: "js \<Rightarrow> rat option" where
  "asFiniteNumber v = (case v of JNum (Fin q) \<Rightarrow> Some q | _ \<Rightarrow> None)"

definition ellipsis :: string where
  "ellipsis = [CHR 0xE2, CHR 0x80, CHR 0xA6]"

definition arrow :: string where
  "arrow = [CHR 0xE2, CHR 0x86, CHR 0x92]"

definition json_text :: "js \<Rightarrow> string" where
  "json_text v = opt_default ''undefined'' (json_stringify v)"

definition formatDataPartAsText :: "(string \<times> js) list \<Rightarrow> string" where
  "formatDataPartAsText part =
    (let data = jprop ''data'' part;
         mimeType = opt_default ''application/json'' (asString (jprop ''mimeType'' part));
         raw = json_text data in
     case asObject data of
       None \<Rightarrow> if nullish data then []
               else ''[Data ('' @ mimeType @ ''): '' @ take 2000 raw @ '']''
     | Some _ \<Rightarrow>
         let preview = (if 2000 < length raw then take 2000 raw @ ellipsis else raw)
         in ''[Data ('' @ mimeType @ ''): '' @ preview @ '']'')"

definition strip_controls :: "string \<Rightarrow> string" where
  "strip_controls s = filter (\<lambda>c. 32 \<le> (of_char c :: nat)) s"

definition formatFilePartAsText :: "(string \<times> js) list \<Rightarrow> string" where
  "formatFilePartAsText part =
    (case asObject (jprop ''file'' part) of
       None \<Rightarrow> []
     | Some file \<Rightarrow>
        let rawName = opt_default ''file'' (asString (get_prop file ''name''));
            rawMimeType = opt_default ''application/octet-stream'' (asString (get_prop file ''mimeType''));
            name = take 200 (strip_controls rawName);
            mimeType = take 100 (strip_controls rawMimeType);
            label = ''[Attached: '' @ name @ '' ('' @ mimeType @ '')''
        in case asString (get_prop file ''uri'') of
             Some uri \<Rightarrow> label @ '' '' @ arrow @ '' '' @ uri @ '']''
           | None \<Rightarrow>
              (case asString (get_prop file ''bytes'') of
                 Some bytes \<Rightarrow>
                   let sizeKB = (decodedBase64Size bytes + 1023) div 1024
                   in label @ '', inline '' @ show_int sizeKB @ ''KB]''
               | None \<Rightarrow> label @ '']''))"

text \<open>A description is dropped when it is the empty string.\<close>

definition text_item :: "string \<Rightarrow> string list" where
  "text_item s = (if s = [] then [] else [s])"

text \<open>\<open>typeof v === "string" ? v.trim() : ""\<close>, dropped when empty.\<close>

definition trimmed_item :: "js \<Rightarrow> string list" where
  "trimmed_item v = (case v of JStr s \<Rightarrow> text_item (trim s) | _ \<Rightarrow> [])"

fun extractTextFragments :: "js \<Rightarrow> string list" where
  "extractTextFragments (JStr s) = text_item (trim s)"
| "extractTextFragments (JArr xs) = concat (map extractTextFragments xs)"
| "extractTextFragments (JObj fs) =
     (if jprop ''kind'' fs = JStr ''text'' \<and> is_string (jprop ''text'' fs) then trimmed_item (jprop ''text'' fs)
      else if jprop ''kind'' fs = JStr ''file'' then text_item (formatFilePartAsText fs)
      else if jprop ''kind'' fs = JStr ''data'' then text_item (formatDataPartAsText fs)
      else if array_or_empty (jprop ''parts'' fs) \<noteq> []
      then concat (map extractTextFragments (array_or_empty (jprop ''parts'' fs)))
      else if array_or_empty (jprop ''content'' fs) \<noteq> []
      then concat (map extractTextFragments (array_or_empty (jprop ''content'' fs)))
      else trimmed_item (jprop ''text'' fs))"
| "extractTextFragments _ = []"

text \<open>The text of the whole message; \<open>undefined\<close> when there is no message at all.\<close>

definition extractInboundMessageText :: "js \<Rightarrow> string option" where
  "extractInboundMessageText message =
    (let fragments = extractTextFragments message in
     if fragments \<noteq> [] then Some (join newline fragments) else json_stringify message)"

definition extractAgentPayloadText :: "js \<Rightarrow> string option" where
  "extractAgentPayloadText payload =
    (let fragments = extractTextFragments payload; body = trim (join newline fragments) in
     if fragments = [] \<or> body = [] then None else Some body)"

section \<open>Reading the agent's reply\<close>

record agent_response =
  ar_text :: string
  ar_mediaUrls :: "string list"

text \<open>The entries a loop pushes that have not been pushed before.\<close>

fun url_loop :: "string list \<Rightarrow> js list \<Rightarrow> string list" where
  "url_loop urls [] = []"
| "url_loop urls (entry # entries) =
     (case asString entry of
        None \<Rightarrow> url_loop urls entries
      | Some url \<Rightarrow> if url \<in> set urls then url_loop urls entries else url # url_loop (url # urls) entries)"

definition extractMediaUrlsFromPayload :: "js \<Rightarrow> string list" where
  "extractMediaUrlsFromPayload payload =
    (case asObject payload of
       None \<Rightarrow> []
     | Some obj \<Rightarrow>
        let single = (case asString (get_prop obj ''mediaUrl'') of Some u \<Rightarrow> [u] | None \<Rightarrow> [])
        in single @ url_loop single (array_or_empty (get_prop obj ''mediaUrls'')))"

fun push_new :: "string list \<Rightarrow> string list \<Rightarrow> string list" where
  "push_new urls [] = []"
| "push_new urls (url # rest) =
     (if url \<in> set urls then push_new urls rest else url # push_new (url # urls) rest)"

fun some_texts :: "string option list \<Rightarrow> string list" where
  "some_texts [] = []"
| "some_texts (None # rest) = some_texts rest"
| "some_texts (Some t # rest) = (if trim t = [] then some_texts rest else t # some_texts rest)"

definition extractAgentResponse :: "js \<Rightarrow> agent_response option" where
  "extractAgentResponse payload =
    (case asObject payload of
       None \<Rightarrow> None
     | Some body \<Rightarrow>
        let payloads = array_or_empty (get_prop (get_prop body ''result'') ''payloads'');
            texts = some_texts (map extractAgentPayloadText payloads);
            mediaUrls = push_new [] (concat (map extractMediaUrlsFromPayload payloads))
        in if texts \<noteq> [] \<or> mediaUrls \<noteq> []
           then Some \<lparr>ar_text = join (newline @ newline) texts, ar_mediaUrls = mediaUrls\<rparr>
           else None)"

definition text_part :: "string \<Rightarrow> js" where
  "text_part t = JObj [(''kind'', JStr ''text''), (''text'', JStr t)]"

definition file_part :: "string \<Rightarrow> js" where
  "file_part url = JObj [(''kind'', JStr ''file''), (''file'', JObj [(''uri'', JStr url)])]"

definition buildResponseParts :: "agent_response \<Rightarrow> js list" where
  "buildResponseParts response =
    (let parts = (if ar_text response = [] then [] else [text_part (ar_text response)]) @
                 map file_part (ar_mediaUrls response)
     in if parts = [] then [text_part []] else parts)"

text \<open>The loop runs from the last message to the first.\<close>

fun latest_reply :: "js list \<Rightarrow> string option" where
  "latest_reply [] = None"
| "latest_reply (m # older) =
     (if asObject m = None \<or> get_prop m ''role'' \<noteq> JStr ''assistant'' then latest_reply older
      else case extractAgentPayloadText m of Some t \<Rightarrow> Some t | None \<Rightarrow> latest_reply older)"

definition extractLatestAssistantReply :: "js \<Rightarrow> string option" where
  "extractLatestAssistantReply historyPayload =
    (case asObject historyPayload of
       None \<Rightarrow> None
     | Some body \<Rightarrow> latest_reply (rev (array_or_empty (get_prop body ''messages''))))"

section \<open>Facts about the text channel\<close>

interpretation media: dedupe_loop asString url_loop
  by unfold_locales (simp_all split: option.splits)

interpretation pushed: dedupe_loop Some push_new
  by unfold_locales simp_all

lemma fragments_nonempty: "t \<in> set (extractTextFragments v) \<Longrightarrow> t \<noteq> []"
proof (induction v rule: extractTextFragments.induct)
  case (3 fs)
  then show ?case
    by (auto simp: text_item_def trimmed_item_def split: if_splits js.splits)
qed (auto simp: text_item_def split: if_splits)

lemma payload_text_trimmed: "extractAgentPayloadText p = Some t \<Longrightarrow> t \<noteq> [] \<and> trim t = t"
  by (auto simp: extractAgentPayloadText_def Let_def split: if_splits)

lemma some_texts_payloads:
  "some_texts (map extractAgentPayloadText ps) = map the (filter (\<lambda>x. x \<noteq> None) (map extractAgentPayloadText ps))"
proof (induction ps)
  case (Cons p ps)
  then show ?case
    using payload_text_trimmed [of p] by (cases "extractAgentPayloadText p") auto
qed simp

end
