(* ===== verification/GatewayRpc.thy ===== *)
theory GatewayRpc
  imports AgentText
begin

text \<open>
  Model of \<open>GatewayRpcConnection\<close> in \<open>src/src/executor.ts\<close> (lines 353 to 821): the
  request table of the gateway's WebSocket, the single wait for the connect challenge, and
  the connect sequence with its fallback. A promise is the log entry written when it is
  settled; timers are the steps that fire them, which the code clears by removing the entry.
  The socket's events, the JSON parser, uuids, clocks and the signing key are parameters.
\<close>

section \<open>State\<close>

datatype rpc_outcome = Resolved js | Rejected string

record pending_request =
  pr_method :: string
  pr_expectFinal :: bool

text \<open>\<open>gw_socket\<close>: \<^const>\<open>None\<close> for null, else whether \<open>readyState\<close> is 1. Challenge waits are
  numbered in the order they are created; at most one is outstanding.\<close>

record rpc_connection =
  gw_socket :: "bool option"
  gw_listening :: bool
  gw_pending :: "(string \<times> pending_request) list"
  gw_settled :: "(string \<times> rpc_outcome) list"
  gw_sent :: "js list"
  gw_waiting :: "nat option"
  gw_waits :: nat
  gw_challenges :: "(nat \<times> (string + unit)) list"
  gw_nonce :: string

definition new_connection :: rpc_connection where
  "new_connection = \<lparr>gw_socket = None, gw_listening = False, gw_pending = [], gw_settled = [], gw_sent = [],
     gw_waiting = None, gw_waits = 0, gw_challenges = [], gw_nonce = []\<rparr>"

section \<open>Settling\<close>

definition settle_request :: "string \<Rightarrow> rpc_outcome \<Rightarrow> rpc_connection \<Rightarrow> rpc_connection" where
  "settle_request i r c = c\<lparr>gw_pending := AList.delete i (gw_pending c), gw_settled := gw_settled c @ [(i, r)]\<rparr>"

definition settle_challenge :: "string + unit \<Rightarrow> rpc_connection \<Rightarrow> rpc_connection" where
  "settle_challenge r c = (case gw_waiting c of
     None \<Rightarrow> c
   | Some n \<Rightarrow> c\<lparr>gw_waiting := None, gw_challenges := gw_challenges c @ [(n, r)]\<rparr>)"

definition rejectConnectChallenge :: "string \<Rightarrow> rpc_connection \<Rightarrow> rpc_connection" where
  "rejectConnectChallenge err c = settle_challenge (Inl err) c"

definition rejectAllPending :: "string \<Rightarrow> rpc_connection \<Rightarrow> rpc_connection" where
  "rejectAllPending err c = c\<lparr>gw_pending := [],
     gw_settled := gw_settled c @ map (\<lambda>(i, p). (i, Rejected err)) (gw_pending c)\<rparr>"

definition awaitConnectChallenge :: "rpc_connection \<Rightarrow> rpc_connection" where
  "awaitConnectChallenge c =
    (let c1 = settle_challenge (Inl ''gateway connect challenge wait superseded'') c
     in c1\<lparr>gw_waiting := Some (gw_waits c1), gw_waits := gw_waits c1 + 1\<rparr>)"

definition challenge_timeout :: "rpc_connection \<Rightarrow> rpc_connection" where
  "challenge_timeout c = rejectConnectChallenge ''gateway connect challenge timed out'' c"

section \<open>Requests\<close>

definition request_frame :: "string \<Rightarrow> string \<Rightarrow> js \<Rightarrow> js" where
  "request_frame i method params =
    JObj [(''type'', JStr ''req''), (''id'', JStr i), (''method'', JStr method), (''params'', params)]"

text \<open>The result is the error of a request that is refused before it is issued; \<open>send_error\<close> is
  what \<open>socket.send\<close> throws, if it does.\<close>

definition gw_request :: "string \<Rightarrow> string \<Rightarrow> js \<Rightarrow> bool \<Rightarrow> string option \<Rightarrow> rpc_connection \<Rightarrow>
    (string + unit) \<times> rpc_connection" where
  "gw_request i method params expectFinal send_error c =
    (if gw_socket c \<noteq> Some True then (Inl ''gateway websocket is not connected'', c)
     else let c1 = c\<lparr>gw_pending := AList.update i \<lparr>pr_method = method, pr_expectFinal = expectFinal\<rparr> (gw_pending c)\<rparr>
          in (Inr (), case send_error of
                 Some e \<Rightarrow> settle_request i (Rejected e) c1
               | None \<Rightarrow> c1\<lparr>gw_sent := gw_sent c1 @ [request_frame i method params]\<rparr>))"

definition request_timeout :: "string \<Rightarrow> rpc_connection \<Rightarrow> rpc_connection" where
  "request_timeout i c = (case map_of (gw_pending c) i of
     None \<Rightarrow> c
   | Some p \<Rightarrow> settle_request i (Rejected (''gateway request timed out: '' @ pr_method p)) c)"

definition frame_outcome :: "pending_request \<Rightarrow> js \<Rightarrow> rpc_outcome" where
  "frame_outcome p frame =
    (if get_prop frame ''ok'' = JBool True then Resolved (get_prop frame ''payload'')
     else Rejected (opt_default (''gateway method failed: '' @ pr_method p)
            (asString (get_prop (get_prop frame ''error'') ''message''))))"

definition handleFrame :: "js \<Rightarrow> rpc_connection \<Rightarrow> rpc_connection" where
  "handleFrame frame c =
    (if get_prop frame ''type'' = JStr ''event'' then
       (if get_prop frame ''event'' = JStr ''connect.challenge'' then
          (case asString (get_prop (get_prop frame ''payload'') ''nonce'') of
             None \<Rightarrow> c
           | Some nonce \<Rightarrow> if gw_waiting c = None then c
                           else settle_challenge (Inr ()) (c\<lparr>gw_nonce := nonce\<rparr>))
        else c)
     else if get_prop frame ''type'' \<noteq> JStr ''res'' then c
     else case asString (get_prop frame ''id'') of
       None \<Rightarrow> c
     | Some i \<Rightarrow>
        (case map_of (gw_pending c) i of
           None \<Rightarrow> c
         | Some p \<Rightarrow>
            if pr_expectFinal p \<and> get_prop (get_prop frame ''payload'') ''status'' = JStr ''accepted'' then c
            else settle_request i (frame_outcome p frame) c))"

definition handleMessage :: "(string \<Rightarrow> js option) \<Rightarrow> js \<Rightarrow> rpc_connection \<Rightarrow> rpc_connection" where
  "handleMessage parse_json data c =
    (case data of
       JStr raw \<Rightarrow>
         if raw = [] then c
         else (case parse_json raw of
                 None \<Rightarrow> c
               | Some parsed \<Rightarrow> (case asObject parsed of None \<Rightarrow> c | Some frame \<Rightarrow> handleFrame frame c))
     | _ \<Rightarrow> c)"

section \<open>Opening and closing\<close>

text \<open>A new socket with its two long-lived listeners, then the challenge wait.\<close>

definition open_socket :: "rpc_connection \<Rightarrow> rpc_connection" where
  "open_socket c = awaitConnectChallenge (c\<lparr>gw_socket := Some False, gw_listening := True\<rparr>)"

definition on_open :: "rpc_connection \<Rightarrow> rpc_connection" where
  "on_open c = c\<lparr>gw_socket := map_option (\<lambda>_. True) (gw_socket c)\<rparr>"

text \<open>The close listener; the socket itself has left the open state.\<close>

definition on_close :: "rpc_connection \<Rightarrow> rpc_connection" where
  "on_close c = rejectAllPending ''gateway connection closed''
     (rejectConnectChallenge ''gateway connection closed'' (c\<lparr>gw_socket := map_option (\<lambda>_. False) (gw_socket c)\<rparr>))"

definition gw_close :: "rpc_connection \<Rightarrow> rpc_connection" where
  "gw_close c = rejectAllPending ''gateway websocket connection closed''
     (rejectConnectChallenge ''gateway websocket connection closed'' (c\<lparr>gw_socket := None, gw_listening := False\<rparr>))"

section \<open>The connect sequence\<close>

text \<open>What the code reads of the process when it signs: the device key, platform and clock.\<close>

record device_identity =
  di_publicKey :: string
  di_deviceId :: string
  di_sign :: "string \<Rightarrow> string"

record connect_env =
  ce_token :: string
  ce_password :: string
  ce_platform :: string
  ce_identity :: device_identity
  ce_now :: int
  ce_uuid :: string

definition operator_scopes :: "string list" where
  "operator_scopes = [''operator.admin'', ''operator.read'', ''operator.write'', ''operator.approvals'', ''operator.pairing'']"

definition auth_members :: "connect_env \<Rightarrow> (string \<times> js) list" where
  "auth_members env =
    (if ce_token env = [] then [] else [(''token'', JStr (ce_token env))]) @
    (if ce_password env = [] then [] else [(''password'', JStr (ce_password env))])"

definition signature_payload :: "connect_env \<Rightarrow> string \<Rightarrow> string" where
  "signature_payload env nonce = join ''|''
    [''v3'', di_deviceId (ce_identity env), ''cli'', ''cli'', ''operator'', join '','' operator_scopes,
     show_int (ce_now env), ce_token env, nonce, ce_platform env, []]"

definition buildConnectParams :: "connect_env \<Rightarrow> string \<Rightarrow> bool \<Rightarrow> (string \<times> js) list" where
  "buildConnectParams env nonce includeDevice =
    [(''minProtocol'', JNum (Fin 3)), (''maxProtocol'', JNum (Fin 3)),
     (''client'', JObj [(''id'', JStr ''cli''), (''version'', JStr ''claw-crony-plugin''),
        (''platform'', JStr (ce_platform env)), (''mode'', JStr ''cli''), (''instanceId'', JStr (ce_uuid env))]),
     (''role'', JStr ''operator''), (''scopes'', JArr (map JStr operator_scopes))] @
    (if auth_members env = [] then [] else [(''auth'', JObj (auth_members env))]) @
    (if includeDevice \<and> nonce \<noteq> []
     then [(''device'', JObj [(''id'', JStr (di_deviceId (ce_identity env))),
             (''publicKey'', JStr (di_publicKey (ce_identity env))),
             (''signedAt'', JNum (Fin (of_int (ce_now env)))), (''nonce'', JStr nonce),
             (''signature'', JStr (di_sign (ce_identity env) (signature_payload env nonce)))])]
     else [])"

text \<open>
  One attempt to open a socket, by the times (in ms after it starts) of what the network does:
  when the socket opens or fails, when it closes, when the challenge frame arrives.
  A promise settles with its earliest cause; causes at the same time keep the listed order.
\<close>

record attempt =
  at_open :: "int option"
  at_error :: "int option"
  at_close :: "int option"
  at_nonce :: "(int \<times> string) option"

fun earliest :: "int \<times> 'a \<Rightarrow> (int \<times> 'a) list \<Rightarrow> int \<times> 'a" where
  "earliest best [] = best"
| "earliest best (x # xs) = earliest (if fst x < fst best then x else best) xs"

definition at_time :: "int option \<Rightarrow> 'a \<Rightarrow> (int \<times> 'a) list" where
  "at_time t v = (case t of None \<Rightarrow> [] | Some t \<Rightarrow> [(t, v)])"

definition open_settles :: "attempt \<Rightarrow> int \<times> (string + unit)" where
  "open_settles a = earliest (10000, Inl ''gateway websocket connect timed out'')
     (at_time (at_open a) (Inr ()) @ at_time (at_error a) (Inl ''failed to open gateway websocket'') @
      at_time (at_close a) (Inl ''gateway websocket closed during connect''))"

text \<open>A failed opening rejects the challenge wait with its own error; the close listener was
  registered first and wins over it.\<close>

definition challenge_settles :: "attempt \<Rightarrow> int \<times> (string + string)" where
  "challenge_settles a = earliest (2000, Inl ''gateway connect challenge timed out'')
     (at_time (map_option fst (at_nonce a)) (Inr (case at_nonce a of Some (t, n) \<Rightarrow> n | None \<Rightarrow> [])) @
      at_time (at_close a) (Inl ''gateway connection closed'') @
      (case open_settles a of (t, Inl e) \<Rightarrow> [(t, Inl e)] | _ \<Rightarrow> []))"

text \<open>The challenge promise is awaited only after the opening has settled. When it rejects
  earlier it has no handler yet, which the runtime reports as an unhandled rejection; in
  \<open>reconnect\<close> it is not awaited at all when the opening fails.\<close>

definition unhandled_early :: "attempt \<Rightarrow> string list" where
  "unhandled_early a = (case challenge_settles a of
     (t, Inl e) \<Rightarrow> if t < fst (open_settles a) then [e] else []
   | _ \<Rightarrow> [])"

definition unhandled_on_failure :: "attempt \<Rightarrow> string list" where
  "unhandled_on_failure a = (case (challenge_settles a, open_settles a) of
     ((t, Inl e), (t', Inl e')) \<Rightarrow> [e]
   | _ \<Rightarrow> unhandled_early a)"

definition opened :: "attempt \<Rightarrow> string + string" where
  "opened a = (case snd (open_settles a) of Inl e \<Rightarrow> Inl e | Inr _ \<Rightarrow> snd (challenge_settles a))"

record connect_outcome =
  co_result :: "string + unit"
  co_params :: "(string \<times> js) list list"
  co_unhandled :: "string list"
  co_open_socket :: bool

text \<open>\<open>reply\<close> is the settled \<open>connect\<close> request of the attempt. A socket that has opened stays
  open until someone calls \<open>close\<close>.\<close>

definition socket_open :: "attempt \<Rightarrow> bool" where
  "socket_open a = (snd (open_settles a) = Inr () \<and> at_close a = None)"

definition reconnect :: "connect_env \<Rightarrow> attempt \<times> (string + js) \<Rightarrow> connect_outcome" where
  "reconnect env second =
    (case second of (a, reply) \<Rightarrow>
       (case opened a of
          Inl e \<Rightarrow> \<lparr>co_result = Inl e, co_params = [], co_unhandled = unhandled_on_failure a, co_open_socket = socket_open a\<rparr>
        | Inr nonce \<Rightarrow>
            \<lparr>co_result = (case reply of Inl e \<Rightarrow> Inl e | Inr _ \<Rightarrow> Inr ()),
             co_params = [buildConnectParams env nonce False], co_unhandled = [], co_open_socket = socket_open a\<rparr>))"

definition pairing_error :: "string \<Rightarrow> bool" where
  "pairing_error msg = (str_includes msg ''pairing required'' \<or> str_includes msg ''device identity required'')"

definition gw_connect :: "bool \<Rightarrow> connect_env \<Rightarrow> attempt \<times> (string + js) \<Rightarrow> attempt \<times> (string + js) \<Rightarrow> connect_outcome" where
  "gw_connect websocket_available env first second =
    (if \<not> websocket_available then
       \<lparr>co_result = Inl ''WebSocket runtime is unavailable'', co_params = [], co_unhandled = [], co_open_socket = False\<rparr>
     else case first of (a, reply) \<Rightarrow>
       (case opened a of
          Inl e \<Rightarrow> \<lparr>co_result = Inl e, co_params = [], co_unhandled = unhandled_early a, co_open_socket = socket_open a\<rparr>
        | Inr nonce \<Rightarrow>
           (let params = buildConnectParams env nonce True in
            case reply of
              Inr _ \<Rightarrow> \<lparr>co_result = Inr (), co_params = [params], co_unhandled = [], co_open_socket = socket_open a\<rparr>
            | Inl msg \<Rightarrow>
                if pairing_error msg
                then (let r = reconnect env second in r\<lparr>co_params := params # co_params r\<rparr>)
                else \<lparr>co_result = Inl msg, co_params = [params], co_unhandled = [], co_open_socket = socket_open a\<rparr>)))"

section \<open>Reachable connections\<close>

text \<open>Every step the socket, the timers and the callers can cause. A request draws a fresh uuid.\<close>

inductive rpc_step :: "rpc_connection \<Rightarrow> rpc_connection \<Rightarrow> bool" where
  step_open: "rpc_step c (open_socket c)"
| step_opened: "rpc_step c (on_open c)"
| step_message: "gw_listening c \<Longrightarrow> rpc_step c (handleMessage parse_json data c)"
| step_request: "i \<notin> fst ` set (gw_pending c) \<Longrightarrow> i \<notin> fst ` set (gw_settled c) \<Longrightarrow>
    rpc_step c (snd (gw_request i method params expectFinal send_error c))"
| step_timeout: "rpc_step c (request_timeout i c)"
| step_challenge_timeout: "rpc_step c (challenge_timeout c)"
| step_closed: "gw_listening c \<Longrightarrow> rpc_step c (on_close c)"
| step_close: "rpc_step c (gw_close c)"

inductive rpc_reachable :: "rpc_connection \<Rightarrow> bool" where
  reach_new: "rpc_reachable new_connection"
| reach_step: "rpc_reachable c \<Longrightarrow> rpc_step c c' \<Longrightarrow> rpc_reachable c'"

inductive_simps rpc_step_iff: "rpc_step c c'"

text \<open>Every request and every wait is either outstanding or settled, and settled once.\<close>

definition rpc_inv :: "rpc_connection \<Rightarrow> bool" where
  "rpc_inv c \<longleftrightarrow> distinct (map fst (gw_pending c) @ map fst (gw_settled c)) \<and>
     distinct ((case gw_waiting c of None \<Rightarrow> [] | Some n \<Rightarrow> [n]) @ map fst (gw_challenges c)) \<and>
     set ((case gw_waiting c of None \<Rightarrow> [] | Some n \<Rightarrow> [n]) @ map fst (gw_challenges c)) = {..<gw_waits c}"

definition issued :: "rpc_connection \<Rightarrow> string set" where
  "issued c = fst ` set (gw_pending c) \<union> fst ` set (gw_settled c)"

lemma keys_delete: "fst ` set (AList.delete i m) = fst ` set m - {i}"
  by (induction m) auto

lemma delete_distinct: "distinct (map fst m) \<Longrightarrow> distinct (map fst (AList.delete i m))"
  by (rule distinct_delete)

lemma settle_request_inv [inv_intros]:
  "rpc_inv c \<Longrightarrow> i \<in> fst ` set (gw_pending c) \<Longrightarrow> rpc_inv (settle_request i r c)"
  by (auto simp: rpc_inv_def settle_request_def keys_delete delete_distinct)

lemma settle_request_issued [simp]:
  "i \<in> fst ` set (gw_pending c) \<Longrightarrow> issued (settle_request i r c) = issued c"
  by (auto simp: issued_def settle_request_def keys_delete)

lemma settle_challenge_inv [inv_intros]: "rpc_inv c \<Longrightarrow> rpc_inv (settle_challenge r c)"
  by (auto simp: rpc_inv_def settle_challenge_def split: option.splits)

lemma settle_challenge_frame [simp]:
  "gw_pending (settle_challenge r c) = gw_pending c" "gw_settled (settle_challenge r c) = gw_settled c"
  "gw_socket (settle_challenge r c) = gw_socket c" "gw_waits (settle_challenge r c) = gw_waits c"
  "gw_waiting (settle_challenge r c) = None" "gw_listening (settle_challenge r c) = gw_listening c"
  "gw_sent (settle_challenge r c) = gw_sent c" "gw_nonce (settle_challenge r c) = gw_nonce c"
  by (simp_all add: settle_challenge_def split: option.splits)

lemma rpc_inv_frame [simp]:
  "rpc_inv (c\<lparr>gw_nonce := n\<rparr>) = rpc_inv c" "rpc_inv (c\<lparr>gw_socket := so\<rparr>) = rpc_inv c"
  "rpc_inv (c\<lparr>gw_sent := fr\<rparr>) = rpc_inv c" "rpc_inv (c\<lparr>gw_listening := b\<rparr>) = rpc_inv c"
  "rpc_inv (c\<lparr>gw_socket := so, gw_listening := b\<rparr>) = rpc_inv c"
  by (simp_all add: rpc_inv_def)

lemma rejectAllPending_inv [inv_intros]: "rpc_inv c \<Longrightarrow> rpc_inv (rejectAllPending e c)"
  by (auto simp: rpc_inv_def rejectAllPending_def comp_def case_prod_beta)

lemma rejectAllPending_issued [simp]: "issued (rejectAllPending e c) = issued c"
  by (auto simp: issued_def rejectAllPending_def image_Un image_image case_prod_beta)

lemma awaitConnectChallenge_inv [inv_intros]: "rpc_inv c \<Longrightarrow> rpc_inv (awaitConnectChallenge c)"
  using settle_challenge_inv [of c "Inl ''gateway connect challenge wait superseded''"]
  by (auto simp: awaitConnectChallenge_def Let_def rpc_inv_def lessThan_Suc)

lemma gw_request_inv [inv_intros]:
  assumes "rpc_inv c" "i \<notin> fst ` set (gw_pending c)" "i \<notin> fst ` set (gw_settled c)"
  shows "rpc_inv (snd (gw_request i method params final err c))"
proof -
  let ?c1 = "c\<lparr>gw_pending := AList.update i \<lparr>pr_method = method, pr_expectFinal = final\<rparr> (gw_pending c)\<rparr>"
  have "rpc_inv ?c1"
    using assms by (auto simp: rpc_inv_def update_new)
  then show ?thesis
    using assms(1) settle_request_inv [of ?c1 i]
    by (auto simp: gw_request_def Let_def keys_update split: option.splits)
qed

lemma map_of_pending: "map_of m i = Some p \<Longrightarrow> i \<in> fst ` set m"
  by (metis map_of_eq_None_iff option.distinct(1))

lemma request_timeout_inv [inv_intros]: "rpc_inv c \<Longrightarrow> rpc_inv (request_timeout i c)"
  by (auto simp: request_timeout_def split: option.splits intro: settle_request_inv dest: map_of_pending)

lemma handleFrame_inv [inv_intros]: "rpc_inv c \<Longrightarrow> rpc_inv (handleFrame frame c)"
  by (auto simp: handleFrame_def split: option.splits
      intro!: settle_request_inv settle_challenge_inv dest: map_of_pending)

lemma handleMessage_inv [inv_intros]: "rpc_inv c \<Longrightarrow> rpc_inv (handleMessage parse_json data c)"
  by (auto simp: handleMessage_def split: js.splits option.splits intro: handleFrame_inv)

lemma on_close_inv [inv_intros]: "rpc_inv c \<Longrightarrow> rpc_inv (on_close c)"
  by (simp add: on_close_def rejectConnectChallenge_def rejectAllPending_inv settle_challenge_inv)

lemma gw_close_inv [inv_intros]: "rpc_inv c \<Longrightarrow> rpc_inv (gw_close c)"
  by (simp add: gw_close_def rejectConnectChallenge_def rejectAllPending_inv settle_challenge_inv)

lemma rpc_step_inv: "rpc_step c c' \<Longrightarrow> rpc_inv c \<Longrightarrow> rpc_inv c'"
  by (induction rule: rpc_step.induct)
     (auto simp: open_socket_def on_open_def challenge_timeout_def rejectConnectChallenge_def intro!: inv_intros)

lemma rpc_reachable_inv: "rpc_reachable c \<Longrightarrow> rpc_inv c"
proof (induction rule: rpc_reachable.induct)
  case reach_new
  then show ?case by (simp add: new_connection_def rpc_inv_def)
next
  case (reach_step c c')
  then show ?case by (blast intro: rpc_step_inv)
qed

section \<open>Requests settle exactly once\<close>

lemma gw_frames [simp]:
  "gw_pending (awaitConnectChallenge c) = gw_pending c" "gw_settled (awaitConnectChallenge c) = gw_settled c"
  "gw_pending (rejectConnectChallenge e c) = gw_pending c" "gw_settled (rejectConnectChallenge e c) = gw_settled c"
  by (simp_all add: awaitConnectChallenge_def rejectConnectChallenge_def Let_def)

text \<open>A step keeps what is settled, in order, and never loses a request.\<close>

definition extends :: "rpc_connection \<Rightarrow> rpc_connection \<Rightarrow> bool" where
  "extends c c' \<longleftrightarrow> (\<exists>new. gw_settled c' = gw_settled c @ new) \<and> issued c \<subseteq> issued c'"

lemma extends_same:
  "gw_pending c' = gw_pending c \<Longrightarrow> gw_settled c' = gw_settled c \<Longrightarrow> extends c c'"
  by (simp add: extends_def issued_def)

lemma extends_settle: "i \<in> fst ` set (gw_pending c) \<Longrightarrow> extends c (settle_request i r c)"
  using settle_request_issued [of i c r] by (simp add: extends_def settle_request_def)

lemma extends_rejectAll:
  "gw_pending c1 = gw_pending c \<Longrightarrow> gw_settled c1 = gw_settled c \<Longrightarrow> extends c (rejectAllPending e c1)"
  using rejectAllPending_issued [of e c1] by (simp add: extends_def rejectAllPending_def issued_def)

lemma extends_request: "extends c (snd (gw_request i method params final err c))"
  by (auto simp: extends_def issued_def gw_request_def Let_def settle_request_def keys_update keys_delete
      split: option.splits)

lemma extends_handleFrame: "extends c (handleFrame frame c)"
  by (auto simp: handleFrame_def extends_same split: option.splits intro!: extends_settle
      dest: map_of_pending)

lemma extends_handleMessage: "extends c (handleMessage parse_json data c)"
  by (auto simp: handleMessage_def extends_handleFrame extends_same split: js.splits option.splits)

lemma extends_timeout: "extends c (request_timeout i c)"
  by (auto simp: request_timeout_def extends_same split: option.splits intro: extends_settle dest: map_of_pending)

lemma rpc_step_extends: "rpc_step c c' \<Longrightarrow> extends c c'"
proof (induction rule: rpc_step.induct)
  case (step_closed c)
  show ?case by (simp add: on_close_def extends_rejectAll)
next
  case (step_close c)
  show ?case by (simp add: gw_close_def extends_rejectAll)
qed (auto simp: extends_request extends_handleMessage extends_timeout open_socket_def on_open_def
      challenge_timeout_def intro!: extends_same)

lemma extends_trans: "extends a b \<Longrightarrow> extends b c \<Longrightarrow> extends a c"
  by (auto simp: extends_def)

lemma rpc_steps_extend: "rpc_step\<^sup>*\<^sup>* c c' \<Longrightarrow> extends c c'"
proof (induction rule: rtranclp_induct)
  case base
  show ?case by (simp add: extends_same)
next
  case (step y z)
  then show ?case by (blast intro: extends_trans rpc_step_extends)
qed

lemma settled_outcome:
  "rpc_inv c \<Longrightarrow> (i, r) \<in> set (gw_settled c) \<Longrightarrow> map_of (gw_settled c) i = Some r"
  by (simp add: rpc_inv_def)

lemma rpc_steps_reachable: "rpc_step\<^sup>*\<^sup>* c c' \<Longrightarrow> rpc_reachable c \<Longrightarrow> rpc_reachable c'"
  by (induction rule: rtranclp_induct) (auto intro: rpc_reachable.reach_step)

text \<open>C17. Once a gateway request is settled its outcome never changes, whatever the socket, the
  timers and later callers do; and after the connection is closed every request ever issued
  is settled, exactly once.\<close>

theorem request_settles_once:
  assumes "rpc_reachable c" and "rpc_step\<^sup>*\<^sup>* c c'"
  shows "(map_of (gw_settled c) i = Some r \<longrightarrow> map_of (gw_settled c') i = Some r) \<and>
    (map_of (gw_pending c) i \<noteq> None \<longrightarrow> map_of (gw_settled (gw_close c')) i \<noteq> None) \<and>
    gw_pending (gw_close c') = [] \<and> keys_distinct (gw_settled (gw_close c'))"
proof -
  have "extends c c'" by (rule rpc_steps_extend) (rule assms(2))
  moreover have "extends c' (gw_close c')" by (rule rpc_step_extends) (rule step_close)
  ultimately have ext: "extends c (gw_close c')" and ext': "extends c c'" by (auto intro: extends_trans)
  have inv: "rpc_inv c'" by (rule rpc_reachable_inv [OF rpc_steps_reachable [OF assms(2,1)]])
  have pend: "gw_pending (gw_close c') = []" by (simp add: gw_close_def rejectAllPending_def)
  have 1: "map_of (gw_settled c) i = Some r \<longrightarrow> map_of (gw_settled c') i = Some r"
    using ext' by (auto simp: extends_def dest!: map_of_SomeD intro!: settled_outcome [OF inv])
  have 2: "map_of (gw_pending c) i \<noteq> None \<longrightarrow> map_of (gw_settled (gw_close c')) i \<noteq> None"
    using ext pend by (auto simp: extends_def issued_def map_of_eq_None_iff dest: map_of_pending)
  have 3: "keys_distinct (gw_settled (gw_close c'))"
    using pend gw_close_inv [OF inv] by (simp add: rpc_inv_def)
  show ?thesis using 1 2 3 pend by blast
qed

text \<open>A connection with one request outstanding, built by the operations.\<close>

definition demo_connection :: rpc_connection where
  "demo_connection = snd (gw_request ''r1'' ''agent'' (JObj []) True None (on_open (open_socket new_connection)))"

definition demo_reply :: js where
  "demo_reply = JObj [(''type'', JStr ''res''), (''id'', JStr ''r1''), (''ok'', JBool True),
     (''payload'', JObj [(''status'', JStr ''ok'')])]"

abbreviation (input) demo_socket :: rpc_connection where
  "demo_socket \<equiv> on_open (open_socket new_connection)"

lemma demo_socket_reachable: "rpc_reachable demo_socket"
  by (rule reach_step [OF reach_step [OF reach_new step_open] step_opened])

lemma demo_socket_idle: "gw_pending demo_socket = []" "gw_settled demo_socket = []"
  by (simp_all add: on_open_def open_socket_def awaitConnectChallenge_def settle_challenge_def new_connection_def Let_def)

lemma demo_connection_reachable: "rpc_reachable demo_connection"
  unfolding demo_connection_def
  by (rule reach_step [OF demo_socket_reachable step_request]) (simp_all add: demo_socket_idle)

lemma demo_connection_pending:
  "map_of (gw_pending demo_connection) ''r1'' = Some \<lparr>pr_method = ''agent'', pr_expectFinal = True\<rparr>"
  by (simp add: demo_connection_def gw_request_def on_open_def open_socket_def awaitConnectChallenge_def
      settle_challenge_def new_connection_def Let_def)

lemma demo_connection_listening: "gw_listening demo_connection"
  by (simp add: demo_connection_def gw_request_def on_open_def open_socket_def awaitConnectChallenge_def
      settle_challenge_def new_connection_def Let_def)

theorem request_settles_once_witness:
  "map_of (gw_settled (gw_close demo_connection)) ''r1'' \<noteq> None \<and>
   map_of (gw_pending demo_connection) ''r1'' \<noteq> None"
  using request_settles_once [OF demo_connection_reachable rtranclp.rtrancl_refl, of "''r1''" "Rejected []"]
    demo_connection_pending by (simp del: map_of_eq_None_iff not_None_eq)

text \<open>A response frame settles exactly the request whose id it carries, with the frame's payload
  or its error, except the interim "accepted" answer of a request that waits for the final one;
  the other requests and the challenge wait are untouched, and a frame for an id that is not
  outstanding (late, repeated or forged) changes nothing.\<close>

theorem response_routed:
  assumes "parse_json raw = Some frame" and "raw \<noteq> []" and "get_prop frame ''type'' = JStr ''res''"
    and "asString (get_prop frame ''id'') = Some i" and "rpc_reachable c"
  shows "(case map_of (gw_pending c) i of
       None \<Rightarrow> handleMessage parse_json (JStr raw) c = c
     | Some p \<Rightarrow>
        if pr_expectFinal p \<and> get_prop (get_prop frame ''payload'') ''status'' = JStr ''accepted''
        then handleMessage parse_json (JStr raw) c = c
        else (let c' = handleMessage parse_json (JStr raw) c in
              map_of (gw_settled c') i = Some (if get_prop frame ''ok'' = JBool True then Resolved (get_prop frame ''payload'')
                 else Rejected (opt_default (''gateway method failed: '' @ pr_method p)
                        (asString (get_prop (get_prop frame ''error'') ''message'')))) \<and>
              (\<forall>j. map_of (gw_pending c') j = (if j = i then None else map_of (gw_pending c) j)) \<and>
              (\<forall>j. j \<noteq> i \<longrightarrow> map_of (gw_settled c') j = map_of (gw_settled c) j) \<and>
              gw_waiting c' = gw_waiting c))"
proof -
  obtain fs where frame: "frame = JObj fs"
    using assms(3) by (cases frame) auto
  have run: "handleMessage parse_json (JStr raw) c = handleFrame frame c"
    using assms(1,2) frame by (simp add: handleMessage_def asObject_def)
  show ?thesis
  proof (cases "map_of (gw_pending c) i")
    case None
    then show ?thesis using assms(3,4) run by (simp add: handleFrame_def)
  next
    case (Some p)
    have "i \<notin> fst ` set (gw_settled c)"
      using rpc_reachable_inv [OF assms(5)] map_of_pending [OF Some] by (auto simp: rpc_inv_def)
    then have fresh: "map_of (gw_settled c) i = None" by (simp add: map_of_eq_None_iff)
    show ?thesis
      using assms(3,4) run Some fresh
      by (auto simp: handleFrame_def settle_request_def frame_outcome_def Let_def delete_conv' map_add_def
          split: option.splits)
  qed
qed

theorem response_routed_witness:
  "map_of (gw_settled (handleMessage (\<lambda>_. Some demo_reply) (JStr ''x'') demo_connection)) ''r1'' =
     Some (Resolved (JObj [(''status'', JStr ''ok'')]))"
proof -
  have "get_prop demo_reply ''type'' = JStr ''res''" "asString (get_prop demo_reply ''id'') = Some ''r1''"
    by (simp_all add: demo_reply_def trim_def is_js_space_def)
  from response_routed [where parse_json = "\<lambda>_. Some demo_reply" and raw = "''x''", OF refl _ this demo_connection_reachable]
  show ?thesis
    using demo_connection_pending by (simp add: demo_reply_def Let_def)
qed

section \<open>The connect handshake\<close>

lemma earliest_min: "fst (earliest b xs) \<le> fst b \<and> (\<forall>x \<in> set xs. fst (earliest b xs) \<le> fst x)"
proof (induction xs arbitrary: b)
  case (Cons x xs)
  from Cons.IH [of "if fst x < fst b then x else b"] show ?case by (auto split: if_splits)
qed simp

lemma earliest_cases: "earliest b xs = b \<or> (earliest b xs \<in> set xs \<and> fst (earliest b xs) < fst b)"
proof (induction xs arbitrary: b)
  case (Cons x xs)
  from Cons.IH [of "if fst x < fst b then x else b"] show ?case by (auto split: if_splits)
qed simp

lemma earliest_default: "(\<And>x. x \<in> set xs \<Longrightarrow> fst b \<le> fst x) \<Longrightarrow> earliest b xs = b"
  by (induction xs) force+

lemma device_member:
  "jprop ''device'' (buildConnectParams env nonce dev) =
     (if dev \<and> nonce \<noteq> []
      then JObj [(''id'', JStr (di_deviceId (ce_identity env))), (''publicKey'', JStr (di_publicKey (ce_identity env))),
             (''signedAt'', JNum (Fin (of_int (ce_now env)))), (''nonce'', JStr nonce),
             (''signature'', JStr (di_sign (ce_identity env) (signature_payload env nonce)))]
      else JUndef)"
  by (simp add: buildConnectParams_def)

lemma nonce_arrived:
  assumes "opened a = Inr nonce"
  shows "\<exists>t. at_nonce a = Some (t, nonce) \<and> t < 2000"
proof -
  let ?xs = "at_time (map_option fst (at_nonce a)) (Inr (case at_nonce a of Some (t, n) \<Rightarrow> n | None \<Rightarrow> [])) @
      at_time (at_close a) (Inl ''gateway connection closed'') @
      (case open_settles a of (t, Inl e) \<Rightarrow> [(t, Inl e)] | _ \<Rightarrow> [])"
  have won: "snd (challenge_settles a) = Inr nonce"
    using assms by (simp add: opened_def split: sum.splits)
  then have "challenge_settles a \<in> set ?xs \<and> fst (challenge_settles a) < 2000"
    using earliest_cases [of "(2000, Inl ''gateway connect challenge timed out'')" ?xs]
    by (auto simp: challenge_settles_def simp del: earliest.simps)
  then show ?thesis
    using won by (cases "challenge_settles a")
      (auto simp: at_time_def split: option.splits prod.splits sum.splits)
qed

lemma connect_fails: "opened a = Inl e \<Longrightarrow>
  gw_connect True env (a, r) second = \<lparr>co_result = Inl e, co_params = [], co_unhandled = unhandled_early a, co_open_socket = socket_open a\<rparr>"
  by (simp add: gw_connect_def)

lemma connect_opens: "opened a = Inr nonce \<Longrightarrow>
  gw_connect True env (a, r) second =
    (case r of
       Inl msg \<Rightarrow> if pairing_error msg
         then (reconnect env second)\<lparr>co_params := buildConnectParams env nonce True # co_params (reconnect env second)\<rparr>
         else \<lparr>co_result = Inl msg, co_params = [buildConnectParams env nonce True], co_unhandled = [], co_open_socket = socket_open a\<rparr>
     | Inr v \<Rightarrow> \<lparr>co_result = Inr (), co_params = [buildConnectParams env nonce True], co_unhandled = [], co_open_socket = socket_open a\<rparr>)"
  by (simp add: gw_connect_def Let_def split: sum.splits)

lemma reconnect_params: "\<exists>n. co_params (reconnect env (a, r)) \<in> {[], [buildConnectParams env n False]}"
  by (auto simp: reconnect_def split: sum.splits)

lemma reconnect_result:
  "co_result (reconnect env (a, r)) = Inr () \<longleftrightarrow> co_params (reconnect env (a, r)) \<noteq> [] \<and> (\<exists>v. r = Inr v)"
  by (auto simp: reconnect_def split: sum.splits)

text \<open>Connecting sends at most two connect requests. The first one always carries the device
  identity, signed over the nonce of the challenge that arrived on that socket; a second one
  is sent only after a pairing error, on a new socket, and never carries an identity.
  Connecting succeeds exactly when one of these requests is accepted.\<close>

theorem connect_protocol:
  assumes "\<forall>t n. at_nonce (fst first) = Some (t, n) \<longrightarrow> n \<noteq> []"
  shows "(case co_params (gw_connect True env first second) of
       [] \<Rightarrow> (\<exists>e. opened (fst first) = Inl e \<and> co_result (gw_connect True env first second) = Inl e)
     | p # ps \<Rightarrow>
        (\<exists>t nonce. at_nonce (fst first) = Some (t, nonce) \<and> t < 2000 \<and>
           get_prop (jprop ''device'' p) ''nonce'' = JStr nonce \<and>
           get_prop (jprop ''device'' p) ''signature'' =
             JStr (di_sign (ce_identity env) (signature_payload env nonce))) \<and>
        (ps \<noteq> [] \<longrightarrow> (\<exists>q msg. ps = [q] \<and> jprop ''device'' q = JUndef \<and>
            snd first = Inl msg \<and> pairing_error msg)) \<and>
        (co_result (gw_connect True env first second) = Inr () \<longleftrightarrow>
           (\<exists>v. snd first = Inr v) \<or> (ps \<noteq> [] \<and> (\<exists>v. snd second = Inr v))))"
proof -
  obtain a r where first: "first = (a, r)" by (cases first)
  obtain a2 r2 where second: "second = (a2, r2)" by (cases second)
  show ?thesis
  proof (cases "opened a")
    case (Inl e)
    then show ?thesis by (simp add: connect_fails first)
  next
    case (Inr nonce)
    then obtain t where t: "at_nonce a = Some (t, nonce)" "t < 2000" using nonce_arrived by blast
    then have "nonce \<noteq> []" using assms first by auto
    with Inr t show ?thesis
      using reconnect_params [of env a2 r2] reconnect_result [of env a2 r2]
      by (auto simp: connect_opens first second device_member split: sum.splits)
  qed
qed

definition demo_env :: connect_env where
  "demo_env = \<lparr>ce_token = ''tok'', ce_password = [], ce_platform = ''linux'',
     ce_identity = \<lparr>di_publicKey = ''pk'', di_deviceId = ''dev'', di_sign = rev\<rparr>, ce_now = 1000, ce_uuid = ''u1''\<rparr>"

definition quick_attempt :: "string \<Rightarrow> attempt" where
  "quick_attempt nonce = \<lparr>at_open = Some 20, at_error = None, at_close = None, at_nonce = Some (40, nonce)\<rparr>"

lemma quick_opened: "opened (quick_attempt nonce) = Inr nonce"
  by (simp add: opened_def quick_attempt_def open_settles_def challenge_settles_def at_time_def)

theorem connect_protocol_witness:
  "length (co_params (gw_connect True demo_env (quick_attempt ''n1'', Inl ''pairing required'')
     (quick_attempt ''n2'', Inr JNull))) = 2 \<and>
   co_result (gw_connect True demo_env (quick_attempt ''n1'', Inl ''pairing required'')
     (quick_attempt ''n2'', Inr JNull)) = Inr ()"
proof -
  have "\<forall>t n. at_nonce (fst (quick_attempt ''n1'', Inl ''pairing required'' :: string + js)) = Some (t, n) \<longrightarrow> n \<noteq> []"
    by (simp add: quick_attempt_def)
  from connect_protocol [OF this, of demo_env "(quick_attempt ''n2'', Inr JNull)"]
  show ?thesis
    by (simp add: connect_opens quick_opened reconnect_def pairing_error_def starts_with_def)
qed

text \<open>A socket that takes between two and ten seconds to open always fails to connect: the two
  seconds of the challenge wait run from the socket's creation, so the wait has been
  rejected, before anything awaits it, by the time the socket opens; that rejection is
  reported as unhandled, and the opened socket is still open when connect throws.\<close>

lemma slow_open_fails:
  assumes "2000 < t" and "t < 10000" and "at_error a = None" and "at_close a = None"
    and "\<forall>t' n. at_nonce a = Some (t', n) \<longrightarrow> t \<le> t'"
  shows "gw_connect True env (a\<lparr>at_open := Some t\<rparr>, reply) second =
    \<lparr>co_result = Inl ''gateway connect challenge timed out'', co_params = [],
     co_unhandled = [''gateway connect challenge timed out''], co_open_socket = True\<rparr>"
proof -
  let ?a = "a\<lparr>at_open := Some t\<rparr>"
  have op: "open_settles ?a = (t, Inr ())"
    using assms(2-4) by (simp add: open_settles_def at_time_def)
  have ch: "challenge_settles ?a = (2000, Inl ''gateway connect challenge timed out'')"
    using assms op by (cases "at_nonce a") (auto simp: challenge_settles_def at_time_def)
  show ?thesis
    using assms(1,4) op ch
    by (subst connect_fails [where e = "''gateway connect challenge timed out''"])
       (simp_all add: opened_def unhandled_early_def socket_open_def)
qed

end
