(* ===== verification/Hub.thy ===== *)
theory Hub
  imports Connection Catalog TaskStore
begin

text \<open>
  \<open>src/identity-store.ts\<close>, \<open>src/hub-auth.ts\<close> and \<open>src/hub-registration.ts\<close>: the
  local identity file, the challenge that yields a bearer token, the published connection
  descriptor and the registration with the hub. The hub's answers, random keys, the signing
  primitive and the clock are parameters; a file is what it parses to, \<^const>\<open>None\<close> when it is
  missing or does not parse. Agent ids are whatever JSON value the hub sends.
\<close>

section \<open>Answers of the hub\<close>

text \<open>The body is what it parses to, or the parser's message.\<close>

datatype fetch_reply = NetworkError string | HttpReply nat "string + js"

record hub_error =
  he_message :: string
  he_status :: "nat option"

definition reply_ok :: "nat \<Rightarrow> bool" where
  "reply_ok status = (200 \<le> status \<and> status < 300)"

definition error_body :: "string + js \<Rightarrow> string" where
  "error_body body = (case body of Inl _ \<Rightarrow> ''{}'' | Inr v \<Rightarrow> opt_default ''undefined'' (json_stringify v))"

definition plain_error :: "string \<Rightarrow> hub_error" where
  "plain_error msg = \<lparr>he_message = msg, he_status = None\<rparr>"

definition parse_body :: "string + js \<Rightarrow> hub_error + js" where
  "parse_body body = (case body of Inl msg \<Rightarrow> Inl (plain_error msg) | Inr v \<Rightarrow> Inr v)"

section \<open>The local identity\<close>

record identity_data =
  id_clientId :: string
  id_publicKey :: string
  id_privateKey :: string
  id_keyVersion :: int
  id_signingPublicKey :: "string option"
  id_signingPrivateKey :: "string option"
  id_signingKeyVersion :: "int option"
  id_signingAlgorithm :: "string option"
  id_createdAt :: string

text \<open>Fresh keys: what the generators return when they are called.\<close>

record key_material =
  km_uuid :: string
  km_publicKey :: string
  km_privateKey :: string
  km_signingPublicKey :: string
  km_signingPrivateKey :: string
  km_now :: string

definition present :: "string option \<Rightarrow> bool" where
  "present v = (opt_default [] v \<noteq> [])"

definition hasSigningIdentity :: "identity_data \<Rightarrow> bool" where
  "hasSigningIdentity d = (present (id_signingPublicKey d) \<and> present (id_signingPrivateKey d))"

definition createSigningKeyFields :: "key_material \<Rightarrow> identity_data \<Rightarrow> identity_data" where
  "createSigningKeyFields km d = d\<lparr>id_signingPublicKey := Some (km_signingPublicKey km),
     id_signingPrivateKey := Some (km_signingPrivateKey km), id_signingKeyVersion := Some 1,
     id_signingAlgorithm := Some ''ed25519''\<rparr>"

definition upgrade_client :: "string option \<Rightarrow> identity_data \<Rightarrow> identity_data" where
  "upgrade_client clientId d =
    (if present clientId \<and> id_clientId d \<noteq> the clientId then d\<lparr>id_clientId := the clientId\<rparr> else d)"

definition upgrade_signing :: "key_material \<Rightarrow> identity_data \<Rightarrow> identity_data" where
  "upgrade_signing km d =
    (if \<not> hasSigningIdentity d then createSigningKeyFields km d
     else let d1 = (if opt_default 0 (id_signingKeyVersion d) < 1 then d\<lparr>id_signingKeyVersion := Some 1\<rparr> else d)
          in if present (id_signingAlgorithm d1) then d1 else d1\<lparr>id_signingAlgorithm := Some ''ed25519''\<rparr>)"

definition new_identity :: "key_material \<Rightarrow> string option \<Rightarrow> identity_data" where
  "new_identity km clientId = createSigningKeyFields km
     \<lparr>id_clientId = (let c = trim (opt_default [] clientId) in if c = [] then km_uuid km else c),
      id_publicKey = km_publicKey km, id_privateKey = km_privateKey km, id_keyVersion = 1,
      id_signingPublicKey = None, id_signingPrivateKey = None, id_signingKeyVersion = None,
      id_signingAlgorithm = None, id_createdAt = km_now km\<rparr>"

text \<open>The identity used and the file afterwards; the file is rewritten only after a change.\<close>

definition loadOrCreateIdentity :: "key_material \<Rightarrow> string option \<Rightarrow> identity_data option \<Rightarrow>
    identity_data \<times> identity_data option" where
  "loadOrCreateIdentity km clientId file =
    (case file of
       Some existing \<Rightarrow> (let d = upgrade_signing km (upgrade_client clientId existing) in (d, Some d))
     | None \<Rightarrow> (let d = new_identity km clientId in (d, Some d)))"

section \<open>The bearer token\<close>

definition requestJson :: "fetch_reply \<Rightarrow> string + js" where
  "requestJson reply = (case reply of
     NetworkError e \<Rightarrow> Inl e
   | HttpReply status body \<Rightarrow>
       if reply_ok status then (case body of Inl e \<Rightarrow> Inl e | Inr v \<Rightarrow> Inr v)
       else Inl (''Hub auth API error '' @ show_nat status @ '': '' @ error_body body))"

definition requireSigningIdentity :: "identity_data \<Rightarrow> string + string" where
  "requireSigningIdentity d =
    (if \<not> present (id_signingPrivateKey d) then
       Inl ''Local identity does not have an Ed25519 signing private key. Restart the plugin to upgrade identity.''
     else if present (id_signingAlgorithm d) \<and> id_signingAlgorithm d \<noteq> Some ''ed25519'' then
       Inl (''Unsupported local signing algorithm: '' @ the (id_signingAlgorithm d))
     else Inr (the (id_signingPrivateKey d)))"

text \<open>The requests sent are listed with their paths; \<open>verify_reply\<close> may depend on the body sent.\<close>

definition js_eq_id :: "js \<Rightarrow> js \<Rightarrow> bool" where
  "js_eq_id a b = (a = b \<and> a \<noteq> JNum NaN \<and> (case a of JArr _ \<Rightarrow> False | JObj _ \<Rightarrow> False | _ \<Rightarrow> True))"

definition challenge_body :: "string \<Rightarrow> js" where
  "challenge_body clientId = JObj [(''clientId'', JStr clientId)]"

definition verify_body :: "string \<Rightarrow> js \<Rightarrow> string \<Rightarrow> js" where
  "verify_body clientId challengeId signature =
    JObj [(''clientId'', JStr clientId), (''challengeId'', challengeId), (''algorithm'', JStr ''ed25519''),
      (''signature'', JStr signature)]"

definition check_challenge :: "string \<Rightarrow> js \<Rightarrow> js \<Rightarrow> string option" where
  "check_challenge clientId agentId challenge =
    (if get_prop challenge ''clientId'' \<noteq> JStr clientId \<or> \<not> js_eq_id (get_prop challenge ''agentId'') agentId then
       Some ''Hub auth challenge does not match local registration''
     else if get_prop challenge ''algorithm'' \<noteq> JStr ''ed25519'' \<or> \<not> truthy (get_prop challenge ''supported'') then
       Some (''Hub auth challenge uses unsupported algorithm: '' @ js_text (get_prop challenge ''algorithm''))
     else None)"

definition check_verified :: "string \<Rightarrow> js \<Rightarrow> js \<Rightarrow> string option" where
  "check_verified clientId agentId verified =
    (if \<not> truthy (get_prop verified ''ok'') \<or> get_prop verified ''tokenType'' \<noteq> JStr ''Bearer'' \<or>
        \<not> truthy (get_prop verified ''token'') then
       Some ''Hub auth verification did not return a bearer token''
     else if get_prop verified ''clientId'' \<noteq> JStr clientId \<or> \<not> js_eq_id (get_prop verified ''agentId'') agentId then
       Some ''Hub auth verification does not match local registration''
     else None)"

text \<open>\<open>sign\<close> is the Ed25519 signature of a message under a PEM key, or what the primitive throws.
  A \<open>null\<close> body throws when its first property is read.\<close>

record hub_sent =
  hs_path :: string
  hs_body :: js

definition null_error :: "string \<Rightarrow> string" where
  "null_error p = ''Cannot read properties of null (reading '' @ [CHR 0x27] @ p @ [CHR 0x27] @ '')''"

definition getHubBearerToken :: "(string \<Rightarrow> js \<Rightarrow> string + string) \<Rightarrow> identity_data \<Rightarrow> string \<Rightarrow> js \<Rightarrow>
    fetch_reply \<Rightarrow> (js \<Rightarrow> fetch_reply) \<Rightarrow> (string + js) \<times> hub_sent list" where
  "getHubBearerToken sign identity clientId agentId challenge_reply verify_reply =
    (let sent1 = [\<lparr>hs_path = ''/api/auth/challenge'', hs_body = challenge_body clientId\<rparr>] in
     case requestJson challenge_reply of
       Inl e \<Rightarrow> (Inl e, sent1)
     | Inr challenge \<Rightarrow>
       if challenge = JNull then (Inl (null_error ''clientId''), sent1)
       else (case check_challenge clientId agentId challenge of
         Some e \<Rightarrow> (Inl e, sent1)
       | None \<Rightarrow>
         (case requireSigningIdentity identity of
            Inl e \<Rightarrow> (Inl e, sent1)
          | Inr key \<Rightarrow>
            (case sign key (get_prop challenge ''message'') of
               Inl e \<Rightarrow> (Inl e, sent1)
             | Inr signature \<Rightarrow>
               let body = verify_body clientId (get_prop challenge ''challengeId'') signature;
                   sent2 = sent1 @ [\<lparr>hs_path = ''/api/auth/verify'', hs_body = body\<rparr>]
               in (case requestJson (verify_reply body) of
                     Inl e \<Rightarrow> (Inl e, sent2)
                   | Inr verified \<Rightarrow>
                     if verified = JNull then (Inl (null_error ''ok''), sent2)
                     else (case check_verified clientId agentId verified of
                             Some e \<Rightarrow> (Inl e, sent2)
                           | None \<Rightarrow> (Inr (get_prop verified ''token''), sent2)))))))"

section \<open>Retrying a hub call\<close>

text \<open>\<open>fn attempt\<close> is what the call made at that attempt settles with. The loop's bound is the
  number of attempts left, so it always ends; the delays are those it sleeps.\<close>

fun retry_attempts :: "nat \<Rightarrow> nat \<Rightarrow> (nat \<Rightarrow> hub_error + 'a) \<Rightarrow> int \<Rightarrow> int \<Rightarrow> (hub_error + 'a) \<times> int list" where
  "retry_attempts 0 attempt fn base mx = (fn attempt, [])"
| "retry_attempts (Suc left) attempt fn base mx =
     (case fn attempt of
        Inr v \<Rightarrow> (Inr v, [])
      | Inl e \<Rightarrow> (let (r, delays) = retry_attempts left (attempt + 1) fn base mx
                 in (r, min (base * 2 ^ attempt) mx # delays)))"

definition retryWithBackoff :: "nat \<Rightarrow> (nat \<Rightarrow> hub_error + 'a) \<Rightarrow> int \<Rightarrow> int \<Rightarrow> (hub_error + 'a) \<times> int list" where
  "retryWithBackoff maxRetries fn base mx = retry_attempts maxRetries 0 fn base mx"

section \<open>The published descriptor\<close>

record connection_config =
  cn_publishA2a :: bool
  cn_endpoints :: "connection_endpoint list"
  cn_protocols :: "string list"
  cn_inputModes :: "string list"
  cn_outputModes :: "string list"
  cn_metadata :: "js option"

definition normalizeTransport :: "string \<Rightarrow> string" where
  "normalizeTransport t =
    (if t = ''JSONRPC'' then ''jsonrpc'' else if t = ''HTTP+JSON'' then ''http-json''
     else if t = ''GRPC'' then ''grpc'' else to_lower t)"

definition normalizeProtocol :: "string \<Rightarrow> string" where
  "normalizeProtocol p = to_lower (trim p)"

definition endpointAgentCardUrl :: "url_host \<Rightarrow> string \<Rightarrow> string option" where
  "endpointAgentCardUrl parse u = map_option (\<lambda>(host, origin). origin @ ''/.well-known/agent.json'') (parse u)"

definition nonempty_object :: "js \<Rightarrow> js" where
  "nonempty_object v = (case v of
     JObj fs \<Rightarrow> if fs = [] then JUndef else v
   | JArr xs \<Rightarrow> if xs = [] then JUndef else v
   | JStr t \<Rightarrow> if t = [] then JUndef else v
   | _ \<Rightarrow> JUndef)"

definition normalizeEndpoint :: "connection_endpoint \<Rightarrow> connection_endpoint option" where
  "normalizeEndpoint e =
    (let protocol = normalizeProtocol (ce_protocol e);
         transport = normalizeTransport (ce_transport e);
         u = trim (ce_url e);
         auth = trim (opt_default [] (ce_auth e))
     in if protocol = [] \<or> transport = [] \<or> u = [] then None
        else Some \<lparr>ce_protocol = protocol, ce_transport = transport, ce_url = u,
               ce_auth = (if auth = [] then None else Some auth), ce_metadata = nonempty_object (ce_metadata e)\<rparr>)"

definition endpoint_key :: "connection_endpoint \<Rightarrow> string" where
  "endpoint_key e = ce_protocol e @ '':'' @ ce_transport e @ '':'' @ ce_url e"

fun endpoints_loop :: "string list \<Rightarrow> connection_endpoint list \<Rightarrow> connection_endpoint list" where
  "endpoints_loop seen [] = []"
| "endpoints_loop seen (e # es) =
     (case normalizeEndpoint e of
        None \<Rightarrow> endpoints_loop seen es
      | Some n \<Rightarrow> if endpoint_key n \<in> set seen then endpoints_loop seen es
                  else n # endpoints_loop (endpoint_key n # seen) es)"

definition dedupeEndpoints :: "connection_endpoint list \<Rightarrow> connection_endpoint list" where
  "dedupeEndpoints es = endpoints_loop [] es"

definition lower_value :: "string \<Rightarrow> string option" where
  "lower_value v = (let n = to_lower (trim v) in if n = [] then None else Some n)"

fun lower_loop :: "string list \<Rightarrow> string list \<Rightarrow> string list" where
  "lower_loop seen [] = []"
| "lower_loop seen (v # vs) =
     (case lower_value v of
        None \<Rightarrow> lower_loop seen vs
      | Some n \<Rightarrow> if n \<in> set seen then lower_loop seen vs else n # lower_loop (n # seen) vs)"

definition dedupeStringList :: "string list \<Rightarrow> string list" where
  "dedupeStringList vs = lower_loop [] vs"

definition auth_mode :: "card_config \<Rightarrow> string" where
  "auth_mode c = (if cc_bearer c then ''bearer'' else ''none'')"

definition js_string_of :: "js \<Rightarrow> string" where
  "js_string_of v = (case v of JStr s \<Rightarrow> s | _ \<Rightarrow> [])"

definition a2a_endpoint :: "url_host \<Rightarrow> string \<Rightarrow> js \<Rightarrow> connection_endpoint" where
  "a2a_endpoint parse auth iface =
    (let u = js_string_of (get_prop iface ''url'') in
     \<lparr>ce_protocol = ''a2a'', ce_transport = normalizeTransport (js_string_of (get_prop iface ''transport'')), ce_url = u,
      ce_auth = Some auth,
      ce_metadata = (case endpointAgentCardUrl parse u of None \<Rightarrow> JUndef | Some cu \<Rightarrow> JObj [(''agentCardUrl'', JStr cu)])\<rparr>)"

definition buildA2aEndpoints :: "url_host \<Rightarrow> card_config \<Rightarrow> js \<Rightarrow> connection_endpoint list" where
  "buildA2aEndpoints parse c agentCard =
    (let ifaces = array_or_empty (get_prop agentCard ''additionalInterfaces'');
         list = (if ifaces \<noteq> [] then ifaces
                 else [JObj [(''url'', get_prop agentCard ''url''),
                        (''transport'', coalesce (get_prop agentCard ''preferredTransport'') (JStr ''JSONRPC''))]])
     in map (a2a_endpoint parse (auth_mode c)) list)"

record hub_descriptor =
  hd_clientId :: string
  hd_displayName :: js
  hd_encryption :: js
  hd_signing :: js
  hd_endpoints :: "connection_endpoint list"
  hd_skills :: "string list"
  hd_protocols :: "string list"
  hd_inputModes :: js
  hd_outputModes :: js
  hd_capabilities :: js
  hd_metadata :: js

definition signing_ref :: "identity_data \<Rightarrow> js" where
  "signing_ref d =
    (if present (id_signingPublicKey d) then
       JObj [(''type'', JStr ''Ed25519''), (''publicKey'', JStr (the (id_signingPublicKey d))),
         (''keyVersion'', JNum (Fin (of_int (opt_default 1 (id_signingKeyVersion d))))),
         (''algorithm'', JStr (opt_default ''ed25519'' (id_signingAlgorithm d))), (''status'', JStr ''active'')]
     else JUndef)"

definition modes :: "string list \<Rightarrow> js \<Rightarrow> js" where
  "modes configured from_card = (if configured \<noteq> [] then JArr (map JStr configured) else coalesce from_card (JArr [JStr ''text'']))"

definition buildHubConnectionDescriptor :: "url_host \<Rightarrow> card_config \<Rightarrow> connection_config \<Rightarrow> identity_data \<Rightarrow>
    string list \<Rightarrow> hub_descriptor option" where
  "buildHubConnectionDescriptor parse c cn identity skills =
    (case buildAgentCard parse c of
       None \<Rightarrow> None
     | Some agentCard \<Rightarrow>
        let endpoints = dedupeEndpoints ((if cn_publishA2a cn then buildA2aEndpoints parse c agentCard else []) @ cn_endpoints cn);
            protocols = dedupeStringList ((if cn_publishA2a cn then [''a2a''] else []) @ cn_protocols cn @ map ce_protocol endpoints)
        in Some \<lparr>hd_clientId = id_clientId identity,
             hd_displayName = get_prop agentCard ''name'',
             hd_encryption = JObj [(''type'', JStr ''X25519''), (''publicKey'', JStr (id_publicKey identity)),
                (''keyVersion'', JNum (Fin (of_int (id_keyVersion identity))))],
             hd_signing = signing_ref identity,
             hd_endpoints = endpoints, hd_skills = skills, hd_protocols = protocols,
             hd_inputModes = modes (cn_inputModes cn) (get_prop agentCard ''defaultInputModes''),
             hd_outputModes = modes (cn_outputModes cn) (get_prop agentCard ''defaultOutputModes''),
             hd_capabilities = JObj [(''streaming'', get_prop (get_prop agentCard ''capabilities'') ''streaming''),
                (''pushNotifications'', get_prop (get_prop agentCard ''capabilities'') ''pushNotifications'')],
             hd_metadata = JObj ([(''implementation'', JStr ''claw-crony''),
                (''agentCardProtocolVersion'', get_prop agentCard ''protocolVersion'')] @
                (case cn_metadata cn of None \<Rightarrow> [] | Some m \<Rightarrow> [(''custom'', m)]))\<rparr>)"

definition endpoint_js :: "connection_endpoint \<Rightarrow> js" where
  "endpoint_js e = JObj [(''protocol'', JStr (ce_protocol e)), (''transport'', JStr (ce_transport e)),
     (''url'', JStr (ce_url e)), (''auth'', case ce_auth e of None \<Rightarrow> JUndef | Some a \<Rightarrow> JStr a),
     (''metadata'', ce_metadata e)]"

definition descriptor_js :: "hub_descriptor \<Rightarrow> js" where
  "descriptor_js d = JObj [(''version'', JStr ''openclaw-connect/1''), (''clientId'', JStr (hd_clientId d)),
     (''displayName'', hd_displayName d),
     (''publicKeys'', JObj [(''encryption'', hd_encryption d), (''signing'', hd_signing d)]),
     (''endpoints'', JArr (map endpoint_js (hd_endpoints d))),
     (''capabilities'', JObj [(''skills'', JArr (map JStr (hd_skills d))), (''protocols'', JArr (map JStr (hd_protocols d))),
        (''inputModes'', hd_inputModes d), (''outputModes'', hd_outputModes d), (''metadata'', hd_capabilities d)]),
     (''metadata'', hd_metadata d)]"

text \<open>What a peer reads of it.\<close>

definition descriptor_view :: "hub_descriptor \<Rightarrow> connection_descriptor" where
  "descriptor_view d = \<lparr>cd_clientId = hd_clientId d, cd_protocols = Some (hd_protocols d), cd_endpoints = Some (hd_endpoints d)\<rparr>"

section \<open>Registration\<close>

record registration_data =
  rd_hubUrl :: string
  rd_agentId :: js
  rd_clientId :: string
  rd_publicKey :: string
  rd_keyVersion :: int
  rd_signingPublicKey :: "string option"
  rd_signingKeyVersion :: int
  rd_registeredAt :: string
  rd_name :: string
  rd_description :: string
  rd_skills :: "string list"
  rd_descriptor :: js

record registration_config =
  rg_username :: "string option"
  rg_email :: "string option"
  rg_password :: "string option"
  rg_clientId :: "string option"

definition sameDescriptor :: "js \<Rightarrow> js \<Rightarrow> bool" where
  "sameDescriptor a b = (json_stringify (coalesce a JNull) = json_stringify (coalesce b JNull))"

definition hasMatchingSigningKey :: "js \<Rightarrow> string option \<Rightarrow> bool" where
  "hasMatchingSigningKey agent signingPublicKey =
    (present signingPublicKey \<and> get_prop agent ''signingPublicKey'' = JStr (the signingPublicKey) \<and>
     (\<not> truthy (get_prop agent ''signingAlgorithm'') \<or> get_prop agent ''signingAlgorithm'' = JStr ''ed25519'') \<and>
     (\<not> truthy (get_prop agent ''signingKeyStatus'') \<or> get_prop agent ''signingKeyStatus'' = JStr ''active''))"

definition registerHubUser :: "fetch_reply \<Rightarrow> hub_error + unit" where
  "registerHubUser reply = (case reply of
     NetworkError e \<Rightarrow> Inl (plain_error e)
   | HttpReply status body \<Rightarrow>
       if status = 409 \<or> reply_ok status then Inr ()
       else Inl (plain_error (''Hub user registration failed: '' @ error_body body)))"

definition registerWithHub :: "fetch_reply \<Rightarrow> hub_error + js" where
  "registerWithHub reply = (case reply of
     NetworkError e \<Rightarrow> Inl (plain_error e)
   | HttpReply status body \<Rightarrow>
       if reply_ok status then parse_body body
       else Inl \<lparr>he_message = ''Hub rejected registration: '' @ error_body body, he_status = Some status\<rparr>)"

text \<open>The first agent listed, \<open>null\<close> for an empty list.\<close>

definition lookupAgentByClientId :: "fetch_reply \<Rightarrow> hub_error + js" where
  "lookupAgentByClientId reply = (case reply of
     NetworkError e \<Rightarrow> Inl (plain_error e)
   | HttpReply status body \<Rightarrow>
       if \<not> reply_ok status
       then Inl \<lparr>he_message = ''Hub lookup failed: '' @ show_nat status, he_status = Some status\<rparr>
       else (case parse_body body of
               Inl e \<Rightarrow> Inl e
             | Inr agents \<Rightarrow>
                (case agents of
                   JNull \<Rightarrow> Inl (plain_error (null_error ''length''))
                 | JArr (agent # _) \<Rightarrow> Inr agent
                 | JStr (c # _) \<Rightarrow> Inr (JStr [c])
                 | _ \<Rightarrow> Inr JNull)))"

text \<open>The hub during one run: the two lookups and the answers to the successive calls.\<close>

record hub_world =
  hw_confirm :: fetch_reply
  hw_register :: "nat \<Rightarrow> fetch_reply"
  hw_user :: "nat \<Rightarrow> fetch_reply"
  hw_conflict :: fetch_reply
  hw_save_error :: "string option"
  hw_now :: string

datatype hub_call = CallLookup string | CallRegister js | CallHubUser js string string

datatype hub_log =
    LogExisting js
  | LogUnconfirmed
  | LogRegistered js
  | LogUserRegistered js
  | LogUserFailed string
  | LogVisitDashboard js
  | LogConflictMissing
  | LogConflictFound js
  | LogConflictLookupFailed
  | LogRegistrationFailed string
  | LogSaveFailed string

record hub_result =
  hr_registration :: "(js \<times> string) option"
  hr_file :: "registration_data option"
  hr_calls :: "hub_call list"
  hr_logs :: "hub_log list"

definition create_payload :: "card_config \<Rightarrow> identity_data \<Rightarrow> registration_config \<Rightarrow> string list \<Rightarrow> js \<Rightarrow> js" where
  "create_payload c d rg skills descriptor = JObj
    [(''name'', JStr (cc_name c)), (''description'', JStr (opt_default [] (cc_description c))),
     (''skills'', JArr (map JStr skills)), (''clientId'', JStr (id_clientId d)), (''publicKey'', JStr (id_publicKey d)),
     (''keyVersion'', JNum (Fin (of_int (id_keyVersion d)))),
     (''signingPublicKey'', case id_signingPublicKey d of None \<Rightarrow> JUndef | Some k \<Rightarrow> JStr k),
     (''signingKeyVersion'', JNum (Fin (of_int (opt_default 1 (id_signingKeyVersion d))))),
     (''signingAlgorithm'', JStr ''ed25519''), (''clientVersion'', JStr ''claw-crony/1.4.0''),
     (''username'', JStr (opt_default (cc_name c) (rg_username rg))), (''email'', JStr (opt_default [] (rg_email rg))),
     (''connectionDescriptor'', descriptor)]"

definition agent_id_of :: "js \<Rightarrow> hub_error + js" where
  "agent_id_of agent = (if agent = JNull then Inl (plain_error (null_error ''id'')) else Inr (get_prop agent ''id''))"

text \<open>Whether a stored registration is for this hub, identity and descriptor, and the hub confirms it.\<close>

definition matches_local :: "string \<Rightarrow> identity_data \<Rightarrow> js \<Rightarrow> registration_data \<Rightarrow> bool" where
  "matches_local hubUrl d descriptor r =
    (rd_hubUrl r = hubUrl \<and> rd_clientId r = id_clientId d \<and> rd_publicKey r = id_publicKey d \<and>
     rd_signingPublicKey r = id_signingPublicKey d \<and> sameDescriptor (rd_descriptor r) descriptor)"

definition confirms :: "registration_data \<Rightarrow> identity_data \<Rightarrow> js \<Rightarrow> bool" where
  "confirms r d agent = (truthy agent \<and> js_eq_id (get_prop agent ''id'') (rd_agentId r) \<and>
     hasMatchingSigningKey agent (id_signingPublicKey d))"

definition calls_made :: "nat \<Rightarrow> int list \<Rightarrow> 'a \<Rightarrow> 'a list" where
  "calls_made maxRetries delays x = replicate (Suc (length delays)) x"

text \<open>The web-dashboard account, when a password is configured; its failure is only logged.\<close>

definition hub_user_step :: "hub_world \<Rightarrow> js \<Rightarrow> string \<Rightarrow> string option \<Rightarrow> hub_call list \<times> hub_log list" where
  "hub_user_step w agentId username password =
    (if present password then
       (case retryWithBackoff 3 (\<lambda>n. registerHubUser (hw_user w n)) 1000 10000 of
          (r, delays) \<Rightarrow>
            (calls_made 3 delays (CallHubUser agentId username (the password)),
             [case r of Inr _ \<Rightarrow> LogUserRegistered agentId | Inl e \<Rightarrow> LogUserFailed (he_message e)]))
     else ([], [LogVisitDashboard agentId]))"

text \<open>Registering: the agent id to keep, or \<^const>\<open>None\<close> when the run gives up.\<close>

definition register_step :: "hub_world \<Rightarrow> card_config \<Rightarrow> identity_data \<Rightarrow> registration_config \<Rightarrow> js \<Rightarrow>
    js option \<times> hub_call list \<times> hub_log list" where
  "register_step w c d rg payload =
    (case retryWithBackoff 3 (\<lambda>n. registerWithHub (hw_register w n)) 1000 10000 of
       (r, delays) \<Rightarrow>
        let calls = calls_made 3 delays (CallRegister payload) in
        (case (case r of Inl e \<Rightarrow> Inl e | Inr agent \<Rightarrow> agent_id_of agent) of
           Inr agentId \<Rightarrow>
             (case hub_user_step w agentId (opt_default (cc_name c) (rg_username rg)) (rg_password rg) of
                (ucalls, ulogs) \<Rightarrow> (Some agentId, calls @ ucalls, LogRegistered agentId # ulogs))
         | Inl e \<Rightarrow>
             if he_status e = Some 409 then
               (case lookupAgentByClientId (hw_conflict w) of
                  Inl _ \<Rightarrow> (None, calls @ [CallLookup (id_clientId d)], [LogConflictLookupFailed])
                | Inr agent \<Rightarrow>
                    if \<not> truthy agent then (None, calls @ [CallLookup (id_clientId d)], [LogConflictMissing])
                    else (Some (get_prop agent ''id''), calls @ [CallLookup (id_clientId d)],
                          [LogConflictFound (get_prop agent ''id'')]))
             else (None, calls, [LogRegistrationFailed (he_message e)])))"

definition registration_record :: "hub_world \<Rightarrow> string \<Rightarrow> card_config \<Rightarrow> identity_data \<Rightarrow> string list \<Rightarrow> js \<Rightarrow> js \<Rightarrow> registration_data" where
  "registration_record w hubUrl c d skills descriptor agentId =
    \<lparr>rd_hubUrl = hubUrl, rd_agentId = opt_default JUndef (json_clone agentId), rd_clientId = id_clientId d,
     rd_publicKey = id_publicKey d, rd_keyVersion = id_keyVersion d, rd_signingPublicKey = id_signingPublicKey d,
     rd_signingKeyVersion = opt_default 1 (id_signingKeyVersion d), rd_registeredAt = hw_now w,
     rd_name = cc_name c, rd_description = opt_default [] (cc_description c), rd_skills = skills,
     rd_descriptor = opt_default JUndef (json_clone descriptor)\<rparr>"

definition confirm_step :: "hub_world \<Rightarrow> identity_data \<Rightarrow> registration_data \<Rightarrow> (js \<times> string) option \<times> hub_log list" where
  "confirm_step w d existing =
    (case lookupAgentByClientId (hw_confirm w) of
       Inl _ \<Rightarrow> (None, [LogUnconfirmed])
     | Inr agent \<Rightarrow>
         if confirms existing d agent then (Some (rd_agentId existing, rd_name existing), [LogExisting (rd_agentId existing)])
         else (None, []))"

text \<open>One run, for an identity already loaded; \<open>file\<close> is the registration file it finds. \<^const>\<open>None\<close>
  when building the descriptor throws.\<close>

definition runHubRegistration :: "hub_world \<Rightarrow> url_host \<Rightarrow> string \<Rightarrow> card_config \<Rightarrow> connection_config \<Rightarrow>
    registration_config \<Rightarrow> identity_data \<Rightarrow> registration_data option \<Rightarrow> hub_result option" where
  "runHubRegistration w parse hubUrl c cn rg d file =
    (let skills = map entry_name (cc_skills c) in
     case buildHubConnectionDescriptor parse c cn d skills of
       None \<Rightarrow> None
     | Some hdesc \<Rightarrow>
        let descriptor = descriptor_js hdesc;
            candidate = (case file of Some r \<Rightarrow> if matches_local hubUrl d descriptor r then Some r else None | None \<Rightarrow> None);
            (confirmed, logs0) = (case candidate of None \<Rightarrow> (None, []) | Some r \<Rightarrow> confirm_step w d r);
            calls0 = (if candidate = None then [] else [CallLookup (id_clientId d)])
        in (case confirmed of
              Some res \<Rightarrow> Some \<lparr>hr_registration = Some res, hr_file = file, hr_calls = calls0, hr_logs = logs0\<rparr>
            | None \<Rightarrow>
               (case register_step w c d rg (create_payload c d rg skills descriptor) of
                  (None, calls, logs) \<Rightarrow>
                    Some \<lparr>hr_registration = None, hr_file = file, hr_calls = calls0 @ calls, hr_logs = logs0 @ logs\<rparr>
                | (Some agentId, calls, logs) \<Rightarrow>
                    Some \<lparr>hr_registration = Some (agentId, cc_name c),
                      hr_file = (if hw_save_error w = None then Some (registration_record w hubUrl c d skills descriptor agentId) else file),
                      hr_calls = calls0 @ calls,
                      hr_logs = logs0 @ logs @ (case hw_save_error w of None \<Rightarrow> [] | Some e \<Rightarrow> [LogSaveFailed e])\<rparr>)))"

section \<open>Identity facts\<close>

lemma hasSigning_new [simp]: "hasSigningIdentity (createSigningKeyFields km d) \<longleftrightarrow>
    km_signingPublicKey km \<noteq> [] \<and> km_signingPrivateKey km \<noteq> []"
  by (simp add: hasSigningIdentity_def createSigningKeyFields_def present_def)

text \<open>The identities a load leaves behind: complete and for the client asked for.\<close>

definition identity_ok :: "string option \<Rightarrow> identity_data \<Rightarrow> bool" where
  "identity_ok clientId d \<longleftrightarrow> hasSigningIdentity d \<and> 1 \<le> opt_default 0 (id_signingKeyVersion d) \<and>
     present (id_signingAlgorithm d) \<and> (present clientId \<longrightarrow> id_clientId d = the clientId)"

lemma upgrade_signing_ok:
  "km_signingPublicKey km \<noteq> [] \<Longrightarrow> km_signingPrivateKey km \<noteq> [] \<Longrightarrow>
   hasSigningIdentity (upgrade_signing km d) \<and> 1 \<le> opt_default 0 (id_signingKeyVersion (upgrade_signing km d)) \<and>
   present (id_signingAlgorithm (upgrade_signing km d)) \<and> id_clientId (upgrade_signing km d) = id_clientId d"
  by (auto simp: upgrade_signing_def Let_def hasSigningIdentity_def createSigningKeyFields_def present_def)

lemma upgrade_client_clientId: "present clientId \<Longrightarrow> id_clientId (upgrade_client clientId d) = the clientId"
  by (simp add: upgrade_client_def)

lemma upgrade_fixed:
  "identity_ok clientId d \<Longrightarrow> upgrade_signing km (upgrade_client clientId d) = d"
  by (cases "present clientId")
     (auto simp: identity_ok_def upgrade_client_def upgrade_signing_def Let_def present_def)

lemma upgrade_signing_keeps [simp]:
  "id_publicKey (upgrade_signing km d) = id_publicKey d" "id_privateKey (upgrade_signing km d) = id_privateKey d"
  "hasSigningIdentity d \<Longrightarrow> id_signingPublicKey (upgrade_signing km d) = id_signingPublicKey d"
  "hasSigningIdentity d \<Longrightarrow> id_signingPrivateKey (upgrade_signing km d) = id_signingPrivateKey d"
  by (simp_all add: upgrade_signing_def createSigningKeyFields_def Let_def)

lemma upgrade_client_keeps [simp]:
  "id_publicKey (upgrade_client c d) = id_publicKey d" "id_privateKey (upgrade_client c d) = id_privateKey d"
  "id_signingPublicKey (upgrade_client c d) = id_signingPublicKey d"
  "id_signingPrivateKey (upgrade_client c d) = id_signingPrivateKey d"
  "hasSigningIdentity (upgrade_client c d) = hasSigningIdentity d"
  by (simp_all add: upgrade_client_def hasSigningIdentity_def)

text \<open>Loading the identity leaves a complete signing identity on disk; from then on every
  later load, with any fresh keys, returns exactly the stored identity and leaves the file as
  it is, and an existing key pair is never replaced, whatever client id is asked for.\<close>

theorem identity_stable:
  assumes "km_signingPublicKey km \<noteq> []" and "km_signingPrivateKey km \<noteq> []"
    and "file \<noteq> None \<or> clientId = None \<or> trim (the clientId) = the clientId"
  shows "let (d, file') = loadOrCreateIdentity km clientId file in
     file' = Some d \<and> identity_ok clientId d \<and>
     loadOrCreateIdentity km2 clientId file' = (d, file') \<and>
     (case file of None \<Rightarrow> id_publicKey d = km_publicKey km
      | Some old \<Rightarrow> id_publicKey d = id_publicKey old \<and> id_privateKey d = id_privateKey old \<and>
          (hasSigningIdentity old \<longrightarrow> id_signingPublicKey d = id_signingPublicKey old \<and>
             id_signingPrivateKey d = id_signingPrivateKey old))"
proof (cases "file")
  case None
  have ok: "identity_ok clientId (new_identity km clientId)"
    using assms None by (cases clientId)
      (auto simp: identity_ok_def new_identity_def hasSigningIdentity_def createSigningKeyFields_def present_def Let_def)
  then show ?thesis
    using None upgrade_fixed [OF ok, of km2]
    by (simp add: loadOrCreateIdentity_def Let_def) (simp add: new_identity_def createSigningKeyFields_def)
next
  case (Some old)
  let ?d = "upgrade_signing km (upgrade_client clientId old)"
  have ok: "identity_ok clientId ?d"
    using upgrade_signing_ok [OF assms(1,2), of "upgrade_client clientId old"] upgrade_client_clientId
    by (simp add: identity_ok_def)
  then show ?thesis
    using Some upgrade_fixed [OF ok, of km2]
    by (simp add: loadOrCreateIdentity_def Let_def)
qed

definition demo_keys :: key_material where
  "demo_keys = \<lparr>km_uuid = ''uuid-1'', km_publicKey = ''xp'', km_privateKey = ''xs'', km_signingPublicKey = ''ep'',
     km_signingPrivateKey = ''es'', km_now = ''2026-01-01''\<rparr>"

theorem identity_stable_witness:
  "loadOrCreateIdentity (demo_keys\<lparr>km_publicKey := ''other''\<rparr>) None (snd (loadOrCreateIdentity demo_keys None None)) =
     (new_identity demo_keys None, Some (new_identity demo_keys None))"
  using identity_stable [of demo_keys None None "demo_keys\<lparr>km_publicKey := ''other''\<rparr>"]
  by (simp add: demo_keys_def loadOrCreateIdentity_def Let_def)

section \<open>The token is bound to the registration\<close>

text \<open>C30. A bearer token is returned only when both the challenge and the verification name the
  registered client and agent, the challenge is a supported Ed25519 one, and the signature sent is
  that of the challenge's message under the local key; every other answer of the hub, and
  every failure, is an error, and nothing is signed before the challenge has been checked.\<close>

theorem token_only_if_bound:
  "case getHubBearerToken sign identity clientId agentId challenge_reply verify_reply of
     (Inr tok, sent) \<Rightarrow> truthy tok \<and>
       (\<exists>challenge verified key signature.
          requestJson challenge_reply = Inr challenge \<and>
          get_prop challenge ''clientId'' = JStr clientId \<and> js_eq_id (get_prop challenge ''agentId'') agentId \<and>
          get_prop challenge ''algorithm'' = JStr ''ed25519'' \<and> truthy (get_prop challenge ''supported'') \<and>
          id_signingPrivateKey identity = Some key \<and> sign key (get_prop challenge ''message'') = Inr signature \<and>
          map hs_path sent = [''/api/auth/challenge'', ''/api/auth/verify''] \<and>
          get_prop (hs_body (last sent)) ''signature'' = JStr signature \<and>
          requestJson (verify_reply (hs_body (last sent))) = Inr verified \<and>
          get_prop verified ''clientId'' = JStr clientId \<and> js_eq_id (get_prop verified ''agentId'') agentId \<and>
          get_prop verified ''token'' = tok)
   | (Inl e, sent) \<Rightarrow> sent \<noteq> [] \<and>
       (length sent = 2 \<longrightarrow> (\<exists>challenge. requestJson challenge_reply = Inr challenge \<and>
          check_challenge clientId agentId challenge = None))"
proof -
  have key: "requireSigningIdentity identity = Inr k \<Longrightarrow> id_signingPrivateKey identity = Some k" for k
    by (cases "id_signingPrivateKey identity") (auto simp: requireSigningIdentity_def present_def split: if_splits)
  show ?thesis
    unfolding getHubBearerToken_def Let_def
    by (auto split: sum.splits option.splits if_splits dest!: key
        simp: check_challenge_def check_verified_def verify_body_def)
qed

definition demo_signer :: identity_data where
  "demo_signer = \<lparr>id_clientId = ''c'', id_publicKey = ''p'', id_privateKey = ''s'', id_keyVersion = 1, id_signingPublicKey = Some ''sp'',
     id_signingPrivateKey = Some ''ss'', id_signingKeyVersion = Some 1, id_signingAlgorithm = Some ''ed25519'', id_createdAt = []\<rparr>"

definition demo_challenge :: fetch_reply where
  "demo_challenge = HttpReply 200 (Inr (JObj [(''clientId'', JStr ''c''), (''agentId'', JNum (Fin 7)), (''algorithm'', JStr ''ed25519''),
     (''supported'', JBool True), (''message'', JStr ''m''), (''challengeId'', JStr ''i'')]))"

definition demo_token :: fetch_reply where
  "demo_token = HttpReply 200 (Inr (JObj [(''ok'', JBool True), (''tokenType'', JStr ''Bearer''), (''token'', JStr ''t''),
     (''clientId'', JStr ''c''), (''agentId'', JNum (Fin 7))]))"

lemma demo_token_obtained:
  "getHubBearerToken (\<lambda>_ _. Inr ''sig'') demo_signer ''c'' (JNum (Fin 7)) demo_challenge (\<lambda>_. demo_token) =
     (Inr (JStr ''t''), [\<lparr>hs_path = ''/api/auth/challenge'', hs_body = challenge_body ''c''\<rparr>,
        \<lparr>hs_path = ''/api/auth/verify'', hs_body = verify_body ''c'' (JStr ''i'') ''sig''\<rparr>])"
  by (simp add: demo_signer_def demo_challenge_def demo_token_def getHubBearerToken_def requestJson_def reply_ok_def
      check_challenge_def check_verified_def js_eq_id_def requireSigningIdentity_def present_def)

theorem token_only_if_bound_witness:
  "requestJson demo_token = Inr (JObj [(''ok'', JBool True), (''tokenType'', JStr ''Bearer''), (''token'', JStr ''t''),
     (''clientId'', JStr ''c''), (''agentId'', JNum (Fin 7))]) \<and> id_signingPrivateKey demo_signer = Some ''ss'' \<and>
   (\<exists>verified. requestJson demo_token = Inr verified \<and> get_prop verified ''clientId'' = JStr ''c'' \<and>
     get_prop verified ''token'' = JStr ''t'')"
  using token_only_if_bound [where sign = "\<lambda>_ _. Inr ''sig''" and identity = demo_signer and clientId = "''c''" and
      agentId = "JNum (Fin 7)" and challenge_reply = demo_challenge and verify_reply = "\<lambda>_. demo_token"]
  unfolding demo_token_obtained
  by (auto simp: requestJson_def demo_token_def reply_ok_def demo_signer_def)

section \<open>Retrying\<close>

lemma retry_attempts_spec:
  "case retry_attempts left attempt fn base mx of (r, delays) \<Rightarrow>
     r = fn (attempt + length delays) \<and> length delays \<le> left \<and>
     (\<forall>i. i < length delays \<longrightarrow> (\<exists>e. fn (attempt + i) = Inl e) \<and> delays ! i = min (base * 2 ^ (attempt + i)) mx) \<and>
     (length delays < left \<longrightarrow> (\<exists>v. r = Inr v))"
proof (induction left attempt fn base mx rule: retry_attempts.induct)
  case (2 left attempt fn base mx)
  show ?case
  proof (cases "fn attempt")
    case (Inl e)
    from 2 [OF Inl] show ?thesis
      using Inl by (auto simp: nth_Cons less_Suc_eq_0_disj split: prod.splits nat.splits)
  next
    case (Inr v)
    then show ?thesis by simp
  qed
qed simp

text \<open>A retried hub call settles as its first success, or as its last failure after maxRetries + 1
  calls; it is called once more than it sleeps, and the sleeps double from the base delay up to the limit.\<close>

theorem retryWithBackoff_settles:
  "case retryWithBackoff maxRetries fn base mx of (r, delays) \<Rightarrow>
     r = fn (length delays) \<and> length delays \<le> maxRetries \<and>
     (\<forall>i. i < length delays \<longrightarrow> (\<exists>e. fn i = Inl e) \<and> delays ! i = min (base * 2 ^ i) mx) \<and>
     (length delays < maxRetries \<longrightarrow> (\<exists>v. r = Inr v))"
  using retry_attempts_spec [where left = maxRetries and attempt = 0 and fn = fn and base = base and mx = mx] by (simp add: retryWithBackoff_def)

theorem retryWithBackoff_settles_witness:
  "snd (retryWithBackoff 3 (\<lambda>n. if n < 2 then Inl (plain_error ''busy'') else Inr JNull) 1000 10000) = [1000, 2000] \<and>
   fst (retryWithBackoff 3 (\<lambda>n. if n < 2 then Inl (plain_error ''busy'') else Inr JNull) 1000 10000) = Inr JNull"
  using retryWithBackoff_settles [where maxRetries = 3 and base = 1000 and mx = 10000
      and fn = "\<lambda>n. if n < 2 then Inl (plain_error ''busy'') else Inr JNull"]
  by (simp add: retryWithBackoff_def eval_nat_numeral)

section \<open>The published descriptor\<close>

interpretation lowers: dedupe_loop lower_value lower_loop
  by unfold_locales (simp_all split: option.splits)

interpretation endpoint_keys: dedupe_loop "\<lambda>e. map_option endpoint_key (normalizeEndpoint e)"
    "\<lambda>seen es. map endpoint_key (endpoints_loop seen es)"
  by unfold_locales (simp_all split: option.splits)

lemma normalizeEndpoint_shape:
  "normalizeEndpoint e = Some n \<Longrightarrow> ce_protocol n = to_lower (trim (ce_protocol e)) \<and> ce_protocol n \<noteq> [] \<and>
     ce_url n = trim (ce_url e) \<and> ce_url n \<noteq> []"
  by (auto simp: normalizeEndpoint_def Let_def normalizeProtocol_def split: if_splits)

lemma endpoints_loop_mem: "n \<in> set (endpoints_loop seen es) \<Longrightarrow> \<exists>e \<in> set es. normalizeEndpoint e = Some n"
  by (induction es arbitrary: seen) (auto split: option.splits if_splits)

lemma dedupeEndpoints_distinct: "distinct (map endpoint_key (dedupeEndpoints es))"
  unfolding dedupeEndpoints_def by (rule endpoint_keys.loop_distinct)

lemma lower_value_fixed: "lower_value v = Some n \<Longrightarrow> lower_value n = Some n"
  by (auto simp: lower_value_def Let_def trim_to_lower split: if_splits)

lemma dedupeStringList_idem: "dedupeStringList (dedupeStringList vs) = dedupeStringList vs"
  unfolding dedupeStringList_def
  using lowers.loop_idem [of id vs] lower_value_fixed by simp

lemma sort_key_least: "(\<And>y. y \<in> set xs \<Longrightarrow> k x \<le> k y) \<Longrightarrow> sort_key k (x # xs) = x # sort_key k xs"
  by (simp add: insort_is_Cons)

lemma card_interfaces_published:
  "buildAgentCard parse c = Some agentCard \<Longrightarrow>
   \<exists>h. get_prop agentCard ''additionalInterfaces'' = JArr
        [interface_js (card_url c) ''JSONRPC'',
         interface_js (the (map_option snd (parse (card_url c))) @ ''/a2a/rest'') ''HTTP+JSON'',
         interface_js (h @ '':'' @ show_int (cc_port c + 1)) ''GRPC''] \<and> parse (card_url c) \<noteq> None"
  by (auto simp: buildAgentCard_def split: option.splits)

definition published_endpoint :: "card_config \<Rightarrow> string \<Rightarrow> connection_endpoint" where
  "published_endpoint c origin = \<lparr>ce_protocol = ''a2a'', ce_transport = ''jsonrpc'', ce_url = trim (card_url c),
     ce_auth = Some (auth_mode c), ce_metadata = JObj [(''agentCardUrl'', JStr (origin @ ''/.well-known/agent.json''))]\<rparr>"

lemma plain_words: "trim ''a2a'' = ''a2a''" "to_lower ''a2a'' = ''a2a''" "to_lower ''jsonrpc'' = ''jsonrpc''" "to_lower (trim ''jsonrpc'') = ''jsonrpc''"
    "trim ''bearer'' = ''bearer''" "trim ''none'' = ''none''"
  by code_simp+

lemma published_first:
  assumes "buildHubConnectionDescriptor parse c cn d skills = Some desc" "cn_publishA2a cn"
    and "trim (card_url c) \<noteq> []" "parse (card_url c) = Some (h, origin)"
  shows "\<exists>rest. hd_endpoints desc = published_endpoint c origin # rest"
proof -
  obtain agentCard where agentCard: "buildAgentCard parse c = Some agentCard"
    using assms(1) by (auto simp: buildHubConnectionDescriptor_def split: option.splits)
  obtain h' rest where "get_prop agentCard ''additionalInterfaces'' = JArr (interface_js (card_url c) ''JSONRPC'' # rest)"
    using card_interfaces_published [OF agentCard] by blast
  then obtain es where a2a: "buildA2aEndpoints parse c agentCard = a2a_endpoint parse (auth_mode c) (interface_js (card_url c) ''JSONRPC'') # es"
    by (simp add: buildA2aEndpoints_def array_or_empty_def Let_def)
  have "normalizeEndpoint (a2a_endpoint parse (auth_mode c) (interface_js (card_url c) ''JSONRPC'')) = Some (published_endpoint c origin)"
    using assms(3,4) by (simp add: a2a_endpoint_def interface_js_def js_string_of_def normalizeTransport_def Let_def
        normalizeEndpoint_def normalizeProtocol_def plain_words auth_mode_def endpointAgentCardUrl_def nonempty_object_def
        published_endpoint_def)
  then show ?thesis
    using assms(1,2) agentCard a2a by (auto simp: buildHubConnectionDescriptor_def Let_def dedupeEndpoints_def)
qed

lemma published_protocols:
  assumes "buildHubConnectionDescriptor parse c cn d skills = Some desc" "cn_publishA2a cn"
  shows "\<exists>rest. hd_protocols desc = ''a2a'' # rest"
  using assms by (auto simp: buildHubConnectionDescriptor_def Let_def dedupeStringList_def lower_value_def plain_words
      split: option.splits)

lemma trim_blank: "trim s = [] \<Longrightarrow> \<forall>c \<in> set s. is_js_space c"
proof -
  assume "trim s = []"
  then have "dropWhile is_js_space (rev (dropWhile is_js_space s)) = []" by (simp add: trim_def)
  then have "\<forall>c \<in> set (dropWhile is_js_space s). is_js_space c" by simp
  moreover have "\<forall>c \<in> set (takeWhile is_js_space s). is_js_space c" by (auto dest: set_takeWhileD)
  ultimately show ?thesis by (metis Un_iff set_append takeWhile_dropWhile_id)
qed

text \<open>A descriptor published with A2A enabled leads a peer back to this gateway: whatever endpoints
  and protocols the configuration adds, the peer's choice of agent card is the well-known card of the
  origin of the gateway's own URL, A2A is the first protocol listed, and endpoints and protocols are
  free of duplicates.\<close>

theorem published_descriptor_resolves:
  assumes "buildHubConnectionDescriptor parse c cn d skills = Some desc" and "cn_publishA2a cn"
    and "trim (card_url c) \<noteq> []" and "parse (card_url c) = Some (h, origin)"
  shows "resolveA2aAgentCardUrl peer_parse (Some (descriptor_view desc)) = Some (trim (origin @ ''/.well-known/agent.json'')) \<and>
     hd (hd_protocols desc) = ''a2a'' \<and> distinct (map endpoint_key (hd_endpoints desc)) \<and> distinct (hd_protocols desc)"
proof -
  obtain rest where es: "hd_endpoints desc = published_endpoint c origin # rest"
    using published_first [OF assms] by blast
  obtain ps where ps: "hd_protocols desc = ''a2a'' # ps" using published_protocols [OF assms(1,2)] by blast
  have "priority (published_endpoint c origin) = 0"
    by (simp add: priority_def normalize_def published_endpoint_def plain_words A2A_TRANSPORT_PRIORITY_def)
  moreover have "is_a2a (published_endpoint c origin)"
    by (simp add: is_a2a_def normalize_def published_endpoint_def plain_words)
  ultimately have srt: "sort_key priority (filter is_a2a (descriptor_endpoints (Some (descriptor_view desc)))) =
      published_endpoint c origin # sort_key priority (filter is_a2a rest)"
    using es by (simp add: descriptor_endpoints_def descriptor_view_def sort_key_least del: sort_key_simps)
  have "trim (origin @ ''/.well-known/agent.json'') \<noteq> []"
  proof
    assume "trim (origin @ ''/.well-known/agent.json'') = []"
    then have "\<forall>c \<in> set (origin @ ''/.well-known/agent.json''). is_js_space c"
      by (rule trim_blank)
    then show False by (simp add: is_js_space_def)
  qed
  then have "metadataAgentCardUrl (published_endpoint c origin) = Some (trim (origin @ ''/.well-known/agent.json''))"
    by (simp add: metadataAgentCardUrl_def published_endpoint_def)
  then have "resolveA2aAgentCardUrl peer_parse (Some (descriptor_view desc)) = Some (trim (origin @ ''/.well-known/agent.json''))"
    by (simp add: resolveA2aAgentCardUrl_def srt)
  moreover have "distinct (map endpoint_key (hd_endpoints desc))" "distinct (hd_protocols desc)"
    using assms(1) by (auto simp: buildHubConnectionDescriptor_def Let_def dedupeEndpoints_distinct dedupeStringList_def
        lowers.loop_distinct split: option.splits)
  ultimately show ?thesis using ps by simp
qed

definition demo_bot_card :: card_config where
  "demo_bot_card = \<lparr>cc_name = ''Bot'', cc_description = None, cc_url = Some ''https://b/rpc'',
     cc_skills = [SkillName ''chat''], cc_host = ''10.0.0.5'', cc_port = 18800, cc_bearer = True\<rparr>"

definition demo_connection_config :: connection_config where
  "demo_connection_config = \<lparr>cn_publishA2a = True, cn_endpoints = [], cn_protocols = [''A2A'', ''mcp''], cn_inputModes = [],
     cn_outputModes = [], cn_metadata = None\<rparr>"

definition demo_url_parser :: url_host where
  "demo_url_parser u = (if starts_with u ''https://b'' then Some (''b'', ''https://b'') else None)"

definition demo_identity :: identity_data where
  "demo_identity = new_identity demo_keys None"

definition demo_hub_descriptor :: hub_descriptor where
  "demo_hub_descriptor = the (buildHubConnectionDescriptor demo_url_parser demo_bot_card demo_connection_config demo_identity [''chat''])"

lemma demo_card_url: "card_url demo_bot_card = ''https://b/rpc''" "trim ''https://b/rpc'' = ''https://b/rpc''"
    "demo_url_parser ''https://b/rpc'' = Some (''b'', ''https://b'')"
  by (simp_all add: card_url_def or_text_def present_text_def demo_bot_card_def demo_url_parser_def starts_with_def
      trim_def is_js_space_def)

lemma demo_descriptor_built:
  "buildHubConnectionDescriptor demo_url_parser demo_bot_card demo_connection_config demo_identity [''chat''] = Some demo_hub_descriptor"
proof -
  have "grpc_host demo_url_parser demo_bot_card = Some ''10.0.0.5''" by (simp add: grpc_host_def demo_bot_card_def)
  then have "buildAgentCard demo_url_parser demo_bot_card \<noteq> None" by (simp add: buildAgentCard_def demo_card_url)
  then obtain agentCard where "buildAgentCard demo_url_parser demo_bot_card = Some agentCard" by blast
  then show ?thesis by (simp add: demo_hub_descriptor_def buildHubConnectionDescriptor_def Let_def)
qed

theorem published_descriptor_resolves_witness:
  "resolveA2aAgentCardUrl (\<lambda>_. None) (Some (descriptor_view demo_hub_descriptor)) =
     Some (trim ''https://b/.well-known/agent.json'') \<and> hd (hd_protocols demo_hub_descriptor) = ''a2a''"
proof -
  have "cn_publishA2a demo_connection_config" by (simp add: demo_connection_config_def)
  then show ?thesis
    using published_descriptor_resolves [OF demo_descriptor_built, of "''b''" "''https://b''"] demo_card_url by simp
qed

section \<open>Registering twice\<close>

lemma sameDescriptor_saved: "sameDescriptor (opt_default JUndef (json_clone (JObj fs))) (JObj fs)"
proof -
  obtain gs where "json_clone (JObj fs) = Some (JObj gs)" by simp
  then show ?thesis
    using stringify_clone [of "JObj fs"] by (simp add: sameDescriptor_def coalesce_def nullish_def del: json_clone.simps json_stringify.simps)
qed

lemma descriptor_js_obj: "\<exists>fs. descriptor_js desc = JObj fs"
  by (simp add: descriptor_js_def)

lemma saved_matches: "matches_local hubUrl d (descriptor_js desc)
    (registration_record w hubUrl c d skills (descriptor_js desc) agentId)"
  using descriptor_js_obj [of desc] sameDescriptor_saved
  by (auto simp: matches_local_def registration_record_def)

definition stored_candidate :: "string \<Rightarrow> identity_data \<Rightarrow> js \<Rightarrow> registration_data option \<Rightarrow> registration_data option" where
  "stored_candidate hubUrl d descriptor stored =
    (case stored of Some r \<Rightarrow> if matches_local hubUrl d descriptor r then Some r else None | None \<Rightarrow> None)"

lemma run_confirmed:
  assumes "buildHubConnectionDescriptor parse c cn d (map entry_name (cc_skills c)) = Some desc"
    and "stored_candidate hubUrl d (descriptor_js desc) stored = Some rec" and "confirm_step w d rec = (Some res, logs)"
  shows "runHubRegistration w parse hubUrl c cn rg d stored =
    Some \<lparr>hr_registration = Some res, hr_file = stored, hr_calls = [CallLookup (id_clientId d)], hr_logs = logs\<rparr>"
  using assms by (simp add: runHubRegistration_def stored_candidate_def)

lemma run_registers:
  assumes "buildHubConnectionDescriptor parse c cn d (map entry_name (cc_skills c)) = Some desc"
    and "case stored_candidate hubUrl d (descriptor_js desc) stored of None \<Rightarrow> True | Some rec \<Rightarrow> fst (confirm_step w d rec) = None"
    and "register_step w c d rg (create_payload c d rg (map entry_name (cc_skills c)) (descriptor_js desc)) = (ag, calls, logs)"
  shows "\<exists>cs ls. runHubRegistration w parse hubUrl c cn rg d stored =
    Some \<lparr>hr_registration = map_option (\<lambda>i. (i, cc_name c)) ag,
      hr_file = (case ag of None \<Rightarrow> stored
        | Some i \<Rightarrow> if hw_save_error w = None
            then Some (registration_record w hubUrl c d (map entry_name (cc_skills c)) (descriptor_js desc) i) else stored),
      hr_calls = cs @ calls, hr_logs = ls\<rparr>"
proof (cases "stored_candidate hubUrl d (descriptor_js desc) stored")
  case None
  then show ?thesis
    using assms(1,3) unfolding runHubRegistration_def stored_candidate_def [symmetric]
    by (cases ag) simp_all
next
  case (Some rec)
  then obtain ls where "confirm_step w d rec = (None, ls)" using assms(2) by (cases "confirm_step w d rec") simp
  with Some show ?thesis
    using assms(1,3) unfolding runHubRegistration_def stored_candidate_def [symmetric]
    by (cases ag) simp_all
qed

text \<open>What a successful run leaves in the file: a record of the id it returns that matches the next run.\<close>

lemma run_saves:
  assumes "runHubRegistration w parse hubUrl c cn rg d stored = Some r" and "hr_registration r = Some (agentId, n)"
    and "hw_save_error w = None"
    and desc: "buildHubConnectionDescriptor parse c cn d (map entry_name (cc_skills c)) = Some desc"
  shows "\<exists>rec. hr_file r = Some rec \<and> matches_local hubUrl d (descriptor_js desc) rec \<and> rd_name rec = n \<and>
     (rd_agentId rec = agentId \<or> rd_agentId rec = opt_default JUndef (json_clone agentId))"
proof (cases "case stored_candidate hubUrl d (descriptor_js desc) stored of None \<Rightarrow> True | Some rec \<Rightarrow> fst (confirm_step w d rec) = None")
  case True
  obtain ag calls logs where step: "register_step w c d rg (create_payload c d rg (map entry_name (cc_skills c)) (descriptor_js desc)) =
      (ag, calls, logs)" by (cases "register_step w c d rg (create_payload c d rg (map entry_name (cc_skills c)) (descriptor_js desc))")
  from run_registers [OF desc True step] assms(1-3)
  have "ag = Some agentId" "n = cc_name c"
      "hr_file r = Some (registration_record w hubUrl c d (map entry_name (cc_skills c)) (descriptor_js desc) agentId)"
    by (cases ag; auto)+
  then show ?thesis
    using saved_matches [of hubUrl d desc w c "map entry_name (cc_skills c)" agentId]
    by (auto simp: registration_record_def)
next
  case False
  then obtain rec res logs where rec: "stored_candidate hubUrl d (descriptor_js desc) stored = Some rec"
      "confirm_step w d rec = (Some res, logs)"
    by (cases "stored_candidate hubUrl d (descriptor_js desc) stored") (auto, metis prod.collapse)
  have "res = (rd_agentId rec, rd_name rec)"
    using rec(2) by (auto simp: confirm_step_def split: sum.splits if_splits)
  moreover have "stored = Some rec" "matches_local hubUrl d (descriptor_js desc) rec"
    using rec(1) by (auto simp: stored_candidate_def split: option.splits if_splits)
  moreover have "r = \<lparr>hr_registration = Some res, hr_file = stored, hr_calls = [CallLookup (id_clientId d)], hr_logs = logs\<rparr>"
    using run_confirmed [OF desc rec, of rg] assms(1) by simp
  ultimately show ?thesis
    using assms(2) by (intro exI [of _ rec]) simp
qed

text \<open>Registration is idempotent: once a run has registered (or confirmed) and saved its record, a
  later run with the same settings and identity only looks the agent up; when the hub still lists
  that id with the identity's signing key, the same id is returned, nothing is registered again and
  the file is left alone. The saved descriptor is recognised although it went through JSON.\<close>

theorem registration_idempotent:
  assumes "runHubRegistration w parse hubUrl c cn rg d file = Some r"
    and "hr_registration r = Some (JNum (Fin q), n)" and "hw_save_error w = None"
    and "lookupAgentByClientId (hw_confirm w2) = Inr agent" and "get_prop agent ''id'' = JNum (Fin q)"
    and "hasMatchingSigningKey agent (id_signingPublicKey d)"
  shows "runHubRegistration w2 parse hubUrl c cn rg d (hr_file r) =
    Some \<lparr>hr_registration = Some (JNum (Fin q), n), hr_file = hr_file r, hr_calls = [CallLookup (id_clientId d)],
      hr_logs = [LogExisting (JNum (Fin q))]\<rparr>"
proof -
  obtain desc where desc: "buildHubConnectionDescriptor parse c cn d (map entry_name (cc_skills c)) = Some desc"
    using assms(1) by (cases "buildHubConnectionDescriptor parse c cn d (map entry_name (cc_skills c))")
      (simp_all add: runHubRegistration_def)
  obtain rec where rec: "hr_file r = Some rec" "matches_local hubUrl d (descriptor_js desc) rec"
      "rd_agentId rec = JNum (Fin q)" "rd_name rec = n"
    using run_saves [OF assms(1-3) desc] by auto
  have "truthy agent" using assms(5) by (cases agent) auto
  then have "confirms rec d agent"
    using assms(5,6) rec(3) by (simp add: confirms_def js_eq_id_def)
  then have "confirm_step w2 d rec = (Some (JNum (Fin q), n), [LogExisting (JNum (Fin q))])"
    using assms(4) rec(3,4) by (simp add: confirm_step_def)
  moreover have "stored_candidate hubUrl d (descriptor_js desc) (Some rec) = Some rec"
    using rec(2) by (simp add: stored_candidate_def)
  ultimately show ?thesis
    using run_confirmed [OF desc] rec(1) by simp
qed

definition demo_agent_dto :: js where
  "demo_agent_dto = JObj [(''id'', JNum (Fin 7)), (''signingPublicKey'', JStr ''ep'')]"

definition demo_hub :: hub_world where
  "demo_hub = \<lparr>hw_confirm = HttpReply 200 (Inr (JArr [demo_agent_dto])), hw_register = (\<lambda>_. HttpReply 201 (Inr demo_agent_dto)),
     hw_user = (\<lambda>_. NetworkError ''down''), hw_conflict = NetworkError ''down'', hw_save_error = None, hw_now = ''t''\<rparr>"

definition demo_registration_config :: registration_config where
  "demo_registration_config = \<lparr>rg_username = None, rg_email = None, rg_password = None, rg_clientId = None\<rparr>"

theorem registration_idempotent_witness:
  "\<exists>r. runHubRegistration demo_hub demo_url_parser ''https://hub'' demo_bot_card demo_connection_config
        demo_registration_config demo_identity None = Some r \<and>
     map_option hr_calls (runHubRegistration demo_hub demo_url_parser ''https://hub'' demo_bot_card demo_connection_config
        demo_registration_config demo_identity (hr_file r)) = Some [CallLookup ''uuid-1'']"
proof -
  let ?payload = "create_payload demo_bot_card demo_identity demo_registration_config [''chat''] (descriptor_js demo_hub_descriptor)"
  have skills: "map entry_name (cc_skills demo_bot_card) = [''chat'']" by (simp add: demo_bot_card_def entry_name_def)
  note built = demo_descriptor_built [folded skills]
  have step: "register_step demo_hub demo_bot_card demo_identity demo_registration_config payload =
      (Some (JNum (Fin 7)), [CallRegister payload], [LogRegistered (JNum (Fin 7)), LogVisitDashboard (JNum (Fin 7))])" for payload
    by (simp add: register_step_def retryWithBackoff_def eval_nat_numeral registerWithHub_def demo_hub_def demo_agent_dto_def
        reply_ok_def parse_body_def agent_id_of_def hub_user_step_def demo_registration_config_def present_def calls_made_def)
  obtain cs ls where run: "runHubRegistration demo_hub demo_url_parser ''https://hub'' demo_bot_card demo_connection_config
        demo_registration_config demo_identity None = Some \<lparr>hr_registration = Some (JNum (Fin 7), ''Bot''),
      hr_file = Some (registration_record demo_hub ''https://hub'' demo_bot_card demo_identity [''chat'']
         (descriptor_js demo_hub_descriptor) (JNum (Fin 7))), hr_calls = cs, hr_logs = ls\<rparr>"
    using run_registers [OF built _ step, of "''https://hub''" None] skills
    by (auto simp: stored_candidate_def demo_bot_card_def demo_hub_def)
  have "lookupAgentByClientId (hw_confirm demo_hub) = Inr demo_agent_dto"
    by (simp add: lookupAgentByClientId_def demo_hub_def reply_ok_def parse_body_def)
  moreover have "get_prop demo_agent_dto ''id'' = JNum (Fin 7)" by (simp add: demo_agent_dto_def)
  moreover have "hasMatchingSigningKey demo_agent_dto (id_signingPublicKey demo_identity)"
    by (simp add: hasMatchingSigningKey_def demo_agent_dto_def demo_identity_def new_identity_def createSigningKeyFields_def
        demo_keys_def present_def)
  moreover have "id_clientId demo_identity = ''uuid-1''"
    by (simp add: demo_identity_def new_identity_def createSigningKeyFields_def demo_keys_def Let_def)
  moreover have "hw_save_error demo_hub = None" by (simp add: demo_hub_def)
  ultimately show ?thesis
    using registration_idempotent [OF run, of 7 "''Bot''" demo_hub demo_agent_dto] run by simp
qed

end
