(* ===== verification/HubClient.thy ===== *)
theory HubClient
  imports Hub JsonlLogs
begin

text \<open>
  \<open>src/hub-match.ts\<close>, \<open>src/hub-connection-requests.ts\<close>, \<open>src/hub-profile.ts\<close>,
  \<open>src/hub-resolve.ts\<close> and \<open>src/hub-discovery.ts\<close>: the requests sent to the hub, the summary
  of the agents it answers with, and the two discovery operations with the history entries they
  leave. The data transfer objects are the JSON values received; where the declared
  type promises a string, other values are treated as absent.
\<close>

section \<open>Requests\<close>

record hub_request =
  hq_method :: string
  hq_path :: string
  hq_headers :: "(string \<times> string) list"
  hq_body :: "js option"

definition json_request :: "string \<Rightarrow> string \<Rightarrow> (string \<times> string) list \<Rightarrow> js \<Rightarrow> hub_request" where
  "json_request method path extra body =
    \<lparr>hq_method = method, hq_path = path, hq_headers = (''Content-Type'', ''application/json'') # extra, hq_body = Some body\<rparr>"

definition get_request :: "string \<Rightarrow> hub_request" where
  "get_request path = \<lparr>hq_method = ''GET'', hq_path = path, hq_headers = [(''Content-Type'', ''application/json'')], hq_body = None\<rparr>"

definition hub_base :: "string \<Rightarrow> string" where
  "hub_base u = strip_slash u"

definition api_reply :: "string \<Rightarrow> fetch_reply \<Rightarrow> string + js" where
  "api_reply label reply = (case reply of
     NetworkError e \<Rightarrow> Inl e
   | HttpReply status body \<Rightarrow>
       if reply_ok status then (case body of Inl e \<Rightarrow> Inl e | Inr v \<Rightarrow> Inr v)
       else Inl (label @ '' API error '' @ show_nat status @ '': '' @ error_body body))"

definition no_registration :: string where
  "no_registration = ''No hub registration found. Run the gateway first to register with the hub.''"

definition opt_num :: "int option \<Rightarrow> js" where
  "opt_num v = (case v of None \<Rightarrow> JUndef | Some i \<Rightarrow> JNum (Fin (of_int i)))"

definition opt_str :: "string option \<Rightarrow> js" where
  "opt_str v = (case v of None \<Rightarrow> JUndef | Some s \<Rightarrow> JStr s)"

definition opt_bool :: "bool option \<Rightarrow> js" where
  "opt_bool v = (case v of None \<Rightarrow> JUndef | Some b \<Rightarrow> JBool b)"

definition strs :: "string list \<Rightarrow> js" where
  "strs xs = JArr (map JStr xs)"

section \<open>The match API\<close>

record match_params =
  mp_skills :: "string list"
  mp_description :: "string option"
  mp_connectionMode :: "string option"
  mp_preferOfficial :: "bool option"
  mp_targetAgentId :: "int option"
  mp_targetClientId :: "string option"

datatype match_op =
    CreateMatch match_params
  | GetMatch int "int option"
  | GetAgent int
  | FindAgentByClientId string
  | GetPendingMatches
  | UpdatePresence string string
  | SendHandshakeMessage int string string string
  | GetPendingHandshakeMessages int
  | ConsumeHandshakeMessage int int
  | MarkReady int
  | CompleteMatch int
  | CancelMatch int

definition agent_body :: "int \<Rightarrow> (string \<times> js) list \<Rightarrow> js" where
  "agent_body agentId extra = JObj ((''agentId'', JNum (Fin (of_int agentId))) # extra)"

definition match_path :: "int \<Rightarrow> string" where
  "match_path matchId = ''/api/matches/'' @ show_int matchId"

fun match_request :: "int \<Rightarrow> match_op \<Rightarrow> hub_request" where
  "match_request self (CreateMatch p) = json_request ''POST'' ''/api/matches'' []
     (agent_body self [(''requiredSkills'', strs (mp_skills p)), (''description'', JStr (opt_default [] (mp_description p))),
        (''connectionMode'', opt_str (mp_connectionMode p)), (''preferOfficial'', opt_bool (mp_preferOfficial p)),
        (''targetAgentId'', opt_num (mp_targetAgentId p)), (''targetClientId'', opt_str (mp_targetClientId p))])"
| "match_request self (GetMatch matchId callerId) = get_request
     (match_path matchId @ (case callerId of None \<Rightarrow> [] | Some c \<Rightarrow> ''?callerId='' @ show_int c))"
| "match_request self (GetAgent agentId) = get_request (''/api/agents/'' @ show_int agentId)"
| "match_request self (FindAgentByClientId clientId) = get_request (''/api/agents?clientId='' @ encodeURIComponent clientId)"
| "match_request self GetPendingMatches = get_request (''/api/matches/pending?agentId='' @ show_int self)"
| "match_request self (UpdatePresence status clientVersion) =
     json_request ''PUT'' (''/api/agents/'' @ show_int self @ ''/presence'') []
       (JObj [(''presenceStatus'', JStr status), (''clientVersion'', JStr clientVersion)])"
| "match_request self (SendHandshakeMessage matchId messageType ciphertext expiresAt) =
     json_request ''POST'' (match_path matchId @ ''/handshake'') []
       (agent_body self [(''messageType'', JStr messageType), (''ciphertext'', JStr ciphertext), (''expiresAt'', JStr expiresAt)])"
| "match_request self (GetPendingHandshakeMessages matchId) =
     get_request (match_path matchId @ ''/handshake/pending?agentId='' @ show_int self)"
| "match_request self (ConsumeHandshakeMessage matchId messageId) =
     json_request ''POST'' (match_path matchId @ ''/handshake/'' @ show_int messageId @ ''/consume'') [] (agent_body self [])"
| "match_request self (MarkReady matchId) = json_request ''POST'' (match_path matchId @ ''/ready'') [] (agent_body self [])"
| "match_request self (CompleteMatch matchId) = json_request ''POST'' (match_path matchId @ ''/complete'') [] (agent_body self [])"
| "match_request self (CancelMatch matchId) = json_request ''POST'' (match_path matchId @ ''/cancel'') [] (agent_body self [])"

text \<open>The value each call resolves to; a \<open>null\<close> body throws where a property of it is read.\<close>

definition first_agent :: "js \<Rightarrow> string + js" where
  "first_agent agents = (case agents of
     JNull \<Rightarrow> Inl (null_error ''length'')
   | JArr (agent # _) \<Rightarrow> Inr agent
   | JStr (c # _) \<Rightarrow> Inr (JStr [c])
   | _ \<Rightarrow> Inr JNull)"

definition match_reply :: "match_op \<Rightarrow> fetch_reply \<Rightarrow> string + js" where
  "match_reply op' reply = (case api_reply ''Hub match'' reply of
     Inl e \<Rightarrow> Inl e
   | Inr v \<Rightarrow>
      (case op' of
         FindAgentByClientId _ \<Rightarrow> first_agent v
       | GetPendingHandshakeMessages _ \<Rightarrow>
           if v = JNull then Inl (null_error ''messages'') else Inr (coalesce (get_prop v ''messages'') (JArr []))
       | _ \<Rightarrow> Inr v))"

section \<open>The connection-request API\<close>

text \<open>\<open>URLSearchParams\<close>: form encoding of a name or value.\<close>

definition form_safe :: "char \<Rightarrow> bool" where
  "form_safe c = (let n = (of_char c :: nat) in (48 \<le> n \<and> n \<le> 57) \<or> (65 \<le> n \<and> n \<le> 90) \<or> (97 \<le> n \<and> n \<le> 122) \<or>
     c \<in> set ''*-._'')"

definition form_char :: "char \<Rightarrow> string" where
  "form_char c = (let n = (of_char c :: nat) in
     if form_safe c then [c] else if c = CHR '' '' then ''+''
     else if n < 128 then percent_byte n else percent_byte (192 + n div 64) @ percent_byte (128 + n mod 64))"

definition form_encode :: "string \<Rightarrow> string" where
  "form_encode s = concat (map form_char s)"

definition optionalString :: "js \<Rightarrow> string option" where
  "optionalString v = (case v of JStr s \<Rightarrow> if trim s = [] then None else Some (trim s) | _ \<Rightarrow> None)"

definition query_pairs :: "(string \<times> string option) list \<Rightarrow> (string \<times> string) list" where
  "query_pairs ps = concat (map (\<lambda>(k, v). case v of None \<Rightarrow> [] | Some t \<Rightarrow> if t = [] then [] else [(k, t)]) ps)"

definition queryString :: "(string \<times> string option) list \<Rightarrow> string" where
  "queryString ps =
    (let body = join ''&'' (map (\<lambda>(k, v). form_encode k @ ''='' @ form_encode v) (query_pairs ps))
     in if body = [] then [] else ''?'' @ body)"

record list_params =
  lp_q :: js
  lp_skill :: js
  lp_requestType :: js
  lp_limit :: "rat option"

record create_request_params =
  cr_title :: string
  cr_summary :: string
  cr_details :: "string option"
  cr_requestType :: "string option"
  cr_requiredSkills :: "string list option"
  cr_collaborationMode :: "string option"
  cr_inputModes :: "string list option"
  cr_outputModes :: "string list option"
  cr_connectionHint :: js
  cr_expiresAt :: "string option"

datatype connection_op =
    ListRequests list_params
  | GetRequest int
  | CreateRequest create_request_params
  | ListOffers int
  | CreateOffer int string "string list option" "string option"
  | AcceptOffer int "string option"
  | GetSession int

definition identityPayload :: "registration_data \<Rightarrow> (string \<times> js) list" where
  "identityPayload r = [(''agentId'', rd_agentId r), (''clientId'', JStr (rd_clientId r)), (''publicKey'', JStr (rd_publicKey r))]"

text \<open>The bearer header, or none when no token could be obtained.\<close>

definition bearerHeaders :: "string + js \<Rightarrow> (string \<times> string) list" where
  "bearerHeaders token = (case token of Inl _ \<Rightarrow> [] | Inr t \<Rightarrow> [(''Authorization'', ''Bearer '' @ js_text t)])"

fun connection_request :: "registration_data \<Rightarrow> string + js \<Rightarrow> connection_op \<Rightarrow> hub_request" where
  "connection_request r token (ListRequests p) = get_request (''/api/connection-requests'' @ queryString
     [(''q'', optionalString (lp_q p)), (''skill'', optionalString (lp_skill p)),
      (''requestType'', optionalString (lp_requestType p)), (''limit'', map_option rat_text (lp_limit p))])"
| "connection_request r token (GetRequest requestId) = get_request (''/api/connection-requests/'' @ show_int requestId)"
| "connection_request r token (CreateRequest p) = json_request ''POST'' ''/api/connection-requests'' (bearerHeaders token)
     (JObj (identityPayload r @
       [(''title'', JStr (cr_title p)), (''summary'', JStr (cr_summary p)), (''details'', JStr (opt_default [] (cr_details p))),
        (''requestType'', opt_str (cr_requestType p)), (''requiredSkills'', strs (opt_default [] (cr_requiredSkills p))),
        (''collaborationMode'', opt_str (cr_collaborationMode p)), (''inputModes'', strs (opt_default [] (cr_inputModes p))),
        (''outputModes'', strs (opt_default [] (cr_outputModes p))), (''connectionHint'', cr_connectionHint p),
        (''expiresAt'', opt_str (cr_expiresAt p))]))"
| "connection_request r token (ListOffers requestId) =
     get_request (''/api/connection-requests/'' @ show_int requestId @ ''/offers'')"
| "connection_request r token (CreateOffer requestId msg skills mode) =
     json_request ''POST'' (''/api/connection-requests/'' @ show_int requestId @ ''/offers'') (bearerHeaders token)
       (JObj (identityPayload r @ [(''message'', JStr msg), (''skills'', strs (opt_default [] skills)),
          (''collaborationMode'', opt_str mode)]))"
| "connection_request r token (AcceptOffer offerId roomId) =
     json_request ''POST'' (''/api/connection-offers/'' @ show_int offerId @ ''/accept'') (bearerHeaders token)
       (JObj (identityPayload r @ [(''sharedContextRoomId'', opt_str roomId)]))"
| "connection_request r token (GetSession sessionId) = get_request (''/api/connection-sessions/'' @ show_int sessionId)"

text \<open>The token is asked for by the operations that write, for the stored registration.\<close>

definition token_for :: "(string \<Rightarrow> js \<Rightarrow> string + string) \<Rightarrow> identity_data \<Rightarrow> registration_data option \<Rightarrow> fetch_reply \<Rightarrow>
    (js \<Rightarrow> fetch_reply) \<Rightarrow> string + js" where
  "token_for sign identity registration challenge_reply verify_reply = (case registration of
     None \<Rightarrow> Inl no_registration
   | Some r \<Rightarrow> fst (getHubBearerToken sign identity (rd_clientId r) (rd_agentId r) challenge_reply verify_reply))"

definition joined_list :: "string \<Rightarrow> js \<Rightarrow> string" where
  "joined_list sep v = join sep (map (\<lambda>x. if nullish x then [] else js_text x) (array_or_empty v))"

definition field_text :: "js \<Rightarrow> string \<Rightarrow> string" where
  "field_text v k = js_text (get_prop v k)"

definition shown_skills :: "js \<Rightarrow> string \<Rightarrow> string" where
  "shown_skills v fallback = joined_list '', ''
     (if array_or_empty (get_prop v ''displaySkills'') \<noteq> [] then get_prop v ''displaySkills'' else get_prop v fallback)"

definition nonempty_lines :: "string list \<Rightarrow> string" where
  "nonempty_lines ls = join newline (filter (\<lambda>l. l \<noteq> []) ls)"

definition format_request :: "js \<Rightarrow> string" where
  "format_request q = (let skills = shown_skills q ''requiredSkills'' in nonempty_lines
     [''- #'' @ field_text q ''id'' @ '' '' @ field_text q ''title'',
      ''  type='' @ field_text q ''requestType'' @ '' mode='' @ field_text q ''collaborationMode'' @ '' status='' @ field_text q ''status'',
      if truthy (get_prop q ''requesterDisplayName'') then ''  requester='' @ field_text q ''requesterDisplayName'' else [],
      if skills \<noteq> [] then ''  skills=['' @ skills @ '']'' else [],
      ''  summary='' @ field_text q ''summary''])"

definition formatConnectionRequests :: "js list \<Rightarrow> string" where
  "formatConnectionRequests requests =
    (if requests = [] then ''No open Hub connection requests found.'' else join newline (map format_request requests))"

definition responder_text :: "js \<Rightarrow> string" where
  "responder_text o' =
    (if truthy (get_prop o' ''responderName'') then field_text o' ''responderName''
     else if truthy (get_prop o' ''responderClientId'') then field_text o' ''responderClientId''
     else ''agent-'' @ field_text o' ''responderAgentId'')"

definition format_offer :: "js \<Rightarrow> string" where
  "format_offer o' =
    (let skills = shown_skills o' ''skills''; protocols = joined_list '', '' (get_prop o' ''connectionProtocols'') in nonempty_lines
     [''- offer #'' @ field_text o' ''id'' @ '' from '' @ responder_text o',
      ''  status='' @ field_text o' ''status'' @ '' mode='' @ field_text o' ''collaborationMode'',
      if skills \<noteq> [] then ''  skills=['' @ skills @ '']'' else [],
      if protocols \<noteq> [] then ''  protocols=['' @ protocols @ '']'' else [],
      ''  message='' @ field_text o' ''message''])"

definition formatConnectionOffers :: "js list \<Rightarrow> string" where
  "formatConnectionOffers offers =
    (if offers = [] then ''No approved offers found for this request.'' else join newline (map format_offer offers))"

section \<open>Profiles\<close>

record profile_config =
  pf_plazaEnabled :: bool
  pf_displayName :: "string option"
  pf_headline :: "string option"
  pf_bio :: "string option"
  pf_plazaMessage :: "string option"
  pf_contactHint :: "string option"

definition trimOptional :: "string option \<Rightarrow> js" where
  "trimOptional v = (case v of None \<Rightarrow> JUndef | Some s \<Rightarrow> if trim s = [] then JUndef else JStr (trim s))"

definition profile_skills :: "card_config \<Rightarrow> string list" where
  "profile_skills c = filter (\<lambda>s. s \<noteq> [] \<and> trim s \<noteq> []) (map entry_name (cc_skills c))"

definition buildProfileUpdatePayload :: "card_config \<Rightarrow> profile_config \<Rightarrow> registration_data \<Rightarrow> identity_data \<Rightarrow>
    (string \<times> js) list \<Rightarrow> js" where
  "buildProfileUpdatePayload c p r d override = JObj (spread
    [(''agentId'', rd_agentId r), (''clientId'', JStr (id_clientId d)), (''publicKey'', JStr (id_publicKey d)),
     (''name'', JStr (cc_name c)), (''description'', JStr (opt_default [] (cc_description c))),
     (''skills'', strs (profile_skills c)), (''displayName'', trimOptional (pf_displayName p)),
     (''headline'', trimOptional (pf_headline p)), (''bio'', trimOptional (pf_bio p)),
     (''plazaEnabled'', JBool (pf_plazaEnabled p)), (''plazaMessage'', trimOptional (pf_plazaMessage p)),
     (''contactHint'', trimOptional (pf_contactHint p))] override)"

definition listPlazaAgents :: "string option \<Rightarrow> string option \<Rightarrow> hub_request" where
  "listPlazaAgents skill q = get_request (''/api/plaza/agents'' @ queryString [(''skill'', skill), (''q'', q)])"

definition getProfile :: "int \<Rightarrow> hub_request" where
  "getProfile agentId = get_request (''/api/plaza/agents/'' @ show_int agentId)"

definition updateProfile :: "js \<Rightarrow> js \<Rightarrow> hub_request" where
  "updateProfile payload bearerToken = json_request ''PUT'' ''/api/me/profile''
     (if truthy bearerToken then [(''Authorization'', ''Bearer '' @ js_text bearerToken)] else []) payload"

text \<open>The request of a profile sync, or why none is sent.\<close>

definition syncHubProfile :: "(string \<Rightarrow> js \<Rightarrow> string + string) \<Rightarrow> key_material \<Rightarrow> card_config \<Rightarrow> profile_config \<Rightarrow>
    registration_data option \<Rightarrow> identity_data option \<Rightarrow> fetch_reply \<Rightarrow> (js \<Rightarrow> fetch_reply) \<Rightarrow>
    (string \<times> js) list \<Rightarrow> string + hub_request" where
  "syncHubProfile sign km c p registration stored challenge_reply verify_reply override =
    (case registration of
       None \<Rightarrow> Inl no_registration
     | Some r \<Rightarrow>
       (case stored of
          None \<Rightarrow> Inl ''No local identity found. Restart the plugin and try again.''
        | Some d \<Rightarrow>
          (case token_for sign (fst (loadOrCreateIdentity km (Some (rd_clientId r)) (Some d))) (Some r) challenge_reply verify_reply of
             Inl e \<Rightarrow> Inl e
           | Inr tok \<Rightarrow> Inr (updateProfile (buildProfileUpdatePayload c p r d override) tok))))"

section \<open>Summarising an agent\<close>

record resolved_agent =
  ra_agentId :: js
  ra_name :: js
  ra_skills :: js
  ra_presence :: js
  ra_official :: js
  ra_verified :: js
  ra_operatorName :: js
  ra_sourceRepoUrl :: js
  ra_documentationUrl :: js
  ra_privacyPolicyUrl :: js
  ra_riskBoundary :: "string option"
  ra_agentType :: "string option"
  ra_domain :: "string option"
  ra_modelProvider :: "string option"
  ra_modelName :: "string option"
  ra_modelDisplayName :: "string option"
  ra_modelUsage :: "string option"
  ra_dataRetention :: "string option"
  ra_encryption :: js
  ra_signing :: js
  ra_protocols :: "string list"
  ra_endpoints :: js
  ra_descriptor :: js

definition norm_js :: "js \<Rightarrow> string option" where
  "norm_js v = (case v of JStr s \<Rightarrow> lower_value s | _ \<Rightarrow> None)"

fun dedupeStrings :: "string list \<Rightarrow> js list \<Rightarrow> string list" where
  "dedupeStrings seen [] = []"
| "dedupeStrings seen (v # vs) =
     (case norm_js v of
        None \<Rightarrow> dedupeStrings seen vs
      | Some n \<Rightarrow> if n \<in> set seen then dedupeStrings seen vs else n # dedupeStrings (n # seen) vs)"

definition descriptorProtocols :: "js \<Rightarrow> js list" where
  "descriptorProtocols descriptor =
    array_or_empty (get_prop (get_prop descriptor ''capabilities'') ''protocols'') @
    map (\<lambda>e. get_prop e ''protocol'') (array_or_empty (get_prop descriptor ''endpoints''))"

definition stringValue :: "js \<Rightarrow> string option" where
  "stringValue v = (if nullish v then None else let t = trim (js_text v) in if t = [] then None else Some t)"

definition capabilityValue :: "js \<Rightarrow> string \<Rightarrow> string option" where
  "capabilityValue manifest k = stringValue (get_prop manifest k)"

definition metadataValue :: "js \<Rightarrow> string \<Rightarrow> string option" where
  "metadataValue manifest k = (case get_prop manifest ''metadata'' of JObj fs \<Rightarrow> stringValue (jprop k fs) | _ \<Rightarrow> None)"

definition or_value :: "'a option \<Rightarrow> 'a option \<Rightarrow> 'a option" where
  "or_value a b = (case a of None \<Rightarrow> b | Some v \<Rightarrow> Some v)"

definition modelDisplayName :: "string option \<Rightarrow> string option \<Rightarrow> string option" where
  "modelDisplayName provider modelName = (case (provider, modelName) of
     (Some p, Some m) \<Rightarrow> if p \<noteq> [] \<and> m \<noteq> [] then Some (p @ '' / '' @ m) else Some p
   | (Some p, None) \<Rightarrow> Some p
   | (None, m) \<Rightarrow> m)"

definition fallbackEncryptionKey :: "js \<Rightarrow> js" where
  "fallbackEncryptionKey agent =
    (if \<not> truthy (get_prop agent ''publicKey'') then JUndef
     else JObj [(''type'', JStr ''X25519''), (''publicKey'', get_prop agent ''publicKey''),
       (''keyVersion'', coalesce (get_prop agent ''keyVersion'') (JNum (Fin 1)))])"

definition fallbackSigningKey :: "js \<Rightarrow> js" where
  "fallbackSigningKey agent =
    (if \<not> truthy (get_prop agent ''signingPublicKey'') then JUndef
     else JObj [(''type'', JStr ''Ed25519''), (''publicKey'', get_prop agent ''signingPublicKey''),
       (''keyVersion'', coalesce (get_prop agent ''signingKeyVersion'') (JNum (Fin 1))),
       (''algorithm'', coalesce (get_prop agent ''signingAlgorithm'') (JStr ''ed25519'')),
       (''status'', coalesce (get_prop agent ''signingKeyStatus'') (JStr ''active''))])"

definition summarizeHubAgent :: "js \<Rightarrow> resolved_agent option" where
  "summarizeHubAgent agent =
    (if \<not> truthy agent then None
     else let descriptor = get_prop agent ''connectionDescriptor'';
              manifest = get_prop agent ''capabilityManifest'';
              value = (\<lambda>k. or_value (stringValue (get_prop agent k)) (metadataValue manifest k));
              modelProvider = value ''modelProvider'';
              modelName = value ''modelName''
          in Some \<lparr>ra_agentId = get_prop agent ''id'', ra_name = get_prop agent ''name'',
               ra_skills = coalesce (get_prop agent ''skills'') (JArr []), ra_presence = get_prop agent ''presenceStatus'',
               ra_official = get_prop agent ''official'', ra_verified = get_prop agent ''verified'',
               ra_operatorName = get_prop agent ''operatorName'', ra_sourceRepoUrl = get_prop agent ''sourceRepoUrl'',
               ra_documentationUrl = get_prop agent ''documentationUrl'', ra_privacyPolicyUrl = get_prop agent ''privacyPolicyUrl'',
               ra_riskBoundary = or_value (stringValue (get_prop agent ''riskBoundary'')) (capabilityValue manifest ''riskBoundary''),
               ra_agentType = value ''agentType'', ra_domain = value ''domain'',
               ra_modelProvider = modelProvider, ra_modelName = modelName,
               ra_modelDisplayName = or_value (stringValue (get_prop agent ''modelDisplayName'')) (modelDisplayName modelProvider modelName),
               ra_modelUsage = value ''modelUsage'', ra_dataRetention = value ''dataRetention'',
               ra_encryption = coalesce (get_prop (get_prop descriptor ''publicKeys'') ''encryption'') (fallbackEncryptionKey agent),
               ra_signing = coalesce (get_prop (get_prop descriptor ''publicKeys'') ''signing'') (fallbackSigningKey agent),
               ra_protocols = dedupeStrings [] (array_or_empty (get_prop agent ''connectionProtocols'') @ descriptorProtocols descriptor),
               ra_endpoints = coalesce (get_prop descriptor ''endpoints'') (JArr []),
               ra_descriptor = descriptor\<rparr>)"

text \<open>The two sides of a match: which is this agent and which the peer.\<close>

definition selectLocalAndPeerAgents :: "js \<Rightarrow> js \<Rightarrow> js \<times> js" where
  "selectLocalAndPeerAgents mtch localAgentId =
    (let requester = get_prop mtch ''requester''; provider = get_prop mtch ''provider''; role = get_prop mtch ''callerRole'' in
     if js_eq_id (get_prop requester ''id'') localAgentId then (requester, provider)
     else if js_eq_id (get_prop provider ''id'') localAgentId then (provider, requester)
     else if role = JStr ''requester'' then (requester, provider)
     else if role = JStr ''provider'' then (provider, requester)
     else (JNull, coalesce provider requester))"

record resolution =
  rs_mode :: string
  rs_matchId :: js
  rs_status :: js
  rs_callerRole :: js
  rs_localAgentId :: js
  rs_local :: "resolved_agent option"
  rs_peer :: "resolved_agent option"

definition buildGenericMatchResolution :: "js \<Rightarrow> js \<Rightarrow> string \<Rightarrow> resolution" where
  "buildGenericMatchResolution mtch localAgentId mode =
    (let (local, peer) = selectLocalAndPeerAgents mtch localAgentId in
     \<lparr>rs_mode = mode, rs_matchId = get_prop mtch ''id'', rs_status = get_prop mtch ''status'',
      rs_callerRole = get_prop mtch ''callerRole'', rs_localAgentId = localAgentId,
      rs_local = summarizeHubAgent local, rs_peer = summarizeHubAgent peer\<rparr>)"

definition buildAgentResolution :: "js \<Rightarrow> js \<Rightarrow> resolution" where
  "buildAgentResolution agent localAgentId =
    \<lparr>rs_mode = ''resolve'', rs_matchId = JUndef, rs_status = JUndef, rs_callerRole = JUndef,
     rs_localAgentId = localAgentId, rs_local = None, rs_peer = summarizeHubAgent agent\<rparr>"

definition or_none :: "string \<Rightarrow> string" where
  "or_none s = (if s = [] then ''(none)'' else s)"

definition endpoint_line :: "js \<Rightarrow> string" where
  "endpoint_line e = ''- '' @ field_text e ''protocol'' @ ''/'' @ field_text e ''transport'' @ '': '' @ field_text e ''url''"

definition fact_opt :: "string \<Rightarrow> string option \<Rightarrow> string" where
  "fact_opt label v = (if opt_default [] v = [] then [] else label @ the v)"

definition fact_js :: "string \<Rightarrow> js \<Rightarrow> string" where
  "fact_js label v = (if truthy v then label @ js_text v else [])"

definition formatResolvedHubAgent :: "resolved_agent option \<Rightarrow> string" where
  "formatResolvedHubAgent agent =
    (case agent of
       None \<Rightarrow> ''No peer agent was resolved.''
     | Some a \<Rightarrow>
        let badges = join '', '' (filter (\<lambda>b. b \<noteq> [])
              [if truthy (ra_official a) then ''official'' else [], if truthy (ra_verified a) then ''verified'' else [],
               fact_js ''operator='' (ra_operatorName a)]);
            facts = filter (\<lambda>l. l \<noteq> [])
              [if badges = [] then [] else ''Trust: '' @ badges,
               fact_opt ''Boundary: '' (ra_riskBoundary a), fact_opt ''Type: '' (ra_agentType a),
               fact_opt ''Domain: '' (ra_domain a), fact_opt ''Model: '' (ra_modelDisplayName a),
               fact_opt ''Model use: '' (ra_modelUsage a), fact_opt ''Retention: '' (ra_dataRetention a),
               fact_js ''Source: '' (ra_sourceRepoUrl a), fact_js ''Docs: '' (ra_documentationUrl a),
               fact_js ''Privacy: '' (ra_privacyPolicyUrl a)];
            endpoints = array_or_empty (ra_endpoints a)
        in join newline
             ([js_text (ra_name a) @ '' (agentId='' @ js_text (ra_agentId a) @ '')'',
               ''Presence: '' @ js_text (coalesce (ra_presence a) (JStr ''unknown'')),
               ''Skills: '' @ or_none (joined_list '', '' (ra_skills a)),
               ''Protocols: '' @ or_none (join '', '' (ra_protocols a))] @ facts @
              [''Endpoints:'', if endpoints = [] then ''- (none)'' else join newline (map endpoint_line endpoints)]))"

section \<open>Discovery\<close>

record discovery_input =
  dv_matchId :: "int option"
  dv_agentId :: "int option"
  dv_clientId :: "string option"
  dv_skills :: "string list option"
  dv_description :: "string option"
  dv_preferOfficial :: "bool option"
  dv_targetAgentId :: "int option"
  dv_targetClientId :: "string option"

datatype discovery_details = Resolution resolution | Failure string "int option"

record discovery_result =
  dr_ok :: bool
  dr_text :: string
  dr_details :: discovery_details
  dr_requests :: "hub_request list"
  dr_history :: "(string \<times> js) list list"

definition failed :: "string \<Rightarrow> string \<Rightarrow> int option \<Rightarrow> hub_request list \<Rightarrow> (string \<times> js) list list \<Rightarrow> discovery_result" where
  "failed txt err matchId reqs hist =
    \<lparr>dr_ok = False, dr_text = txt, dr_details = Failure err matchId, dr_requests = reqs, dr_history = hist\<rparr>"

definition outbound :: "string \<Rightarrow> string \<Rightarrow> rat \<Rightarrow> (string \<times> js) list \<Rightarrow> (string \<times> js) list \<Rightarrow> (string \<times> js) list" where
  "outbound type status duration middle detail =
    [(''type'', JStr type), (''status'', JStr status), (''direction'', JStr ''outbound'')] @ middle @
    [(''durationMs'', JNum (Fin duration)), (''detail'', JObj detail)]"

definition peer_name :: "resolution \<Rightarrow> js" where
  "peer_name r = (case rs_peer r of None \<Rightarrow> JUndef | Some a \<Rightarrow> ra_name a)"

definition peer_protocols :: "resolution \<Rightarrow> js" where
  "peer_protocols r = (case rs_peer r of None \<Rightarrow> JUndef | Some a \<Rightarrow> strs (ra_protocols a))"

definition not_registered :: "string \<Rightarrow> rat \<Rightarrow> discovery_result" where
  "not_registered type duration =
    failed (''Not registered with hub: '' @ no_registration) no_registration None []
      [outbound type ''failure'' duration [] [(''reason'', JStr no_registration)]]"

text \<open>\<open>self\<close> is the registered agent id, absent without a registration; \<open>hub\<close> answers a request.\<close>

definition performGenericHubMatch :: "(hub_request \<Rightarrow> fetch_reply) \<Rightarrow> rat \<Rightarrow> int option \<Rightarrow> string list \<Rightarrow> discovery_input \<Rightarrow>
    discovery_result" where
  "performGenericHubMatch hub duration self skills inp =
    (case self of
       None \<Rightarrow> not_registered ''match.failed'' duration
     | Some me \<Rightarrow>
        let op' = CreateMatch \<lparr>mp_skills = skills, mp_description = dv_description inp, mp_connectionMode = Some ''generic'',
              mp_preferOfficial = dv_preferOfficial inp, mp_targetAgentId = dv_targetAgentId inp,
              mp_targetClientId = dv_targetClientId inp\<rparr>;
            req = match_request me op'
        in (case match_reply op' (hub req) of
              Inl e \<Rightarrow> failed (''Failed to create generic Hub match: '' @ e) e None [req]
                [outbound ''match.failed'' ''failure'' duration []
                   [(''reason'', JStr e), (''skills'', strs skills), (''mode'', JStr ''generic'')]]
            | Inr mtch \<Rightarrow>
               let resolved = buildGenericMatchResolution mtch (JNum (Fin (of_int me))) ''generic_match''
               in \<lparr>dr_ok = True,
                   dr_text = ''Generic Hub match resolved: match='' @ js_text (get_prop mtch ''id'') @ newline @
                     formatResolvedHubAgent (rs_peer resolved),
                   dr_details = Resolution resolved, dr_requests = [req],
                   dr_history = [outbound ''match.resolved'' ''success'' duration
                      [(''matchId'', get_prop mtch ''id''), (''peer'', peer_name resolved)]
                      [(''mode'', JStr ''generic''), (''skills'', strs skills), (''description'', opt_str (dv_description inp)),
                       (''providerAgentId'', get_prop (get_prop mtch ''provider'') ''id''),
                       (''protocols'', peer_protocols resolved)]]\<rparr>))"

text \<open>The lookup a resolve performs: its request and what it yields, \<^const>\<open>None\<close> without a target.\<close>

definition resolve_lookup :: "(hub_request \<Rightarrow> fetch_reply) \<Rightarrow> int \<Rightarrow> discovery_input \<Rightarrow> (match_op \<times> (string + resolution option)) option" where
  "resolve_lookup hub me inp =
    (let run = (\<lambda>op'. match_reply op' (hub (match_request me op'))); self = JNum (Fin (of_int me)) in
     case dv_matchId inp of
       Some m \<Rightarrow> let op' = GetMatch m (Some me) in Some (op', case run op' of Inl e \<Rightarrow> Inl e
                   | Inr mtch \<Rightarrow> Inr (Some (buildGenericMatchResolution mtch self ''resolve'')))
     | None \<Rightarrow>
        (case dv_agentId inp of
           Some a \<Rightarrow> let op' = GetAgent a in Some (op', case run op' of Inl e \<Rightarrow> Inl e
                       | Inr agent \<Rightarrow> Inr (Some (buildAgentResolution agent self)))
         | None \<Rightarrow>
            if present (dv_clientId inp) then
              let op' = FindAgentByClientId (the (dv_clientId inp)) in Some (op', case run op' of Inl e \<Rightarrow> Inl e
                | Inr agent \<Rightarrow> Inr (if truthy agent then Some (buildAgentResolution agent self) else None))
            else None))"

definition resolveHubPeer :: "(hub_request \<Rightarrow> fetch_reply) \<Rightarrow> rat \<Rightarrow> int option \<Rightarrow> discovery_input \<Rightarrow> discovery_result" where
  "resolveHubPeer hub duration self inp =
    (if opt_default [] (dv_skills inp) \<noteq> [] then performGenericHubMatch hub duration self (the (dv_skills inp)) inp
     else case self of
       None \<Rightarrow> not_registered ''resolve.failed'' duration
     | Some me \<Rightarrow>
        (case resolve_lookup hub me inp of
           None \<Rightarrow> failed ''Provide matchId, agentId, clientId, or skills.'' ''resolve_target_required'' None [] []
         | Some (op', outcome) \<Rightarrow>
            (case outcome of
               Inl e \<Rightarrow> failed (''Failed to resolve Hub agent: '' @ e) e (dv_matchId inp) [match_request me op']
                 [outbound ''resolve.failed'' ''failure'' duration [(''matchId'', opt_num (dv_matchId inp))]
                    [(''reason'', JStr e), (''agentId'', opt_num (dv_agentId inp)), (''clientId'', opt_str (dv_clientId inp))]]
             | Inr None \<Rightarrow> failed (''No Hub agent found for clientId='' @ opt_default [] (dv_clientId inp)) ''agent_not_found'' None
                 [match_request me op'] []
             | Inr (Some resolved) \<Rightarrow>
                 \<lparr>dr_ok = True, dr_text = ''Hub agent resolved:'' @ newline @ formatResolvedHubAgent (rs_peer resolved),
                  dr_details = Resolution resolved, dr_requests = [match_request me op'],
                  dr_history = [outbound ''resolve.completed'' ''success'' duration
                     [(''matchId'', rs_matchId resolved), (''peer'', peer_name resolved)]
                     [(''agentId'', opt_num (dv_agentId inp)), (''clientId'', opt_str (dv_clientId inp)),
                      (''matchId'', opt_num (dv_matchId inp)), (''protocols'', peer_protocols resolved)]]\<rparr>)))"

section \<open>Facts\<close>

interpretation strings: dedupe_loop norm_js dedupeStrings
  by unfold_locales (simp_all split: option.splits)

lemma js_num_eq [simp]: "js_eq_id a (JNum (Fin q)) \<longleftrightarrow> a = JNum (Fin q)"
  by (auto simp: js_eq_id_def)

text \<open>In a match this agent takes part in, the sides are told apart by id before the hub's claim of
  a role is believed: the local side is this agent, the peer is the other side, and a match
  between two different agents never resolves to this agent as its own peer.\<close>

theorem peer_is_other_side:
  assumes "get_prop (get_prop mtch ''requester'') ''id'' = JNum (Fin q) \<or> get_prop (get_prop mtch ''provider'') ''id'' = JNum (Fin q)"
    and "get_prop (get_prop mtch ''requester'') ''id'' \<noteq> get_prop (get_prop mtch ''provider'') ''id''"
  shows "case selectLocalAndPeerAgents mtch (JNum (Fin q)) of (local, peer) \<Rightarrow>
     get_prop local ''id'' = JNum (Fin q) \<and> get_prop peer ''id'' \<noteq> JNum (Fin q) \<and>
     {local, peer} = {get_prop mtch ''requester'', get_prop mtch ''provider''}"
  using assms by (auto simp: selectLocalAndPeerAgents_def Let_def)

theorem peer_is_other_side_witness:
  "selectLocalAndPeerAgents (JObj [(''requester'', JObj [(''id'', JNum (Fin 1))]), (''provider'', JObj [(''id'', JNum (Fin 2))]),
      (''callerRole'', JStr ''requester'')]) (JNum (Fin 2)) =
     (JObj [(''id'', JNum (Fin 2))], JObj [(''id'', JNum (Fin 1))])"
  using peer_is_other_side [of "JObj [(''requester'', JObj [(''id'', JNum (Fin 1))]), (''provider'', JObj [(''id'', JNum (Fin 2))]),
      (''callerRole'', JStr ''requester'')]" 2]
  by (auto simp: selectLocalAndPeerAgents_def Let_def)

text \<open>A form-encoded text as the hub decodes it.\<close>

fun form_decode :: "string \<Rightarrow> string option" where
  "form_decode [] = Some []"
| "form_decode (c # s) =
    (if c = CHR ''+'' then map_option (Cons CHR '' '') (form_decode s)
     else if c \<noteq> CHR ''%'' then map_option (Cons c) (form_decode s)
     else (case s of
       a # b # s1 \<Rightarrow>
        (case hex_byte a b of
           None \<Rightarrow> None
         | Some n \<Rightarrow>
             if n < 128 then map_option (Cons (char_of n)) (form_decode s1)
             else (case s1 of
               p # a2 # b2 # s2 \<Rightarrow>
                 (case hex_byte a2 b2 of
                    None \<Rightarrow> None
                  | Some m \<Rightarrow> map_option (Cons (char_of ((n - 192) * 64 + (m - 128)))) (form_decode s2))
             | _ \<Rightarrow> None))
     | _ \<Rightarrow> None))"

lemma form_safe_plain: "form_safe c \<Longrightarrow> c \<noteq> CHR ''+'' \<and> c \<noteq> CHR ''%'' \<and> c \<noteq> CHR ''&'' \<and> c \<noteq> CHR ''=''"
  by (auto simp: form_safe_def Let_def)

lemma percent_char [simp]: "char_of (37 :: nat) = CHR ''%''"
  by code_simp

lemma form_decode_byte:
  "n < 128 \<Longrightarrow> form_decode (percent_byte n @ s) = map_option (Cons (char_of n)) (form_decode s)"
  using hex_byte_upper [of n] by (simp add: percent_byte_def)

lemma form_decode_bytes:
  assumes "128 \<le> n" "n < 256"
  shows "form_decode (percent_byte (192 + n div 64) @ percent_byte (128 + n mod 64) @ s) =
    map_option (Cons (char_of n)) (form_decode s)"
proof -
  have d: "n div 64 < 4" using assms(2) by linarith
  have b1: "hex_byte (hex_upper ((192 + n div 64) div 16)) (hex_upper ((192 + n div 64) mod 16)) = Some (192 + n div 64)"
    by (rule hex_byte_upper) (use d in linarith)
  have b2: "hex_byte (hex_upper ((128 + n mod 64) div 16)) (hex_upper ((128 + n mod 64) mod 16)) = Some (128 + n mod 64)"
    by (rule hex_byte_upper) (use mod_less_divisor [of 64 n] in linarith)
  have "n div 64 * 64 + n mod 64 = n" by simp
  then show ?thesis
    using b1 b2 by (simp add: percent_byte_def mult.commute)
qed

lemma form_decode_char: "form_decode (form_char c @ s) = map_option (Cons c) (form_decode s)"
proof -
  have lt: "(of_char c :: nat) < 256" by simp
  show ?thesis
    using form_safe_plain [of c] form_decode_byte [of "of_char c" s] form_decode_bytes [of "of_char c" s] lt
    by (auto simp: form_char_def Let_def)
qed

lemma form_decode_encode: "form_decode (form_encode s) = Some s"
  by (induction s) (simp_all add: form_encode_def form_decode_char)

lemma hex_upper_form: "d < 16 \<Longrightarrow> form_safe (hex_upper d)"
  by (auto simp: form_safe_def hex_upper_def Let_def)

lemma percent_byte_form: "n < 256 \<Longrightarrow> x \<in> set (percent_byte n) \<Longrightarrow> form_safe x \<or> x = CHR ''%''"
  by (auto simp: percent_byte_def hex_upper_form)

lemma form_encode_chars: "x \<in> set (form_encode s) \<Longrightarrow> x \<noteq> CHR ''&'' \<and> x \<noteq> CHR ''=''"
proof -
  assume "x \<in> set (form_encode s)"
  then obtain c where c: "x \<in> set (form_char c)" by (auto simp: form_encode_def)
  have lt: "(of_char c :: nat) < 256" by simp
  have "192 + (of_char c :: nat) div 64 < 256" using lt by linarith
  moreover have "128 + (of_char c :: nat) mod 64 < 256" using mod_less_divisor [of 64 "of_char c"] by linarith
  ultimately have "form_safe x \<or> x = CHR ''%'' \<or> x = CHR ''+''"
    using c lt by (auto simp: form_char_def Let_def split: if_splits dest!: percent_byte_form [rotated])
  then show ?thesis by (auto dest: form_safe_plain)
qed

lemma split_on_part: "d \<notin> set x \<Longrightarrow> split_on d (x @ d # y) = x # split_on d y"
  by (induction x) auto

lemma no_separator_split: "d \<notin> set x \<Longrightarrow> split_on d x = [x]"
  by (induction x) auto

lemma split_on_join: "xs \<noteq> [] \<Longrightarrow> \<forall>x \<in> set xs. d \<notin> set x \<Longrightarrow> split_on d (join [d] xs) = xs"
  by (induction "[d]" xs rule: join.induct) (auto simp: no_separator_split split_on_part)

definition parse_pair :: "string \<Rightarrow> (string \<times> string) option" where
  "parse_pair s = (case split_on CHR ''='' s of
     [k, v] \<Rightarrow> (case (form_decode k, form_decode v) of (Some a, Some b) \<Rightarrow> Some (a, b) | _ \<Rightarrow> None)
   | _ \<Rightarrow> None)"

definition parse_query :: "string \<Rightarrow> (string \<times> string) list" where
  "parse_query s = (if s = [] then [] else map the (map parse_pair (split_on CHR ''&'' (drop 1 s))))"

lemma parse_pair_encoded: "parse_pair (form_encode k @ ''='' @ form_encode v) = Some (k, v)"
proof -
  have "CHR ''='' \<notin> set (form_encode k)" "CHR ''='' \<notin> set (form_encode v)" using form_encode_chars by blast+
  then have "split_on CHR ''='' (form_encode k @ CHR ''='' # form_encode v) = [form_encode k, form_encode v]"
    by (simp add: split_on_part no_separator_split)
  then show ?thesis by (simp add: parse_pair_def form_decode_encode)
qed

text \<open>The query string of a list request decodes to exactly the filters that were given: white space,
  separators, percent signs and non-ASCII characters in a filter can neither be lost nor add or
  change another filter, and filters that are absent or blank are left out.\<close>

theorem query_roundtrip:
  "parse_query (queryString ps) = query_pairs ps"
proof (cases "query_pairs ps = []")
  case True
  then show ?thesis by (simp add: queryString_def parse_query_def)
next
  case False
  let ?xs = "map (\<lambda>(k, v). form_encode k @ ''='' @ form_encode v) (query_pairs ps)"
  have "CHR ''&'' \<notin> set (form_encode k @ ''='' @ form_encode v)" for k v
    using form_encode_chars [of _ k] form_encode_chars [of _ v] by auto
  then have "\<forall>x \<in> set ?xs. CHR ''&'' \<notin> set x" by (auto simp: case_prod_beta)
  moreover have "?xs \<noteq> []" using False by simp
  ultimately have "split_on CHR ''&'' (join ''&'' ?xs) = ?xs" by (rule split_on_join [rotated])
  moreover have "join ''&'' ?xs \<noteq> []"
    using \<open>?xs \<noteq> []\<close> by (rule join_nonempty) auto
  ultimately show ?thesis
    using map_idI [of "query_pairs ps" "\<lambda>p. the (parse_pair (form_encode (fst p) @ ''='' @ form_encode (snd p)))"]
      parse_pair_encoded
    by (simp add: queryString_def parse_query_def Let_def comp_def case_prod_beta)
qed

text \<open>A resolve sends at most one request, leaves at most one history entry, and fails without one only when
  no target was given or the hub knows no such client.\<close>

lemma resolve_reported:
  "let r = resolveHubPeer hub duration self inp in
     length (dr_requests r) \<le> 1 \<and> length (dr_history r) \<le> 1 \<and>
     (dr_ok r \<longleftrightarrow> (\<exists>x. dr_details r = Resolution x)) \<and>
     (dr_history r = [] \<longrightarrow> dr_details r \<in> {Failure ''resolve_target_required'' None, Failure ''agent_not_found'' None})"
proof -
  have gen: "let r = performGenericHubMatch hub duration self skills inp in
      length (dr_requests r) \<le> 1 \<and> length (dr_history r) = 1 \<and> (dr_ok r \<longleftrightarrow> (\<exists>x. dr_details r = Resolution x))" for skills
    by (simp add: performGenericHubMatch_def not_registered_def failed_def Let_def split: option.splits sum.splits)
  show ?thesis
    using gen [of "the (dv_skills inp)"]
    by (auto simp: resolveHubPeer_def not_registered_def failed_def Let_def split: option.splits sum.splits)
qed

end
