(* ===== verification/Config.thy ===== *)
theory Config
  imports HubClient RoutingRules SharedContext FileSecurity Queueing
begin

text \<open>
  The configuration of the plugin, \<open>index.ts\<close> lines 72 to 451: the readers that turn an
  unknown JSON value into a typed one with a fallback, and \<open>parseConfig\<close>. Parsing throws only
  while the configured skills are normalised, hence the option. \<open>os.homedir()\<close>,
  \<open>process.cwd()\<close> and the host's optional \<open>resolvePath\<close> are the fields of an environment.
\<close>

section \<open>Readers\<close>

definition jsonRpcError :: "js \<Rightarrow> int \<Rightarrow> string \<Rightarrow> js" where
  "jsonRpcError i code message = JObj [(''jsonrpc'', JStr ''2.0''), (''id'', i),
     (''error'', JObj [(''code'', JNum (Fin (of_int code))), (''message'', JStr message)])]"

definition jsonRpcResult :: "js \<Rightarrow> js \<Rightarrow> js" where
  "jsonRpcResult i result = JObj [(''jsonrpc'', JStr ''2.0''), (''id'', i), (''result'', result)]"

definition asObject_or_empty :: "js \<Rightarrow> js" where
  "asObject_or_empty v = (case v of JObj _ \<Rightarrow> v | JArr _ \<Rightarrow> v | _ \<Rightarrow> JObj [])"

definition asString_or :: "js \<Rightarrow> string \<Rightarrow> string" where
  "asString_or v fallback = (case v of JStr s \<Rightarrow> s | _ \<Rightarrow> fallback)"

definition asNumber_or :: "js \<Rightarrow> rat \<Rightarrow> rat" where
  "asNumber_or v fallback = (case v of JNum (Fin q) \<Rightarrow> q | _ \<Rightarrow> fallback)"

definition asBoolean_or :: "js \<Rightarrow> bool \<Rightarrow> bool" where
  "asBoolean_or v fallback = (case v of JBool b \<Rightarrow> b | _ \<Rightarrow> fallback)"

fun strings_of :: "js list \<Rightarrow> string list" where
  "strings_of [] = []"
| "strings_of (v # vs) = (case v of JStr s \<Rightarrow> s # strings_of vs | _ \<Rightarrow> strings_of vs)"

definition asStringArray :: "js \<Rightarrow> string list" where
  "asStringArray v = filter (\<lambda>s. s \<noteq> []) (map trim (strings_of (array_or_empty v)))"

definition asMetadata :: "js \<Rightarrow> js option" where
  "asMetadata v = (case v of JObj fs \<Rightarrow> if fs = [] then None else Some v | _ \<Rightarrow> None)"

definition SHARED_MESSAGE_KIND_NAMES :: "string list" where
  "SHARED_MESSAGE_KIND_NAMES = [''text'', ''markdown'', ''code'', ''diff'', ''status_update'', ''summary'', ''question'',
     ''decision'', ''blocker'', ''artifact_ref'']"

definition asOptionalString :: "js \<Rightarrow> string option" where
  "asOptionalString v = (let t = trim (asString_or v []) in if t = [] then None else Some t)"

definition asSharedMessageKind :: "js \<Rightarrow> string option" where
  "asSharedMessageKind v = (let kind = trim (asString_or v []) in
     if kind \<in> set SHARED_MESSAGE_KIND_NAMES then Some kind else None)"

definition meta_js :: "js option \<Rightarrow> js" where
  "meta_js v = opt_default JUndef v"

definition artifact_input :: "js \<Rightarrow> js" where
  "artifact_input entry = (let payload = asObject_or_empty entry in
     JObj [(''kind'', JStr (asString_or (get_prop payload ''kind'') [])),
       (''name'', opt_str (asOptionalString (get_prop payload ''name''))),
       (''uri'', opt_str (asOptionalString (get_prop payload ''uri''))),
       (''mimeType'', opt_str (asOptionalString (get_prop payload ''mimeType''))),
       (''digest'', opt_str (asOptionalString (get_prop payload ''digest''))),
       (''metadata'', meta_js (asMetadata (get_prop payload ''metadata'')))])"

definition asSharedArtifactInputs :: "js \<Rightarrow> js" where
  "asSharedArtifactInputs v = (case v of JArr xs \<Rightarrow> JArr (map artifact_input xs) | _ \<Rightarrow> JUndef)"

definition normalizeHttpPath :: "string \<Rightarrow> string \<Rightarrow> string" where
  "normalizeHttpPath v fallback = (let t = (if trim v = [] then fallback else trim v) in
     if starts_with t ''/'' then t else ''/'' @ t)"

text \<open>
  \<open>Number(text)\<close>: white space around is ignored, the empty text is 0, then a decimal literal
  with optional sign, fraction and exponent, or a hexadecimal, octal or binary integer.
  \<^const>\<open>None\<close> is \<open>NaN\<close> or an infinity, which the caller refuses alike.
\<close>

definition digits_value :: "nat \<Rightarrow> string \<Rightarrow> nat option" where
  "digits_value base s =
    (if s \<noteq> [] \<and> list_all (\<lambda>c. is_hex c \<and> hex_digit_value c < int base) s
     then Some (foldl (\<lambda>n c. base * n + nat (hex_digit_value c)) 0 s) else None)"

definition split_first :: "(char \<Rightarrow> bool) \<Rightarrow> string \<Rightarrow> string \<times> string option" where
  "split_first P s = (takeWhile (\<lambda>c. \<not> P c) s,
     (case dropWhile (\<lambda>c. \<not> P c) s of [] \<Rightarrow> None | _ # rest \<Rightarrow> Some rest))"

definition mantissa :: "string \<Rightarrow> rat option" where
  "mantissa s = (case split_first (\<lambda>c. c = CHR ''.'') s of
     (whole, None) \<Rightarrow> map_option rat_of_nat (digits_value 10 whole)
   | (whole, Some fr) \<Rightarrow>
       if whole = [] \<and> fr = [] then None
       else (case (digits_value 10 (''0'' @ whole), digits_value 10 (''0'' @ fr)) of
               (Some w, Some f) \<Rightarrow> Some (rat_of_nat w + rat_of_nat f / 10 ^ length fr)
             | _ \<Rightarrow> None))"

definition exponent :: "string \<Rightarrow> rat option" where
  "exponent s = (case s of
     CHR ''-'' # t \<Rightarrow> map_option (\<lambda>n. 1 / 10 ^ n) (digits_value 10 t)
   | CHR ''+'' # t \<Rightarrow> map_option (\<lambda>n. 10 ^ n) (digits_value 10 t)
   | _ \<Rightarrow> map_option (\<lambda>n. 10 ^ n) (digits_value 10 s))"

definition decimal_literal :: "string \<Rightarrow> rat option" where
  "decimal_literal s = (case split_first (\<lambda>c. c = CHR ''e'' \<or> c = CHR ''E'') s of
     (m, None) \<Rightarrow> mantissa m
   | (m, Some e) \<Rightarrow> (case (mantissa m, exponent e) of (Some q, Some r) \<Rightarrow> Some (q * r) | _ \<Rightarrow> None))"

definition js_number :: "string \<Rightarrow> rat option" where
  "js_number text = (let s = trim text; p = to_lower (take 2 s) in
     if s = [] then Some 0
     else if p = ''0x'' then map_option rat_of_nat (digits_value 16 (drop 2 s))
     else if p = ''0o'' then map_option rat_of_nat (digits_value 8 (drop 2 s))
     else if p = ''0b'' then map_option rat_of_nat (digits_value 2 (drop 2 s))
     else if take 1 s = ''-'' then map_option uminus (decimal_literal (drop 1 s))
     else if take 1 s = ''+'' then decimal_literal (drop 1 s)
     else decimal_literal s)"

definition positive_integer :: "rat \<Rightarrow> int option" where
  "positive_integer q = (if is_integer q \<and> 0 < q then Some \<lfloor>q\<rfloor> else None)"

definition asPositiveInteger :: "js \<Rightarrow> int option" where
  "asPositiveInteger v = (case v of
     JNum (Fin q) \<Rightarrow> positive_integer q
   | JStr s \<Rightarrow> if trim s = [] then None else Option.bind (js_number s) positive_integer
   | _ \<Rightarrow> None)"

section \<open>Paths\<close>

text \<open>
  \<open>path.normalize\<close>, \<open>path.join\<close> and \<open>path.resolve\<close> of the POSIX flavour; the accumulator of
  \<open>norm_segments\<close> is the stack of kept segments, innermost first.
\<close>

record path_env =
  pe_home :: string
  pe_cwd :: string
  pe_resolve :: "(string \<Rightarrow> string) option"

fun norm_segments :: "bool \<Rightarrow> string list \<Rightarrow> string list \<Rightarrow> string list" where
  "norm_segments up acc [] = rev acc"
| "norm_segments up acc (s # ss) =
     (if s = [] \<or> s = ''.'' then norm_segments up acc ss
      else if s = ''..'' then
        (case acc of
           a # rest \<Rightarrow> if a = ''..'' then norm_segments up (if up then s # acc else acc) ss
                       else norm_segments up rest ss
         | [] \<Rightarrow> norm_segments up (if up then [s] else []) ss)
      else norm_segments up (s # acc) ss)"

definition is_absolute :: "string \<Rightarrow> bool" where
  "is_absolute p = starts_with p ''/''"

definition path_normalize :: "string \<Rightarrow> string" where
  "path_normalize p =
    (if p = [] then ''.''
     else let body = join ''/'' (norm_segments (\<not> is_absolute p) [] (split_on CHR ''/'' p));
              trailing = ends_with p ''/''
          in if body = [] then (if is_absolute p then ''/'' else if trailing then ''./'' else ''.'')
             else (if is_absolute p then ''/'' else []) @ body @ (if trailing then ''/'' else []))"

definition path_join :: "string list \<Rightarrow> string" where
  "path_join parts = (let ps = filter (\<lambda>p. p \<noteq> []) parts in
     if ps = [] then ''.'' else path_normalize (join ''/'' ps))"

definition path_resolve :: "string \<Rightarrow> string \<Rightarrow> string" where
  "path_resolve cwd p =
    (let full = (if is_absolute p then p else cwd @ ''/'' @ p);
         body = join ''/'' (norm_segments (\<not> is_absolute full) [] (split_on CHR ''/'' full))
     in if is_absolute full then ''/'' @ body else if body = [] then ''.'' else body)"

definition resolveConfiguredPath :: "path_env \<Rightarrow> js \<Rightarrow> string \<Rightarrow> string" where
  "resolveConfiguredPath env v fallback =
    (let configured = (let t = trim (asString_or v []) in if t = [] then fallback else t);
         resolved = (case pe_resolve env of Some f \<Rightarrow> f configured | None \<Rightarrow> configured)
     in if is_absolute resolved then resolved else path_resolve (pe_cwd env) resolved)"

section \<open>The configured card, peers and endpoints\<close>

definition extractSkillsFromAgentCard :: "js \<Rightarrow> js list" where
  "extractSkillsFromAgentCard c =
    filter truthy (map (\<lambda>s. case s of JStr t \<Rightarrow> s | _ \<Rightarrow> coalesce (get_prop (asObject_or_empty s) ''name'') (JStr []))
      (array_or_empty (get_prop c ''skills'')))"

text \<open>
  The skill list as it arrives, unchecked: reading the name, the identifier or the description
  of an entry of another shape throws (\<^const>\<open>None\<close>). An entry whose name is empty or has been
  seen is skipped before its other members are read.
\<close>

definition raw_entry_name :: "js \<Rightarrow> string option" where
  "raw_entry_name e = (case e of
     JStr s \<Rightarrow> Some s
   | JObj fs \<Rightarrow> (case jprop ''name'' fs of JStr s \<Rightarrow> Some s | _ \<Rightarrow> None)
   | _ \<Rightarrow> None)"

definition raw_entry_id :: "js \<Rightarrow> string option option" where
  "raw_entry_id v = (if \<not> truthy v then Some None else (case v of JStr s \<Rightarrow> Some (Some s) | _ \<Rightarrow> None))"

definition raw_entry_description :: "js \<Rightarrow> string option option" where
  "raw_entry_description v = (if nullish v then Some None else (case v of JStr s \<Rightarrow> Some (Some s) | _ \<Rightarrow> None))"

definition raw_entry :: "js \<Rightarrow> skill_entry option" where
  "raw_entry e = (case e of
     JStr s \<Rightarrow> Some (SkillName s)
   | _ \<Rightarrow> (case (raw_entry_id (get_prop e ''id''), raw_entry_name e, raw_entry_description (get_prop e ''description'')) of
       (Some i, Some n, Some d) \<Rightarrow> Some (SkillObject \<lparr>sk_id = i, sk_name = n, sk_description = d\<rparr>)
     | _ \<Rightarrow> None))"

fun raw_skills_loop :: "string list \<Rightarrow> js list \<Rightarrow> skill_entry list option" where
  "raw_skills_loop seen [] = Some []"
| "raw_skills_loop seen (e # es) =
     (case raw_entry_name e of
        None \<Rightarrow> None
      | Some s \<Rightarrow>
          let n = normalizeConfiguredSkillName s in
          if n = [] \<or> n \<in> set seen then raw_skills_loop seen es
          else (case raw_entry e of
                  None \<Rightarrow> None
                | Some k \<Rightarrow> map_option (\<lambda>r. normalize_entry k # r) (raw_skills_loop (n # seen) es)))"

definition parse_skills :: "js \<Rightarrow> skill_entry list option" where
  "parse_skills raw = (case raw of
     JArr es \<Rightarrow> if es = [] then Some [chat_skill]
                else map_option (\<lambda>n. if n = [] then [chat_skill] else n) (raw_skills_loop [] es)
   | _ \<Rightarrow> Some [chat_skill])"

record agent_card_config =
  ag_name :: string
  ag_description :: string
  ag_url :: string
  ag_skills :: "skill_entry list"

definition parseAgentCard :: "js \<Rightarrow> agent_card_config option" where
  "parseAgentCard raw = map_option
    (\<lambda>skills. \<lparr>ag_name = asString_or (get_prop raw ''name'') ''OpenClaw A2A Gateway'',
       ag_description = asString_or (get_prop raw ''description'') ''A2A bridge for OpenClaw agents'',
       ag_url = asString_or (get_prop raw ''url'') [], ag_skills = skills\<rparr>)
    (parse_skills (get_prop raw ''skills''))"

definition parse_peer :: "js \<Rightarrow> peer_config option" where
  "parse_peer entry =
    (let v = asObject_or_empty entry;
         name = asString_or (get_prop v ''name'') [];
         agentCardUrl = asString_or (get_prop v ''agentCardUrl'') []
     in if name = [] \<or> agentCardUrl = [] then None
        else let authRaw = asObject_or_empty (get_prop v ''auth'');
                 authTypeRaw = asString_or (get_prop authRaw ''type'') [];
                 authType = (if authTypeRaw = ''bearer'' \<or> authTypeRaw = ''apiKey'' then authTypeRaw else []);
                 token = asString_or (get_prop authRaw ''token'') []
             in Some \<lparr>pc_name = name, pc_agentCardUrl = agentCardUrl,
                  pc_auth = (if authType \<noteq> [] \<and> token \<noteq> [] then Some (authType, token) else None)\<rparr>)"

definition parsePeers :: "js \<Rightarrow> peer_config list" where
  "parsePeers raw = List.map_filter parse_peer (array_or_empty raw)"

definition parseConnectionEndpoint :: "js \<Rightarrow> connection_endpoint option" where
  "parseConnectionEndpoint raw =
    (let v = asObject_or_empty raw;
         protocol = to_lower (trim (asString_or (get_prop v ''protocol'') []));
         transport = to_lower (trim (asString_or (get_prop v ''transport'') []));
         u = trim (asString_or (get_prop v ''url'') [])
     in if protocol = [] \<or> transport = [] \<or> u = [] then None
        else Some \<lparr>ce_protocol = protocol, ce_transport = transport, ce_url = u,
               ce_auth = asOptionalString (get_prop v ''auth''), ce_metadata = meta_js (asMetadata (get_prop v ''metadata''))\<rparr>)"

definition parseConnection :: "js \<Rightarrow> connection_config" where
  "parseConnection raw =
    \<lparr>cn_publishA2a = asBoolean_or (get_prop raw ''publishA2a'') True,
     cn_endpoints = List.map_filter parseConnectionEndpoint (array_or_empty (get_prop raw ''endpoints'')),
     cn_protocols = asStringArray (get_prop raw ''protocols''),
     cn_inputModes = asStringArray (get_prop raw ''inputModes''),
     cn_outputModes = asStringArray (get_prop raw ''outputModes''),
     cn_metadata = asMetadata (get_prop raw ''metadata'')\<rparr>"

section \<open>The gateway configuration\<close>

datatype auth_kind = NoAuth | BearerAuth

record server_config =
  sv_host :: string
  sv_port :: rat

record storage_config =
  st_tasksDir :: string
  st_taskTtlHours :: rat
  st_cleanupIntervalMinutes :: rat

record security_config =
  se_inboundAuth :: auth_kind
  se_token :: string
  se_tokens :: "string list"
  se_validTokens :: "string list"
  se_files :: file_security_config

record observability_config =
  ob_structuredLogs :: bool
  ob_exposeMetricsEndpoint :: bool
  ob_metricsPath :: string
  ob_metricsAuth :: auth_kind
  ob_auditLogPath :: string
  ob_historyEnabled :: bool
  ob_historyLogPath :: string
  ob_historyIncludeEncryptedPayloads :: bool

record shared_context_config =
  sx_enabled :: bool
  sx_storePath :: string
  sx_maxMessageChars :: int
  sx_maxMessagesPerRead :: int
  sx_httpEnabled :: bool
  sx_httpPath :: string

record health_check_config =
  hk_enabled :: bool
  hk_intervalMs :: rat
  hk_timeoutMs :: rat

record hub_config =
  hc_url :: string
  hc_enabled :: bool
  hc_registrationEnabled :: bool

record gateway_config =
  gw_agentCard :: agent_card_config
  gw_server :: server_config
  gw_storage :: storage_config
  gw_peers :: "peer_config list"
  gw_security :: security_config
  gw_defaultAgentId :: string
  gw_rules :: "routing_rule list"
  gw_maxConcurrentTasks :: int
  gw_maxQueuedTasks :: int
  gw_observability :: observability_config
  gw_sharedContext :: shared_context_config
  gw_agentResponseTimeoutMs :: rat
  gw_healthCheck :: health_check_config
  gw_retry :: retry_config
  gw_failureThreshold :: int
  gw_resetTimeoutMs :: rat
  gw_hub :: hub_config
  gw_registration :: registration_config
  gw_profile :: profile_config
  gw_autoSyncOnStartup :: bool
  gw_connection :: connection_config

text \<open>A JavaScript \<open>Set\<close> of strings: insertion order, no duplicates.\<close>

definition set_add :: "'a \<Rightarrow> 'a list \<Rightarrow> 'a list" where
  "set_add x xs = (if x \<in> set xs then xs else xs @ [x])"

definition set_of_list :: "'a list \<Rightarrow> 'a list" where
  "set_of_list xs = fold set_add xs []"

definition auth_kind_of :: "js \<Rightarrow> auth_kind" where
  "auth_kind_of v = (if asString_or v ''none'' = ''bearer'' then BearerAuth else NoAuth)"

definition default_mime_types :: "string list" where
  "default_mime_types = [''image/*'', ''application/pdf'', ''text/plain'', ''text/csv'', ''application/json'', ''audio/*'', ''video/*'']"

definition parse_security :: "js \<Rightarrow> security_config" where
  "parse_security s =
    (let singleToken = asString_or (get_prop s ''token'') [];
         tokenArray = filter (\<lambda>t. t \<noteq> []) (strings_of (array_or_empty (get_prop s ''tokens'')));
         rawAllowedMime = array_or_empty (get_prop s ''allowedMimeTypes'')
     in \<lparr>se_inboundAuth = auth_kind_of (get_prop s ''inboundAuth''), se_token = singleToken, se_tokens = tokenArray,
          se_validTokens = set_of_list (filter (\<lambda>t. t \<noteq> []) (singleToken # tokenArray)),
          se_files = \<lparr>fs_allowedMimeTypes = (if rawAllowedMime = [] then default_mime_types else strings_of rawAllowedMime),
            fs_maxFileSizeBytes = asNumber_or (get_prop s ''maxFileSizeBytes'') 52428800,
            fs_maxInlineFileSizeBytes = asNumber_or (get_prop s ''maxInlineFileSizeBytes'') 10485760,
            fs_fileUriAllowlist = strings_of (array_or_empty (get_prop s ''fileUriAllowlist''))\<rparr>\<rparr>)"

definition in_openclaw :: "path_env \<Rightarrow> string \<Rightarrow> string" where
  "in_openclaw env name = path_join [pe_home env, ''.openclaw'', name]"

definition parse_observability :: "path_env \<Rightarrow> js \<Rightarrow> observability_config" where
  "parse_observability env o' =
    \<lparr>ob_structuredLogs = asBoolean_or (get_prop o' ''structuredLogs'') True,
     ob_exposeMetricsEndpoint = asBoolean_or (get_prop o' ''exposeMetricsEndpoint'') True,
     ob_metricsPath = normalizeHttpPath (asString_or (get_prop o' ''metricsPath'') ''/a2a/metrics'') ''/a2a/metrics'',
     ob_metricsAuth = auth_kind_of (get_prop o' ''metricsAuth''),
     ob_auditLogPath = resolveConfiguredPath env (get_prop o' ''auditLogPath'') (in_openclaw env ''a2a-audit.jsonl''),
     ob_historyEnabled = asBoolean_or (get_prop o' ''historyEnabled'') True,
     ob_historyLogPath = resolveConfiguredPath env (get_prop o' ''historyLogPath'') (in_openclaw env ''a2a-history.jsonl''),
     ob_historyIncludeEncryptedPayloads = asBoolean_or (get_prop o' ''historyIncludeEncryptedPayloads'') False\<rparr>"

definition parse_shared_context :: "path_env \<Rightarrow> js \<Rightarrow> shared_context_config" where
  "parse_shared_context env s =
    \<lparr>sx_enabled = asBoolean_or (get_prop s ''enabled'') True,
     sx_storePath = resolveConfiguredPath env (get_prop s ''storePath'') (in_openclaw env ''claw-crony-shared-context.jsonl''),
     sx_maxMessageChars = max 1 \<lfloor>asNumber_or (get_prop s ''maxMessageChars'') 20000\<rfloor>,
     sx_maxMessagesPerRead = max 1 \<lfloor>asNumber_or (get_prop s ''maxMessagesPerRead'') 100\<rfloor>,
     sx_httpEnabled = asBoolean_or (get_prop s ''httpEnabled'') True,
     sx_httpPath = normalizeHttpPath (asString_or (get_prop s ''httpPath'') ''/openclaw/shared-context/jsonrpc'')
       ''/openclaw/shared-context/jsonrpc''\<rparr>"

definition parse_storage :: "path_env \<Rightarrow> js \<Rightarrow> storage_config" where
  "parse_storage env s =
    \<lparr>st_tasksDir = resolveConfiguredPath env (get_prop s ''tasksDir'') (in_openclaw env ''a2a-tasks''),
     st_taskTtlHours = max 1 (asNumber_or (get_prop s ''taskTtlHours'') 72),
     st_cleanupIntervalMinutes = max 1 (asNumber_or (get_prop s ''cleanupIntervalMinutes'') 60)\<rparr>"

definition parse_registration :: "js \<Rightarrow> registration_config" where
  "parse_registration r =
    \<lparr>rg_username = Some (asString_or (get_prop r ''username'') []), rg_email = Some (asString_or (get_prop r ''email'') []),
     rg_password = Some (asString_or (get_prop r ''password'') []), rg_clientId = Some (asString_or (get_prop r ''clientId'') [])\<rparr>"

definition parse_profile :: "js \<Rightarrow> profile_config" where
  "parse_profile p =
    \<lparr>pf_plazaEnabled = asBoolean_or (get_prop p ''plazaEnabled'') True,
     pf_displayName = Some (asString_or (get_prop p ''displayName'') []), pf_headline = Some (asString_or (get_prop p ''headline'') []),
     pf_bio = Some (asString_or (get_prop p ''bio'') []), pf_plazaMessage = Some (asString_or (get_prop p ''plazaMessage'') []),
     pf_contactHint = Some (asString_or (get_prop p ''contactHint'') [])\<rparr>"

definition parse_retry :: "js \<Rightarrow> retry_config" where
  "parse_retry r = \<lparr>rc_maxRetries = max 0 \<lfloor>asNumber_or (get_prop r ''maxRetries'') 3\<rfloor>,
     rc_baseDelayMs = asNumber_or (get_prop r ''baseDelayMs'') 1000, rc_maxDelayMs = asNumber_or (get_prop r ''maxDelayMs'') 10000\<rparr>"

definition parse_health_check :: "js \<Rightarrow> health_check_config" where
  "parse_health_check h = \<lparr>hk_enabled = asBoolean_or (get_prop h ''enabled'') True,
     hk_intervalMs = asNumber_or (get_prop h ''intervalMs'') 30000, hk_timeoutMs = asNumber_or (get_prop h ''timeoutMs'') 5000\<rparr>"

definition parse_hub :: "js \<Rightarrow> hub_config" where
  "parse_hub h = \<lparr>hc_url = asString_or (get_prop h ''url'') ''https://www.clawcrony.com'',
     hc_enabled = asBoolean_or (get_prop h ''enabled'') True,
     hc_registrationEnabled = asBoolean_or (get_prop h ''registrationEnabled'') True\<rparr>"

definition parseConfig :: "path_env \<Rightarrow> js \<Rightarrow> gateway_config option" where
  "parseConfig env raw =
    (let config = asObject_or_empty raw;
         obj = (\<lambda>k. asObject_or_empty (get_prop config k));
         sub = (\<lambda>k. asObject_or_empty (get_prop (obj ''resilience'') k))
     in map_option (\<lambda>card.
          \<lparr>gw_agentCard = card,
           gw_server = \<lparr>sv_host = asString_or (get_prop (obj ''server'') ''host'') ''0.0.0.0'',
             sv_port = asNumber_or (get_prop (obj ''server'') ''port'') 18800\<rparr>,
           gw_storage = parse_storage env (obj ''storage''),
           gw_peers = parsePeers (get_prop config ''peers''),
           gw_security = parse_security (obj ''security''),
           gw_defaultAgentId = asString_or (get_prop (obj ''routing'') ''defaultAgentId'') ''default'',
           gw_rules = parseRoutingRules (get_prop (obj ''routing'') ''rules''),
           gw_maxConcurrentTasks = max 1 \<lfloor>asNumber_or (get_prop (obj ''limits'') ''maxConcurrentTasks'') 4\<rfloor>,
           gw_maxQueuedTasks = max 0 \<lfloor>asNumber_or (get_prop (obj ''limits'') ''maxQueuedTasks'') 100\<rfloor>,
           gw_observability = parse_observability env (obj ''observability''),
           gw_sharedContext = parse_shared_context env (obj ''sharedContext''),
           gw_agentResponseTimeoutMs = asNumber_or (get_prop (obj ''timeouts'') ''agentResponseTimeoutMs'') 300000,
           gw_healthCheck = parse_health_check (sub ''healthCheck''),
           gw_retry = parse_retry (sub ''retry''),
           gw_failureThreshold = max 1 \<lfloor>asNumber_or (get_prop (sub ''circuitBreaker'') ''failureThreshold'') 5\<rfloor>,
           gw_resetTimeoutMs = asNumber_or (get_prop (sub ''circuitBreaker'') ''resetTimeoutMs'') 30000,
           gw_hub = parse_hub (obj ''hub''),
           gw_registration = parse_registration (obj ''registration''),
           gw_profile = parse_profile (obj ''profile''),
           gw_autoSyncOnStartup = asBoolean_or (get_prop (obj ''profile'') ''autoSyncOnStartup'') True,
           gw_connection = parseConnection (obj ''connection'')\<rparr>)
        (parseAgentCard (obj ''agentCard'')))"

section \<open>Every configuration is well formed\<close>

definition peer_config_ok :: "peer_config \<Rightarrow> bool" where
  "peer_config_ok p \<longleftrightarrow> pc_name p \<noteq> [] \<and> pc_agentCardUrl p \<noteq> [] \<and>
     (case pc_auth p of None \<Rightarrow> True | Some (t, token) \<Rightarrow> t \<in> {''bearer'', ''apiKey''} \<and> token \<noteq> [])"

definition clean_texts :: "string list \<Rightarrow> bool" where
  "clean_texts xs = list_all (\<lambda>s. s \<noteq> [] \<and> trim s = s) xs"

definition endpoint_config_ok :: "connection_endpoint \<Rightarrow> bool" where
  "endpoint_config_ok e \<longleftrightarrow> clean_texts [ce_protocol e, ce_transport e, ce_url e] \<and>
     to_lower (ce_protocol e) = ce_protocol e \<and> to_lower (ce_transport e) = ce_transport e \<and>
     (case ce_auth e of None \<Rightarrow> True | Some a \<Rightarrow> clean_texts [a]) \<and>
     (ce_metadata e = JUndef \<or> asMetadata (ce_metadata e) = Some (ce_metadata e))"

definition connection_config_ok :: "connection_config \<Rightarrow> bool" where
  "connection_config_ok c \<longleftrightarrow> list_all endpoint_config_ok (cn_endpoints c) \<and> clean_texts (cn_protocols c) \<and>
     clean_texts (cn_inputModes c) \<and> clean_texts (cn_outputModes c)"

definition security_config_ok :: "security_config \<Rightarrow> bool" where
  "security_config_ok s \<longleftrightarrow> distinct (se_validTokens s) \<and> [] \<notin> set (se_validTokens s) \<and> [] \<notin> set (se_tokens s) \<and>
     set (se_validTokens s) = set (se_token s # se_tokens s) - {[]}"

definition skills_ok :: "skill_entry list \<Rightarrow> bool" where
  "skills_ok ks \<longleftrightarrow> ks \<noteq> [] \<and> distinct (map entry_name ks) \<and>
     list_all (\<lambda>k. entry_name k \<noteq> [] \<and> normalizeConfiguredSkillName (entry_name k) = entry_name k) ks"

definition paths_ok :: "gateway_config \<Rightarrow> bool" where
  "paths_ok c \<longleftrightarrow> list_all is_absolute [st_tasksDir (gw_storage c), ob_auditLogPath (gw_observability c),
     ob_historyLogPath (gw_observability c), sx_storePath (gw_sharedContext c)] \<and>
     starts_with (ob_metricsPath (gw_observability c)) ''/'' \<and> starts_with (sx_httpPath (gw_sharedContext c)) ''/''"

definition numbers_ok :: "gateway_config \<Rightarrow> bool" where
  "numbers_ok c \<longleftrightarrow> 1 \<le> st_taskTtlHours (gw_storage c) \<and> 1 \<le> st_cleanupIntervalMinutes (gw_storage c) \<and>
     1 \<le> gw_maxConcurrentTasks c \<and> 0 \<le> gw_maxQueuedTasks c \<and> 1 \<le> sx_maxMessageChars (gw_sharedContext c) \<and>
     1 \<le> sx_maxMessagesPerRead (gw_sharedContext c) \<and> 0 \<le> rc_maxRetries (gw_retry c) \<and> 1 \<le> gw_failureThreshold c"

definition config_ok :: "gateway_config \<Rightarrow> bool" where
  "config_ok c \<longleftrightarrow> numbers_ok c \<and> paths_ok c \<and> skills_ok (ag_skills (gw_agentCard c)) \<and>
     list_all peer_config_ok (gw_peers c) \<and> security_config_ok (gw_security c) \<and>
     list_all rule_ok (gw_rules c) \<and> sorted (map (\<lambda>r. - rl_priority r) (gw_rules c)) \<and>
     connection_config_ok (gw_connection c)"

lemmas config_ok_defs [model_defs] = config_ok_def numbers_ok_def paths_ok_def parseConfig_def Let_def

lemma set_of_list_spec: "set (set_of_list xs) = set xs \<and> distinct (set_of_list xs)"
proof -
  have "set (fold set_add xs ys) = set ys \<union> set xs \<and> (distinct ys \<longrightarrow> distinct (fold set_add xs ys))" for ys
    by (induction xs arbitrary: ys) (auto simp: set_add_def)
  then show ?thesis by (simp add: set_of_list_def)
qed

lemma list_all_map_filter: "(\<And>x y. f x = Some y \<Longrightarrow> P y) \<Longrightarrow> list_all P (List.map_filter f xs)"
  by (induction xs) (auto simp: map_filter_simps split: option.splits)

lemma asOptionalString_clean: "asOptionalString v = Some a \<Longrightarrow> clean_texts [a]"
  by (auto simp: asOptionalString_def clean_texts_def Let_def split: if_splits)

lemma asMetadata_fixed: "asMetadata v = Some m \<Longrightarrow> asMetadata m = Some m"
  by (auto simp: asMetadata_def split: js.splits if_splits)

lemma asStringArray_clean [inv_intros]: "clean_texts (asStringArray v)"
  by (auto simp: asStringArray_def clean_texts_def list_all_iff)

lemma parse_peer_ok: "parse_peer v = Some p \<Longrightarrow> peer_config_ok p"
  by (auto simp: parse_peer_def peer_config_ok_def Let_def split: if_splits)

lemma parsePeers_ok [inv_intros]: "list_all peer_config_ok (parsePeers v)"
  unfolding parsePeers_def by (rule list_all_map_filter) (rule parse_peer_ok)

lemma endpoint_ok:
  assumes "parseConnectionEndpoint v = Some e"
  shows "endpoint_config_ok e"
proof -
  let ?v = "asObject_or_empty v"
  let ?m = "asMetadata (get_prop ?v ''metadata'')"
  have "case asOptionalString w of None \<Rightarrow> True | Some a \<Rightarrow> clean_texts [a]" for w
    using asOptionalString_clean by (auto split: option.splits)
  moreover have "meta_js ?m = JUndef \<or> asMetadata (meta_js ?m) = Some (meta_js ?m)"
    by (cases ?m) (auto simp: meta_js_def dest: asMetadata_fixed)
  ultimately show ?thesis
    using assms by (auto simp: parseConnectionEndpoint_def endpoint_config_ok_def clean_texts_def Let_def trim_to_lower
        split: if_splits simp del: not_None_eq)
qed

lemma parseConnection_ok [inv_intros]: "connection_config_ok (parseConnection v)"
  by (simp add: parseConnection_def connection_config_ok_def asStringArray_clean list_all_map_filter endpoint_ok)

lemma parse_security_ok [inv_intros]: "security_config_ok (parse_security v)"
  by (auto simp: parse_security_def security_config_ok_def Let_def set_of_list_spec)

lemma parse_rules_ok [inv_intros]: "list_all rule_ok (parseRoutingRules v)"
  by (auto simp: parseRoutingRules_def list_all_iff map_filter_mem parse_rule_ok split: js.splits)

lemma parse_rules_sorted [inv_intros]: "sorted (map (\<lambda>r. - rl_priority r) (parseRoutingRules v))"
  by (simp add: parseRoutingRules_def split: js.splits)

lemma resolved_absolute [inv_intros]: "is_absolute (pe_cwd env) \<Longrightarrow> is_absolute (resolveConfiguredPath env v d)"
  by (auto simp: resolveConfiguredPath_def path_resolve_def is_absolute_def Let_def starts_with_iff)

lemma http_path_slash [inv_intros]: "starts_with (normalizeHttpPath v d) ''/''"
  by (auto simp: normalizeHttpPath_def Let_def starts_with_iff)

lemma raw_entry_name_entry: "raw_entry e = Some k \<Longrightarrow> raw_entry_name e = Some (entry_name k)"
  by (auto simp: raw_entry_def raw_entry_name_def entry_name_def split: js.splits option.splits)

lemma raw_skills_decoded:
  "map raw_entry es = map Some ks \<Longrightarrow> raw_skills_loop seen es = Some (skills_loop seen ks)"
proof (induction es arbitrary: seen ks)
  case (Cons e es)
  then obtain k ks' where "ks = k # ks'" "raw_entry e = Some k" "map raw_entry es = map Some ks'"
    by (cases ks) auto
  with Cons.IH show ?case by (simp add: Let_def raw_entry_name_entry)
qed simp

lemma raw_skills_subset:
  "raw_skills_loop seen es = Some ns \<Longrightarrow> \<exists>ks. ns = skills_loop seen ks"
proof (induction es arbitrary: seen ns)
  case Nil
  then show ?case by (auto intro: exI [of _ "[]"])
next
  case (Cons e es)
  from Cons.prems obtain s where s: "raw_entry_name e = Some s" by (auto split: option.splits)
  let ?n = "normalizeConfiguredSkillName s"
  show ?case
  proof (cases "?n = [] \<or> ?n \<in> set seen")
    case True
    with Cons s show ?thesis by (auto simp: Let_def)
  next
    case False
    with Cons.prems s obtain k r where k: "raw_entry e = Some k" "raw_skills_loop (?n # seen) es = Some r"
      "ns = normalize_entry k # r" by (auto simp: Let_def split: option.splits)
    with Cons.IH obtain ks where "r = skills_loop (?n # seen) ks" by blast
    with k s False have "ns = skills_loop seen (k # ks)" by (simp add: Let_def raw_entry_name_entry)
    then show ?thesis by blast
  qed
qed

lemma normalizeAgentCardSkills_some:
  "normalizeAgentCardSkills (Some es) = (if skills_loop [] es = [] then [chat_skill] else skills_loop [] es)"
  by (auto simp: normalizeAgentCardSkills_def Let_def)

lemma skills_loop_fixed:
  "k \<in> set (skills_loop seen es) \<Longrightarrow> normalizeConfiguredSkillName (entry_name k) = entry_name k"
  by (induction es arbitrary: seen)
     (auto simp: Let_def entry_name_normalize skill_name_normal_form split: if_splits)

lemma chat_name: "entry_name chat_skill = ''chat'' \<and> normalizeConfiguredSkillName ''chat'' = ''chat''"
  by (simp add: chat_skill_def entry_name_def normalizeConfiguredSkillName_def trim_def to_lower_def lower_char_def
      is_js_space_def is_separator_def Let_def)

lemma parse_skills_form: "parse_skills raw = Some ks \<Longrightarrow> ks = [chat_skill] \<or> (\<exists>es. ks = skills_loop [] es \<and> ks \<noteq> [])"
  by (auto simp: parse_skills_def Let_def split: js.splits if_splits dest!: raw_skills_subset)

lemma parse_skills_ok [inv_intros]: "parse_skills raw = Some ks \<Longrightarrow> skills_ok ks"
proof -
  assume "parse_skills raw = Some ks"
  then consider "ks = [chat_skill]" | es where "ks = skills_loop [] es" "ks \<noteq> []" using parse_skills_form by blast
  then show ?thesis
  proof cases
    case (2 es)
    then have "[] \<notin> entry_name ` set ks" using skills_loop_names [of "[]" es] by simp
    then have "entry_name k \<noteq> []" if "k \<in> set ks" for k using that by (metis image_eqI)
    then show ?thesis using 2 skills_loop_names [of "[]" es] by (simp add: skills_ok_def list_all_iff skills_loop_fixed)
  qed (simp add: skills_ok_def chat_name)
qed

lemma skills_of_config:
  "parseConfig env raw = Some c \<Longrightarrow> skills_ok (ag_skills (gw_agentCard c))"
  by (auto simp: parseConfig_def parseAgentCard_def Let_def intro: parse_skills_ok)

lemma numbers_of_config: "parseConfig env raw = Some c \<Longrightarrow> numbers_ok c"
  by (auto simp: parseConfig_def numbers_ok_def Let_def parse_storage_def parse_shared_context_def parse_retry_def)

text \<open>C15. Whatever JSON value the user supplies, a configuration that parses has the shape the rest
  of the plugin relies on: intervals, limits, retries and thresholds within their bounds, absolute
  files and rooted HTTP paths, at least one skill, skills with distinct normalised names, peers with
  a name, a URL and complete credentials, the valid tokens exactly the configured non-empty ones,
  valid rules in priority order and trimmed endpoints.\<close>

theorem parseConfig_well_formed:
  assumes "parseConfig env raw = Some c" "is_absolute (pe_cwd env)"
  shows "config_ok c"
proof -
  have "skills_ok (ag_skills (gw_agentCard c))" using assms(1) by (rule skills_of_config)
  moreover have "numbers_ok c" using assms(1) by (rule numbers_of_config)
  moreover have "paths_ok c"
    using assms by (auto simp: parseConfig_def paths_ok_def Let_def parse_storage_def parse_observability_def
        parse_shared_context_def intro: inv_intros)
  ultimately show ?thesis
    using assms(1) by (auto simp: config_ok_def parseConfig_def Let_def intro: inv_intros)
qed

definition demo_env :: path_env where
  "demo_env = \<lparr>pe_home = ''/home/u'', pe_cwd = ''/srv'', pe_resolve = None\<rparr>"

theorem parseConfig_well_formed_witness:
  "(case parseConfig demo_env JUndef of None \<Rightarrow> False | Some c \<Rightarrow> config_ok c)"
proof -
  have "parse_skills JUndef = Some [chat_skill]" by (simp add: parse_skills_def)
  then obtain c where c: "parseConfig demo_env JUndef = Some c"
    by (auto simp: parseConfig_def parseAgentCard_def asObject_or_empty_def Let_def)
  then have "config_ok c"
    by (rule parseConfig_well_formed) (simp add: demo_env_def is_absolute_def starts_with_def)
  with c show ?thesis by simp
qed

text \<open>Skills are the one place where parsing is not total: when every entry is a text or an object
  whose name (and, if present, identifier and description) are texts, the skills are the normalised
  list, but one entry without a textual name, anywhere in the list, makes \<open>parseConfig\<close> throw and
  with it the registration of the whole plugin, whatever the rest of the configuration says.\<close>

theorem parseConfig_skills:
  "(map raw_entry es = map Some ks \<longrightarrow>
     map_option (\<lambda>c. ag_skills (gw_agentCard c)) (parseConfig env (JObj ((''agentCard'', JObj ((''skills'', JArr es) # fs)) # rest)))
       = Some (normalizeAgentCardSkills (Some ks))) \<and>
   (e \<in> set es \<and> raw_entry_name e = None \<longrightarrow>
     parseConfig env (JObj ((''agentCard'', JObj ((''skills'', JArr es) # fs)) # rest)) = None)"
proof -
  let ?raw = "JObj ((''agentCard'', JObj ((''skills'', JArr es) # fs)) # rest)"
  have skills: "map_option (\<lambda>c. ag_skills (gw_agentCard c)) (parseConfig env ?raw) = parse_skills (JArr es)"
    by (simp add: parseConfig_def parseAgentCard_def Let_def asObject_or_empty_def option.map_comp comp_def option.map_ident)
  have "raw_skills_loop seen es = None" if "e \<in> set es" "raw_entry_name e = None" for seen
    using that by (induction es arbitrary: seen) (auto simp: Let_def split: option.splits)
  then have "parse_skills (JArr es) = None" if "e \<in> set es" "raw_entry_name e = None"
    using that by (auto simp: parse_skills_def)
  moreover have "parse_skills (JArr es) = Some (normalizeAgentCardSkills (Some ks))" if "map raw_entry es = map Some ks"
    using that raw_skills_decoded [OF that, of "[]"]
    by (cases "es = []") (auto simp: parse_skills_def normalizeAgentCardSkills_some)
  ultimately show ?thesis
    using skills by (auto simp: map_option_is_None)
qed

theorem parseConfig_skills_witness:
  "parseConfig demo_env (JObj [(''agentCard'', JObj [(''skills'', JArr [JStr ''chat'', JObj [(''id'', JStr ''x'')]])])]) = None"
  using parseConfig_skills [of "[JStr ''chat'', JObj [(''id'', JStr ''x'')]]" "[]" demo_env "[]" "[]" "JObj [(''id'', JStr ''x'')]"]
  by (simp add: raw_entry_name_def)

end
