(* ===== verification/SensitiveScan.thy ===== *)
theory SensitiveScan
  imports Config
begin

text \<open>
  The local check for sensitive data of \<open>src/official-agent-call.ts\<close>. Strings hold code units up to 255,
  so the parts of the patterns that need other characters (Chinese words and addresses) are parameters;
  the other patterns are written out. \<open>Object.entries\<close> is taken in the order of the members.
\<close>

section \<open>Patterns\<close>

record cjk_patterns =
  pt_payment :: "string \<Rightarrow> bool"
  pt_order :: "string \<Rightarrow> bool"
  pt_address :: "string \<Rightarrow> bool"

definition mentions :: "string list \<Rightarrow> string \<Rightarrow> bool" where
  "mentions ws s = list_ex (str_includes (to_lower s)) ws"

definition SENSITIVE_KEY_RE :: "string \<Rightarrow> bool" where
  "SENSITIVE_KEY_RE s = mentions [''token'', ''authorization'', ''cookie'', ''session'', ''secret'', ''password'',
     ''apikey'', ''api_key'', ''api-key''] s"

definition digit_char :: "char \<Rightarrow> bool" where
  "digit_char c = (c \<in> set ''0123456789'')"

definition phone_at :: "string \<Rightarrow> bool" where
  "phone_at s = (case s of a # b # rest \<Rightarrow> a = CHR ''1'' \<and> b \<in> set ''3456789'' \<and> length (takeWhile digit_char rest) = 9 | _ \<Rightarrow> False)"

fun phone_in :: "bool \<Rightarrow> string \<Rightarrow> bool" where
  "phone_in after_digit [] = False"
| "phone_in after_digit (c # cs) = (\<not> after_digit \<and> phone_at (c # cs) \<or> phone_in (digit_char c) cs)"

definition PHONE_RE :: "string \<Rightarrow> bool" where
  "PHONE_RE s = phone_in False s"

definition PAYMENT_RE :: "cjk_patterns \<Rightarrow> string \<Rightarrow> bool" where
  "PAYMENT_RE cp s = (mentions [''pay.weixin'', ''alipay'', ''payment'', ''qrcode'', ''qr_code'', ''qr-code''] s \<or> pt_payment cp s)"

definition ORDER_ID_KEY_RE :: "cjk_patterns \<Rightarrow> string \<Rightarrow> bool" where
  "ORDER_ID_KEY_RE cp s = (mentions [''orderid'', ''order_id'', ''order-id''] s \<or> pt_order cp s)"

definition ADDRESS_RE :: "cjk_patterns \<Rightarrow> string \<Rightarrow> bool" where
  "ADDRESS_RE cp s = pt_address cp s"

definition INTERNAL_RE :: "string \<Rightarrow> bool" where
  "INTERNAL_RE s = mentions [''internal'', ''apipayload'', ''api_payload''] s"

definition normalizeIdentifier :: "string \<Rightarrow> string" where
  "normalizeIdentifier s = filter (\<lambda>c. c \<in> set ''abcdefghijklmnopqrstuvwxyz0123456789'') (to_lower s)"

section \<open>Findings\<close>

record finding =
  sf_type :: string
  sf_message :: string
  sf_path :: string

definition finding_if :: "bool \<Rightarrow> string \<Rightarrow> string \<Rightarrow> string \<Rightarrow> finding list" where
  "finding_if b ty message path = (if b then [\<lparr>sf_type = ty, sf_message = message, sf_path = path\<rparr>] else [])"

text \<open>Which names a policy must contain for a rule to apply; without any policy the general rules apply.\<close>

definition rule_applies :: "string list \<Rightarrow> string list \<Rightarrow> bool" where
  "rule_applies forbidden names \<longleftrightarrow> forbidden = [] \<or> (\<exists>n \<in> set names. n \<in> set forbidden)"

definition policy_names :: "string list \<Rightarrow> string list \<Rightarrow> bool" where
  "policy_names forbidden names \<longleftrightarrow> (\<exists>n \<in> set names. n \<in> set forbidden)"

definition scanText :: "cjk_patterns \<Rightarrow> string list \<Rightarrow> string \<Rightarrow> string \<Rightarrow> finding list" where
  "scanText cp forbidden path t =
    finding_if (rule_applies forbidden [''full_phone_number'', ''rider_phone''] \<and> PHONE_RE t)
      ''full_phone_number'' ''Text appears to contain a full phone number.'' path @
    finding_if (rule_applies forbidden [''payment_link'', ''payment_qr_code''] \<and> PAYMENT_RE cp t)
      ''payment_info'' ''Text appears to contain payment or QR-code information.'' path @
    finding_if (policy_names forbidden [''order_id'', ''waybill_id''] \<and> ORDER_ID_KEY_RE cp t)
      ''order_id'' ''Text appears to contain an order or waybill identifier.'' path @
    finding_if (rule_applies forbidden [''full_address''] \<and> ADDRESS_RE cp t)
      ''full_address'' ''Text appears to contain a detailed address.'' path"

definition forbidden_key :: "string \<Rightarrow> string \<Rightarrow> bool" where
  "forbidden_key key entry \<longleftrightarrow> normalizeIdentifier entry \<noteq> [] \<and> str_includes (normalizeIdentifier key) (normalizeIdentifier entry)"

definition scanKey :: "cjk_patterns \<Rightarrow> string list \<Rightarrow> string \<Rightarrow> string \<Rightarrow> finding list" where
  "scanKey cp forbidden path key =
    concat (map (\<lambda>entry. finding_if (forbidden_key key entry) entry
      ''Input or output key matches an official agent forbidden field.'' path) forbidden) @
    finding_if (rule_applies forbidden [''tencent_token'', ''token''] \<and> SENSITIVE_KEY_RE key)
      ''secret_key'' ''Input key appears to contain a token, cookie, session, or secret.'' path @
    finding_if (policy_names forbidden [''order_id'', ''waybill_id''] \<and> ORDER_ID_KEY_RE cp key)
      ''order_id'' ''Input key appears to contain an order or waybill identifier.'' path @
    finding_if (policy_names forbidden [''internal_api_payload''] \<and> INTERNAL_RE key)
      ''internal_api_payload'' ''Input key appears to contain internal API payload data.'' path"

definition index_path :: "string \<Rightarrow> nat \<Rightarrow> string" where
  "index_path path i = path @ ''['' @ show_nat i @ '']''"

definition key_path :: "string \<Rightarrow> string \<Rightarrow> string" where
  "key_path path key = (if path = [] then key else path @ ''.'' @ key)"

fun scanValue :: "cjk_patterns \<Rightarrow> string list \<Rightarrow> string \<Rightarrow> js \<Rightarrow> finding list"
and scan_elements :: "cjk_patterns \<Rightarrow> string list \<Rightarrow> string \<Rightarrow> nat \<Rightarrow> js list \<Rightarrow> finding list"
and scan_members :: "cjk_patterns \<Rightarrow> string list \<Rightarrow> string \<Rightarrow> (string \<times> js) list \<Rightarrow> finding list" where
  "scanValue cp forbidden path (JStr s) = scanText cp forbidden path s"
| "scanValue cp forbidden path (JArr xs) = scan_elements cp forbidden path 0 xs"
| "scanValue cp forbidden path (JObj fs) = scan_members cp forbidden path fs"
| "scanValue cp forbidden path JUndef = []"
| "scanValue cp forbidden path JNull = []"
| "scanValue cp forbidden path (JBool b) = []"
| "scanValue cp forbidden path (JNum n) = []"
| "scan_elements cp forbidden path i [] = []"
| "scan_elements cp forbidden path i (x # xs) =
     scanValue cp forbidden (index_path path i) x @ scan_elements cp forbidden path (Suc i) xs"
| "scan_members cp forbidden path [] = []"
| "scan_members cp forbidden path ((k, v) # fs) =
     scanKey cp forbidden (key_path path k) k @ scanValue cp forbidden (key_path path k) v @ scan_members cp forbidden path fs"

definition finding_key :: "finding \<Rightarrow> string" where
  "finding_key f = sf_type f @ '':'' @ sf_path f @ '':'' @ sf_message f"

fun unique_loop :: "string list \<Rightarrow> finding list \<Rightarrow> finding list" where
  "unique_loop seen [] = []"
| "unique_loop seen (f # fs) =
     (if finding_key f \<in> set seen then unique_loop seen fs else f # unique_loop (finding_key f # seen) fs)"

definition uniqueFindings :: "finding list \<Rightarrow> finding list" where
  "uniqueFindings fs = unique_loop [] fs"

text \<open>The forbidden names: trimmed, in lower case, without blanks, each once.\<close>

definition forbidden_set :: "string list \<Rightarrow> string list" where
  "forbidden_set entries = set_of_list (filter (\<lambda>e. e \<noteq> []) (map (\<lambda>e. to_lower (trim e)) entries))"

definition detectSensitiveOfficialAgentInput :: "cjk_patterns \<Rightarrow> js \<Rightarrow> string list \<Rightarrow> finding list" where
  "detectSensitiveOfficialAgentInput cp v entries = uniqueFindings (scanValue cp (forbidden_set entries) [] v)"

definition policy_of :: "js \<Rightarrow> string \<Rightarrow> js" where
  "policy_of agent k = (case get_prop (get_prop agent ''capabilityManifest'') k of JObj fs \<Rightarrow> JObj fs | _ \<Rightarrow> JNull)"

definition forbiddenList :: "js \<Rightarrow> string \<Rightarrow> string list" where
  "forbiddenList agent policyKey = (case get_prop (policy_of agent policyKey) ''forbidden'' of
     JArr xs \<Rightarrow> filter (\<lambda>s. trim s \<noteq> []) (strings_of xs) | _ \<Rightarrow> [])"

section \<open>What is found\<close>

text \<open>The texts and the keys of a value, at any depth.\<close>

fun texts_in :: "js \<Rightarrow> string list"
and keys_in :: "js \<Rightarrow> string list" where
  "texts_in (JStr s) = [s]"
| "texts_in (JArr xs) = concat (map texts_in xs)"
| "texts_in (JObj fs) = concat (map (\<lambda>(k, v). texts_in v) fs)"
| "texts_in v = []"
| "keys_in (JArr xs) = concat (map keys_in xs)"
| "keys_in (JObj fs) = concat (map (\<lambda>(k, v). k # keys_in v) fs)"
| "keys_in v = []"

definition text_allowed :: "cjk_patterns \<Rightarrow> string list \<Rightarrow> string \<Rightarrow> bool" where
  "text_allowed cp forbidden t \<longleftrightarrow>
     (rule_applies forbidden [''full_phone_number'', ''rider_phone''] \<longrightarrow> \<not> PHONE_RE t) \<and>
     (rule_applies forbidden [''payment_link'', ''payment_qr_code''] \<longrightarrow> \<not> PAYMENT_RE cp t) \<and>
     (rule_applies forbidden [''full_address''] \<longrightarrow> \<not> ADDRESS_RE cp t) \<and>
     (policy_names forbidden [''order_id'', ''waybill_id''] \<longrightarrow> \<not> ORDER_ID_KEY_RE cp t)"

definition key_allowed :: "cjk_patterns \<Rightarrow> string list \<Rightarrow> string \<Rightarrow> bool" where
  "key_allowed cp forbidden k \<longleftrightarrow> (\<forall>entry \<in> set forbidden. \<not> forbidden_key k entry) \<and>
     (rule_applies forbidden [''tencent_token'', ''token''] \<longrightarrow> \<not> SENSITIVE_KEY_RE k) \<and>
     (policy_names forbidden [''order_id'', ''waybill_id''] \<longrightarrow> \<not> ORDER_ID_KEY_RE cp k) \<and>
     (policy_names forbidden [''internal_api_payload''] \<longrightarrow> \<not> INTERNAL_RE k)"

lemma finding_if_Nil [simp]: "finding_if b ty m p = [] \<longleftrightarrow> \<not> b"
  by (simp add: finding_if_def)

lemma scanText_Nil: "scanText cp forbidden path t = [] \<longleftrightarrow> text_allowed cp forbidden t"
  by (auto simp: scanText_def text_allowed_def)

lemma scanKey_Nil: "scanKey cp forbidden path k = [] \<longleftrightarrow> key_allowed cp forbidden k"
  by (auto simp: scanKey_def key_allowed_def)

lemma scan_Nil:
  "scanValue cp forbidden path v = [] \<longleftrightarrow> (\<forall>t \<in> set (texts_in v). text_allowed cp forbidden t) \<and> (\<forall>k \<in> set (keys_in v). key_allowed cp forbidden k)"
  "scan_elements cp forbidden path i xs = [] \<longleftrightarrow> (\<forall>v \<in> set xs. (\<forall>t \<in> set (texts_in v). text_allowed cp forbidden t) \<and>
     (\<forall>k \<in> set (keys_in v). key_allowed cp forbidden k))"
  "scan_members cp forbidden path fs = [] \<longleftrightarrow> (\<forall>(k, v) \<in> set fs. key_allowed cp forbidden k \<and>
     (\<forall>t \<in> set (texts_in v). text_allowed cp forbidden t) \<and> (\<forall>k \<in> set (keys_in v). key_allowed cp forbidden k))"
  by (induction cp forbidden path v and cp forbidden path i xs and cp forbidden path fs rule: scanValue_scan_elements_scan_members.induct)
    (auto simp: scanText_Nil scanKey_Nil)

lemma unique_loop_facts:
  "distinct (map finding_key (unique_loop seen fs)) \<and> set (map finding_key (unique_loop seen fs)) = set (map finding_key fs) - set seen"
  by (induction fs arbitrary: seen) auto

lemma uniqueFindings_facts:
  "distinct (map finding_key (uniqueFindings fs))" "set (map finding_key (uniqueFindings fs)) = set (map finding_key fs)"
  using unique_loop_facts [of "[]" fs] by (simp_all add: uniqueFindings_def)

lemma uniqueFindings_Nil [simp]: "uniqueFindings fs = [] \<longleftrightarrow> fs = []"
  using uniqueFindings_facts(2) [of fs] by (metis empty_set image_is_empty list.map_disc_iff set_empty uniqueFindings_def unique_loop.simps(1))

text \<open>C14. The check reports nothing exactly when every text of the value, at any depth, and every key, at any depth, is
  allowed by the declared policy, or by the general rules when no policy is declared; reported findings are distinct.\<close>

theorem sensitive_check_exact:
  "(detectSensitiveOfficialAgentInput cp v entries = [] \<longleftrightarrow>
      (\<forall>t \<in> set (texts_in v). text_allowed cp (forbidden_set entries) t) \<and> (\<forall>k \<in> set (keys_in v). key_allowed cp (forbidden_set entries) k)) \<and>
   distinct (map finding_key (detectSensitiveOfficialAgentInput cp v entries))"
  by (simp add: detectSensitiveOfficialAgentInput_def scan_Nil(1) uniqueFindings_facts(1) del: map_map)

definition no_cjk :: cjk_patterns where
  "no_cjk = \<lparr>pt_payment = \<lambda>_. False, pt_order = \<lambda>_. False, pt_address = \<lambda>_. False\<rparr>"

lemma sensitive_check_exact_witness:
  "detectSensitiveOfficialAgentInput no_cjk (JObj [(''note'', JStr ''call 13812345678'')]) [] \<noteq> [] \<and>
   (\<exists>t \<in> set (texts_in (JObj [(''note'', JStr ''call 13812345678'')])). \<not> text_allowed no_cjk [] t)"
proof -
  have "PHONE_RE ''call 13812345678''" by code_simp
  then have t: "\<exists>t \<in> set (texts_in (JObj [(''note'', JStr ''call 13812345678'')])). \<not> text_allowed no_cjk [] t"
    by (simp add: text_allowed_def rule_applies_def)
  have "forbidden_set [] = []" by (simp add: forbidden_set_def set_of_list_def)
  with t show ?thesis
    using sensitive_check_exact [of no_cjk "JObj [(''note'', JStr ''call 13812345678'')]" "[]"] by auto
qed

text \<open>The names that switch the rules on when a policy is declared.\<close>

definition rule_names :: "string list" where
  "rule_names = [''full_phone_number'', ''rider_phone'', ''payment_link'', ''payment_qr_code'', ''full_address'', ''tencent_token'',
     ''token'', ''order_id'', ''waybill_id'', ''internal_api_payload'']"

lemma rules_off:
  "F \<noteq> [] \<Longrightarrow> set F \<inter> set rule_names = {} \<Longrightarrow> set ns \<subseteq> set rule_names \<Longrightarrow> \<not> rule_applies F ns \<and> \<not> policy_names F ns"
  by (auto simp: rule_applies_def policy_names_def)

text \<open>Declaring a policy weakens the check: as soon as an agent forbids anything, but none of the ten names the rules know, no
  phone number, payment link, address or secret key is reported any more, whatever the texts of the input say, and only
  keys that contain a forbidden name are. Without a declared policy the general rules apply.\<close>

theorem declared_policy_disables_rules:
  assumes "forbidden_set entries \<noteq> []" "set (forbidden_set entries) \<inter> set rule_names = {}"
    and "\<forall>k \<in> set (keys_in v). \<forall>entry \<in> set (forbidden_set entries). \<not> forbidden_key k entry"
  shows "detectSensitiveOfficialAgentInput cp v entries = []"
proof -
  have "\<not> rule_applies (forbidden_set entries) ns \<and> \<not> policy_names (forbidden_set entries) ns" if "set ns \<subseteq> set rule_names" for ns
    using rules_off [OF assms(1,2) that] .
  then have "text_allowed cp (forbidden_set entries) t" "(\<forall>entry \<in> set (forbidden_set entries). \<not> forbidden_key k entry) \<longrightarrow>
      key_allowed cp (forbidden_set entries) k" for t k
    by (simp_all add: text_allowed_def key_allowed_def rule_names_def)
  with assms(3) have "scanValue cp (forbidden_set entries) [] v = []" by (auto simp: scan_Nil(1))
  then show ?thesis by (simp add: detectSensitiveOfficialAgentInput_def)
qed

definition demo_secret :: js where
  "demo_secret = JObj [(''body'', JObj [(''access_token'', JStr ''t-1''), (''note'', JStr ''13812345678'')])]"

lemma demo_policy: "forbidden_set [''rider_name''] = [''rider_name'']"
  by code_simp

lemma demo_secret_keys: "\<forall>k \<in> set (keys_in demo_secret). \<not> forbidden_key k ''rider_name''"
  by code_simp

lemma declared_policy_disables_rules_witness:
  "detectSensitiveOfficialAgentInput no_cjk demo_secret [''rider_name''] = [] \<and> detectSensitiveOfficialAgentInput no_cjk demo_secret [] \<noteq> []"
proof -
  have "PHONE_RE ''13812345678''" by code_simp
  then have "scanValue no_cjk (forbidden_set []) [] demo_secret \<noteq> []"
    by (auto simp: scanText_Nil demo_secret_def text_allowed_def forbidden_set_def set_of_list_def rule_applies_def)
  then show ?thesis
    using declared_policy_disables_rules [of "[''rider_name'']" demo_secret no_cjk] demo_policy demo_secret_keys
    by (simp add: detectSensitiveOfficialAgentInput_def rule_names_def)
qed

text \<open>A number is never looked at: a phone number sent as a JSON number passes.\<close>

lemma numbers_pass: "texts_in (JNum n) = [] \<and> scanValue cp forbidden path (JNum n) = []"
  by simp

end
