(* ===== verification/Handshake.thy ===== *)
theory Handshake
  imports Config
begin

text \<open>
  The encrypted handshake through the hub: \<open>src/handshake-crypto.ts\<close>, \<open>src/ephemeral-token.ts\<close>
  and, from \<open>index.ts\<close>, \<open>getAdvertisedAddress\<close>, \<open>upsertEphemeralPeer\<close>,
  \<open>waitForHandshakeAnswer\<close>, \<open>processPendingHubMatches\<close> and \<open>performMatchRequest\<close>. The
  primitives of \<open>node:crypto\<close>, \<open>Buffer\<close> and \<open>JSON.parse\<close> are the fields of \<open>crypto\<close>; what is
  relied on of them is stated by \<open>crypto_laws\<close>. The hub answers each call by an oracle that may
  depend on every call made before. Only values the types declare are decoded: a match or a
  message has the members of its interface.
\<close>

section \<open>Encryption\<close>

record crypto =
  cp_parse :: "string \<Rightarrow> string + js"
  cp_private :: "string \<Rightarrow> string + string"
  cp_public :: "js \<Rightarrow> string + string"
  cp_export :: "string \<Rightarrow> string"
  cp_public_of :: "string \<Rightarrow> string"
  cp_dh :: "string \<Rightarrow> string \<Rightarrow> string + string"
  cp_hkdf :: "string \<Rightarrow> string \<Rightarrow> string \<Rightarrow> string"
  cp_seal :: "string \<Rightarrow> string \<Rightarrow> string \<Rightarrow> string \<times> string"
  cp_open :: "string \<Rightarrow> string \<Rightarrow> string \<Rightarrow> string \<Rightarrow> string + string"
  cp_toBase64 :: "string \<Rightarrow> string"
  cp_fromBase64 :: "js \<Rightarrow> string + string"

text \<open>What a \<open>throw\<close> does to the rest of a function: the first error is the result.\<close>

fun and_then :: "'e + 'a \<Rightarrow> ('a \<Rightarrow> 'e + 'b) \<Rightarrow> 'e + 'b" where
  "and_then (Inl e) f = Inl e"
| "and_then (Inr x) f = f x"

lemma and_then_Inr: "and_then m f = Inr y \<longleftrightarrow> (\<exists>x. m = Inr x \<and> f x = Inr y)"
  by (cases m) auto

definition HANDSHAKE_INFO :: string where
  "HANDSHAKE_INFO = ''claw-crony:handshake:v1''"

definition handshake_algorithm :: string where
  "handshake_algorithm = ''x25519-aes-256-gcm''"

definition encrypted_message :: "crypto \<Rightarrow> string \<Rightarrow> string \<Rightarrow> string \<times> string \<Rightarrow> js" where
  "encrypted_message cp ephemeral iv sealed =
    JObj [(''version'', JNum (Fin 1)), (''algorithm'', JStr handshake_algorithm),
      (''senderPublicKey'', JStr (cp_export cp (cp_public_of cp ephemeral))),
      (''iv'', JStr (cp_toBase64 cp iv)), (''ciphertext'', JStr (cp_toBase64 cp (fst sealed))),
      (''authTag'', JStr (cp_toBase64 cp (snd sealed)))]"

definition wire_text :: "js \<Rightarrow> string" where
  "wire_text v = opt_default ''undefined'' (json_stringify v)"

definition encryptHandshake :: "crypto \<Rightarrow> string \<Rightarrow> string \<Rightarrow> js \<Rightarrow> string \<Rightarrow> string + string" where
  "encryptHandshake cp ephemeral iv payload recipientPem =
    and_then (cp_public cp (JStr recipientPem)) (\<lambda>recipient.
    and_then (cp_dh cp ephemeral recipient) (\<lambda>secret.
      let key = cp_hkdf cp secret iv HANDSHAKE_INFO
      in Inr (wire_text (encrypted_message cp ephemeral iv (cp_seal cp key iv (wire_text payload))))))"

definition decryptHandshake :: "crypto \<Rightarrow> string \<Rightarrow> string \<Rightarrow> string + js" where
  "decryptHandshake cp privatePem ciphertext =
    and_then (cp_parse cp ciphertext) (\<lambda>envelope.
      if envelope = JNull then Inl (null_error ''algorithm'')
      else if get_prop envelope ''algorithm'' \<noteq> JStr handshake_algorithm
        then Inl (''Unsupported handshake algorithm: '' @ js_text (get_prop envelope ''algorithm''))
      else and_then (cp_private cp privatePem) (\<lambda>privateKey.
        and_then (cp_public cp (get_prop envelope ''senderPublicKey'')) (\<lambda>sender.
        and_then (cp_fromBase64 cp (get_prop envelope ''iv'')) (\<lambda>iv.
        and_then (cp_dh cp privateKey sender) (\<lambda>secret.
          let key = cp_hkdf cp secret iv HANDSHAKE_INFO in
          and_then (cp_fromBase64 cp (get_prop envelope ''authTag'')) (\<lambda>tag.
          and_then (cp_fromBase64 cp (get_prop envelope ''ciphertext'')) (\<lambda>sealed.
          and_then (cp_open cp key iv sealed tag) (\<lambda>plain. cp_parse cp plain))))))))"

text \<open>
  The documented behaviour relied on: Diffie-Hellman agreement of two key pairs, authenticated
  decryption inverting encryption under the same key and nonce, and the encodings inverting each
  other. \<open>JSON.parse\<close> inverts \<open>JSON.stringify\<close> at the values in question.
\<close>

definition crypto_laws :: "crypto \<Rightarrow> bool" where
  "crypto_laws cp \<longleftrightarrow>
    (\<forall>a b. cp_dh cp a (cp_public_of cp b) = cp_dh cp b (cp_public_of cp a)) \<and>
    (\<forall>k iv p. cp_open cp k iv (fst (cp_seal cp k iv p)) (snd (cp_seal cp k iv p)) = Inr p) \<and>
    (\<forall>x. cp_fromBase64 cp (JStr (cp_toBase64 cp x)) = Inr x) \<and>
    (\<forall>k. cp_public cp (JStr (cp_export cp (cp_public_of cp k))) = Inr (cp_public_of cp k))"

definition parses_back :: "crypto \<Rightarrow> js \<Rightarrow> bool" where
  "parses_back cp v \<longleftrightarrow> cp_parse cp (wire_text v) = Inr v"

section \<open>Temporary tokens\<close>

definition EPHEMERAL_INBOUND_TOKEN_LENGTH :: nat where
  "EPHEMERAL_INBOUND_TOKEN_LENGTH = 48"

definition lower_hex :: "char \<Rightarrow> bool" where
  "lower_hex c = (let n = (of_char c :: nat) in (48 \<le> n \<and> n \<le> 57) \<or> (97 \<le> n \<and> n \<le> 102))"

definition isValidEphemeralInboundToken :: "js \<Rightarrow> bool" where
  "isValidEphemeralInboundToken v = (case v of
     JStr s \<Rightarrow> length s = EPHEMERAL_INBOUND_TOKEN_LENGTH \<and> list_all lower_hex s | _ \<Rightarrow> False)"

fun js_typeof :: "js \<Rightarrow> string" where
  "js_typeof JUndef = ''undefined''"
| "js_typeof (JBool b) = ''boolean''"
| "js_typeof (JNum n) = ''number''"
| "js_typeof (JStr s) = ''string''"
| "js_typeof _ = ''object''"

text \<open>The remark on U+2026 never applies to a Latin-1 text and is left out.\<close>

definition getHandshakeTokenValidationError :: "js \<Rightarrow> string option" where
  "getHandshakeTokenValidationError token =
    (if isValidEphemeralInboundToken token then None
     else Some (''invalid ephemeral handshake token: expected 48 lowercase hex characters, got '' @
       (case token of JStr s \<Rightarrow> ''length '' @ show_nat (length s) | _ \<Rightarrow> ''type '' @ js_typeof token)))"

text \<open>\<open>randomBytes(24).toString('hex')\<close>: 24 bytes given, two digits each.\<close>

definition hex_bytes :: "nat list \<Rightarrow> string" where
  "hex_bytes bs = concat (map (\<lambda>b. [hex_digit (b div 16 mod 16), hex_digit (b mod 16)]) bs)"

section \<open>The state and the outside world\<close>

record hub_agent =
  ha_id :: int
  ha_name :: string
  ha_publicKey :: "string option"
  ha_descriptor :: "connection_descriptor option"

record hub_match =
  hm_id :: int
  hm_callerRole :: "string option"
  hm_requester :: "hub_agent option"
  hm_provider :: "hub_agent option"

record handshake_message =
  hs_id :: int
  hs_sender :: int
  hs_receiver :: int
  hs_type :: string
  hs_ciphertext :: string

datatype plugin_log = LogInfo string | LogWarn string | LogFault string

record hs_state =
  hp_peers :: "peer_config list"
  hp_tokens :: "string list"
  hp_timers :: "(string \<times> int) list"
  hp_issued :: nat
  hp_processed :: "int list"
  hp_calls :: "match_op list"
  hp_now :: int
  hp_history :: "(string \<times> js) list list"
  hp_logs :: "plugin_log list"

text \<open>
  \<open>he_registration\<close> is the outcome of \<open>HubMatchClient.create\<close>: the agent's identifier, or the
  error. The \<open>n\<close>-th randomness is used for the \<open>n\<close>-th issued token. \<open>he_latency\<close> is the time a
  call takes, \<open>he_late\<close> what a timer is late by.
\<close>

record hs_env =
  he_crypto :: crypto
  he_url :: url_parser
  he_url_parts :: "string \<Rightarrow> (string \<times> string \<times> string) option"
  he_address_config :: "string \<times> string \<times> rat"
  he_registration :: "string + int"
  he_identity :: "string option"
  he_pendingMatches :: "match_op list \<Rightarrow> string + hub_match list"
  he_messages :: "match_op list \<Rightarrow> int \<Rightarrow> string + handshake_message list"
  he_ack :: "match_op list \<Rightarrow> match_op \<Rightarrow> string option"
  he_createMatch :: "match_op list \<Rightarrow> match_op \<Rightarrow> string + hub_match"
  he_latency :: "match_op list \<Rightarrow> nat"
  he_late :: "match_op list \<Rightarrow> nat"
  he_tokenBytes :: "nat \<Rightarrow> nat list"
  he_uuid :: "nat \<Rightarrow> string"
  he_nonceBytes :: "nat \<Rightarrow> nat list"
  he_ephemeral :: "nat \<Rightarrow> string \<times> string"

definition log_line :: "plugin_log \<Rightarrow> hs_state \<Rightarrow> hs_state" where
  "log_line l s = s\<lparr>hp_logs := hp_logs s @ [l]\<rparr>"

definition record_entry :: "(string \<times> js) list \<Rightarrow> hs_state \<Rightarrow> hs_state" where
  "record_entry e s = s\<lparr>hp_history := hp_history s @ [e]\<rparr>"

definition hub_call :: "hs_env \<Rightarrow> match_op \<Rightarrow> hs_state \<Rightarrow> hs_state" where
  "hub_call env op' s = s\<lparr>hp_now := hp_now s + int (he_latency env (hp_calls s)), hp_calls := hp_calls s @ [op']\<rparr>"

definition hub_ack :: "hs_env \<Rightarrow> match_op \<Rightarrow> hs_state \<Rightarrow> string option \<times> hs_state" where
  "hub_ack env op' s = (he_ack env (hp_calls s) op', hub_call env op' s)"

definition num :: "int \<Rightarrow> js" where
  "num i = JNum (Fin (of_int i))"

definition entry_head :: "string \<Rightarrow> string \<Rightarrow> string \<Rightarrow> (string \<times> js) list" where
  "entry_head ty status direction = [(''type'', JStr ty), (''status'', JStr status), (''direction'', JStr direction)]"

definition detail :: "(string \<times> js) list \<Rightarrow> (string \<times> js) list" where
  "detail fs = [(''detail'', JObj fs)]"

section \<open>Addresses, peers and tokens\<close>

definition getAdvertisedAddress :: "hs_env \<Rightarrow> string option" where
  "getAdvertisedAddress env =
    (let (url, host, port) = he_address_config env;
         fallback = (if host \<noteq> [] \<and> port \<noteq> 0 then Some (host @ '':'' @ rat_text port) else None)
     in if url = [] then fallback
        else (case he_url_parts env url of
                Some (hostname, p, protocol) \<Rightarrow>
                  Some (hostname @ '':'' @ (if p \<noteq> [] then p else if protocol = ''https:'' then ''443'' else ''80''))
              | None \<Rightarrow> fallback))"

fun upsert_peer :: "string \<Rightarrow> string \<Rightarrow> string \<Rightarrow> peer_config list \<Rightarrow> peer_config list" where
  "upsert_peer name url token [] = [\<lparr>pc_name = name, pc_agentCardUrl = url, pc_auth = Some (''bearer'', token)\<rparr>]"
| "upsert_peer name url token (p # ps) =
     (if pc_name p = name then p\<lparr>pc_agentCardUrl := url, pc_auth := Some (''bearer'', token)\<rparr> # ps
      else p # upsert_peer name url token ps)"

definition upsertEphemeralPeer :: "string \<Rightarrow> string \<Rightarrow> string \<Rightarrow> hs_state \<Rightarrow> hs_state" where
  "upsertEphemeralPeer name url token s = s\<lparr>hp_peers := upsert_peer name url token (hp_peers s)\<rparr>"

definition token_ttl :: int where
  "token_ttl = 5 * 60000"

definition issueEphemeralInboundToken :: "hs_env \<Rightarrow> hs_state \<Rightarrow> (string \<times> string) \<times> hs_state" where
  "issueEphemeralInboundToken env s =
    (let token = hex_bytes (he_tokenBytes env (hp_issued s))
     in ((token, iso_date (hp_now s + token_ttl)),
         s\<lparr>hp_tokens := set_add token (hp_tokens s), hp_timers := hp_timers s @ [(token, hp_now s + token_ttl)],
           hp_issued := Suc (hp_issued s)\<rparr>))"

text \<open>The timers that have run out by the given time delete their tokens.\<close>

definition fire_timers :: "int \<Rightarrow> hs_state \<Rightarrow> hs_state" where
  "fire_timers now s =
    (let due = map fst (filter (\<lambda>(t, w). w \<le> now) (hp_timers s))
     in s\<lparr>hp_tokens := filter (\<lambda>t. t \<notin> set due) (hp_tokens s), hp_timers := filter (\<lambda>(t, w). \<not> w \<le> now) (hp_timers s)\<rparr>)"

text \<open>Calling \<open>startsWith\<close> on what is not a text.\<close>

definition starts_with_error :: "string \<Rightarrow> js \<Rightarrow> string" where
  "starts_with_error name v =
    (if nullish v then ''Cannot read properties of '' @ js_text v @ '' (reading '' @ [CHR 0x27] @ ''startsWith'' @ [CHR 0x27] @ '')''
     else name @ ''.startsWith is not a function'')"

definition peer_card_url :: "hs_env \<Rightarrow> connection_descriptor option \<Rightarrow> js \<Rightarrow> js \<Rightarrow> string + string" where
  "peer_card_url env descriptor address path =
    (case (address, if path = JUndef then JStr ''/.well-known/agent.json'' else path) of
       (JStr a, JStr p) \<Rightarrow> Inr (resolvePeerAgentCardUrl (he_url env) descriptor a p)
     | (a, p) \<Rightarrow> (case resolveA2aAgentCardUrl (he_url env) descriptor of
         Some u \<Rightarrow> Inr u
       | None \<Rightarrow> Inl (case a of JStr _ \<Rightarrow> starts_with_error ''agentCardPath'' p | _ \<Rightarrow> starts_with_error ''address'' a)))"

definition handshake_payload :: "hs_env \<Rightarrow> int \<Rightarrow> int \<Rightarrow> js \<Rightarrow> string \<Rightarrow> string \<times> string \<Rightarrow> hs_state \<Rightarrow> js" where
  "handshake_payload env matchId self peerId address issued s =
    JObj [(''version'', num 1), (''matchId'', num matchId), (''sessionId'', JStr (he_uuid env (hp_issued s))),
      (''fromAgentId'', num self), (''toAgentId'', peerId), (''address'', JStr address),
      (''agentCardPath'', JStr ''/.well-known/agent.json''), (''token'', JStr (fst issued)), (''tokenExpiresAt'', JStr (snd issued)),
      (''protocols'', strs [''jsonrpc'', ''rest'', ''grpc'']), (''createdAt'', JStr (iso_date (hp_now s))),
      (''nonce'', JStr (hex_bytes (he_nonceBytes env (hp_issued s))))]"

definition encrypt_for :: "hs_env \<Rightarrow> hs_state \<Rightarrow> js \<Rightarrow> string \<Rightarrow> string + string" where
  "encrypt_for env s payload pem =
    (let (ephemeral, iv) = he_ephemeral env (hp_issued s) in encryptHandshake (he_crypto env) ephemeral iv payload pem)"

section \<open>Answering pending handshakes\<close>

definition peer_label :: "hub_agent option \<Rightarrow> js \<Rightarrow> string" where
  "peer_label agent agentId = (case agent of Some a \<Rightarrow> ha_name a | None \<Rightarrow> ''agent-'' @ js_text agentId)"

definition received_entry :: "hub_match \<Rightarrow> handshake_message \<Rightarrow> (string \<times> js) list" where
  "received_entry m msg =
    entry_head (if hs_type msg = ''answer'' then ''handshake.answer_received'' else ''handshake.offer_received'') ''started'' ''inbound'' @
    [(''matchId'', num (hm_id m)), (''messageId'', num (hs_id msg)),
     (''peer'', JStr (peer_label (hm_requester m) (num (hs_sender msg))))] @
    detail [(''messageType'', JStr (hs_type msg)), (''senderAgentId'', num (hs_sender msg)), (''receiverAgentId'', num (hs_receiver msg))]"

definition ignored_entry :: "hub_match \<Rightarrow> handshake_message \<Rightarrow> string \<Rightarrow> (string \<times> js) list" where
  "ignored_entry m msg reason =
    entry_head ''handshake.failed'' ''ignored'' ''inbound'' @
    [(''matchId'', num (hm_id m)), (''messageId'', num (hs_id msg)),
     (''peer'', JStr (peer_label (hm_requester m) (num (hs_sender msg))))] @ detail [(''reason'', JStr reason)]"

definition upserted_entry :: "int \<Rightarrow> string \<Rightarrow> string \<Rightarrow> bool \<Rightarrow> js \<Rightarrow> (string \<times> js) list" where
  "upserted_entry matchId peer url described expires =
    entry_head ''peer.upserted'' ''success'' ''local'' @ [(''matchId'', num matchId), (''peer'', JStr peer)] @
    detail [(''agentCardUrl'', JStr url),
      (''source'', JStr (if described then ''connection_descriptor'' else ''handshake_payload'')), (''tokenExpiresAt'', expires)]"

definition mark_processed :: "int \<Rightarrow> hs_state \<Rightarrow> hs_state" where
  "mark_processed i s = s\<lparr>hp_processed := set_add i (hp_processed s)\<rparr>"

text \<open>The answer to an offer; \<^const>\<open>None\<close> is the normal end or an early \<open>continue\<close>.\<close>

definition answer_offer :: "hs_env \<Rightarrow> int \<Rightarrow> hub_match \<Rightarrow> js \<Rightarrow> string \<Rightarrow> hs_state \<Rightarrow> hs_state \<times> string option" where
  "answer_offer env self m decrypted remoteName s =
    (case getAdvertisedAddress env of
       None \<Rightarrow> (log_line (LogWarn (''claw-crony: cannot answer match '' @ show_int (hm_id m) @
                  '' because no advertised address is configured'')) s, None)
     | Some localAddress \<Rightarrow>
        let (issued, s1) = issueEphemeralInboundToken env s;
            peerId = get_prop decrypted ''fromAgentId'';
            payload = handshake_payload env (hm_id m) self peerId localAddress issued s1
        in (case Option.bind (hm_requester m) (\<lambda>a. present_text (ha_publicKey a)) of
              None \<Rightarrow> (log_line (LogWarn (''claw-crony: cannot answer match '' @ show_int (hm_id m) @
                         '' because requester public key is missing'')) s1, None)
            | Some pem \<Rightarrow>
               (case encrypt_for env s1 payload pem of
                  Inl e \<Rightarrow> (s1, Some e)
                | Inr ciphertext \<Rightarrow>
                   (case hub_ack env (SendHandshakeMessage (hm_id m) ''answer'' ciphertext (snd issued)) s1 of
                      (Some e, s2) \<Rightarrow> (s2, Some e)
                    | (None, s2) \<Rightarrow>
                       let s3 = record_entry (entry_head ''handshake.answer_sent'' ''success'' ''outbound'' @
                             [(''matchId'', num (hm_id m)), (''peer'', JStr remoteName)] @
                             detail [(''toAgentId'', peerId), (''expiresAt'', JStr (snd issued))]) s2
                       in (case hub_ack env (MarkReady (hm_id m)) s3 of
                             (Some e, s4) \<Rightarrow> (s4, Some e)
                           | (None, s4) \<Rightarrow> (log_line (LogInfo (''claw-crony: answered encrypted handshake for match '' @
                               show_int (hm_id m))) s4, None))))))"

definition accept_message :: "hs_env \<Rightarrow> int \<Rightarrow> hub_match \<Rightarrow> handshake_message \<Rightarrow> js \<Rightarrow> hs_state \<Rightarrow> hs_state \<times> string option" where
  "accept_message env self m msg decrypted s =
    (case hub_ack env (ConsumeHandshakeMessage (hm_id m) (hs_id msg)) s of
       (Some e, s1) \<Rightarrow> (s1, Some e)
     | (None, s1) \<Rightarrow>
        let s2 = mark_processed (hs_id msg) s1;
            remoteName = peer_label (hm_requester m) (get_prop decrypted ''fromAgentId'');
            descriptor = Option.bind (hm_requester m) ha_descriptor
        in (case peer_card_url env descriptor (get_prop decrypted ''address'') (get_prop decrypted ''agentCardPath'') of
              Inl e \<Rightarrow> (s2, Some e)
            | Inr url \<Rightarrow>
               let s3 = upsertEphemeralPeer remoteName url (js_text (get_prop decrypted ''token'')) s2;
                   s4 = record_entry (upserted_entry (hm_id m) remoteName url (descriptor \<noteq> None)
                          (get_prop decrypted ''tokenExpiresAt'')) s3
               in if hs_type msg = ''offer'' then answer_offer env self m decrypted remoteName s4
                  else if hs_type msg = ''answer'' then
                    (case hub_ack env (MarkReady (hm_id m)) s4 of
                       (Some e, s5) \<Rightarrow> (s5, Some e)
                     | (None, s5) \<Rightarrow> (log_line (LogInfo (''claw-crony: received encrypted handshake answer for match '' @
                         show_int (hm_id m))) s5, None))
                  else (s4, None)))"

definition process_message :: "hs_env \<Rightarrow> int \<Rightarrow> string \<Rightarrow> hub_match \<Rightarrow> handshake_message \<Rightarrow> hs_state \<Rightarrow>
    hs_state \<times> string option" where
  "process_message env self privateKey m msg s =
    (if hs_id msg \<in> set (hp_processed s) then (s, None)
     else (case decryptHandshake (he_crypto env) privateKey (hs_ciphertext msg) of
             Inl e \<Rightarrow> (s, Some e)
           | Inr decrypted \<Rightarrow>
              let s1 = record_entry (received_entry m msg) s in
              if nullish decrypted then (s1, Some (null_error ''token''))
              else (case getHandshakeTokenValidationError (get_prop decrypted ''token'') of
                      None \<Rightarrow> accept_message env self m msg decrypted s1
                    | Some reason \<Rightarrow>
                       (case hub_ack env (ConsumeHandshakeMessage (hm_id m) (hs_id msg)) s1 of
                          (Some e, s2) \<Rightarrow> (s2, Some e)
                        | (None, s2) \<Rightarrow>
                           (log_line (LogWarn (''claw-crony: ignored malformed handshake '' @ show_int (hs_id msg) @
                              '' for match '' @ show_int (hm_id m) @ '' - '' @ reason))
                             (record_entry (ignored_entry m msg reason) (mark_processed (hs_id msg) s2)), None)))))"

fun process_messages :: "hs_env \<Rightarrow> int \<Rightarrow> string \<Rightarrow> hub_match \<Rightarrow> handshake_message list \<Rightarrow> hs_state \<Rightarrow>
    hs_state \<times> string option" where
  "process_messages env self privateKey m [] s = (s, None)"
| "process_messages env self privateKey m (msg # msgs) s =
     (case process_message env self privateKey m msg s of
        (s1, Some e) \<Rightarrow> (s1, Some e)
      | (s1, None) \<Rightarrow> process_messages env self privateKey m msgs s1)"

definition process_match :: "hs_env \<Rightarrow> int \<Rightarrow> string \<Rightarrow> hub_match \<Rightarrow> hs_state \<Rightarrow> hs_state" where
  "process_match env self privateKey m s =
    (if hm_callerRole m \<noteq> Some ''provider'' then s
     else let s0 = hub_call env (GetPendingHandshakeMessages (hm_id m)) s;
              outcome = (case he_messages env (hp_calls s) (hm_id m) of
                           Inl e \<Rightarrow> (s0, Some e)
                         | Inr msgs \<Rightarrow> process_messages env self privateKey m msgs s0)
          in (case outcome of
                (s1, None) \<Rightarrow> s1
              | (s1, Some e) \<Rightarrow> log_line (LogWarn (''claw-crony: failed to process hub match '' @ show_int (hm_id m) @ '' - '' @ e)) s1))"

definition processPendingHubMatches :: "hs_env \<Rightarrow> hs_state \<Rightarrow> hs_state" where
  "processPendingHubMatches env s =
    (case he_registration env of
       Inl e \<Rightarrow> log_line (LogWarn (''claw-crony: pending match polling skipped - '' @ e)) s
     | Inr self \<Rightarrow>
        (case he_identity env of
           None \<Rightarrow> log_line (LogWarn ''claw-crony: pending match polling skipped - no local identity available'') s
         | Some privateKey \<Rightarrow>
            let s1 = hub_call env GetPendingMatches s in
            (case he_pendingMatches env (hp_calls s) of
               Inl e \<Rightarrow> log_line (LogWarn (''claw-crony: failed to fetch pending matches - '' @ e)) s1
             | Inr matches \<Rightarrow> fold (process_match env self privateKey) matches s1)))"

section \<open>Requesting a match\<close>

definition sleep :: "hs_env \<Rightarrow> int \<Rightarrow> hs_state \<Rightarrow> hs_state" where
  "sleep env ms s = s\<lparr>hp_now := hp_now s + ms + int (he_late env (hp_calls s))\<rparr>"

lemma hub_call_fields [simp]:
  "hp_now (hub_call env c s) = hp_now s + int (he_latency env (hp_calls s))"
  "hp_calls (hub_call env c s) = hp_calls s @ [c]" "hp_peers (hub_call env c s) = hp_peers s"
  "hp_tokens (hub_call env c s) = hp_tokens s" "hp_timers (hub_call env c s) = hp_timers s"
  "hp_processed (hub_call env c s) = hp_processed s" "hp_history (hub_call env c s) = hp_history s"
  "hp_issued (hub_call env c s) = hp_issued s" "hp_logs (hub_call env c s) = hp_logs s"
  by (simp_all add: hub_call_def)

function wait_loop :: "hs_env \<Rightarrow> int \<Rightarrow> int \<Rightarrow> hs_state \<Rightarrow> hs_state \<times> (string + handshake_message)" where
  "wait_loop env matchId deadline s =
    (if hp_now s < deadline then
       let s1 = hub_call env (GetPendingHandshakeMessages matchId) s in
       (case he_messages env (hp_calls s) matchId of
          Inl e \<Rightarrow> (s1, Inl e)
        | Inr msgs \<Rightarrow>
           (case find (\<lambda>m. hs_type m = ''answer'') msgs of
              Some m \<Rightarrow> (s1, Inr m)
            | None \<Rightarrow> wait_loop env matchId deadline (sleep env 1500 s1)))
     else (s, Inl (''Timed out waiting for handshake answer for match '' @ show_int matchId)))"
  by pat_completeness auto
termination
  by (relation "measure (\<lambda>(env, matchId, deadline, s). nat (deadline - hp_now s))") (auto simp: sleep_def)

declare wait_loop.simps [simp del]

definition answer_timeout :: int where
  "answer_timeout = 45000"

definition waitForHandshakeAnswer :: "hs_env \<Rightarrow> int \<Rightarrow> hs_state \<Rightarrow> hs_state \<times> (string + handshake_message)" where
  "waitForHandshakeAnswer env matchId s = wait_loop env matchId (hp_now s + answer_timeout) s"

record match_outcome =
  mo_ok :: bool
  mo_text :: string
  mo_details :: js

definition failed_details :: "(string \<times> js) list \<Rightarrow> string \<Rightarrow> js" where
  "failed_details extra e = JObj ((''ok'', JBool False) # extra @ [(''error'', JStr e)])"

definition failed_outcome :: "string \<Rightarrow> (string \<times> js) list \<Rightarrow> string \<Rightarrow> match_outcome" where
  "failed_outcome text extra e = \<lparr>mo_ok = False, mo_text = text, mo_details = failed_details extra e\<rparr>"

definition lasted :: "int \<Rightarrow> hs_state \<Rightarrow> (string \<times> js) list" where
  "lasted startedAt s = [(''durationMs'', num (hp_now s - startedAt))]"

definition match_failed :: "int \<Rightarrow> string \<Rightarrow> (string \<times> js) list \<Rightarrow> hs_state \<Rightarrow> hs_state" where
  "match_failed startedAt reason extra s =
    record_entry (entry_head ''match.failed'' ''failure'' ''outbound'' @ lasted startedAt s @
      detail ((''reason'', JStr reason) # extra)) s"

definition handshake_failed :: "string \<Rightarrow> int \<Rightarrow> hub_match \<Rightarrow> (string \<times> js) list \<Rightarrow> string \<Rightarrow> string \<Rightarrow> hs_state \<Rightarrow> hs_state" where
  "handshake_failed direction startedAt m extra phase reason s =
    record_entry (entry_head ''handshake.failed'' ''failure'' direction @ [(''matchId'', num (hm_id m))] @ extra @
      [(''peer'', opt_str (map_option ha_name (hm_provider m)))] @ lasted startedAt s @
      detail [(''reason'', JStr reason), (''phase'', JStr phase)]) s"

definition match_label :: "hub_match \<Rightarrow> string" where
  "match_label m = ''(id='' @ show_int (hm_id m) @ '')''"

text \<open>What happens with an answer: the peer becomes callable with the temporary token, then the
  match is marked ready. The first error ends it, whatever has been changed by then.\<close>

definition take_answer :: "hs_env \<Rightarrow> string \<Rightarrow> hub_match \<Rightarrow> hub_agent \<Rightarrow> handshake_message \<Rightarrow> hs_state \<Rightarrow>
    hs_state \<times> (string + js)" where
  "take_answer env privateKey m provider answer s =
    (case decryptHandshake (he_crypto env) privateKey (hs_ciphertext answer) of
       Inl e \<Rightarrow> (s, Inl e)
     | Inr remote \<Rightarrow>
        if nullish remote then (s, Inl (null_error ''token''))
        else (case getHandshakeTokenValidationError (get_prop remote ''token'') of
                Some e \<Rightarrow> (s, Inl e)
              | None \<Rightarrow>
                 (case hub_ack env (ConsumeHandshakeMessage (hm_id m) (hs_id answer)) s of
                    (Some e, s1) \<Rightarrow> (s1, Inl e)
                  | (None, s1) \<Rightarrow>
                     let s2 = record_entry (entry_head ''handshake.answer_received'' ''success'' ''inbound'' @
                           [(''matchId'', num (hm_id m)), (''messageId'', num (hs_id answer)), (''peer'', JStr (ha_name provider))] @
                           detail [(''fromAgentId'', num (hs_sender answer)), (''address'', get_prop remote ''address''),
                             (''tokenExpiresAt'', get_prop remote ''tokenExpiresAt'')]) s1
                     in (case peer_card_url env (ha_descriptor provider) (get_prop remote ''address'') (get_prop remote ''agentCardPath'') of
                           Inl e \<Rightarrow> (s2, Inl e)
                         | Inr url \<Rightarrow>
                            let s3 = record_entry (upserted_entry (hm_id m) (ha_name provider) url (ha_descriptor provider \<noteq> None)
                                   (get_prop remote ''tokenExpiresAt''))
                                 (upsertEphemeralPeer (ha_name provider) url (js_text (get_prop remote ''token'')) s2)
                            in (case hub_ack env (MarkReady (hm_id m)) s3 of
                                  (Some e, s4) \<Rightarrow> (s4, Inl e)
                                | (None, s4) \<Rightarrow> (s4, Inr remote))))))"

definition ready_outcome :: "hub_match \<Rightarrow> hub_agent \<Rightarrow> js \<Rightarrow> match_outcome" where
  "ready_outcome m provider remote =
    \<lparr>mo_ok = True,
     mo_text = ''Encrypted handshake ready: match='' @ show_int (hm_id m) @ newline @
       ''Provider: '' @ ha_name provider @ newline @ ''Address: '' @ js_text (get_prop remote ''address'') @ newline @
       ''Temporary token: '' @ js_text (get_prop remote ''token'') @ newline @
       ''Token expires at: '' @ js_text (get_prop remote ''tokenExpiresAt''),
     mo_details = JObj [(''ok'', JBool True), (''matchId'', num (hm_id m)), (''status'', JStr ''ready_to_connect''),
       (''providerAddress'', get_prop remote ''address''), (''peerToken'', get_prop remote ''token''),
       (''tokenExpiresAt'', get_prop remote ''tokenExpiresAt'')]\<rparr>"

definition handshake_exchange :: "hs_env \<Rightarrow> int \<Rightarrow> string \<Rightarrow> string \<Rightarrow> int \<Rightarrow> hub_match \<Rightarrow> hub_agent \<Rightarrow> string \<Rightarrow> hs_state \<Rightarrow>
    hs_state \<times> match_outcome" where
  "handshake_exchange env self privateKey localAddress startedAt m provider pem s =
    (let (issued, s1) = issueEphemeralInboundToken env s;
         payload = handshake_payload env (hm_id m) self (num (ha_id provider)) localAddress issued s1;
         matchId = [(''matchId'', num (hm_id m))];
         sent = (case encrypt_for env s1 payload pem of
                   Inl e \<Rightarrow> (Some e, s1)
                 | Inr ciphertext \<Rightarrow> hub_ack env (SendHandshakeMessage (hm_id m) ''offer'' ciphertext (snd issued)) s1)
     in (case sent of
           (Some e, s2) \<Rightarrow>
             (handshake_failed ''outbound'' startedAt m [] ''offer'' e s2,
              failed_outcome (''Match created '' @ match_label m @ '' but failed to send encrypted handshake offer: '' @ e) matchId e)
         | (None, s2) \<Rightarrow>
             let s3 = record_entry (entry_head ''handshake.offer_sent'' ''success'' ''outbound'' @ matchId @
                   [(''peer'', JStr (ha_name provider))] @
                   detail [(''toAgentId'', num (ha_id provider)), (''address'', JStr localAddress), (''expiresAt'', JStr (snd issued))]) s2
             in (case waitForHandshakeAnswer env (hm_id m) s3 of
                   (s4, Inl e) \<Rightarrow>
                     (handshake_failed ''inbound'' startedAt m [] ''wait_answer'' e s4,
                      failed_outcome (''Encrypted handshake offer sent for match '' @ show_int (hm_id m) @
                        '', but waiting for answer failed: '' @ e) matchId e)
                 | (s4, Inr answer) \<Rightarrow>
                     (case take_answer env privateKey m provider answer s4 of
                        (s5, Inl e) \<Rightarrow>
                          (handshake_failed ''inbound'' startedAt m [(''messageId'', num (hs_id answer))] ''process_answer'' e s5,
                           failed_outcome (''Encrypted handshake answer received for match '' @ show_int (hm_id m) @
                             '', but processing failed: '' @ e) matchId e)
                      | (s5, Inr remote) \<Rightarrow> (s5, ready_outcome m provider remote)))))"

definition match_params_of :: "string list \<Rightarrow> string option \<Rightarrow> match_params" where
  "match_params_of skills description =
    \<lparr>mp_skills = skills, mp_description = description, mp_connectionMode = None, mp_preferOfficial = None,
     mp_targetAgentId = None, mp_targetClientId = None\<rparr>"

definition performMatchRequest :: "hs_env \<Rightarrow> string list \<Rightarrow> string option \<Rightarrow> hs_state \<Rightarrow> hs_state \<times> match_outcome" where
  "performMatchRequest env skills description s =
    (let startedAt = hp_now s in
     case he_registration env of
       Inl e \<Rightarrow> (match_failed startedAt e [] s, failed_outcome (''Not registered with hub: '' @ e) [] e)
     | Inr self \<Rightarrow>
     (case he_identity env of
       None \<Rightarrow> (match_failed startedAt ''identity_missing'' [] s,
                 failed_outcome ''No local identity found. Restart the plugin and try again.'' [] ''identity_missing'')
     | Some privateKey \<Rightarrow>
     (case getAdvertisedAddress env of
       None \<Rightarrow> (match_failed startedAt ''address_missing'' [] s,
                 failed_outcome ''No advertised address is configured for this agent.'' [] ''address_missing'')
     | Some localAddress \<Rightarrow>
        let create = CreateMatch (match_params_of skills description);
            s1 = hub_call env create s
        in (case he_createMatch env (hp_calls s) create of
              Inl e \<Rightarrow> (match_failed startedAt e [(''skills'', strs skills)] s1,
                         failed_outcome (''Failed to create match: '' @ e) [] e)
            | Inr m \<Rightarrow>
               let s2 = record_entry (entry_head ''match.created'' ''success'' ''outbound'' @ [(''matchId'', num (hm_id m)),
                     (''peer'', opt_str (map_option ha_name (hm_provider m)))] @
                     detail [(''skills'', strs skills), (''description'', opt_str description),
                       (''providerAgentId'', opt_num (map_option ha_id (hm_provider m)))]) s1
               in (case Option.bind (hm_provider m) (\<lambda>p. map_option (\<lambda>k. (p, k)) (present_text (ha_publicKey p))) of
                     None \<Rightarrow>
                       (record_entry (entry_head ''handshake.failed'' ''failure'' ''outbound'' @ [(''matchId'', num (hm_id m)),
                          (''peer'', opt_str (map_option ha_name (hm_provider m)))] @
                          detail [(''reason'', JStr ''provider_public_key_missing'')]) s2,
                        failed_outcome (''Match created '' @ match_label m @ '' but provider public key is missing'')
                          [(''matchId'', num (hm_id m))] ''provider_public_key_missing'')
                   | Some (provider, pem) \<Rightarrow> handshake_exchange env self privateKey localAddress startedAt m provider pem s2)))))"

section \<open>What a poll may change\<close>

text \<open>
  \<open>evolves N s t\<close>: from \<open>s\<close> to \<open>t\<close> no peer has disappeared or moved, only peers named in \<open>N\<close>
  have changed or been added and these carry a well-formed temporary token, no token has been
  lost, every token gained has a timer that will delete it, and the processed messages, the calls, the
  history and the clock have only grown.
\<close>

definition temporary_peer :: "peer_config \<Rightarrow> bool" where
  "temporary_peer p \<longleftrightarrow> (case pc_auth p of
     Some (ty, t) \<Rightarrow> ty = ''bearer'' \<and> isValidEphemeralInboundToken (JStr t) | None \<Rightarrow> False)"

definition peers_evolve :: "string set \<Rightarrow> peer_config list \<Rightarrow> peer_config list \<Rightarrow> bool" where
  "peers_evolve N ps qs \<longleftrightarrow> prefix (map pc_name ps) (map pc_name qs) \<and>
     (\<forall>q \<in> set qs. q \<in> set ps \<or> pc_name q \<in> N \<and> temporary_peer q) \<and>
     (\<forall>p \<in> set ps. pc_name p \<notin> N \<longrightarrow> p \<in> set qs)"

definition evolves :: "string set \<Rightarrow> hs_state \<Rightarrow> hs_state \<Rightarrow> bool" where
  "evolves N s t \<longleftrightarrow> peers_evolve N (hp_peers s) (hp_peers t) \<and> prefix (hp_tokens s) (hp_tokens t) \<and>
     prefix (hp_timers s) (hp_timers t) \<and> set (hp_tokens t) \<subseteq> set (hp_tokens s) \<union> fst ` set (hp_timers t) \<and>
     set (hp_processed s) \<subseteq> set (hp_processed t) \<and> prefix (hp_calls s) (hp_calls t) \<and>
     prefix (hp_history s) (hp_history t) \<and> hp_now s \<le> hp_now t"

lemma peers_evolve_refl [simp]: "peers_evolve N ps ps"
  by (simp add: peers_evolve_def)

lemma peers_evolve_trans: "peers_evolve N ps qs \<Longrightarrow> peers_evolve N qs rs \<Longrightarrow> peers_evolve N ps rs"
  by (auto simp: peers_evolve_def intro: prefix_order.trans)

lemma evolves_refl [simp]: "evolves N s s"
  by (auto simp: evolves_def)

lemma evolves_trans [trans]: "evolves N s t \<Longrightarrow> evolves N t u \<Longrightarrow> evolves N s u"
proof -
  assume 1: "evolves N s t" and 2: "evolves N t u"
  from 2 have "fst ` set (hp_timers t) \<subseteq> fst ` set (hp_timers u)"
    by (auto simp: evolves_def prefix_def)
  with 1 2 have "set (hp_tokens u) \<subseteq> set (hp_tokens s) \<union> fst ` set (hp_timers u)"
    unfolding evolves_def by blast
  moreover from 1 2 have "peers_evolve N (hp_peers s) (hp_peers u)"
    unfolding evolves_def by (blast intro: peers_evolve_trans)
  ultimately show ?thesis
    using 1 2 unfolding evolves_def by (auto intro: prefix_order.trans)
qed

lemma evolves_mono: "evolves N s t \<Longrightarrow> N \<subseteq> M \<Longrightarrow> evolves M s t"
  unfolding evolves_def peers_evolve_def by (elim conjE) (intro conjI ballI impI, auto)

lemma evolves_call [simp]: "evolves N s (hub_call env c s)"
  by (auto simp: evolves_def)

lemma evolves_log [simp]: "evolves N s (log_line l s)"
  by (auto simp: evolves_def log_line_def)

lemma evolves_record [simp]: "evolves N s (record_entry e s)"
  by (auto simp: evolves_def record_entry_def)

lemma evolves_mark [simp]: "evolves N s (mark_processed i s)"
  by (auto simp: evolves_def mark_processed_def set_add_def)

lemma evolves_ext [inv_intros]:
  assumes "evolves N s t"
  shows "evolves N s (hub_call env c t)" "evolves N s (log_line l t)" "evolves N s (record_entry e t)"
    "evolves N s (mark_processed i t)"
  by (rule evolves_trans [OF assms], simp)+

lemma evolves_sleep: "0 \<le> ms \<Longrightarrow> evolves N s (sleep env ms s)"
  by (auto simp: evolves_def sleep_def)

lemma evolves_ack: "hub_ack env c s = (r, t) \<Longrightarrow> evolves N s t"
  by (auto simp: hub_ack_def)

lemma evolves_issue: "issueEphemeralInboundToken env s = (i, t) \<Longrightarrow> evolves N s t"
  by (auto simp: issueEphemeralInboundToken_def Let_def evolves_def set_add_def split: if_splits)

lemma upsert_peer_evolves:
  "name \<in> N \<Longrightarrow> isValidEphemeralInboundToken (JStr t) \<Longrightarrow> peers_evolve N ps (upsert_peer name u t ps)"
  by (induction ps) (auto simp: peers_evolve_def temporary_peer_def)

lemma evolves_upsert: "name \<in> N \<Longrightarrow> isValidEphemeralInboundToken (JStr t) \<Longrightarrow> evolves N s (upsertEphemeralPeer name u t s)"
  by (auto simp: evolves_def upsertEphemeralPeer_def upsert_peer_evolves)

lemma valid_token_text:
  "getHandshakeTokenValidationError v = None \<longleftrightarrow> isValidEphemeralInboundToken v"
  "isValidEphemeralInboundToken v \<Longrightarrow> isValidEphemeralInboundToken (JStr (js_text v))"
  by (auto simp: getHandshakeTokenValidationError_def isValidEphemeralInboundToken_def split: js.splits)

definition match_names :: "hub_match \<Rightarrow> string set" where
  "match_names m = {n. case hm_requester m of Some a \<Rightarrow> n = ha_name a | None \<Rightarrow> starts_with n ''agent-''}"

lemma peer_label_names: "peer_label (hm_requester m) v \<in> match_names m"
  by (auto simp: peer_label_def match_names_def starts_with_def split: option.splits)

lemmas evolve_steps = evolves_ack evolves_issue evolves_upsert evolves_trans

lemma answer_offer_evolves:
  assumes "answer_offer env self m d name s = (t, e)"
  shows "evolves N s t"
proof (cases "getAdvertisedAddress env")
  case None
  with assms show ?thesis by (auto simp: answer_offer_def)
next
  case (Some a)
  obtain issued s1 where i: "issueEphemeralInboundToken env s = (issued, s1)" by (cases "issueEphemeralInboundToken env s")
  have "evolves N s1 t"
    using assms Some i by (auto simp: answer_offer_def hub_ack_def Let_def split: option.splits sum.splits prod.splits
        intro!: evolves_ext)
  with evolves_issue [OF i] show ?thesis by (rule evolves_trans)
qed

lemma accept_message_evolves:
  assumes "accept_message env self m msg d s = (t, e)" "isValidEphemeralInboundToken (get_prop d ''token'')"
  shows "evolves (match_names m) s t"
proof -
  let ?N = "match_names m"
  let ?c = "ConsumeHandshakeMessage (hm_id m) (hs_id msg)"
  let ?name = "peer_label (hm_requester m) (get_prop d ''fromAgentId'')"
  let ?s2 = "mark_processed (hs_id msg) (hub_call env ?c s)"
  have up: "evolves ?N s (upsertEphemeralPeer ?name u (js_text (get_prop d ''token'')) ?s2)" for u
    by (rule evolves_trans [OF _ evolves_upsert]) (simp_all add: peer_label_names valid_token_text assms(2) evolves_ext)
  have ans: "answer_offer env self m d ?name x = (t, e) \<Longrightarrow> evolves ?N s x \<Longrightarrow> evolves ?N s t" for x
    by (rule evolves_trans) (auto intro: answer_offer_evolves)
  show ?thesis
    using assms(1) ans [OF _ evolves_ext(3) [OF up]]
    by (auto simp: accept_message_def hub_ack_def Let_def up evolves_ext split: option.splits sum.splits if_splits)
qed

lemma process_message_evolves:
  assumes "process_message env self key m msg s = (t, e)"
  shows "evolves (match_names m) s t"
proof -
  let ?N = "match_names m"
  let ?s1 = "record_entry (received_entry m msg) s"
  have acc: "accept_message env self m msg d ?s1 = (t, e) \<Longrightarrow> isValidEphemeralInboundToken (get_prop d ''token'') \<Longrightarrow> evolves ?N s t" for d
    by (rule evolves_trans [OF evolves_record accept_message_evolves])
  show ?thesis
    using assms acc
    by (auto simp: process_message_def hub_ack_def Let_def valid_token_text evolves_ext split: option.splits sum.splits if_splits)
qed

lemma process_messages_evolves:
  "process_messages env self key m msgs s = (t, e) \<Longrightarrow> evolves (match_names m) s t"
proof (induction msgs arbitrary: s)
  case (Cons msg msgs)
  obtain s1 e1 where 1: "process_message env self key m msg s = (s1, e1)" by (cases "process_message env self key m msg s")
  with Cons show ?case
    by (cases e1) (auto intro: evolves_trans [OF process_message_evolves [OF 1]] dest: process_message_evolves)
qed simp

lemma process_match_evolves:
  assumes "hm_callerRole m = Some ''provider''"
  shows "evolves (match_names m) s (process_match env self key m s)"
proof -
  have "evolves (match_names m) s t"
    if "process_messages env self key m msgs (hub_call env c s) = (t, e)" for c msgs t e
    by (rule evolves_trans [OF evolves_call process_messages_evolves [OF that]])
  then show ?thesis
    using assms by (auto simp: process_match_def Let_def evolves_ext split: sum.splits prod.splits option.splits)
qed

definition provider_names :: "hs_env \<Rightarrow> hs_state \<Rightarrow> string set" where
  "provider_names env s = (case he_pendingMatches env (hp_calls s) of
     Inl _ \<Rightarrow> {} | Inr ms \<Rightarrow> (\<Union>m \<in> {m \<in> set ms. hm_callerRole m = Some ''provider''}. match_names m))"

lemma process_all_evolves:
  "evolves (\<Union>m \<in> {m \<in> set ms. hm_callerRole m = Some ''provider''}. match_names m) s (fold (process_match env self key) ms s)"
proof (induction ms arbitrary: s)
  case (Cons m ms)
  let ?N = "\<lambda>ms. \<Union>m \<in> {m \<in> set ms. hm_callerRole m = Some ''provider''}. match_names m"
  let ?s1 = "process_match env self key m s"
  have "evolves (?N (m # ms)) s ?s1"
  proof (cases "hm_callerRole m = Some ''provider''")
    case True
    then show ?thesis by (auto intro: evolves_mono [OF process_match_evolves])
  qed (simp add: process_match_def)
  moreover have "evolves (?N (m # ms)) ?s1 (fold (process_match env self key) ms ?s1)"
    by (rule evolves_mono [OF Cons.IH]) auto
  ultimately show ?case by (simp add: evolves_trans)
qed simp

end
