(* ===== verification/HandshakeFacts.thy ===== *)
theory HandshakeFacts
  imports Handshake
begin

text \<open>
  What holds of the handshake: what a poll may change, when an answer is given up, that a token
  one gateway issues opens it to the other, and two flaws.
\<close>

text \<open>C31. Polling the hub for handshakes changes only peers named after the requesters of the matches this
  gateway provides for, and gives these well-formed temporary tokens; it never removes a peer or a
  token, every token it adds has a timer that deletes it, and it only extends the processed messages,
  the hub calls and the history.\<close>

theorem poll_changes:
  "evolves (provider_names env s) s (processPendingHubMatches env s)"
proof -
  let ?s1 = "hub_call env GetPendingMatches s"
  have "evolves (provider_names env s) s (fold (process_match env self key) ms ?s1)"
    if "he_pendingMatches env (hp_calls s) = Inr ms" for self key ms
    using evolves_trans [OF evolves_call process_all_evolves] that by (simp add: provider_names_def)
  then show ?thesis
    by (auto simp: processPendingHubMatches_def Let_def evolves_ext split: sum.splits option.splits)
qed

section \<open>Waiting for the answer\<close>

lemma wait_loop_spec:
  assumes "wait_loop env matchId deadline s = (t, r)"
  shows "\<exists>k. hp_calls t = hp_calls s @ replicate k (GetPendingHandshakeMessages matchId) \<and>
    (0 < k \<longrightarrow> (int k - 1) * 1500 < deadline - hp_now s) \<and>
    hp_now s \<le> hp_now t \<and> hp_peers t = hp_peers s \<and> hp_tokens t = hp_tokens s \<and>
    (case r of Inr m \<Rightarrow> hs_type m = ''answer''
     | Inl e \<Rightarrow> (\<forall>cs. \<exists>msgs. he_messages env cs matchId = Inr msgs) \<longrightarrow> deadline \<le> hp_now t)"
  using assms
proof (induction env matchId deadline s rule: wait_loop.induct)
  case (1 env matchId deadline s)
  let ?s1 = "hub_call env (GetPendingHandshakeMessages matchId) s"
  let ?P = "GetPendingHandshakeMessages matchId"
  show ?case
  proof (cases "hp_now s < deadline")
    case False
    with 1(2) show ?thesis by (auto simp: wait_loop.simps intro!: exI [of _ 0])
  next
    case True
    consider (err) e where "he_messages env (hp_calls s) matchId = Inl e"
      | (answer) msgs m where "he_messages env (hp_calls s) matchId = Inr msgs"
          "find (\<lambda>m. hs_type m = ''answer'') msgs = Some m"
      | (again) msgs where "he_messages env (hp_calls s) matchId = Inr msgs"
          "find (\<lambda>m. hs_type m = ''answer'') msgs = None"
      by (metis not_Some_eq sum.exhaust)
    then show ?thesis
    proof cases
      case err
      with True 1(2) show ?thesis
        by (auto simp: wait_loop.simps [of env] Let_def intro!: exI [of _ 1]) (metis Inl_Inr_False)
    next
      case answer
      from find_SomeD [OF answer(2)] have "hs_type m = ''answer''" by simp
      with answer True 1(2) show ?thesis by (auto simp: wait_loop.simps [of env] Let_def intro!: exI [of _ 1])
    next
      case again
      let ?s2 = "sleep env 1500 ?s1"
      from again True 1(2) have "wait_loop env matchId deadline ?s2 = (t, r)"
        by (simp add: wait_loop.simps [of env matchId deadline s] Let_def)
      from 1(1) [OF True refl again this] obtain k where
        k: "hp_calls t = hp_calls ?s2 @ replicate k ?P" "0 < k \<longrightarrow> (int k - 1) * 1500 < deadline - hp_now ?s2"
           "hp_now ?s2 \<le> hp_now t" "hp_peers t = hp_peers ?s2"
           "hp_tokens t = hp_tokens ?s2" "case r of Inr m \<Rightarrow> hs_type m = ''answer''
             | Inl e \<Rightarrow> (\<forall>cs. \<exists>msgs. he_messages env cs matchId = Inr msgs) \<longrightarrow> deadline \<le> hp_now t"
        by blast
      have now: "hp_now s + 1500 \<le> hp_now ?s2" by (simp add: sleep_def)
      have "(int (Suc k) - 1) * 1500 < deadline - hp_now s"
        using k(2) now True by (cases k) auto
      then show ?thesis
        using k now by (intro exI [of _ "Suc k"]) (auto simp: sleep_def)
    qed
  qed
qed

text \<open>Waiting for the answer to an offer ends: after at most thirty polls of the hub, which are its
  only calls, with a message that is an answer or with an error, and without touching peers or
  tokens. While the hub answers and has no answer message the wait lasts the full 45 seconds.\<close>

theorem waitForHandshakeAnswer_bounded:
  assumes "waitForHandshakeAnswer env matchId s = (t, r)"
  shows "(\<exists>k \<le> 30. hp_calls t = hp_calls s @ replicate k (GetPendingHandshakeMessages matchId)) \<and>
    hp_peers t = hp_peers s \<and> hp_tokens t = hp_tokens s \<and>
    (case r of Inr m \<Rightarrow> hs_type m = ''answer''
     | Inl e \<Rightarrow> (\<forall>cs. \<exists>msgs. he_messages env cs matchId = Inr msgs) \<longrightarrow> hp_now s + 45000 \<le> hp_now t)"
proof -
  from assms obtain k where k: "hp_calls t = hp_calls s @ replicate k (GetPendingHandshakeMessages matchId)"
    "0 < k \<longrightarrow> (int k - 1) * 1500 < 45000"
    and rest: "hp_peers t = hp_peers s" "hp_tokens t = hp_tokens s"
      "case r of Inr m \<Rightarrow> hs_type m = ''answer''
       | Inl e \<Rightarrow> (\<forall>cs. \<exists>msgs. he_messages env cs matchId = Inr msgs) \<longrightarrow> hp_now s + 45000 \<le> hp_now t"
    by (auto simp: waitForHandshakeAnswer_def answer_timeout_def dest!: wait_loop_spec)
  from k(2) have "k \<le> 30" by auto
  with k(1) rest show ?thesis by blast
qed


section \<open>A message nobody can read\<close>

lemma process_messages_append:
  "process_messages env self key m (before @ rest) s = (case process_messages env self key m before s of
     (s1, Some e) \<Rightarrow> (s1, Some e) | (s1, None) \<Rightarrow> process_messages env self key m rest s1)"
  by (induction before arbitrary: s) (auto split: prod.split option.split)

text \<open>C37. A pending message that does not decrypt ends the poll of its match: the messages listed before it have
  their effect, and nothing else happens than the warning in the log. The message is neither consumed nor marked
  as processed, and whatever messages are listed behind it, none of them is read, so that no peer, token, history
  entry or call to the hub comes of them.\<close>

theorem unreadable_message_blocks:
  assumes "he_messages env (hp_calls s) (hm_id m) = Inr (before @ msg # behind)" "hm_callerRole m = Some ''provider''"
    and "process_messages env self key m before (hub_call env (GetPendingHandshakeMessages (hm_id m)) s) = (s1, None)"
    and "decryptHandshake (he_crypto env) key (hs_ciphertext msg) = Inl e" "hs_id msg \<notin> set (hp_processed s1)"
  shows "process_match env self key m s =
    s1\<lparr>hp_logs := hp_logs s1 @ [LogWarn (''claw-crony: failed to process hub match '' @ show_int (hm_id m) @ '' - '' @ e)]\<rparr>"
  using assms by (simp add: process_match_def process_messages_append process_message_def log_line_def Let_def)

definition blank_crypto :: crypto where
  "blank_crypto = \<lparr>cp_parse = (\<lambda>_. Inl ''bad JSON''), cp_private = Inr, cp_public = (\<lambda>v. Inr (js_text v)), cp_export = id,
     cp_public_of = id, cp_dh = (\<lambda>a b. Inr (replicate (length a + length b) CHR ''k'')), cp_hkdf = (\<lambda>s iv info. s),
     cp_seal = (\<lambda>k iv p. (p, k)), cp_open = (\<lambda>k iv c t. if t = k then Inr c else Inl ''bad tag''),
     cp_toBase64 = id, cp_fromBase64 = (\<lambda>v. Inr (js_text v))\<rparr>"

definition blank_env :: hs_env where
  "blank_env = \<lparr>he_crypto = blank_crypto, he_url = (\<lambda>_. None), he_url_parts = (\<lambda>_. None),
     he_address_config = ([], ''h'', 80), he_registration = Inr 7, he_identity = Some ''priv'',
     he_pendingMatches = (\<lambda>_. Inr []), he_messages = (\<lambda>_ _. Inr []), he_ack = (\<lambda>_ _. None),
     he_createMatch = (\<lambda>_ _. Inl ''none''), he_latency = (\<lambda>_. 10), he_late = (\<lambda>_. 0),
     he_tokenBytes = (\<lambda>_. replicate 24 0), he_uuid = (\<lambda>_. ''u''), he_nonceBytes = (\<lambda>_. []),
     he_ephemeral = (\<lambda>_. (''e'', ''iv''))\<rparr>"

definition blank_state :: hs_state where
  "blank_state = \<lparr>hp_peers = [], hp_tokens = [], hp_timers = [], hp_issued = 0, hp_processed = [], hp_calls = [],
     hp_now = 0, hp_history = [], hp_logs = []\<rparr>"

definition demo_agent :: hub_agent where
  "demo_agent = \<lparr>ha_id = 3, ha_name = ''bob'', ha_publicKey = Some ''pem'', ha_descriptor = None\<rparr>"

definition demo_match :: hub_match where
  "demo_match = \<lparr>hm_id = 5, hm_callerRole = Some ''provider'', hm_requester = Some demo_agent, hm_provider = None\<rparr>"

definition demo_message :: "int \<Rightarrow> string \<Rightarrow> handshake_message" where
  "demo_message i c = \<lparr>hs_id = i, hs_sender = 3, hs_receiver = 7, hs_type = ''offer'', hs_ciphertext = c\<rparr>"

theorem unreadable_message_blocks_witness:
  "hp_processed (process_match (blank_env\<lparr>he_messages := (\<lambda>_ _. Inr [demo_message 1 ''x'', demo_message 2 ''y'', demo_message 3 ''z''])\<rparr>)
     7 ''priv'' demo_match (blank_state\<lparr>hp_processed := [1]\<rparr>)) = [1]"
  by (subst unreadable_message_blocks [where before = "[demo_message 1 ''x'']" and msg = "demo_message 2 ''y''" and
        behind = "[demo_message 3 ''z'']" and e = "''bad JSON''"],
      simp_all add: blank_env_def blank_crypto_def blank_state_def demo_match_def decryptHandshake_def demo_message_def
        process_message_def hub_call_def) simp_all

theorem waitForHandshakeAnswer_bounded_witness:
  "hp_peers (fst (waitForHandshakeAnswer blank_env 5 blank_state)) = []"
proof -
  obtain t r where "waitForHandshakeAnswer blank_env 5 blank_state = (t, r)" by fastforce
  from waitForHandshakeAnswer_bounded [OF this] show ?thesis
    using \<open>waitForHandshakeAnswer blank_env 5 blank_state = (t, r)\<close> by (simp add: blank_state_def)
qed


section \<open>A token issued here opens the other side\<close>

lemma hex_digit_valid: "n < 16 \<Longrightarrow> lower_hex (hex_digit n)"
  by (auto simp: lower_hex_def hex_digit_def Let_def)

lemma hex_bytes_valid: "length bs = 24 \<Longrightarrow> isValidEphemeralInboundToken (JStr (hex_bytes bs))"
proof -
  have "length (hex_bytes bs) = 2 * length bs \<and> list_all lower_hex (hex_bytes bs)"
    by (induction bs) (simp_all add: hex_bytes_def hex_digit_valid)
  then show "length bs = 24 \<Longrightarrow> isValidEphemeralInboundToken (JStr (hex_bytes bs))"
    by (simp add: isValidEphemeralInboundToken_def EPHEMERAL_INBOUND_TOKEN_LENGTH_def)
qed

text \<open>A key pair: the PEM texts of a private key and of its public key.\<close>

definition key_pair :: "crypto \<Rightarrow> string \<Rightarrow> string \<Rightarrow> bool" where
  "key_pair cp priv pub \<longleftrightarrow>
    (\<exists>k. cp_private cp priv = Inr k \<and> cp_public cp (JStr pub) = Inr (cp_public_of cp k) \<and>
      (\<forall>e. \<exists>secret. cp_dh cp e (cp_public_of cp k) = Inr secret))"

text \<open>The envelope \<open>encryptHandshake\<close> writes when the Diffie-Hellman secret is the given one.\<close>

definition handshake_envelope :: "crypto \<Rightarrow> string \<Rightarrow> string \<Rightarrow> js \<Rightarrow> string \<Rightarrow> js" where
  "handshake_envelope cp ephemeral iv payload secret =
    encrypted_message cp ephemeral iv (cp_seal cp (cp_hkdf cp secret iv HANDSHAKE_INFO) iv (wire_text payload))"

lemma decrypt_encrypt:
  assumes laws: "crypto_laws cp" and keys: "key_pair cp priv pub"
    and enc: "encryptHandshake cp ephemeral iv payload pub = Inr c"
    and parse: "parses_back cp payload" "\<And>secret. parses_back cp (handshake_envelope cp ephemeral iv payload secret)"
  shows "decryptHandshake cp priv c = Inr payload"
proof -
  obtain k where k: "cp_private cp priv = Inr k" "cp_public cp (JStr pub) = Inr (cp_public_of cp k)"
    using keys by (auto simp: key_pair_def)
  with enc obtain secret where s: "cp_dh cp ephemeral (cp_public_of cp k) = Inr secret"
    and c: "c = wire_text (handshake_envelope cp ephemeral iv payload secret)"
    by (auto simp: encryptHandshake_def handshake_envelope_def and_then_Inr Let_def)
  have "cp_dh cp k (cp_public_of cp ephemeral) = Inr secret"
    using laws s by (simp add: crypto_laws_def)
  then show ?thesis
    using parse k laws unfolding c
    by (simp add: decryptHandshake_def parses_back_def handshake_envelope_def encrypted_message_def crypto_laws_def Let_def)
qed

lemma upsert_peer_mem:
  "\<exists>p \<in> set (upsert_peer name u t ps). pc_name p = name \<and> pc_agentCardUrl p = u \<and> pc_auth p = Some (''bearer'', t)"
  by (induction ps) auto

lemma answer_offer_peers:
  "answer_offer env self m d name s = (t, e) \<Longrightarrow> hp_peers t = hp_peers s"
  by (auto simp: answer_offer_def hub_ack_def Let_def issueEphemeralInboundToken_def log_line_def record_entry_def
      split: option.splits sum.splits)

lemma accept_message_peer:
  assumes "accept_message env self m msg d s = (t, e)" "hm_requester m = Some a"
    and "get_prop d ''address'' = JStr address" "get_prop d ''agentCardPath'' = JStr path"
    and "he_ack env (hp_calls s) (ConsumeHandshakeMessage (hm_id m) (hs_id msg)) = None"
  shows "\<exists>p \<in> set (hp_peers t). pc_name p = ha_name a \<and>
    pc_agentCardUrl p = resolvePeerAgentCardUrl (he_url env) (ha_descriptor a) address path \<and>
    pc_auth p = Some (''bearer'', js_text (get_prop d ''token''))"
proof -
  let ?u = "resolvePeerAgentCardUrl (he_url env) (ha_descriptor a) address path"
  let ?P = "\<lambda>ps. \<exists>p \<in> set ps. pc_name p = ha_name a \<and> pc_agentCardUrl p = ?u \<and>
    pc_auth p = Some (''bearer'', js_text (get_prop d ''token''))"
  let ?s2 = "mark_processed (hs_id msg) (hub_call env (ConsumeHandshakeMessage (hm_id m) (hs_id msg)) s)"
  have url: "peer_card_url env (ha_descriptor a) (JStr address) (JStr path) = Inr ?u"
    by (simp add: peer_card_url_def)
  have up: "?P (hp_peers (upsertEphemeralPeer (ha_name a) ?u (js_text (get_prop d ''token'')) ?s2))"
    by (simp add: upsertEphemeralPeer_def upsert_peer_mem)
  have ans: "?P (hp_peers t)" if "answer_offer env self m d (ha_name a) x = (t, e)" "?P (hp_peers x)" for x
    using that answer_offer_peers by metis
  show ?thesis
    using assms up ans
    by (auto simp: accept_message_def hub_ack_def url peer_label_def Let_def log_line_def record_entry_def
        split: option.splits if_splits)
qed

text \<open>The two halves of the handshake agree. Gateway A issues a temporary token and encrypts its connection
  details for gateway B's public key. Then B decrypts exactly these details, accepts the token, and, if the
  hub confirms the consumption, has afterwards a peer named after the requester whose bearer token is one that A
  accepts, reached at A's published descriptor or, without one, at the address A advertised.\<close>

lemma handshake_delivers:
  assumes laws: "crypto_laws cp" and keys: "key_pair cp priv pub"
    and cp: "he_crypto envA = cp" "he_crypto envB = cp"
    and issued: "issueEphemeralInboundToken envA sA = (issued, sA')"
    and payload: "payload = handshake_payload envA matchId selfA peerId address issued sA'"
    and enc: "encrypt_for envA sA' payload pub = Inr c"
    and parse: "parses_back cp payload" "\<And>secret. parses_back cp (handshake_envelope cp (fst (he_ephemeral envA (hp_issued sA'))) (snd (he_ephemeral envA (hp_issued sA'))) payload secret)"
    and bytes: "length (he_tokenBytes envA (hp_issued sA)) = 24"
    and msg: "hs_ciphertext msg = c" "hs_id msg \<notin> set (hp_processed sB)" "hm_requester m = Some a"
    and hub: "he_ack envB (hp_calls sB) (ConsumeHandshakeMessage (hm_id m) (hs_id msg)) = None"
  shows "decryptHandshake cp priv c = Inr payload \<and> fst issued \<in> set (hp_tokens sA') \<and>
    (\<exists>p \<in> set (hp_peers (fst (process_message envB selfB priv m msg sB))). pc_name p = ha_name a \<and>
       pc_agentCardUrl p = resolvePeerAgentCardUrl (he_url envB) (ha_descriptor a) address ''/.well-known/agent.json'' \<and>
       pc_auth p = Some (''bearer'', fst issued))"
proof -
  have dec: "decryptHandshake cp priv c = Inr payload"
    using enc decrypt_encrypt [OF laws keys _ parse] by (auto simp: encrypt_for_def cp Let_def split: prod.splits)
  have tok: "fst issued = hex_bytes (he_tokenBytes envA (hp_issued sA))" and mem: "fst issued \<in> set (hp_tokens sA')"
    using issued by (auto simp: issueEphemeralInboundToken_def Let_def set_add_def)
  have fields: "get_prop payload ''token'' = JStr (fst issued)" "get_prop payload ''address'' = JStr address"
    "get_prop payload ''agentCardPath'' = JStr ''/.well-known/agent.json''" "\<not> nullish payload"
    by (simp_all add: payload handshake_payload_def nullish_def)
  have ok: "getHandshakeTokenValidationError (JStr (fst issued)) = None"
    by (simp add: valid_token_text tok hex_bytes_valid bytes)
  let ?s1 = "record_entry (received_entry m msg) sB"
  have "process_message envB selfB priv m msg sB = accept_message envB selfB m msg payload ?s1"
    by (simp add: process_message_def msg dec cp fields ok Let_def)
  moreover obtain t e where r: "accept_message envB selfB m msg payload ?s1 = (t, e)" by fastforce
  moreover have "he_ack envB (hp_calls ?s1) (ConsumeHandshakeMessage (hm_id m) (hs_id msg)) = None"
    by (simp add: record_entry_def hub)
  ultimately show ?thesis
    using accept_message_peer [OF r msg(3) fields(2,3)] by (simp add: dec mem fields(1))
qed

text \<open>A transparent cryptosystem in which the laws hold: keys are their own public keys, sealing leaves the
  text readable, and parsing knows exactly the payload; every other text is taken for its envelope.\<close>

definition clear_crypto :: "js \<Rightarrow> js \<Rightarrow> crypto" where
  "clear_crypto payload envelope = blank_crypto
    \<lparr>cp_seal := (\<lambda>k iv p. (p, ''tag'')), cp_open := (\<lambda>k iv c t. Inr c),
     cp_parse := (\<lambda>s. if s = wire_text payload then Inr payload else Inr envelope)\<rparr>"

lemma json_string_longer: "length s < length (json_string s)"
proof -
  have "length s \<le> length (concat (map json_char s))"
    by (induction s) (auto simp: json_char_def Let_def)
  then show ?thesis by (simp add: json_string_def)
qed

lemma envelope_longer:
  "length p < length (wire_text (JObj [a, b, c, d, (''ciphertext'', JStr p), e]))"
  using json_string_longer [of p] by (cases a; cases b; cases c; cases d; cases e)
    (auto simp: wire_text_def split: option.splits)

lemma clear_crypto_laws: "crypto_laws (clear_crypto p v)"
  by (simp add: crypto_laws_def clear_crypto_def blank_crypto_def add.commute)

definition demo_payload :: js where
  "demo_payload = handshake_payload blank_env 5 3 (JNum (Fin 7)) ''h:80'' (fst (issueEphemeralInboundToken blank_env blank_state))
     (snd (issueEphemeralInboundToken blank_env blank_state))"

definition demo_clear :: crypto where
  "demo_clear = clear_crypto demo_payload (handshake_envelope (clear_crypto demo_payload JNull) ''e'' ''iv'' demo_payload [])"

lemma demo_envelope: "handshake_envelope demo_clear ''e'' ''iv'' demo_payload secret =
    handshake_envelope (clear_crypto demo_payload JNull) ''e'' ''iv'' demo_payload []"
  by (simp add: handshake_envelope_def encrypted_message_def demo_clear_def clear_crypto_def blank_crypto_def)

lemma demo_parses: "parses_back demo_clear demo_payload"
    "parses_back demo_clear (handshake_envelope demo_clear ''e'' ''iv'' demo_payload secret)"
proof -
  let ?v = "handshake_envelope (clear_crypto demo_payload JNull) ''e'' ''iv'' demo_payload []"
  show "parses_back demo_clear demo_payload"
    by (simp add: parses_back_def demo_clear_def clear_crypto_def)
  have "length (wire_text demo_payload) < length (wire_text ?v)"
    by (simp add: handshake_envelope_def encrypted_message_def clear_crypto_def blank_crypto_def envelope_longer)
  then have "wire_text ?v \<noteq> wire_text demo_payload" by auto
  then show "parses_back demo_clear (handshake_envelope demo_clear ''e'' ''iv'' demo_payload secret)"
    unfolding demo_envelope by (simp add: parses_back_def demo_clear_def clear_crypto_def)
qed

section \<open>Whose peer it becomes\<close>

lemma find_upsert:
  "\<exists>p. find (\<lambda>p. pc_name p = name) (upsert_peer name u t ps) = Some p \<and> pc_name p = name \<and> pc_agentCardUrl p = u \<and>
     pc_auth p = Some (''bearer'', t)"
  by (induction ps) auto

lemma find_upsert_other: "n \<noteq> name \<Longrightarrow> find (\<lambda>p. pc_name p = n) (upsert_peer name u t ps) = find (\<lambda>p. pc_name p = n) ps"
  by (induction ps) auto

lemma upsert_names: "find (\<lambda>p. pc_name p = name) ps = Some c \<Longrightarrow> map pc_name (upsert_peer name u t ps) = map pc_name ps"
  by (induction ps) (auto split: if_splits)

text \<open>C34. The name under which a requester is entered is the one it chose for itself at the hub: when it is the
  name of a peer the operator configured, the entry that every later send by this name looks up has the requester's
  token and the requester's card URL (the one its own descriptor at the hub gives or, without one, the address and the card path,
  by default the well-known one, of its payload) instead of the configured URL and credentials, and no peer was added.\<close>

theorem requester_takes_over_configured_peer:
  assumes "hs_id msg \<notin> set (hp_processed s)" "hm_requester m = Some a"
    and "decryptHandshake (he_crypto env) key (hs_ciphertext msg) = Inr d" "d \<noteq> JNull" "d \<noteq> JUndef"
    and "get_prop d ''token'' = JStr token" "isValidEphemeralInboundToken (JStr token)"
    and "get_prop d ''address'' = JStr address"
    and "get_prop d ''agentCardPath'' = JStr path \<or> get_prop d ''agentCardPath'' = JUndef \<and> path = ''/.well-known/agent.json''"
    and "he_ack env (hp_calls s) (ConsumeHandshakeMessage (hm_id m) (hs_id msg)) = None"
    and "find (\<lambda>p. pc_name p = ha_name a) (hp_peers s) = Some configured"
  shows "(let t = fst (process_message env self key m msg s) in
     map pc_name (hp_peers t) = map pc_name (hp_peers s) \<and>
     (\<exists>p. find (\<lambda>p. pc_name p = ha_name a) (hp_peers t) = Some p \<and> pc_auth p = Some (''bearer'', token) \<and>
        pc_agentCardUrl p = (case resolveA2aAgentCardUrl (he_url env) (ha_descriptor a) of
           Some u \<Rightarrow> u | None \<Rightarrow> buildAgentCardUrlFromAddress address path)))"
proof -
  let ?u = "resolvePeerAgentCardUrl (he_url env) (ha_descriptor a) address path"
  let ?ps = "upsert_peer (ha_name a) ?u token (hp_peers s)"
  have url: "peer_card_url env (ha_descriptor a) (JStr address) (get_prop d ''agentCardPath'') = Inr ?u"
    using assms(9) by (auto simp: peer_card_url_def)
  have ans: "hp_peers (fst (answer_offer env self m d n x)) = hp_peers x" for n x
    using answer_offer_peers by (metis prod.collapse)
  have ok: "getHandshakeTokenValidationError (JStr token) = None" using assms(7) by (simp add: valid_token_text)
  have "hp_peers (fst (process_message env self key m msg s)) = ?ps"
    using assms(1-8,10) ok
    by (auto simp: process_message_def accept_message_def nullish_def hub_ack_def url peer_label_def Let_def log_line_def
        record_entry_def mark_processed_def upsertEphemeralPeer_def ans split: option.splits)
  moreover have "map pc_name ?ps = map pc_name (hp_peers s)"
    using assms(11) by (rule upsert_names)
  ultimately show ?thesis
    using find_upsert [of "ha_name a" ?u token "hp_peers s"] by (auto simp: Let_def resolvePeerAgentCardUrl_def)
qed


definition demo_stranger :: js where
  "demo_stranger = JObj [(''token'', JStr (replicate 48 CHR ''0'')), (''address'', JStr ''evil:80''),
     (''agentCardPath'', JStr ''/.well-known/agent.json'')]"

definition demo_stranger_env :: hs_env where
  "demo_stranger_env = blank_env\<lparr>he_crypto := blank_crypto
     \<lparr>cp_parse := (\<lambda>s. if s = ''m'' then Inr (JObj [(''algorithm'', JStr handshake_algorithm), (''authTag'', JStr []), (''ciphertext'', JStr [])])
        else Inr demo_stranger), cp_open := (\<lambda>k iv c t. Inr c)\<rparr>\<rparr>"

definition demo_configured :: peer_config where
  "demo_configured = \<lparr>pc_name = ''bob'', pc_agentCardUrl = ''https://bob'', pc_auth = Some (''bearer'', ''secret'')\<rparr>"

theorem requester_takes_over_configured_peer_witness:
  "\<exists>p. find (\<lambda>p. pc_name p = ''bob'') (hp_peers (fst (process_message demo_stranger_env 7 ''priv'' demo_match
      (demo_message 1 ''m'') (blank_state\<lparr>hp_peers := [demo_configured]\<rparr>)))) = Some p \<and>
     pc_agentCardUrl p = ''http://evil:80/.well-known/agent.json''"
proof -
  have "decryptHandshake (he_crypto demo_stranger_env) ''priv'' ''m'' = Inr demo_stranger"
    by (simp add: decryptHandshake_def demo_stranger_env_def blank_env_def blank_crypto_def Let_def)
  moreover have "isValidEphemeralInboundToken (JStr (replicate 48 CHR ''0''))"
    by (simp add: isValidEphemeralInboundToken_def EPHEMERAL_INBOUND_TOKEN_LENGTH_def list_all_iff lower_hex_def)
  ultimately show ?thesis
    using requester_takes_over_configured_peer [of "demo_message 1 ''m''" "blank_state\<lparr>hp_peers := [demo_configured]\<rparr>" demo_match
        demo_agent demo_stranger_env "''priv''" demo_stranger "replicate 48 CHR ''0''" "''evil:80''" "''/.well-known/agent.json''" demo_configured 7]
    by (auto simp: demo_message_def blank_state_def demo_match_def demo_agent_def demo_stranger_def demo_configured_def
        demo_stranger_env_def blank_env_def Let_def resolveA2aAgentCardUrl_def descriptor_endpoints_def buildAgentCardUrlFromAddress_def starts_with_def strip_slash_def ends_with_def)
qed

section \<open>The outcome of a match request\<close>

lemma take_answer_ready:
  assumes "take_answer env key m p answer s = (t, Inr remote)"
  shows "hp_calls t = hp_calls s @ [ConsumeHandshakeMessage (hm_id m) (hs_id answer), MarkReady (hm_id m)] \<and>
    (\<exists>q. find (\<lambda>q. pc_name q = ha_name p) (hp_peers t) = Some q \<and> temporary_peer q)"
proof -
  let ?t = "get_prop remote ''token''"
  have "\<exists>q. find (\<lambda>q. pc_name q = n) (upsert_peer n u (js_text ?t) ps) = Some q \<and> temporary_peer q"
    if "isValidEphemeralInboundToken ?t" for n u ps
    using find_upsert [of n u "js_text ?t" ps] valid_token_text(2) [OF that] by (auto simp: temporary_peer_def)
  then show ?thesis
    using assms by (auto simp: take_answer_def hub_ack_def Let_def valid_token_text record_entry_def upsertEphemeralPeer_def
        split: sum.splits option.splits if_splits)
qed

lemma hub_ack_calls: "hub_ack env c s = (r, t) \<Longrightarrow> hp_calls t = hp_calls s @ [c]"
  by (auto simp: hub_ack_def)

lemma record_fields [simp]:
  "hp_calls (record_entry e s) = hp_calls s" "hp_peers (record_entry e s) = hp_peers s"
  "hp_history (record_entry e s) = hp_history s @ [e]"
  by (simp_all add: record_entry_def)

lemma failure_recorded [simp]:
  "jprop ''status'' (last (hp_history (match_failed a r x s))) = JStr ''failure''" "hp_history (match_failed a r x s) \<noteq> []"
  "jprop ''status'' (last (hp_history (handshake_failed d a m x ph r s))) = JStr ''failure''"
  "hp_history (handshake_failed d a m x ph r s) \<noteq> []"
  by (simp_all add: match_failed_def handshake_failed_def entry_head_def)

lemma failed_not_ok [simp]: "\<not> mo_ok (failed_outcome text x e)"
  by (simp add: failed_outcome_def)

definition reports_failure :: "hs_state \<Rightarrow> bool" where
  "reports_failure t \<longleftrightarrow> hp_history t \<noteq> [] \<and> jprop ''status'' (last (hp_history t)) = JStr ''failure''"

definition ready_with :: "match_op list \<Rightarrow> hub_match \<Rightarrow> hub_agent \<Rightarrow> hs_state \<Rightarrow> bool" where
  "ready_with calls m p t \<longleftrightarrow>
    (\<exists>c x k i. k \<le> 30 \<and> hp_calls t = calls @ SendHandshakeMessage (hm_id m) ''offer'' c x #
       replicate k (GetPendingHandshakeMessages (hm_id m)) @ [ConsumeHandshakeMessage (hm_id m) i, MarkReady (hm_id m)]) \<and>
    (\<exists>q. find (\<lambda>q. pc_name q = ha_name p) (hp_peers t) = Some q \<and> temporary_peer q)"

lemma wait_calls:
  "waitForHandshakeAnswer env i s = (t, r) \<Longrightarrow> \<exists>k \<le> 30. hp_calls t = hp_calls s @ replicate k (GetPendingHandshakeMessages i)"
proof -
  assume "waitForHandshakeAnswer env i s = (t, r)"
  then obtain k where "hp_calls t = hp_calls s @ replicate k (GetPendingHandshakeMessages i)"
    "0 < k \<longrightarrow> (int k - 1) * 1500 < 45000"
    by (auto simp: waitForHandshakeAnswer_def answer_timeout_def dest!: wait_loop_spec)
  then show ?thesis by (intro exI [of _ k]) auto
qed

lemma issue_calls: "issueEphemeralInboundToken env s = (i, t) \<Longrightarrow> hp_calls t = hp_calls s"
  by (auto simp: issueEphemeralInboundToken_def Let_def)

lemma exchange_outcome:
  assumes "handshake_exchange env self key address startedAt m p pem s = (t, r)"
  shows "if mo_ok r then ready_with (hp_calls s) m p t else reports_failure t"
proof -
  obtain i s1 where i: "issueEphemeralInboundToken env s = (i, s1)" by fastforce
  let ?payload = "handshake_payload env (hm_id m) self (num (ha_id p)) address i s1"
  show ?thesis
  proof (cases "encrypt_for env s1 ?payload pem")
    case (Inl e)
    with assms i show ?thesis by (auto simp: handshake_exchange_def Let_def reports_failure_def)
  next
    case (Inr c)
    let ?op = "SendHandshakeMessage (hm_id m) ''offer'' c (snd i)"
    obtain r1 s2 where a: "hub_ack env ?op s1 = (r1, s2)" by fastforce
    show ?thesis
    proof (cases r1)
      case (Some e)
      with assms i Inr a show ?thesis by (auto simp: handshake_exchange_def Let_def reports_failure_def)
    next
      case None
      let ?s3 = "record_entry (entry_head ''handshake.offer_sent'' ''success'' ''outbound'' @ [(''matchId'', num (hm_id m))] @
        [(''peer'', JStr (ha_name p))] @ detail [(''toAgentId'', num (ha_id p)), (''address'', JStr address),
          (''expiresAt'', JStr (snd i))]) s2"
      obtain s4 w where w: "waitForHandshakeAnswer env (hm_id m) ?s3 = (s4, w)" by fastforce
      obtain k where k: "k \<le> 30" "hp_calls s4 = hp_calls s @ ?op # replicate k (GetPendingHandshakeMessages (hm_id m))"
        using wait_calls [OF w] hub_ack_calls [OF a] issue_calls [OF i] by auto
      show ?thesis
      proof (cases w)
        case (Inl e)
        with assms i Inr a None w show ?thesis by (auto simp: handshake_exchange_def Let_def reports_failure_def)
      next
        case (Inr answer)
        obtain s5 q where q: "take_answer env key m p answer s4 = (s5, q)" by fastforce
        have res: "handshake_exchange env self key address startedAt m p pem s = (case q of
            Inl e \<Rightarrow> (handshake_failed ''inbound'' startedAt m [(''messageId'', num (hs_id answer))] ''process_answer'' e s5,
              failed_outcome (''Encrypted handshake answer received for match '' @ show_int (hm_id m) @
                '', but processing failed: '' @ e) [(''matchId'', num (hm_id m))] e)
          | Inr remote \<Rightarrow> (s5, ready_outcome m p remote))"
          using i \<open>encrypt_for env s1 ?payload pem = Sum_Type.Inr c\<close> a None w Inr q
          by (cases q) (simp_all add: handshake_exchange_def Let_def)
        show ?thesis
        proof (cases q)
          case (Inl e)
          with assms res show ?thesis by (auto simp: reports_failure_def)
        next
          case q': (Inr remote)
          with assms res have t: "t = s5" "mo_ok r" by (auto simp: ready_outcome_def)
          from q q' have "take_answer env key m p answer s4 = (s5, Sum_Type.Inr remote)" by simp
          from take_answer_ready [OF this] k t show ?thesis by (auto simp: ready_with_def)
        qed
      qed
    qed
  qed
qed

text \<open>C7. A match request that reports success has made exactly the calls of the protocol, in order: it created
  the match, sent one offer, polled at most thirty times, consumed the answer and marked the match ready, and
  the provider is now a peer with a well-formed temporary token. A request that reports failure has left a
  history entry with status failure as its last.\<close>

theorem performMatchRequest_outcome:
  assumes "performMatchRequest env skills description s = (t, r)"
  shows "if mo_ok r
    then (\<exists>m p. he_createMatch env (hp_calls s) (CreateMatch (match_params_of skills description)) = Inr m \<and> hm_provider m = Some p \<and>
            ready_with (hp_calls s @ [CreateMatch (match_params_of skills description)]) m p t)
    else reports_failure t"
proof -
  let ?c = "CreateMatch (match_params_of skills description)"
  consider (early) "\<not> mo_ok r" "reports_failure t"
    | (go) self key address m p pem s2 where "he_createMatch env (hp_calls s) ?c = Inr m" "hm_provider m = Some p"
        "handshake_exchange env self key address (hp_now s) m p pem s2 = (t, r)" "hp_calls s2 = hp_calls s @ [?c]"
    using assms
    by (auto simp: performMatchRequest_def Let_def reports_failure_def entry_head_def
        split: sum.splits option.splits bind_splits)
  then show ?thesis
  proof cases
    case early
    then show ?thesis by simp
  next
    case go
    from exchange_outcome [OF go(3)] go(1,2,4) show ?thesis by auto
  qed
qed

theorem performMatchRequest_outcome_witness:
  "reports_failure (fst (performMatchRequest blank_env [''chat''] None blank_state))"
proof -
  obtain t r where tr: "performMatchRequest blank_env [''chat''] None blank_state = (t, r)" by fastforce
  have "\<not> mo_ok r"
    using tr by (auto simp: performMatchRequest_def blank_env_def getAdvertisedAddress_def Let_def)
  with performMatchRequest_outcome [OF tr] tr show ?thesis by simp
qed

end
