(* ===== verification/GatewayApi.thy ===== *)
theory GatewayApi
  imports HandshakeFacts
begin

text \<open>
  What the plugin offers to the outside, from \<open>index.ts\<close>: the bearer checks of the HTTP, gRPC,
  metrics and shared-context endpoints, the JSON-RPC error middleware, the gateway methods for
  metrics, audit, history and peers, the shared-context methods and their JSON-RPC endpoint, whose batches
  are runs of their calls under a schedule. The HTTP
  server and the SDK's request handlers are not modelled: a guard is the decision it takes on the header
  it is given.
\<close>

section \<open>State\<close>

text \<open>What the handlers share: telemetry, the audit entries written, the history entries recorded and the
  shared-context file.\<close>

record api_state =
  as_telemetry :: telemetry
  as_audit :: "js list"
  as_history :: "(string \<times> js) list list"
  as_shared :: shared_file

definition note_entry :: "(string \<times> js) list \<Rightarrow> api_state \<Rightarrow> api_state" where
  "note_entry e s = s\<lparr>as_history := as_history s @ [e]\<rparr>"

definition security_rejection :: "int \<Rightarrow> string \<Rightarrow> api_state \<Rightarrow> api_state" where
  "security_rejection now surface s = s
    \<lparr>as_telemetry := recordSecurityRejection now surface ''invalid or missing bearer token'' (as_telemetry s),
     as_audit := as_audit s @ [audit_security now surface ''invalid or missing bearer token'']\<rparr>"

section \<open>Bearer checks\<close>

datatype auth_header = NoHeader | OneHeader string | ManyHeaders "string list"

text \<open>\<open>Array.isArray(h) ? h[0] : h\<close>.\<close>

definition single_header :: "auth_header \<Rightarrow> string option" where
  "single_header h = (case h of NoHeader \<Rightarrow> None | OneHeader s \<Rightarrow> Some s
     | ManyHeaders hs \<Rightarrow> (case hs of [] \<Rightarrow> None | s # _ \<Rightarrow> Some s))"

definition bearer_token :: "string option \<Rightarrow> string" where
  "bearer_token h = (case h of Some s \<Rightarrow> if starts_with s ''Bearer '' then drop 7 s else [] | None \<Rightarrow> [])"

definition unauthorized :: string where
  "unauthorized = ''Unauthorized: invalid or missing bearer token''"

definition userBuilder :: "auth_kind \<Rightarrow> string list \<Rightarrow> int \<Rightarrow> auth_header \<Rightarrow> api_state \<Rightarrow> (js + unit) \<times> api_state" where
  "userBuilder inboundAuth validTokens now h s =
    (if inboundAuth = BearerAuth \<and> validTokens \<noteq> [] then
       let providedToken = bearer_token (single_header h) in
       if providedToken = [] \<or> providedToken \<notin> set validTokens
       then (Inl (jsonRpcError JNull (-32000) unauthorized), security_rejection now ''http'' s)
       else (Inr (), s)
     else (Inr (), s))"

text \<open>The guards that answer the request themselves: the status and body sent, or nothing.\<close>

definition metrics_guard :: "auth_kind \<Rightarrow> string list \<Rightarrow> auth_header \<Rightarrow> (int \<times> js) option" where
  "metrics_guard metricsAuth validTokens h =
    (if metricsAuth = BearerAuth \<and> validTokens \<noteq> [] then
       let token = bearer_token (single_header h) in
       if token = [] \<or> token \<notin> set validTokens then Some (401, JObj [(''error'', JStr unauthorized)]) else None
     else None)"

definition shared_context_guard :: "auth_kind \<Rightarrow> string list \<Rightarrow> int \<Rightarrow> auth_header \<Rightarrow> api_state \<Rightarrow>
    (int \<times> js) option \<times> api_state" where
  "shared_context_guard inboundAuth validTokens now h s =
    (if inboundAuth = BearerAuth \<and> validTokens \<noteq> [] then
       let token = bearer_token (single_header h) in
       if token = [] \<or> token \<notin> set validTokens
       then (Some (401, jsonRpcError JNull (-32000) unauthorized), security_rejection now ''http'' s)
       else (None, s)
     else (None, s))"

text \<open>For gRPC the header is the first value of the call's metadata, none when there is no metadata. The
  error is \<open>UNAUTHENTICATED\<close>.\<close>

definition grpcUserBuilder :: "auth_kind \<Rightarrow> string list \<Rightarrow> int \<Rightarrow> string list option \<Rightarrow> api_state \<Rightarrow>
    (string + unit) \<times> api_state" where
  "grpcUserBuilder inboundAuth validTokens now metadata s =
    (if inboundAuth = BearerAuth \<and> validTokens \<noteq> [] then
       let values = opt_default [] metadata;
           header = (case values of [] \<Rightarrow> [] | v # _ \<Rightarrow> v);
           providedToken = (if starts_with header ''Bearer '' then drop 7 header else [])
       in if providedToken = [] \<or> providedToken \<notin> set validTokens
          then (Inl unauthorized, security_rejection now ''grpc'' s) else (Inr (), s)
     else (Inr (), s))"

section \<open>The error middleware\<close>

datatype thrown = ThrownSyntaxError | ThrownValue js

definition error_middleware :: "thrown \<Rightarrow> int \<times> js" where
  "error_middleware err = (case err of
     ThrownSyntaxError \<Rightarrow> (400, jsonRpcError JNull (-32700) ''Parse error'')
   | ThrownValue v \<Rightarrow>
      (case get_prop v ''code'' of
         JNum c \<Rightarrow> (if c = Fin (-32601) then 404 else 400,
           JObj [(''jsonrpc'', JStr ''2.0''), (''id'', JNull), (''error'', JObj [(''code'', JNum c),
             (''message'', or_else (get_prop v ''message'') (JStr ''Unknown error''))])])
       | _ \<Rightarrow> (500, jsonRpcError JNull (-32603) ''Internal error'')))"

definition shared_error_middleware :: "thrown \<Rightarrow> int \<times> js" where
  "shared_error_middleware err =
    (if err = ThrownSyntaxError \<or> (case err of ThrownValue v \<Rightarrow> get_prop v ''type'' = JStr ''entity.parse.failed'' | _ \<Rightarrow> False)
     then (400, jsonRpcError JNull (-32700) ''Parse error'')
     else (500, jsonRpcError JNull (-32603) ''Internal error''))"

section \<open>Metrics, audit, history and peers\<close>

type_synonym response = "bool \<times> js"

definition listed :: "string \<Rightarrow> js list \<Rightarrow> js" where
  "listed name xs = JObj [(name, JArr xs), (''count'', num (int (length xs)))]"

definition clamp_count :: "js \<Rightarrow> rat" where
  "clamp_count v = min (max 1 (asNumber_or v 50)) 500"

text \<open>A read of the file may fail, with the message given.\<close>

definition answer_read :: "string \<Rightarrow> string + js list \<Rightarrow> response" where
  "answer_read name r = (case r of Inl e \<Rightarrow> (False, JObj [(''error'', JStr e)]) | Inr xs \<Rightarrow> (True, listed name xs))"

definition a2a_audit :: "js \<Rightarrow> string + json_file \<Rightarrow> response" where
  "a2a_audit params f =
    (let cnt = clamp_count (get_prop (asObject_or_empty params) ''count'')
     in answer_read ''entries'' (case f of Inl e \<Rightarrow> Inl e | Inr d \<Rightarrow> Inr (tail_audit \<lfloor>cnt\<rfloor> d)))"

definition history_filter_of :: "js \<Rightarrow> history_filter" where
  "history_filter_of payload =
    \<lparr>hf_count = Some (clamp_count (coalesce (get_prop payload ''count'') (get_prop payload ''limit''))),
     hf_type = asString_or (get_prop payload ''type'') [], hf_status = asString_or (get_prop payload ''status'') [],
     hf_direction = asString_or (get_prop payload ''direction'') [],
     hf_matchId = (case get_prop payload ''matchId'' of JNum (Fin q) \<Rightarrow> Some (JNum (Fin q)) | _ \<Rightarrow> None),
     hf_peer = asString_or (get_prop payload ''peer'') []\<rparr>"

definition a2a_history :: "js \<Rightarrow> string + json_file \<Rightarrow> response" where
  "a2a_history params f =
    (let flt = history_filter_of (asObject_or_empty params)
     in answer_read ''entries'' (case f of Inl e \<Rightarrow> Inl e | Inr d \<Rightarrow> Inr (tail_history flt d)))"

fun health_text :: "health_status \<Rightarrow> string" where
  "health_text Healthy = ''healthy''"
| "health_text Unhealthy = ''unhealthy''"
| "health_text Unknown = ''unknown''"

definition time_js :: "int option \<Rightarrow> js" where
  "time_js v = (case v of None \<Rightarrow> JNull | Some t \<Rightarrow> num t)"

definition peer_state_js :: "peer_state \<Rightarrow> js" where
  "peer_state_js p = JObj [(''health'', JStr (health_text (health p))), (''circuit'', JStr (circuit_text (circuit p))),
     (''consecutiveFailures'', num (int (consecutiveFailures p))), (''lastFailureAt'', time_js (lastFailureAt p)),
     (''lastCheckAt'', time_js (lastCheckAt p))]"

definition peer_row :: "(string \<times> peer_state) list \<Rightarrow> peer_config \<Rightarrow> js" where
  "peer_row states p = JObj [(''name'', JStr (pc_name p)), (''agentCardUrl'', JStr (pc_agentCardUrl p)),
     (''authType'', opt_str (map_option fst (pc_auth p))),
     (''hasToken'', JBool (case pc_auth p of Some (_, t) \<Rightarrow> t \<noteq> [] | None \<Rightarrow> False)),
     (''health'', case map_of states (pc_name p) of Some st \<Rightarrow> peer_state_js st | None \<Rightarrow> JNull)]"

definition a2a_peers :: "peer_config list \<Rightarrow> health_manager option \<Rightarrow> response" where
  "a2a_peers peers hm =
    (True, JObj [(''peers'', JArr (map (peer_row (case hm of Some m \<Rightarrow> getAllStates m | None \<Rightarrow> [])) peers))])"

section \<open>The shared-context methods\<close>

definition room_js :: "shared_room \<Rightarrow> js" where
  "room_js r = JObj [(''id'', JStr (sr_id r)), (''title'', JStr (sr_title r)), (''topic'', JStr (sr_topic r)),
     (''participants'', strs (sr_participants r)), (''tags'', strs (sr_tags r)),
     (''status'', JStr (case sr_status r of RoomOpen \<Rightarrow> ''open'' | RoomArchived \<Rightarrow> ''archived'')),
     (''createdAt'', JStr (sr_createdAt r)), (''updatedAt'', JStr (sr_updatedAt r)), (''createdBy'', JStr (sr_createdBy r)),
     (''metadata'', sr_metadata r)]"

definition artifact_js :: "artifact_ref \<Rightarrow> js" where
  "artifact_js a = JObj [(''id'', JStr (ar_id a)), (''roomId'', ar_roomId a), (''messageId'', ar_messageId a),
     (''kind'', JStr (ar_kind a)), (''name'', ar_name a), (''uri'', ar_uri a), (''mimeType'', ar_mimeType a),
     (''digest'', ar_digest a), (''metadata'', ar_metadata a), (''createdAt'', JStr (ar_createdAt a)),
     (''createdBy'', JStr (ar_createdBy a))]"

definition message_js :: "shared_message \<Rightarrow> js" where
  "message_js m = JObj ([(''id'', JStr (sm_id m)), (''roomId'', JStr (sm_roomId m)), (''ts'', JStr (sm_ts m)),
     (''author'', JStr (sm_author m)), (''kind'', JStr (sm_kind m)), (''content'', JStr (sm_content m))] @
     (if sm_artifacts m = [] then [] else [(''artifacts'', JArr (map artifact_js (sm_artifacts m)))]) @
     [(''metadata'', sm_metadata m)])"

definition summary_js :: "room_summary \<Rightarrow> js" where
  "summary_js s = JObj [(''room'', room_js (rs_room s)), (''messageCount'', num (int (rs_messageCount s))),
     (''artifactCount'', num (int (rs_artifactCount s))), (''participants'', strs (rs_participants s)),
     (''recent'', JArr (map message_js (rs_recent s))), (''blockers'', JArr (map message_js (rs_blockers s))),
     (''decisions'', JArr (map message_js (rs_decisions s)))]"

definition SHARED_CONTEXT_METHODS :: "string list" where
  "SHARED_CONTEXT_METHODS = [''openclaw.room.create'', ''openclaw.room.list'', ''openclaw.room.post'', ''openclaw.room.read'',
     ''openclaw.room.archive'', ''openclaw.room.summary'', ''openclaw.artifact.attach'']"

definition text_param :: "string \<Rightarrow> js \<Rightarrow> js" where
  "text_param k payload = JStr (asString_or (get_prop payload k) [])"

definition count_param :: "js \<Rightarrow> rat \<Rightarrow> js" where
  "count_param payload fallback =
    JNum (Fin (asNumber_or (coalesce (get_prop payload ''count'') (get_prop payload ''limit'')) fallback))"

definition author_param :: "js \<Rightarrow> js" where
  "author_param payload = JStr (asString_or (coalesce (get_prop payload ''createdBy'') (get_prop payload ''author'')) [])"

definition create_input :: "js \<Rightarrow> js" where
  "create_input p = JObj [(''title'', text_param ''title'' p), (''topic'', text_param ''topic'' p),
     (''participants'', strs (asStringArray (get_prop p ''participants''))), (''tags'', strs (asStringArray (get_prop p ''tags''))),
     (''createdBy'', author_param p), (''metadata'', meta_js (asMetadata (get_prop p ''metadata'')))]"

definition content_param :: "js \<Rightarrow> js" where
  "content_param p = JStr (asString_or (coalesce (get_prop p ''content'') (coalesce (get_prop p ''text'') (get_prop p ''message''))) [])"

definition post_input :: "js \<Rightarrow> js" where
  "post_input p = JObj [(''roomId'', text_param ''roomId'' p), (''author'', text_param ''author'' p), (''content'', content_param p),
     (''kind'', opt_str (asSharedMessageKind (get_prop p ''kind''))),
     (''artifacts'', asSharedArtifactInputs (get_prop p ''artifacts'')),
     (''metadata'', meta_js (asMetadata (get_prop p ''metadata'')))]"

definition attach_input :: "js \<Rightarrow> js" where
  "attach_input p = JObj [(''roomId'', text_param ''roomId'' p), (''messageId'', text_param ''messageId'' p),
     (''createdBy'', author_param p), (''kind'', text_param ''kind'' p), (''name'', text_param ''name'' p),
     (''uri'', text_param ''uri'' p), (''mimeType'', text_param ''mimeType'' p), (''digest'', text_param ''digest'' p),
     (''metadata'', meta_js (asMetadata (get_prop p ''metadata'')))]"

definition status_param :: "js \<Rightarrow> room_status option" where
  "status_param p = (let s = asString_or (get_prop p ''status'') [] in
     if s = ''archived'' then Some RoomArchived else if s = ''open'' then Some RoomOpen else None)"

definition shared_entry :: "string \<Rightarrow> (string \<times> js) list \<Rightarrow> (string \<times> js) list \<Rightarrow> (string \<times> js) list" where
  "shared_entry ty extra d = entry_head ty ''success'' ''local'' @ extra @ detail d"

text \<open>
  What one method decides on the state it has loaded: an error, or the events it appends, the data
  it answers and the history entry it records (reads have neither). \<^const>\<open>None\<close> is an unsupported
  method. \<open>uuids\<close> are the random identifiers drawn in order.
\<close>

type_synonym shared_outcome = "string + (shared_event list \<times> js \<times> (string \<times> js) list option)"

definition room_outcome :: "(shared_event list \<times> shared_room) \<Rightarrow> string \<Rightarrow> (string \<times> js) list \<Rightarrow> shared_outcome" where
  "room_outcome r ty extra = (case r of (evs, room) \<Rightarrow> Inr (evs, JObj [(''room'', room_js room)],
     Some (shared_entry ty [] ([(''roomId'', JStr (sr_id room)), (''title'', JStr (sr_title room))] @ extra))))"

definition shared_create :: "shared_options \<Rightarrow> string \<Rightarrow> (nat \<Rightarrow> string) \<Rightarrow> js \<Rightarrow> shared_outcome" where
  "shared_create opts now uuids p = and_then (createRoom opts now (uuids 0) (create_input p))
     (\<lambda>r. room_outcome r ''shared.room_created'' [(''participants'', strs (sr_participants (snd r)))])"

definition shared_archive :: "shared_options \<Rightarrow> string \<Rightarrow> shared_state \<Rightarrow> js \<Rightarrow> shared_outcome" where
  "shared_archive opts now st p = and_then (archiveRoom opts now st (text_param ''roomId'' p))
     (\<lambda>r. room_outcome r ''shared.room_archived'' [])"

definition shared_post :: "shared_options \<Rightarrow> string \<Rightarrow> (nat \<Rightarrow> string) \<Rightarrow> shared_state \<Rightarrow> js \<Rightarrow> shared_outcome" where
  "shared_post opts now uuids st p = and_then (postMessage opts now uuids st (post_input p))
     (\<lambda>(evs, m). Inr (evs, JObj [(''message'', message_js m)],
        Some (shared_entry ''shared.message_posted'' [(''peer'', JStr (sm_author m))]
          [(''roomId'', JStr (sm_roomId m)), (''messageId'', JStr (sm_id m)), (''kind'', JStr (sm_kind m))])))"

definition shared_attach :: "shared_options \<Rightarrow> string \<Rightarrow> (nat \<Rightarrow> string) \<Rightarrow> shared_state \<Rightarrow> js \<Rightarrow> shared_outcome" where
  "shared_attach opts now uuids st p = and_then (attachArtifact opts now (uuids 0) st (attach_input p))
     (\<lambda>(evs, a). Inr (evs, JObj [(''artifact'', artifact_js a)],
        Some (shared_entry ''shared.artifact_attached'' [(''peer'', JStr (ar_createdBy a))]
          [(''roomId'', ar_roomId a), (''artifactId'', JStr (ar_id a)), (''kind'', JStr (ar_kind a))])))"

definition shared_list :: "shared_options \<Rightarrow> shared_state \<Rightarrow> js \<Rightarrow> shared_outcome" where
  "shared_list opts st p = and_then (listRooms opts st (count_param p 50) (status_param p)
       (asString_or (get_prop p ''participant'') []) (asString_or (get_prop p ''tag'') []))
     (\<lambda>rooms. Inr ([], listed ''rooms'' (map room_js rooms), None))"

definition shared_read :: "shared_options \<Rightarrow> shared_state \<Rightarrow> js \<Rightarrow> shared_outcome" where
  "shared_read opts st p = and_then (readMessages opts st (asString_or (get_prop p ''roomId'') []) (count_param p 50)
       (asString_or (get_prop p ''after'') []))
     (\<lambda>ms. Inr ([], listed ''messages'' (map message_js ms), None))"

definition shared_summary :: "shared_options \<Rightarrow> shared_state \<Rightarrow> js \<Rightarrow> shared_outcome" where
  "shared_summary opts st p = and_then (summarizeRoom opts st (asString_or (get_prop p ''roomId'') []) (count_param p 20))
     (\<lambda>s. Inr ([], JObj [(''summary'', summary_js s)], None))"

definition shared_method :: "shared_options \<Rightarrow> string \<Rightarrow> (nat \<Rightarrow> string) \<Rightarrow> shared_state \<Rightarrow> string \<Rightarrow> js \<Rightarrow>
    shared_outcome option" where
  "shared_method opts now uuids st method p =
    (if method = ''openclaw.room.create'' then Some (shared_create opts now uuids p)
     else if method = ''openclaw.room.list'' then Some (shared_list opts st p)
     else if method = ''openclaw.room.post'' then Some (shared_post opts now uuids st p)
     else if method = ''openclaw.room.read'' then Some (shared_read opts st p)
     else if method = ''openclaw.room.archive'' then Some (shared_archive opts now st p)
     else if method = ''openclaw.room.summary'' then Some (shared_summary opts st p)
     else if method = ''openclaw.artifact.attach'' then Some (shared_attach opts now uuids st p)
     else None)"

definition executeSharedContextMethod :: "shared_options \<Rightarrow> string \<Rightarrow> (nat \<Rightarrow> string) \<Rightarrow> string \<Rightarrow> js \<Rightarrow> api_state \<Rightarrow>
    response \<times> api_state" where
  "executeSharedContextMethod opts now uuids method params s =
    (case shared_method opts now uuids (loadState (as_shared s)) method (asObject_or_empty params) of
       None \<Rightarrow> ((False, JObj [(''error'', JStr (''unsupported shared context method: '' @ method)), (''code'', num (-32601))]), s)
     | Some (Inl e) \<Rightarrow> ((False, JObj [(''error'', JStr e)]), s)
     | Some (Inr (evs, data, entry)) \<Rightarrow>
        let s1 = (if evs = [] then s else s\<lparr>as_shared := appendMany evs (as_shared s)\<rparr>)
        in ((True, data), (case entry of None \<Rightarrow> s1 | Some e \<Rightarrow> note_entry e s1)))"

section \<open>The JSON-RPC endpoint\<close>

definition jsonRpcRequestId :: "js \<Rightarrow> js" where
  "jsonRpcRequestId v = (case v of JStr _ \<Rightarrow> v | JNum _ \<Rightarrow> v | _ \<Rightarrow> JNull)"

definition jsonRpcError_js :: "js \<Rightarrow> rat \<Rightarrow> string \<Rightarrow> js" where
  "jsonRpcError_js i code message = JObj [(''jsonrpc'', JStr ''2.0''), (''id'', i),
     (''error'', JObj [(''code'', JNum (Fin code)), (''message'', JStr message)])]"

definition handleSharedContextJsonRpcCall :: "shared_options \<Rightarrow> string \<Rightarrow> (nat \<Rightarrow> string) \<Rightarrow> js \<Rightarrow> api_state \<Rightarrow> js \<times> api_state" where
  "handleSharedContextJsonRpcCall opts now uuids call s =
    (let request = asObject_or_empty call;
         i = jsonRpcRequestId (get_prop request ''id'');
         method = asString_or (get_prop request ''method'') []
     in if get_prop request ''jsonrpc'' \<noteq> JStr ''2.0'' \<or> method = [] then (jsonRpcError i (-32600) ''Invalid Request'', s)
        else if method \<notin> set SHARED_CONTEXT_METHODS then (jsonRpcError i (-32601) ''Method not found'', s)
        else (case executeSharedContextMethod opts now uuids method (coalesce (get_prop request ''params'') (JObj [])) s of
                ((True, data), s1) \<Rightarrow> (jsonRpcResult i data, s1)
              | ((False, data), s1) \<Rightarrow>
                 let errorPayload = asObject_or_empty data
                 in (jsonRpcError_js i (asNumber_or (get_prop errorPayload ''code'') (-32000))
                       (asString_or (get_prop errorPayload ''error'') ''Shared context error''), s1)))"

text \<open>The answer made of a method's response.\<close>

definition rpc_answer :: "js \<Rightarrow> response \<Rightarrow> js" where
  "rpc_answer i r = (if fst r then jsonRpcResult i (snd r) else let e = asObject_or_empty (snd r) in
     jsonRpcError_js i (asNumber_or (get_prop e ''code'') (-32000)) (asString_or (get_prop e ''error'') ''Shared context error''))"

subsection \<open>A batch\<close>

text \<open>
  The calls of a batch run concurrently (\<open>Promise.all\<close>). Each runs, in the order of the batch, to the first time it waits:
  a call that is refused, and any call on a file that does not exist yet, has its answer by then; a new room has
  queued its event; every other call waits for the file it has begun to read. From there a schedule says who goes on. A reader sees
  at least the lines the file had when the batch came in and, of the newer ones, as many as the schedule says; it then decides, and a decision with
  events queues them. Queued events are written in the order of the queue, each call's in one piece; the
  history entry follows the write.
\<close>

datatype call_phase =
    CallReading nat js string js
  | CallWriting "shared_event list" js "(string \<times> js) list option"
  | CallAnswered js

fun is_writing :: "call_phase \<Rightarrow> bool" where
  "is_writing (CallWriting evs r entry) = True"
| "is_writing _ = False"

definition call_decides :: "shared_options \<Rightarrow> string \<Rightarrow> (nat \<Rightarrow> string) \<Rightarrow> js \<Rightarrow> string \<Rightarrow> js \<Rightarrow> shared_state \<Rightarrow> call_phase" where
  "call_decides opts now uuids i method p st = (case shared_method opts now uuids st method p of
     None \<Rightarrow> CallAnswered (rpc_answer i (False, JObj [(''error'', JStr (''unsupported shared context method: '' @ method)), (''code'', num (-32601))]))
   | Some (Inl e) \<Rightarrow> CallAnswered (rpc_answer i (False, JObj [(''error'', JStr e)]))
   | Some (Inr (evs, data, entry)) \<Rightarrow>
       if evs = [] then CallAnswered (rpc_answer i (True, data)) else CallWriting evs (rpc_answer i (True, data)) entry)"

definition begin_call :: "shared_options \<Rightarrow> string \<Rightarrow> (nat \<Rightarrow> string) \<Rightarrow> shared_file \<Rightarrow> js \<Rightarrow> call_phase" where
  "begin_call opts now uuids f call =
    (let request = asObject_or_empty call;
         i = jsonRpcRequestId (get_prop request ''id'');
         method = asString_or (get_prop request ''method'') [];
         p = asObject_or_empty (coalesce (get_prop request ''params'') (JObj []))
     in if get_prop request ''jsonrpc'' \<noteq> JStr ''2.0'' \<or> method = [] then CallAnswered (jsonRpcError i (-32600) ''Invalid Request'')
        else if method \<notin> set SHARED_CONTEXT_METHODS then CallAnswered (jsonRpcError i (-32601) ''Method not found'')
        else if method = ''openclaw.room.create'' then call_decides opts now uuids i method p (loadState None)
        else (case f of
            None \<Rightarrow> call_decides opts now uuids i method p (loadState None)
          | Some ls \<Rightarrow> CallReading (length ls) i method p))"

record batch_state =
  bt_api :: api_state
  bt_calls :: "call_phase list"
  bt_queue :: "nat list"

definition begin_batch :: "shared_options \<Rightarrow> (nat \<Rightarrow> string) \<Rightarrow> (nat \<Rightarrow> nat \<Rightarrow> string) \<Rightarrow> js list \<Rightarrow> api_state \<Rightarrow> batch_state" where
  "begin_batch opts time us calls s =
    (let ps = map (\<lambda>n. begin_call opts (time n) (us n) (as_shared s) (calls ! n)) [0..<length calls]
     in \<lparr>bt_api = s, bt_calls = ps, bt_queue = filter (\<lambda>n. is_writing (ps ! n)) [0..<length calls]\<rparr>)"

definition call_writes :: "shared_event list \<Rightarrow> (string \<times> js) list option \<Rightarrow> api_state \<Rightarrow> api_state" where
  "call_writes evs entry s =
    (let s1 = s\<lparr>as_shared := appendMany evs (as_shared s)\<rparr> in case entry of None \<Rightarrow> s1 | Some e \<Rightarrow> note_entry e s1)"

text \<open>Call \<open>k\<close> goes on; \<open>newer\<close> is how many newer lines a reader sees.\<close>

definition batch_step :: "shared_options \<Rightarrow> (nat \<Rightarrow> string) \<Rightarrow> (nat \<Rightarrow> nat \<Rightarrow> string) \<Rightarrow> nat \<times> nat \<Rightarrow> batch_state \<Rightarrow> batch_state" where
  "batch_step opts time us move b = (case move of (k, newer) \<Rightarrow>
     if length (bt_calls b) \<le> k then b
     else case bt_calls b ! k of
       CallReading n i method p \<Rightarrow>
         let ph = call_decides opts (time k) (us k) i method p (loadState (map_option (take (n + newer)) (as_shared (bt_api b))))
         in b\<lparr>bt_calls := (bt_calls b)[k := ph], bt_queue := bt_queue b @ (if is_writing ph then [k] else [])\<rparr>
     | CallWriting evs r entry \<Rightarrow>
         (case bt_queue b of
            [] \<Rightarrow> b
          | q # qs \<Rightarrow> if q \<noteq> k then b
              else b\<lparr>bt_api := call_writes evs entry (bt_api b), bt_calls := (bt_calls b)[k := CallAnswered r], bt_queue := qs\<rparr>)
     | CallAnswered r \<Rightarrow> b)"

definition run_batch :: "shared_options \<Rightarrow> (nat \<Rightarrow> string) \<Rightarrow> (nat \<Rightarrow> nat \<Rightarrow> string) \<Rightarrow> (nat \<times> nat) list \<Rightarrow> js list \<Rightarrow> api_state \<Rightarrow> batch_state" where
  "run_batch opts time us sched calls s = fold (batch_step opts time us) sched (begin_batch opts time us calls s)"

fun all_answers :: "call_phase list \<Rightarrow> js list option" where
  "all_answers [] = Some []"
| "all_answers (CallAnswered r # ps) = map_option (Cons r) (all_answers ps)"
| "all_answers (_ # ps) = None"

text \<open>The HTTP handler. The answer to a batch is sent once every call has its own; before that there is none. A single call has
  nobody to wait for.\<close>

definition shared_http :: "shared_options \<Rightarrow> (nat \<Rightarrow> string) \<Rightarrow> (nat \<Rightarrow> nat \<Rightarrow> string) \<Rightarrow> (nat \<times> nat) list \<Rightarrow> js \<Rightarrow> api_state \<Rightarrow>
    (int \<times> js) option \<times> api_state" where
  "shared_http opts time us sched body s = (case body of
     JArr calls \<Rightarrow>
       if calls = [] then (Some (400, jsonRpcError JNull (-32600) ''Invalid Request''), s)
       else (let b = run_batch opts time us sched calls s
             in (map_option (\<lambda>rs. (200, JArr rs)) (all_answers (bt_calls b)), bt_api b))
   | _ \<Rightarrow> (let (r, s1) = handleSharedContextJsonRpcCall opts (time 0) (us 0) body s in (Some (200, r), s1)))"

section \<open>The bearer checks agree\<close>

text \<open>The rule all four implement: no check without bearer authentication or without any token; otherwise the
  header must be \<open>Bearer\<close> followed by one of the valid tokens.\<close>

definition authorised :: "auth_kind \<Rightarrow> string list \<Rightarrow> string option \<Rightarrow> bool" where
  "authorised auth tokens h \<longleftrightarrow> auth = NoAuth \<or> tokens = [] \<or> (\<exists>t \<in> set tokens. t \<noteq> [] \<and> h = Some (''Bearer '' @ t))"

lemma bearer_token_valid:
  "bearer_token h \<noteq> [] \<and> bearer_token h \<in> set tokens \<longleftrightarrow> (\<exists>t \<in> set tokens. t \<noteq> [] \<and> h = Some (''Bearer '' @ t))"
  by (auto simp: bearer_token_def starts_with_iff split: option.splits)

lemma authorised_rule:
  "authorised auth tokens x \<longleftrightarrow> auth = NoAuth \<or> tokens = [] \<or> bearer_token x \<noteq> [] \<and> bearer_token x \<in> set tokens"
  by (simp add: authorised_def bearer_token_valid)

lemma userBuilder_admits:
  "fst (userBuilder auth tokens now h s) = Inr () \<longleftrightarrow> authorised auth tokens (single_header h)"
  unfolding authorised_rule by (cases auth) (auto simp: userBuilder_def Let_def)

lemma auth_kind_NoAuth: "a \<noteq> BearerAuth \<longleftrightarrow> a = NoAuth"
  by (cases a) auto

text \<open>C32. The HTTP, shared-context and gRPC checks admit exactly the same callers, and so does the metrics check
  under its own setting; the three that guard agent traffic leave the state alone when they admit and record
  exactly one security rejection, in the telemetry and in the audit log, when they refuse.\<close>

theorem bearer_checks_agree:
  "(fst (userBuilder auth tokens now h s) = Inr () \<longleftrightarrow> authorised auth tokens (single_header h)) \<and>
   (fst (shared_context_guard auth tokens now h s) = None \<longleftrightarrow> authorised auth tokens (single_header h)) \<and>
   (fst (grpcUserBuilder auth tokens now values s) = Inr () \<longleftrightarrow>
      authorised auth tokens (case values of Some (v # _) \<Rightarrow> Some v | _ \<Rightarrow> None)) \<and>
   (metrics_guard auth tokens h = None \<longleftrightarrow> authorised auth tokens (single_header h)) \<and>
   snd (userBuilder auth tokens now h s) =
     (if authorised auth tokens (single_header h) then s else security_rejection now ''http'' s) \<and>
   snd (shared_context_guard auth tokens now h s) = snd (userBuilder auth tokens now h s) \<and>
   snd (grpcUserBuilder auth tokens now values s) =
     (if authorised auth tokens (case values of Some (v # _) \<Rightarrow> Some v | _ \<Rightarrow> None) then s else security_rejection now ''grpc'' s)"
proof -
  have grpc: "(let header = (case opt_default [] values of [] \<Rightarrow> [] | v # _ \<Rightarrow> v)
      in if starts_with header ''Bearer '' then drop 7 header else []) =
      bearer_token (case values of Some (v # _) \<Rightarrow> Some v | _ \<Rightarrow> None)"
    by (auto simp: bearer_token_def starts_with_def split: option.splits list.splits)
  show ?thesis
    unfolding authorised_rule using grpc
    by (auto simp: userBuilder_def shared_context_guard_def grpcUserBuilder_def metrics_guard_def auth_kind_NoAuth Let_def)
qed

text \<open>C39. Bearer authentication without a configured token is no authentication: everybody is admitted. Issuing
  one temporary token for a handshake closes the gateway to every caller without it, and when that token
  expires five minutes later everybody is admitted again.\<close>

theorem bearer_without_tokens_is_open:
  assumes "hp_tokens s = []" "hp_timers s = []" "issueEphemeralInboundToken env s = (issued, t)"
    and "length (he_tokenBytes env (hp_issued s)) = 24"
  shows "fst (userBuilder BearerAuth (hp_tokens s) now h a) = Inr () \<and>
    (fst (userBuilder BearerAuth (hp_tokens t) now h a) = Inr () \<longleftrightarrow> single_header h = Some (''Bearer '' @ fst issued)) \<and>
    (\<forall>later. hp_now s + token_ttl \<le> later \<longrightarrow>
       fst (userBuilder BearerAuth (hp_tokens (fire_timers later t)) now h a) = Inr ())"
proof -
  let ?t = "hex_bytes (he_tokenBytes env (hp_issued s))"
  have t: "fst issued = ?t" "hp_tokens t = [?t]" "hp_timers t = [(?t, hp_now s + token_ttl)]"
    using assms(1-3) by (auto simp: issueEphemeralInboundToken_def Let_def set_add_def)
  have "?t \<noteq> []"
    using hex_bytes_valid [OF assms(4)] by (auto simp: isValidEphemeralInboundToken_def EPHEMERAL_INBOUND_TOKEN_LENGTH_def)
  then show ?thesis
    using t assms(1) by (auto simp: userBuilder_admits authorised_def fire_timers_def Let_def)
qed

theorem bearer_without_tokens_is_open_witness:
  "\<forall>a. fst (userBuilder BearerAuth (hp_tokens (fire_timers 300000 (snd (issueEphemeralInboundToken blank_env blank_state)))) 0 NoHeader a)
     = Inr ()"
proof
  fix a
  obtain i t where it: "issueEphemeralInboundToken blank_env blank_state = (i, t)" by fastforce
  show "fst (userBuilder BearerAuth (hp_tokens (fire_timers 300000 (snd (issueEphemeralInboundToken blank_env blank_state)))) 0 NoHeader a) = Inr ()"
    using bearer_without_tokens_is_open [OF _ _ it, of 0 NoHeader a] it
    by (simp add: blank_state_def blank_env_def token_ttl_def)
qed

section \<open>Errors\<close>

text \<open>What the HTTP check throws for a caller it refuses is a whole JSON-RPC response, whose code lies one level
  below the place where the middleware looks for it: passed to the middleware it is answered as an internal
  error with status 500, and the message about the bearer token is lost.\<close>

theorem refused_caller_gets_internal_error:
  assumes "userBuilder auth tokens now h s = (Inl err, t)"
  shows "error_middleware (ThrownValue err) = (500, jsonRpcError JNull (-32603) ''Internal error'')"
  using assms by (auto simp: userBuilder_def error_middleware_def jsonRpcError_def Let_def split: if_splits)

theorem refused_caller_gets_internal_error_witness:
  "\<exists>err. fst (userBuilder BearerAuth [''t''] 0 NoHeader s) = Inl err \<and>
     error_middleware (ThrownValue err) = (500, jsonRpcError JNull (-32603) ''Internal error'')"
proof -
  have "userBuilder BearerAuth [''t''] 0 NoHeader s = (Inl (jsonRpcError JNull (-32000) unauthorized), security_rejection 0 ''http'' s)"
    by (simp add: userBuilder_def single_header_def bearer_token_def)
  from refused_caller_gets_internal_error [OF this] this show ?thesis by simp
qed

section \<open>The JSON-RPC endpoint\<close>

text \<open>What a client of JSON-RPC 2.0 relies on in a response to the given call.\<close>

definition conforming_response :: "js \<Rightarrow> js \<Rightarrow> bool" where
  "conforming_response call r \<longleftrightarrow>
     get_prop r ''jsonrpc'' = JStr ''2.0'' \<and>
     get_prop r ''id'' = jsonRpcRequestId (get_prop (asObject_or_empty call) ''id'') \<and>
     (get_prop r ''result'' = JUndef) \<noteq> (get_prop r ''error'' = JUndef) \<and>
     (get_prop r ''error'' \<noteq> JUndef \<longrightarrow>
        get_prop (get_prop r ''error'') ''code'' \<in> JNum ` Fin ` {-32600, -32601, -32000} \<and>
        is_string (get_prop (get_prop r ''error'') ''message''))"

lemma outcome_data:
  "shared_method opts now uuids st method p = Some (Inr (evs, data, entry)) \<Longrightarrow> data \<noteq> JUndef"
  by (auto simp: shared_method_def shared_create_def shared_archive_def shared_post_def shared_attach_def shared_list_def
      shared_read_def shared_summary_def room_outcome_def listed_def and_then_Inr split: if_splits prod.splits)

lemma method_known: "method \<in> set SHARED_CONTEXT_METHODS \<longleftrightarrow> shared_method opts now uuids st method p \<noteq> None"
  by (auto simp: SHARED_CONTEXT_METHODS_def shared_method_def)

text \<open>Every JSON-RPC call on the shared context, whatever its shape, gets a conforming response: version 2.0, the
  call's identifier, and either a result or an error with one of the documented codes; a call that is not valid or
  names no known method changes nothing.\<close>

theorem json_rpc_conforms:
  assumes "handleSharedContextJsonRpcCall opts now uuids call s = (r, t)"
  shows "conforming_response call r \<and>
    (asString_or (get_prop (asObject_or_empty call) ''method'') [] \<notin> set SHARED_CONTEXT_METHODS \<longrightarrow> t = s)"
proof -
  let ?request = "asObject_or_empty call"
  let ?called = "asString_or (get_prop ?request ''method'') []"
  let ?params = "coalesce (get_prop ?request ''params'') (JObj [])"
  let ?i = "jsonRpcRequestId (get_prop ?request ''id'')"
  consider (invalid) "r = jsonRpcError ?i (-32600) ''Invalid Request''" "t = s"
    | (unknown) "r = jsonRpcError ?i (-32601) ''Method not found''" "t = s"
    | (run) "?called \<in> set SHARED_CONTEXT_METHODS" "?called \<noteq> []"
        "handleSharedContextJsonRpcCall opts now uuids call s =
          (case executeSharedContextMethod opts now uuids ?called ?params s of
                ((True, data), s1) \<Rightarrow> (jsonRpcResult ?i data, s1)
              | ((False, data), s1) \<Rightarrow>
                 let errorPayload = asObject_or_empty data
                 in (jsonRpcError_js ?i (asNumber_or (get_prop errorPayload ''code'') (-32000))
                       (asString_or (get_prop errorPayload ''error'') ''Shared context error''), s1))"
    using assms by (auto simp: handleSharedContextJsonRpcCall_def Let_def split: if_splits)
  then show ?thesis
  proof cases
    case run
    let ?st = "loadState (as_shared s)"
    obtain o' where o': "shared_method opts now uuids ?st ?called (asObject_or_empty ?params) = Some o'"
      using run(1) method_known by blast
    show ?thesis
    proof (cases o')
      case (Inl e)
      with run assms o' show ?thesis
        by (auto simp: executeSharedContextMethod_def conforming_response_def jsonRpcError_js_def asObject_or_empty_def
            asNumber_or_def is_string_def Let_def)
    next
      case (Inr d)
      with o' obtain evs data entry where d: "d = (evs, data, entry)" "data \<noteq> JUndef"
        by (cases d) (auto dest: outcome_data)
      with run assms o' Inr show ?thesis
        by (auto simp: executeSharedContextMethod_def conforming_response_def jsonRpcResult_def Let_def)
    qed
  qed (auto simp: conforming_response_def jsonRpcError_def is_string_def)
qed

theorem json_rpc_conforms_witness:
  "\<forall>opts now uuids s. conforming_response JNull (fst (handleSharedContextJsonRpcCall opts now uuids JNull s))"
  using json_rpc_conforms [of _ _ _ JNull] by (metis prod.collapse)

section \<open>The endpoint runs the store's commands\<close>

text \<open>The command of the store a call amounts to; reads and refused calls amount to none.\<close>

definition cmd_of :: "string \<Rightarrow> (nat \<Rightarrow> string) \<Rightarrow> string \<Rightarrow> js \<Rightarrow> shared_cmd option" where
  "cmd_of now uuids method p =
    (if method = ''openclaw.room.create'' then Some (CmdCreate now (uuids 0) (create_input p))
     else if method = ''openclaw.room.post'' then Some (CmdPost now uuids (post_input p))
     else if method = ''openclaw.room.archive'' then Some (CmdArchive now (text_param ''roomId'' p))
     else if method = ''openclaw.artifact.attach'' then Some (CmdAttach now (uuids 0) (attach_input p))
     else None)"

definition run_opt :: "shared_options \<Rightarrow> shared_cmd option \<Rightarrow> shared_file \<Rightarrow> shared_file" where
  "run_opt opts c f = (case c of None \<Rightarrow> f | Some c \<Rightarrow> run_cmd opts c f)"

lemma decisions_append:
  "createRoom opts now u i = Inr (evs, r) \<Longrightarrow> evs \<noteq> []" "archiveRoom opts now st v = Inr (evs, r) \<Longrightarrow> evs \<noteq> []"
  "postMessage opts now us st i = Inr (evs, m) \<Longrightarrow> evs \<noteq> []" "attachArtifact opts now u st i = Inr (evs, a) \<Longrightarrow> evs \<noteq> []"
  by (auto simp: createRoom_def archiveRoom_def postMessage_def attachArtifact_def Let_def split: sum.splits option.splits if_splits)

lemma note_shared [simp]: "as_shared (note_entry e s) = as_shared s"
  by (simp add: note_entry_def)

definition committed :: "shared_outcome \<Rightarrow> shared_file \<Rightarrow> shared_file" where
  "committed d f = (case d of Inl _ \<Rightarrow> f | Inr (evs, _) \<Rightarrow> if evs = [] then f else appendMany evs f)"

lemma committed_then:
  assumes "\<And>evs x. m = Inr (evs, x) \<Longrightarrow> evs \<noteq> []" "\<And>evs x. \<exists>d. g (evs, x) = Inr (evs, d)"
  shows "committed (and_then m g) f = commit m f"
proof (cases m)
  case (Inl e)
  then show ?thesis by (simp add: committed_def commit_def)
next
  case (Inr p)
  obtain evs x where p: "p = (evs, x)" by (cases p)
  obtain d where "g (evs, x) = Inr (evs, d)" using assms(2) by blast
  moreover have "evs \<noteq> []" using assms(1) Inr p by blast
  ultimately show ?thesis using Inr p by (simp add: committed_def commit_def)
qed

lemma committed_commands:
  "committed (shared_create opts now us p) f = run_cmd opts (CmdCreate now (us 0) (create_input p)) f"
  "committed (shared_archive opts now (loadState f) p) f = run_cmd opts (CmdArchive now (text_param ''roomId'' p)) f"
  "committed (shared_post opts now us (loadState f) p) f = run_cmd opts (CmdPost now us (post_input p)) f"
  "committed (shared_attach opts now us (loadState f) p) f = run_cmd opts (CmdAttach now (us 0) (attach_input p)) f"
  unfolding shared_create_def shared_archive_def shared_post_def shared_attach_def run_cmd.simps
  by (rule committed_then, erule decisions_append, simp add: room_outcome_def)+

lemma committed_reads:
  "committed (shared_list opts st p) f = f" "committed (shared_read opts st p) f = f" "committed (shared_summary opts st p) f = f"
  by (auto simp: committed_def shared_list_def shared_read_def shared_summary_def and_then_Inr split: sum.splits prod.splits)

lemma execute_commits:
  "as_shared (snd (executeSharedContextMethod opts now us method params s)) =
     (case shared_method opts now us (loadState (as_shared s)) method (asObject_or_empty params) of
        None \<Rightarrow> as_shared s | Some d \<Rightarrow> committed d (as_shared s))"
  by (simp add: executeSharedContextMethod_def committed_def Let_def split: sum.split option.split prod.split)

lemma execute_runs_command:
  "as_shared (snd (executeSharedContextMethod opts now us method params s)) =
     run_opt opts (cmd_of now us method (asObject_or_empty params)) (as_shared s)"
  unfolding execute_commits shared_method_def cmd_of_def run_opt_def
  by (simp add: committed_commands committed_reads del: run_cmd.simps)

lemma call_runs_command:
  "\<exists>c. as_shared (snd (handleSharedContextJsonRpcCall opts now us call s)) = run_opt opts c (as_shared s) \<and>
     (\<forall>c' r. c = Some c' \<longrightarrow> creates r c' \<longrightarrow> r = ''room-'' @ us 0)"
proof -
  let ?request = "asObject_or_empty call"
  let ?called = "asString_or (get_prop ?request ''method'') []"
  let ?params = "coalesce (get_prop ?request ''params'') (JObj [])"
  have "snd (handleSharedContextJsonRpcCall opts now us call s) = s \<or>
      snd (handleSharedContextJsonRpcCall opts now us call s) = snd (executeSharedContextMethod opts now us ?called ?params s)"
    by (auto simp: handleSharedContextJsonRpcCall_def Let_def split: prod.splits bool.splits)
  then show ?thesis
  proof
    assume "snd (handleSharedContextJsonRpcCall opts now us call s) = s"
    then show ?thesis by (auto simp: run_opt_def intro!: exI [of _ None])
  next
    assume "snd (handleSharedContextJsonRpcCall opts now us call s) = snd (executeSharedContextMethod opts now us ?called ?params s)"
    then show ?thesis
      by (auto simp: execute_runs_command cmd_of_def split: if_splits intro!: exI [of _ "cmd_of now us ?called (asObject_or_empty ?params)"])
  qed
qed

lemma run_opt_frozen:
  "frozen r ms as (loadState f) \<Longrightarrow> (\<And>c'. c = Some c' \<Longrightarrow> \<not> creates r c') \<Longrightarrow> frozen r ms as (loadState (run_opt opts c f))"
  by (auto simp: run_opt_def intro: frozen_cmd split: option.splits)

section \<open>A batch leaves archived rooms alone\<close>

lemma decided_leaves:
  assumes "shared_method opts now uuids st method p = Some (Inr (evs, data, entry))" "r \<noteq> ''room-'' @ uuids 0"
    and "method = ''openclaw.room.create'' \<or> frozen r ms as st \<and> rooms_keyed st"
  shows "list_all (leaves_room r) evs"
proof -
  have room: "room_outcome x ty extra = Inr (evs, data, entry) \<Longrightarrow> fst x = evs" for x ty extra
    by (auto simp: room_outcome_def split: prod.splits)
  show ?thesis
    using assms unfolding shared_method_def
    by (auto simp: shared_create_def shared_archive_def shared_post_def shared_attach_def shared_list_def shared_read_def
        shared_summary_def and_then_Inr split: if_splits prod.splits
        dest!: room intro: create_leaves archive_leaves post_leaves attach_leaves)
qed

lemma call_decides_writes:
  "call_decides opts now uuids i method p st = CallWriting evs x entry \<longleftrightarrow>
    (\<exists>data. shared_method opts now uuids st method p = Some (Inr (evs, data, entry)) \<and> evs \<noteq> [] \<and> x = rpc_answer i (True, data))"
  by (auto simp: call_decides_def split: option.splits sum.splits prod.splits if_splits)

lemma call_decides_not_reading [simp]: "call_decides opts now uuids i method p st \<noteq> CallReading n i' m p'"
  by (auto simp: call_decides_def split: option.splits sum.splits prod.splits if_splits)

text \<open>What a call may be about to do: read at least the lines there were, or write events that leave the room.\<close>

fun phase_leaves :: "string \<Rightarrow> nat \<Rightarrow> call_phase \<Rightarrow> bool" where
  "phase_leaves r n0 (CallReading n i m p) = (n = n0)"
| "phase_leaves r n0 (CallWriting evs x entry) = list_all (leaves_room r) evs"
| "phase_leaves r n0 (CallAnswered x) = True"

lemma call_decides_leaves:
  assumes "r \<noteq> ''room-'' @ uuids 0" "method = ''openclaw.room.create'' \<or> frozen r ms as st \<and> rooms_keyed st"
  shows "phase_leaves r n0 (call_decides opts now uuids i method p st)"
proof (cases "call_decides opts now uuids i method p st")
  case (CallWriting evs x entry)
  then obtain data where "shared_method opts now uuids st method p = Some (Inr (evs, data, entry))"
    by (auto simp: call_decides_writes)
  then have "list_all (leaves_room r) evs" using assms by (rule decided_leaves)
  with CallWriting show ?thesis by simp
qed simp_all

definition batch_leaves :: "string \<Rightarrow> file_line list \<Rightarrow> batch_state \<Rightarrow> bool" where
  "batch_leaves r f0 b \<longleftrightarrow> list_all (phase_leaves r (length f0)) (bt_calls b) \<and>
     (\<exists>evs. as_shared (bt_api b) = Some (f0 @ map EventLine evs) \<and> list_all (leaves_room r) evs)"

lemma frozen_lines:
  assumes "frozen r ms as (loadState (Some f0))" "list_all (leaves_room r) evs"
  shows "frozen r ms as (loadState (Some (f0 @ map EventLine evs)))"
  using frozen_events [OF assms] loadState_append [of evs "Some f0"] by (simp add: appendMany_def)

lemma frozen_seen:
  assumes "frozen r ms as (loadState (Some f0))" "list_all (leaves_room r) evs"
  shows "frozen r ms as (loadState (Some (take (length f0 + j) (f0 @ map EventLine evs))))"
  using frozen_lines [OF assms(1), of "take j evs"] assms(2)
  by (auto simp: take_map list_all_iff dest: in_set_takeD)

lemma list_all_update: "list_all P xs \<Longrightarrow> P x \<Longrightarrow> list_all P (xs[k := x])"
  by (auto simp: list_all_iff dest!: set_update_subset_insert [THEN subsetD])

lemma batch_leaves_step:
  assumes "batch_leaves r f0 b" "frozen r ms as (loadState (Some f0))" "r \<noteq> ''room-'' @ us (fst move) 0"
  shows "batch_leaves r f0 (batch_step opts time us move b)"
proof -
  obtain k newer where move: "move = (k, newer)" by (cases move)
  obtain evs where b: "list_all (phase_leaves r (length f0)) (bt_calls b)" "as_shared (bt_api b) = Some (f0 @ map EventLine evs)"
      "list_all (leaves_room r) evs"
    using assms(1) by (auto simp: batch_leaves_def)
  show ?thesis
  proof (cases "length (bt_calls b) \<le> k")
    case False
    then have k: "phase_leaves r (length f0) (bt_calls b ! k)" using b(1) by (simp add: list_all_length)
    show ?thesis
    proof (cases "bt_calls b ! k")
      case (CallReading n i m p)
      let ?ph = "call_decides opts (time k) (us k) i m p (loadState (Some (take (length f0 + newer) (f0 @ map EventLine evs))))"
      have "phase_leaves r (length f0) ?ph"
        using assms(3) frozen_seen [OF assms(2) b(3), of newer] rooms_keyed_load
        by (intro call_decides_leaves) (auto simp: move)
      with CallReading False k b show ?thesis
        by (auto simp: batch_step_def move batch_leaves_def Let_def intro!: list_all_update)
    next
      case (CallWriting ws x entry)
      have "as_shared (call_writes ws entry (bt_api b)) = Some (f0 @ map EventLine (evs @ ws))"
        by (simp add: call_writes_def b(2) appendMany_def Let_def split: option.split)
      moreover have "list_all (leaves_room r) (evs @ ws)" using k CallWriting b(3) by simp
      ultimately have "\<exists>es. as_shared (call_writes ws entry (bt_api b)) = Some (f0 @ map EventLine es) \<and> list_all (leaves_room r) es"
        by blast
      then show ?thesis
        using CallWriting False assms(1) b(1)
        by (auto simp: batch_step_def move batch_leaves_def intro!: list_all_update split: list.split)
    qed (use False assms(1) in \<open>simp add: batch_step_def move\<close>)
  qed (use assms(1) in \<open>simp add: batch_step_def move\<close>)
qed

lemma batch_leaves_begin:
  assumes "as_shared s = Some f0" "\<And>n. r \<noteq> ''room-'' @ us n 0"
  shows "batch_leaves r f0 (begin_batch opts time us calls s)"
proof -
  have "phase_leaves r (length f0) (begin_call opts (time n) (us n) (Some f0) call)" for n call
    using call_decides_leaves [of r "us n" "''openclaw.room.create''"] assms(2) by (auto simp: begin_call_def Let_def)
  then show ?thesis
    using assms(1) by (auto simp: batch_leaves_def begin_batch_def Let_def list_all_iff intro: exI [of _ "[]"])
qed

lemma batch_frozen:
  assumes "frozen r ms as (loadState (as_shared s))" "\<And>n. r \<noteq> ''room-'' @ us n 0"
  shows "frozen r ms as (loadState (as_shared (bt_api (run_batch opts time us sched calls s))))"
proof -
  obtain f0 where f0: "as_shared s = Some f0"
    using assms(1) by (cases "as_shared s") (auto simp: frozen_def loadState_def empty_shared_state_def)
  have "batch_leaves r f0 (fold (batch_step opts time us) moves b)" if "batch_leaves r f0 b" for moves b
    using that
  proof (induction moves arbitrary: b)
    case (Cons move moves)
    have "batch_leaves r f0 (batch_step opts time us move b)"
      using Cons.prems assms(1) unfolding f0 by (rule batch_leaves_step) (rule assms(2))
    then show ?case by (simp add: Cons.IH)
  qed simp
  from this [OF batch_leaves_begin [of s f0 r us opts time calls, OF f0 assms(2)]] have "batch_leaves r f0 (run_batch opts time us sched calls s)"
    by (simp add: run_batch_def)
  then show ?thesis
    using frozen_lines assms(1) unfolding f0 by (auto simp: batch_leaves_def)
qed
section \<open>Every batch can be answered\<close>

text \<open>The queue holds the calls that have something to write, each once; so some call can always go on.\<close>

definition batch_queued :: "batch_state \<Rightarrow> bool" where
  "batch_queued b \<longleftrightarrow> distinct (bt_queue b) \<and>
     (\<forall>k. k \<in> set (bt_queue b) \<longleftrightarrow> k < length (bt_calls b) \<and> is_writing (bt_calls b ! k))"

fun steps_left :: "call_phase \<Rightarrow> nat" where
  "steps_left (CallReading n i m p) = 2"
| "steps_left (CallWriting evs x entry) = 1"
| "steps_left (CallAnswered x) = 0"

definition batch_left :: "batch_state \<Rightarrow> nat" where
  "batch_left b = sum_list (map steps_left (bt_calls b))"

lemma batch_queued_begin: "batch_queued (begin_batch opts time us calls s)"
  by (auto simp: batch_queued_def begin_batch_def Let_def)

lemma batch_queued_step:
  assumes "batch_queued b"
  shows "batch_queued (batch_step opts time us move b)"
proof -
  obtain k newer where move: "move = (k, newer)" by (cases move)
  have members: "j \<in> set (bt_queue b) \<longleftrightarrow> j < length (bt_calls b) \<and> is_writing (bt_calls b ! j)" for j
    using assms by (simp add: batch_queued_def)
  have "distinct (bt_queue b)"
    using assms by (simp add: batch_queued_def)
  show ?thesis
  proof (cases "length (bt_calls b) \<le> k")
    case False
    show ?thesis
    proof (cases "bt_calls b ! k")
      case (CallReading n i m p)
      with False \<open>distinct (bt_queue b)\<close> show ?thesis
        by (simp add: batch_step_def move batch_queued_def nth_list_update members Let_def)
    next
      case (CallWriting evs x entry)
      show ?thesis
      proof (cases "\<exists>qs. bt_queue b = k # qs")
        case True
        then obtain qs where qs: "bt_queue b = k # qs" by blast
        have "k \<notin> set qs" "distinct qs" using \<open>distinct (bt_queue b)\<close> by (simp_all add: qs)
        moreover have "j \<in> set qs \<longleftrightarrow> j \<noteq> k \<and> j < length (bt_calls b) \<and> is_writing (bt_calls b ! j)" for j
          using members [of j] calculation(1) by (auto simp: qs)
        ultimately show ?thesis
          using CallWriting False by (simp add: batch_step_def move batch_queued_def nth_list_update qs)
      next
        case False
        with CallWriting assms show ?thesis
          by (cases "bt_queue b") (auto simp: batch_step_def move)
      qed
    qed (use False assms in \<open>simp add: batch_step_def move\<close>)
  qed (use assms in \<open>simp add: batch_step_def move\<close>)
qed

lemma batch_step_length [simp]: "length (bt_calls (batch_step opts time us move b)) = length (bt_calls b)"
  by (auto simp: batch_step_def Let_def split: prod.split call_phase.split list.split)

lemma batch_left_update:
  assumes "k < length (bt_calls b)" "steps_left ph < steps_left (bt_calls b ! k)" "bt_calls c = (bt_calls b)[k := ph]"
  shows "batch_left c < batch_left b"
proof -
  have "steps_left (bt_calls b ! k) \<le> sum_list (map steps_left (bt_calls b))"
    using elem_le_sum_list [of k "map steps_left (bt_calls b)"] assms(1) by simp
  then show ?thesis
    using assms by (simp add: batch_left_def map_update sum_list_update)
qed

lemma batch_progress:
  assumes "batch_queued b" "batch_left b \<noteq> 0"
  shows "\<exists>k. batch_left (batch_step opts time us (k, 0) b) < batch_left b"
proof -
  obtain k where k: "k < length (bt_calls b)" "steps_left (bt_calls b ! k) \<noteq> 0"
    using assms(2) by (auto simp: batch_left_def in_set_conv_nth)
  show ?thesis
  proof (cases "bt_calls b ! k")
    case (CallReading n i m p)
    have "steps_left (call_decides opts now uuids i m p st) < 2" for now uuids st
      by (cases "call_decides opts now uuids i m p st") simp_all
    with k CallReading show ?thesis
      by (intro exI [of _ k] batch_left_update [OF k(1)]) (auto simp: batch_step_def Let_def)
  next
    case (CallWriting evs x entry)
    then have "k \<in> set (bt_queue b)" using assms(1) k(1) by (simp add: batch_queued_def)
    then obtain q qs where q: "bt_queue b = q # qs" by (cases "bt_queue b") auto
    then have "q < length (bt_calls b)" "is_writing (bt_calls b ! q)" using assms(1) by (auto simp: batch_queued_def)
    then show ?thesis
      using q by (cases "bt_calls b ! q")
        (auto simp: batch_step_def intro!: exI [of _ q] batch_left_update [where k = q and ph = "CallAnswered _"])
  qed (use k in simp)
qed

lemma batch_completes:
  assumes "batch_queued b"
  shows "\<exists>rest. batch_left (fold (batch_step opts time us) rest b) = 0"
  using assms
proof (induction "batch_left b" arbitrary: b rule: less_induct)
  case less
  show ?case
  proof (cases "batch_left b = 0")
    case True
    then show ?thesis by (intro exI [of _ "[]"]) simp
  next
    case False
    then obtain k where k: "batch_left (batch_step opts time us (k, 0) b) < batch_left b"
      using batch_progress [OF less.prems] by blast
    then obtain rest where "batch_left (fold (batch_step opts time us) rest (batch_step opts time us (k, 0) b)) = 0"
      using less.hyps [OF k] batch_queued_step [OF less.prems] by blast
    then show ?thesis by (intro exI [of _ "(k, 0) # rest"]) simp
  qed
qed

lemma answers_complete: "sum_list (map steps_left ps) = 0 \<Longrightarrow> \<exists>rs. all_answers ps = Some rs \<and> length rs = length ps"
proof (induction ps)
  case (Cons ph ps)
  then show ?case by (cases ph) auto
qed simp

lemma run_batch_queued: "batch_queued (run_batch opts time us sched calls s) \<and> length (bt_calls (run_batch opts time us sched calls s)) = length calls"
proof -
  have "batch_queued b \<Longrightarrow> batch_queued (fold (batch_step opts time us) moves b) \<and>
      length (bt_calls (fold (batch_step opts time us) moves b)) = length (bt_calls b)" for moves b
    by (induction moves arbitrary: b) (simp_all add: batch_queued_step)
  from this [OF batch_queued_begin] show ?thesis
    by (simp add: run_batch_def) (simp add: begin_batch_def Let_def)
qed

lemma batch_answered:
  "\<exists>rest rs. all_answers (bt_calls (run_batch opts time us (sched @ rest) calls s)) = Some rs \<and> length rs = length calls"
proof -
  obtain rest where "batch_left (run_batch opts time us (sched @ rest) calls s) = 0"
    using batch_completes [of "run_batch opts time us sched calls s" opts time us] run_batch_queued by (auto simp: run_batch_def)
  then show ?thesis
    using answers_complete run_batch_queued unfolding batch_left_def by metis
qed
section \<open>A batch of one\<close>

text \<open>A call is refused, or it is the method's answer in the form of JSON-RPC, with the method's effect.\<close>

lemma rpc_call_cases:
  fixes call opts now uuids
  defines "request \<equiv> asObject_or_empty call"
  defines "called \<equiv> asString_or (get_prop request ''method'') []"
  defines "run \<equiv> executeSharedContextMethod opts now uuids called (coalesce (get_prop request ''params'') (JObj []))"
  shows "handleSharedContextJsonRpcCall opts now uuids call s =
    (let i = jsonRpcRequestId (get_prop request ''id'') in
     if get_prop request ''jsonrpc'' \<noteq> JStr ''2.0'' \<or> called = [] then (jsonRpcError i (-32600) ''Invalid Request'', s)
     else if called \<notin> set SHARED_CONTEXT_METHODS then (jsonRpcError i (-32601) ''Method not found'', s)
     else (rpc_answer i (fst (run s)), snd (run s)))"
proof -
  obtain ok data t where r: "run s = ((ok, data), t)" by (metis prod.exhaust)
  show ?thesis
    using r unfolding run_def called_def request_def
    by (cases ok) (simp_all add: handleSharedContextJsonRpcCall_def rpc_answer_def Let_def)
qed

lemma outcome_entry:
  "shared_method opts now uuids st method p = Some (Inr ([], data, entry)) \<Longrightarrow> entry = None"
  by (auto simp: shared_method_def shared_create_def shared_archive_def shared_post_def shared_attach_def shared_list_def
      shared_read_def shared_summary_def room_outcome_def and_then_Inr split: if_splits prod.splits dest: decisions_append)

lemma create_reads_nothing:
  "shared_method opts now uuids st ''openclaw.room.create'' p = shared_method opts now uuids st' ''openclaw.room.create'' p"
  by (simp add: shared_method_def)

definition batch_one :: "call_phase \<Rightarrow> api_state \<Rightarrow> batch_state" where
  "batch_one ph s = \<lparr>bt_api = s, bt_calls = [ph], bt_queue = (if is_writing ph then [0] else [])\<rparr>"

lemma begin_batch_one: "begin_batch opts time us [call] s = batch_one (begin_call opts (time 0) (us 0) (as_shared s) call) s"
  by (simp add: begin_batch_def batch_one_def Let_def)

text \<open>Deciding and then writing is what the method does when nothing comes in between.\<close>

lemma decide_and_write:
  assumes "shared_method opts (time 0) (us 0) st method (asObject_or_empty params) =
      shared_method opts (time 0) (us 0) (loadState (as_shared s)) method (asObject_or_empty params)"
  defines "run \<equiv> executeSharedContextMethod opts (time 0) (us 0) method params s"
  shows "\<exists>q. batch_step opts time us (0, 0) (batch_one (call_decides opts (time 0) (us 0) i method (asObject_or_empty params) st) s) =
    \<lparr>bt_api = snd run, bt_calls = [CallAnswered (rpc_answer i (fst run))], bt_queue = q\<rparr>"
  using assms(1) unfolding run_def
  by (auto simp: call_decides_def executeSharedContextMethod_def batch_one_def batch_step_def call_writes_def Let_def
      split: option.split sum.split prod.split dest: outcome_entry)
lemma step_answered: "batch_step opts time us move \<lparr>bt_api = s, bt_calls = [CallAnswered r], bt_queue = q\<rparr> = \<lparr>bt_api = s, bt_calls = [CallAnswered r], bt_queue = q\<rparr>"
  by (cases move; cases "fst move") (simp_all add: batch_step_def)

lemma step_reads:
  assumes "as_shared s = Some ls"
  shows "batch_step opts time us (0, 0) (batch_one (CallReading (length ls) i m p) s) =
    batch_one (call_decides opts (time 0) (us 0) i m p (loadState (as_shared s))) s"
  by (simp add: batch_step_def batch_one_def assms Let_def)

theorem batch_of_one:
  "shared_http opts time us [(0, 0), (0, 0)] (JArr [call]) s =
    (case handleSharedContextJsonRpcCall opts (time 0) (us 0) call s of (r, t) \<Rightarrow> (Some (200, JArr [r]), t))"
proof -
  let ?request = "asObject_or_empty call"
  let ?called = "asString_or (get_prop ?request ''method'') []"
  let ?params = "coalesce (get_prop ?request ''params'') (JObj [])"
  let ?i = "jsonRpcRequestId (get_prop ?request ''id'')"
  let ?run = "executeSharedContextMethod opts (time 0) (us 0) ?called ?params s"
  let ?step = "batch_step opts time us (0, 0)"
  let ?decides = "call_decides opts (time 0) (us 0) ?i ?called (asObject_or_empty ?params)"
  have batch: "shared_http opts time us [(0, 0), (0, 0)] (JArr [call]) s = (Some (200, JArr [r]), t)"
    if "\<exists>q. ?step (?step (batch_one (begin_call opts (time 0) (us 0) (as_shared s) call) s)) = \<lparr>bt_api = t, bt_calls = [CallAnswered r], bt_queue = q\<rparr>"
    for r t
    using that by (auto simp: shared_http_def run_batch_def begin_batch_one)
  have refused: "shared_http opts time us [(0, 0), (0, 0)] (JArr [call]) s = (Some (200, JArr [r]), s)"
    if "begin_call opts (time 0) (us 0) (as_shared s) call = CallAnswered r" for r
    by (rule batch) (simp add: that batch_one_def step_answered)
  have run: "\<exists>q. ?step (?step (batch_one (?decides st) s)) = \<lparr>bt_api = snd ?run, bt_calls = [CallAnswered (rpc_answer ?i (fst ?run))], bt_queue = q\<rparr>"
    "\<exists>q. ?step (batch_one (?decides st) s) = \<lparr>bt_api = snd ?run, bt_calls = [CallAnswered (rpc_answer ?i (fst ?run))], bt_queue = q\<rparr>"
    if "?called = ''openclaw.room.create'' \<or> st = loadState (as_shared s)" for st
  proof -
    have "shared_method opts (time 0) (us 0) st ?called (asObject_or_empty ?params) =
        shared_method opts (time 0) (us 0) (loadState (as_shared s)) ?called (asObject_or_empty ?params)"
      using that create_reads_nothing by metis
    from decide_and_write [where time = time and us = us, OF this] show "\<exists>q. ?step (batch_one (?decides st) s) = \<lparr>bt_api = snd ?run, bt_calls = [CallAnswered (rpc_answer ?i (fst ?run))], bt_queue = q\<rparr>"
      by blast
    then show "\<exists>q. ?step (?step (batch_one (?decides st) s)) = \<lparr>bt_api = snd ?run, bt_calls = [CallAnswered (rpc_answer ?i (fst ?run))], bt_queue = q\<rparr>"
      by (auto simp: step_answered)
  qed
  consider (invalid) "get_prop ?request ''jsonrpc'' \<noteq> JStr ''2.0'' \<or> ?called = []"
    | (unknown) "get_prop ?request ''jsonrpc'' = JStr ''2.0''" "?called \<noteq> []" "?called \<notin> set SHARED_CONTEXT_METHODS"
    | (known) "get_prop ?request ''jsonrpc'' = JStr ''2.0''" "?called \<noteq> []" "?called \<in> set SHARED_CONTEXT_METHODS"
    by blast
  then show ?thesis
  proof cases
    case known
    then have handle: "handleSharedContextJsonRpcCall opts (time 0) (us 0) call s = (rpc_answer ?i (fst ?run), snd ?run)"
      by (simp add: rpc_call_cases Let_def)
    have "begin_call opts (time 0) (us 0) (as_shared s) call =
        (if ?called = ''openclaw.room.create'' then ?decides (loadState None)
         else case as_shared s of None \<Rightarrow> ?decides (loadState None)
           | Some ls \<Rightarrow> CallReading (length ls) ?i ?called (asObject_or_empty ?params))"
      using known by (simp add: begin_call_def Let_def)
    then have "\<exists>q. ?step (?step (batch_one (begin_call opts (time 0) (us 0) (as_shared s) call) s)) =
        \<lparr>bt_api = snd ?run, bt_calls = [CallAnswered (rpc_answer ?i (fst ?run))], bt_queue = q\<rparr>"
      using run by (auto simp: step_reads split: option.split)
    from batch [OF this] show ?thesis by (simp add: handle)
  qed (simp_all add: refused begin_call_def rpc_call_cases Let_def)
qed

section \<open>The endpoint\<close>

lemma http_answered: "\<exists>rest. fst (shared_http opts time us (sched @ rest) body s) \<noteq> None"
proof (cases body)
  case (JArr calls)
  obtain rest rs where "all_answers (bt_calls (run_batch opts time us (sched @ rest) calls s)) = Some rs"
    using batch_answered by blast
  then show ?thesis by (intro exI [of _ rest]) (simp add: shared_http_def JArr Let_def)
qed (simp_all add: shared_http_def Let_def split: prod.split)

text \<open>C11. Nothing posted to the JSON-RPC endpoint, a single call or a batch of any shape, changes an archived room: in whatever order the
  calls of the batch read and write, and at every moment of it, the room is archived with the same messages and artifacts. The only
  assumption is that no identifier drawn for a new room repeats its own. And no order is a dead end: however far the calls
  have come, they can go on until the request is answered.\<close>

theorem endpoint_keeps_archived_rooms:
  assumes "frozen r ms as (loadState (as_shared s))" "\<And>n. r \<noteq> ''room-'' @ us n 0"
  shows "frozen r ms as (loadState (as_shared (snd (shared_http opts time us sched body s)))) \<and>
    (\<exists>rest. fst (shared_http opts time us (sched @ rest) body s) \<noteq> None)"
proof -
  let ?single = "handleSharedContextJsonRpcCall opts (time 0) (us 0) body s"
  obtain c where c: "as_shared (snd ?single) = run_opt opts c (as_shared s)" "\<forall>c' r. c = Some c' \<longrightarrow> creates r c' \<longrightarrow> r = ''room-'' @ us 0 0"
    using call_runs_command by blast
  have single: "frozen r ms as (loadState (as_shared (snd ?single)))"
    unfolding c(1) by (rule run_opt_frozen [OF assms(1)]) (use c(2) assms(2) in blast)
  show ?thesis
  proof (cases "\<exists>calls. body = JArr calls \<and> calls \<noteq> []")
    case True
    then obtain calls where calls: "body = JArr calls" "calls \<noteq> []" by blast
    with batch_frozen [where r = r and ms = ms and as = as and us = us, OF assms]
    have "frozen r ms as (loadState (as_shared (snd (shared_http opts time us sched body s))))"
      by (simp add: shared_http_def Let_def)
    then show ?thesis using http_answered by blast
  next
    case False
    obtain x t where xt: "?single = (x, t)" by fastforce
    from False have cases: "shared_http opts time us sched' body s = (Some (200, x), t) \<or>
        shared_http opts time us sched' body s = (Some (400, jsonRpcError JNull (-32600) ''Invalid Request''), s)" for sched'
      using xt by (cases body) (simp_all add: shared_http_def Let_def)
    have "frozen r ms as (loadState (as_shared (snd (shared_http opts time us sched body s))))"
      using cases [of sched] single assms(1) by (auto simp: xt)
    then show ?thesis using http_answered by blast
  qed
qed

theorem endpoint_keeps_archived_rooms_witness:
  "frozen ''room-a'' [] [] (loadState (as_shared (snd (shared_http demo_opts (\<lambda>_. ''now'') (\<lambda>_ _. ''b'') [(1, 0), (0, 0)]
     (JArr [JObj [(''jsonrpc'', JStr ''2.0''), (''method'', JStr ''openclaw.room.post''),
        (''params'', JObj [(''roomId'', JStr ''room-a''), (''content'', JStr ''x'')])],
       JObj [(''jsonrpc'', JStr ''2.0''), (''method'', JStr ''openclaw.room.archive''),
        (''params'', JObj [(''roomId'', JStr ''room-a'')])]])
     \<lparr>as_telemetry = new_telemetry None, as_audit = [], as_history = [],
       as_shared = Some [EventLine (RoomCreated ''t'' \<lparr>sr_id = ''room-a'', sr_title = ''t'', sr_topic = [], sr_participants = [],
         sr_tags = [], sr_status = RoomArchived, sr_createdAt = ''t'', sr_updatedAt = ''t'', sr_createdBy = ''u'', sr_metadata = JUndef\<rparr>)]\<rparr>))))"
  by (rule endpoint_keeps_archived_rooms [THEN conjunct1])
     (simp_all add: frozen_def loadState_def applyEvent_def empty_shared_state_def room_messages_def room_artifacts_def)
section \<open>Order matters\<close>

definition room_call :: "string \<Rightarrow> (string \<times> js) list \<Rightarrow> js" where
  "room_call method params = JObj [(''jsonrpc'', JStr ''2.0''), (''id'', JNull), (''method'', JStr method), (''params'', JObj params)]"

definition demo_api :: "shared_file \<Rightarrow> api_state" where
  "demo_api f = \<lparr>as_telemetry = new_telemetry None, as_audit = [], as_history = [], as_shared = f\<rparr>"

definition archive_and_post :: js where
  "archive_and_post = JArr [room_call ''openclaw.room.archive'' [(''roomId'', JStr ''room-1'')],
     room_call ''openclaw.room.post'' [(''roomId'', JStr ''room-1''), (''content'', JStr ''hi'')]]"

definition room_status_after :: "(int \<times> js) option \<times> api_state \<Rightarrow> bool list \<times> room_status option" where
  "room_status_after r = ((case fst r of Some (_, JArr rs) \<Rightarrow> map (\<lambda>x. get_prop x ''error'' = JUndef) rs | _ \<Rightarrow> []),
     map_option sr_status (map_of (ss_rooms (loadState (as_shared (snd r)))) ''room-1''))"

text \<open>A batch that archives a room and posts to it: when the post reads after the archive has been written it is refused, and when it
  reads before, both succeed and the room is open at the end.\<close>

lemma batch_can_unarchive:
  "room_status_after (shared_http demo_opts (\<lambda>_. ''t1'') (\<lambda>_ _. ''u'') [(0, 0), (0, 0), (1, 1)] archive_and_post (demo_api demo_file)) =
     ([True, False], Some RoomArchived)"
  "room_status_after (shared_http demo_opts (\<lambda>_. ''t1'') (\<lambda>_ _. ''u'') [(0, 0), (1, 0), (0, 0), (1, 0)] archive_and_post (demo_api demo_file)) =
     ([True, True], Some RoomOpen)"
  by code_simp+

text \<open>On a store without a file, a list in the batch that creates the first room is empty in every order.\<close>

lemma fresh_list_is_empty:
  "begin_call demo_opts now us None (room_call ''openclaw.room.list'' []) = CallAnswered (jsonRpcResult JNull (listed ''rooms'' []))"
  by code_simp

end
