(* ===== verification/PluginMethods.thy ===== *)
theory PluginMethods
  imports GatewayApi
begin

text \<open>
  The gateway methods of \<open>index.ts\<close> that reach other agents or the hub: sending a message or a file
  to a peer, the Hub plaza, profiles, matching and resolving. The client, the routing rules, the hub
  discovery and the handshake are those of the other theories; a method returns what it passes to
  \<open>respond\<close> and what it records. Where the telemetry reads the two logs of a send, the transport
  attempts come before the retries: only their order in the log lines is lost.
\<close>

section \<open>Sending a message\<close>

record send_state =
  sn_telemetry :: telemetry
  sn_audit :: "js list"
  sn_history :: "(string \<times> js) list list"

definition record_send :: "(string \<times> js) list \<Rightarrow> send_state \<Rightarrow> send_state" where
  "record_send e s = s\<lparr>sn_history := sn_history s @ [e]\<rparr>"

text \<open>What a method needs from outside for one send: the client's transports, the clock before and after, the
  random numbers, the identifier of the message, the peers' breakers and the state of the network.\<close>

record 's send_env =
  sv_sdk :: "'s sdk"
  sv_start :: int
  sv_end :: int
  sv_uuid :: string
  sv_random :: "nat \<Rightarrow> rat"
  sv_health :: "health_manager option"
  sv_network :: "'s \<times> client_log list"
  sv_retry :: retry_config

definition object_fields :: "js \<Rightarrow> (string \<times> js) list" where
  "object_fields v = (case v of JObj fs \<Rightarrow> fs | _ \<Rightarrow> [])"

text \<open>The routing decision: the name given, or else the target of the deciding rule.\<close>

definition route_message :: "regex \<Rightarrow> routing_rule list \<Rightarrow> health_manager option \<Rightarrow> string \<Rightarrow> (string \<times> js) list \<Rightarrow>
    string \<times> string option" where
  "route_message re rules hm peerName message =
    (if peerName = [] \<and> rules \<noteq> [] then
       let messageText = asString_or (or_else (jprop ''text'' message) (or_else (jprop ''message'' message) (JStr []))) [];
           messageTags = (case jprop ''tags'' message of JArr ts \<Rightarrow> Some (strings_of ts) | _ \<Rightarrow> None)
       in (case matchRule re rules \<lparr>ms_text = messageText, ms_tags = messageTags\<rparr> (map_option getPeerSkills hm) of
             Some r \<Rightarrow> (rm_peer r, rm_agentId r)
           | None \<Rightarrow> (peerName, None))
     else (peerName, None))"

definition apply_agent :: "string option \<Rightarrow> (string \<times> js) list \<Rightarrow> (string \<times> js) list" where
  "apply_agent agentId message = (case agentId of
     Some a \<Rightarrow> if a \<noteq> [] \<and> \<not> truthy (jprop ''agentId'' message) then AList.update ''agentId'' (JStr a) message else message
   | None \<Rightarrow> message)"

text \<open>The log callback: every line that carries an attempt is counted as a retry.\<close>

fun logged_attempts :: "client_log list \<Rightarrow> nat list" where
  "logged_attempts [] = []"
| "logged_attempts (TransportTry p t u i n # ls) = (if i = 0 then logged_attempts ls else i # logged_attempts ls)"
| "logged_attempts (_ # ls) = logged_attempts ls"

definition count_retries :: "int \<Rightarrow> string \<Rightarrow> nat list \<Rightarrow> telemetry \<Rightarrow> telemetry" where
  "count_retries now peer attempts t = fold (\<lambda>i. recordPeerRetry now peer (int i)) attempts t"

definition catch_text :: "err_value \<Rightarrow> string" where
  "catch_text e = (case e of
     EvError m \<Rightarrow> if m \<noteq> [] then m else ''Error''
   | EvValue v \<Rightarrow> js_text (or_else (get_prop v ''message'') v))"

definition finish_send :: "string \<Rightarrow> bool \<Rightarrow> rat \<Rightarrow> int \<Rightarrow> int \<Rightarrow> send_state \<Rightarrow> send_state" where
  "finish_send peer ok status now duration s = s
    \<lparr>sn_telemetry := recordOutboundRequest now peer ok \<lfloor>status\<rfloor> duration (sn_telemetry s),
     sn_audit := sn_audit s @ [audit_outbound now peer ok status (of_int duration)]\<rparr>"

definition send_entry :: "string \<Rightarrow> string \<Rightarrow> string \<Rightarrow> (string \<times> js) list \<Rightarrow> (string \<times> js) list \<Rightarrow> (string \<times> js) list" where
  "send_entry ty status peer extra d = entry_head ty status ''outbound'' @ [(''peer'', JStr peer)] @ extra @ detail d"

definition deliver :: "'s send_env \<Rightarrow> peer_config \<Rightarrow> (string \<times> js) list \<Rightarrow> send_state \<Rightarrow>
    response \<times> send_state \<times> health_manager option \<times> ('s \<times> client_log list)" where
  "deliver env peer message s =
    (let name = pc_name peer;
         duration = sv_end env - sv_start env;
         took = [(''durationMs'', num duration)];
         s0 = record_send (send_entry ''send.started'' ''started'' name [] [(''resolvedAgentId'', jprop ''agentId'' message),
                (''hasParts'', JBool (case jprop ''parts'' message of JArr _ \<Rightarrow> True | _ \<Rightarrow> False))]) s;
         (outcome, hm, retries, network) = sendMessage (sv_sdk env) (sv_start env) (sv_end env) peer (sv_uuid env) message
           (Some (sv_retry env)) (sv_random env) (sv_health env) (sv_network env);
         attempts = logged_attempts (drop (length (snd (sv_network env))) (snd network)) @ map rl_attempt retries;
         s1 = s0\<lparr>sn_telemetry := count_retries (sv_end env) name attempts (sn_telemetry s0)\<rparr>
     in (case outcome of
           Inr r \<Rightarrow>
             let s2 = finish_send name (sr_ok r) (sr_statusCode r) (sv_end env) duration s1;
                 status = [(''statusCode'', JNum (Fin (sr_statusCode r)))];
                 answer = JObj (status @ [(''response'', sr_response r)])
             in ((sr_ok r, answer), record_send (send_entry (if sr_ok r then ''send.completed'' else ''send.failed'')
                    (if sr_ok r then ''success'' else ''failure'') name took
                    (status @ [(''response'', if sr_ok r then JUndef else sr_response r)])) s2, hm, network)
         | Inl e \<Rightarrow>
             let s2 = finish_send name False 500 (sv_end env) duration s1;
                 failure = [(''error'', JStr (catch_text e))]
             in ((False, JObj failure), record_send (send_entry ''send.failed'' ''failure'' name took failure) s2, hm, network)))"

definition a2a_send :: "regex \<Rightarrow> routing_rule list \<Rightarrow> peer_config list \<Rightarrow> 's send_env \<Rightarrow> js \<Rightarrow> send_state \<Rightarrow>
    response \<times> send_state \<times> health_manager option \<times> ('s \<times> client_log list)" where
  "a2a_send re rules peers env params s =
    (let payload = asObject_or_empty params;
         peerName = asString_or (or_else (get_prop payload ''peer'') (get_prop payload ''name'')) [];
         message = object_fields (asObject_or_empty (or_else (get_prop payload ''message'') (get_prop payload ''payload'')));
         (resolvedPeerName, resolvedAgentId) = route_message re rules (sv_health env) peerName message
     in (case find (\<lambda>p. pc_name p = resolvedPeerName) peers of
           None \<Rightarrow> ((False, JObj [(''error'', JStr (''Peer not found: '' @
                      (if resolvedPeerName = [] then ''(none)'' else resolvedPeerName)))]), s, sv_health env, sv_network env)
         | Some peer \<Rightarrow> deliver env peer (apply_agent resolvedAgentId message) s))"

section \<open>Sending a file\<close>

record file_input =
  fl_peer :: string
  fl_uri :: string
  fl_name :: "string option"
  fl_mimeType :: "string option"
  fl_text :: "string option"
  fl_agentId :: "string option"

record tool_result =
  tr_text :: string
  tr_details :: js

definition opt_member :: "string \<Rightarrow> string option \<Rightarrow> (string \<times> js) list" where
  "opt_member k v = (case present_text v of Some t \<Rightarrow> [(k, JStr t)] | None \<Rightarrow> [])"

definition file_message :: "file_input \<Rightarrow> (string \<times> js) list" where
  "file_message i =
    (''parts'', JArr ((case present_text (fl_text i) of Some t \<Rightarrow> [JObj [(''kind'', JStr ''text''), (''text'', JStr t)]] | None \<Rightarrow> []) @
       [JObj [(''kind'', JStr ''file''), (''file'', JObj ((''uri'', JStr (fl_uri i)) # opt_member ''name'' (fl_name i) @
          opt_member ''mimeType'' (fl_mimeType i)))]])) # opt_member ''agentId'' (fl_agentId i)"

definition file_detail :: "file_input \<Rightarrow> (string \<times> js) list" where
  "file_detail i = [(''uri'', JStr (fl_uri i)), (''name'', opt_str (fl_name i)), (''mimeType'', opt_str (fl_mimeType i))]"

text \<open>The checks before a file is sent: why it is refused, with the details of the refusal.\<close>

definition file_refusal :: "url_fields \<Rightarrow> (string \<Rightarrow> string + string) \<Rightarrow> file_security_config \<Rightarrow> peer_config list \<Rightarrow>
    file_input \<Rightarrow> tool_result option" where
  "file_refusal parse dns security peers i =
    (if find (\<lambda>p. pc_name p = fl_peer i) peers = None then
       Some \<lparr>tr_text = ''Peer not found: '' @ quoted (fl_peer i) @ ''. Available peers: '' @
               (let available = join '', '' (map pc_name peers) in if available = [] then ''(none)'' else available),
             tr_details = JObj [(''ok'', JBool False)]\<rparr>
     else (case validateUri parse dns security (fl_uri i) of
       Some reason \<Rightarrow> Some \<lparr>tr_text = ''URI rejected: '' @ reason, tr_details = JObj [(''ok'', JBool False), (''reason'', JStr reason)]\<rparr>
     | None \<Rightarrow>
        (case present_text (fl_mimeType i) of
           Some m \<Rightarrow> if validateMimeType m (fs_allowedMimeTypes security) then None
                     else Some \<lparr>tr_text = ''MIME type rejected: '' @ quoted m @ '' is not in the allowed list'',
                            tr_details = JObj [(''ok'', JBool False)]\<rparr>
         | None \<Rightarrow> None)))"

definition transfer_file :: "'s send_env \<Rightarrow> peer_config \<Rightarrow> file_input \<Rightarrow> send_state \<Rightarrow>
    tool_result \<times> send_state \<times> health_manager option \<times> ('s \<times> client_log list)" where
  "transfer_file env peer i s =
    (let name = pc_name peer;
         s0 = record_send (send_entry ''send_file.started'' ''started'' name []
                (file_detail i @ [(''agentId'', opt_str (fl_agentId i))])) s;
         (outcome, hm, retries, network) = sendMessage (sv_sdk env) (sv_start env) (sv_end env) peer (sv_uuid env) (file_message i)
           (Some (sv_retry env)) (sv_random env) (sv_health env) (sv_network env)
     in (case outcome of
           Inr r \<Rightarrow>
             (if sr_ok r
              then \<lparr>tr_text = ''File sent to '' @ fl_peer i @ '' via A2A.'' @ newline @ ''URI: '' @ fl_uri i @ newline @
                      ''Response: '' @ wire_text (sr_response r),
                    tr_details = JObj [(''ok'', JBool True), (''response'', sr_response r)]\<rparr>
              else \<lparr>tr_text = ''Failed to send file to '' @ fl_peer i @ '': '' @ wire_text (sr_response r),
                    tr_details = JObj [(''ok'', JBool False), (''response'', sr_response r)]\<rparr>,
              record_send (send_entry (if sr_ok r then ''send_file.completed'' else ''send_file.failed'')
                (if sr_ok r then ''success'' else ''failure'') name [(''durationMs'', num (sv_end env - sv_start env))]
                (file_detail i @ [(''response'', if sr_ok r then JUndef else sr_response r)])) s0, hm, network)
         | Inl e \<Rightarrow>
             (\<lparr>tr_text = ''Error sending file to '' @ fl_peer i @ '': '' @ error_text e,
               tr_details = JObj [(''ok'', JBool False), (''error'', JStr (error_text e))]\<rparr>,
              record_send (send_entry ''send_file.failed'' ''failure'' name []
                (file_detail i @ [(''error'', JStr (error_text e))])) s0, hm, network)))"

definition a2a_send_file :: "url_fields \<Rightarrow> (string \<Rightarrow> string + string) \<Rightarrow> file_security_config \<Rightarrow> peer_config list \<Rightarrow> 's send_env \<Rightarrow>
    file_input \<Rightarrow> send_state \<Rightarrow> tool_result \<times> send_state \<times> health_manager option \<times> ('s \<times> client_log list)" where
  "a2a_send_file parse dns security peers env i s =
    (case file_refusal parse dns security peers i of
       Some refusal \<Rightarrow> (refusal, s, sv_health env, sv_network env)
     | None \<Rightarrow>
        (case find (\<lambda>p. pc_name p = fl_peer i) peers of
           Some peer \<Rightarrow> transfer_file env peer i s
         | None \<Rightarrow> (\<lparr>tr_text = [], tr_details = JUndef\<rparr>, s, sv_health env, sv_network env)))"

section \<open>Facts\<close>

lemma peer_retry_count_simps [simp]:
  "peer_retry_count n (recordPeerRetry now p i t) = peer_retry_count n t + (if p = n then 1 else 0)"
  "peer_retry_count n (recordOutboundRequest now p okv st d t) = peer_retry_count n t"
  by (auto simp: peer_retry_count_def recordPeerRetry_def recordOutboundRequest_def log_event_def Let_def update_conv')

lemma count_retries_count [simp]: "peer_retry_count n (count_retries now n as t) = peer_retry_count n t + length as"
  unfolding count_retries_def by (induction as arbitrary: t) simp_all

lemma first_transport_succeeds:
  assumes "send ep s = (Inr r, s')" "sr_ok r"
  shows "transport_loop send peer n 0 (ep # eps) e (s, lg) = (r, (s', lg @ [TransportTry peer (te_transport ep) (te_url ep) 1 n]))"
  using assms by simp

lemma first_attempt_succeeds:
  assumes "fn s = (Inr r, s')" "sr_ok r" "0 \<le> rc_maxRetries cfg"
  shows "send_with_retry fn (Some cfg) rnd s = (Inr r, [], s')"
  using assms by (simp add: send_with_retry_def withRetry_def retry_loop.simps [of fn] Let_def)

text \<open>A message that goes out on the very first attempt to a peer whose card offers several transports is counted as
  one retry of that peer: the counter \<open>peer.retry\<close> of the telemetry goes up although nothing was retried.\<close>

theorem first_try_counted_as_retry:
  fixes env :: "'s send_env"
  assumes "parseAgentCardUrl (sv_sdk env) (pc_agentCardUrl peer) = Inr (baseUrl, path)"
    and "sv_network env = (netA, lg)" "sv_health env = None" "0 \<le> rc_maxRetries (sv_retry env)"
    and "resolve_card (sv_sdk env) baseUrl path (createAuthHandler peer) netA = (Inr c, netB)"
    and "card_interfaces (baseUrl @ path) c = ep # eps" "eps \<noteq> []"
    and "doSendViaTransport (sv_sdk env) ep (outbound_message (sv_uuid env) message) (service_parameters peer) netB = (Inr r, netC)"
    and "sr_ok r" "deliver env peer message s = (answer, s', hm, network)"
  shows "fst answer \<and> peer_retry_count (pc_name peer) (sn_telemetry s') = peer_retry_count (pc_name peer) (sn_telemetry s) + 1"
proof -
  let ?do = "doSendMessage (sv_sdk env) peer (sv_uuid env) message"
  let ?line = "TransportTry (pc_name peer) (te_transport ep) (te_url ep) 1 (length (ep # eps))"
  have "transport_loop (\<lambda>e. doSendViaTransport (sv_sdk env) e (outbound_message (sv_uuid env) message) (service_parameters peer))
      (pc_name peer) (length (ep # eps)) 0 (ep # eps) (EvValue JUndef) (netB, lg) = (r, netC, lg @ [?line])"
    by (rule first_transport_succeeds) (use assms in simp_all)
  then have "?do (netA, lg) = (Inr r, netC, lg @ [?line])"
    using assms(1,5,6,7) by (simp add: doSendMessage_def Let_def del: transport_loop.simps)
  then have "send_with_retry ?do (Some (sv_retry env)) (sv_random env) (netA, lg) = (Inr r, [], netC, lg @ [?line])"
    by (rule first_attempt_succeeds) (use assms in simp_all)
  then have "sendMessage (sv_sdk env) (sv_start env) (sv_end env) peer (sv_uuid env) message (Some (sv_retry env)) (sv_random env)
      (sv_health env) (sv_network env) = (Inr r, None, [], netC, lg @ [?line])"
    using assms(2,3) by (simp add: sendMessage_def Let_def)
  then show ?thesis
    using assms(2,9,10) by (auto simp: deliver_def Let_def record_send_def finish_send_def)
qed

definition demo_send_env :: "nat send_env" where
  "demo_send_env = \<lparr>sv_sdk = demo_sdk\<lparr>transport_send := (\<lambda>_ _ _ _ s. (Inr (JStr ''pong''), s + 1))\<rparr>, sv_start = 0, sv_end = 5,
     sv_uuid = ''u'', sv_random = (\<lambda>_. 0), sv_health = None, sv_network = (0, []),
     sv_retry = \<lparr>rc_maxRetries = 3, rc_baseDelayMs = 1000, rc_maxDelayMs = 10000\<rparr>\<rparr>"

definition demo_send_state :: send_state where
  "demo_send_state = \<lparr>sn_telemetry = new_telemetry None, sn_audit = [], sn_history = []\<rparr>"

theorem first_try_counted_as_retry_witness:
  "peer_retry_count (pc_name example_peer) (sn_telemetry (fst (snd (deliver demo_send_env example_peer [] demo_send_state)))) = 1"
proof -
  obtain answer s' hm network where d: "deliver demo_send_env example_peer [] demo_send_state = (answer, s', hm, network)"
    by (metis prod_cases4)
  let ?card = "JObj [(''preferredTransport'', JStr ''GRPC''), (''url'', JStr ''g''),
      (''additionalInterfaces'', JArr [JObj [(''url'', JStr ''r''), (''transport'', JStr ''HTTP+JSON'')],
         JObj [(''url'', JStr ''j''), (''transport'', JStr ''JSONRPC'')]])]"
  have ifs: "card_interfaces (''http://p'' @ ''/card'') ?card = \<lparr>te_url = ''j'', te_transport = ''JSONRPC''\<rparr> #
      [\<lparr>te_url = ''r'', te_transport = ''HTTP+JSON''\<rparr>, \<lparr>te_url = ''g'', te_transport = ''GRPC''\<rparr>]"
    by (simp add: card_interfaces_def endpoint_of_def coalesce_def nullish_def orderTransports_def PRIORITY_ORDER_def)
  show ?thesis
    using first_try_counted_as_retry [where env = demo_send_env and peer = example_peer and message = "[]" and s = demo_send_state and
        baseUrl = "''http://p''" and path = "''/card''" and netA = 0 and lg = "[]" and netB = 0 and netC = 1 and
        r = "\<lparr>sr_ok = True, sr_statusCode = 200, sr_response = JStr ''pong''\<rparr>", OF _ _ _ _ _ ifs _ _ _ d] d
    by (simp add: demo_send_env_def demo_sdk_def parseAgentCardUrl_def doSendViaTransport_def demo_send_state_def
        new_telemetry_def peer_retry_count_def)
qed

text \<open>A file offered without a MIME type is sent whatever type it has: nothing is detected from its name, so neither
  the list of allowed types nor the size limits of the configuration have any say, and the receiving peer is not
  told a type either. The URI is the only thing checked.\<close>

theorem file_without_type_unchecked:
  assumes "find (\<lambda>p. pc_name p = fl_peer i) peers = Some peer" "validateUri parse dns security (fl_uri i) = None"
    and "fl_mimeType i = None"
  shows "a2a_send_file parse dns (security\<lparr>fs_allowedMimeTypes := allowed, fs_maxFileSizeBytes := sizeA, fs_maxInlineFileSizeBytes := sizeB\<rparr>)
      peers env i s = transfer_file env peer i s \<and>
    (\<exists>file. jprop ''parts'' (file_message i) = JArr ((case present_text (fl_text i) of Some t \<Rightarrow>
         [JObj [(''kind'', JStr ''text''), (''text'', JStr t)]] | None \<Rightarrow> []) @ [JObj [(''kind'', JStr ''file''), (''file'', JObj file)]]) \<and>
       jprop ''mimeType'' file = JUndef)"
proof -
  have "validateUri parse dns (security\<lparr>fs_allowedMimeTypes := allowed, fs_maxFileSizeBytes := sizeA, fs_maxInlineFileSizeBytes := sizeB\<rparr>)
      (fl_uri i) = validateUri parse dns security (fl_uri i)"
    by (simp add: validateUri_def Let_def split: option.split prod.split)
  moreover have "jprop ''mimeType'' ((''uri'', JStr (fl_uri i)) # opt_member ''name'' (fl_name i)) = JUndef"
    by (simp add: opt_member_def split: option.split)
  ultimately show ?thesis
    using assms by (auto simp: a2a_send_file_def file_refusal_def present_text_def file_message_def opt_member_def)
qed

lemma demo_uri_accepted: "validateUri (\<lambda>_. Some (''https:'', ''8.8.8.8'')) Inr \<lparr>fs_allowedMimeTypes = [], fs_maxFileSizeBytes = 0,
      fs_maxInlineFileSizeBytes = 0, fs_fileUriAllowlist = []\<rparr> ''u'' = None"
  by code_simp

theorem file_without_type_unchecked_witness:
  "a2a_send_file (\<lambda>_. Some (''https:'', ''8.8.8.8'')) Inr \<lparr>fs_allowedMimeTypes = [], fs_maxFileSizeBytes = 0,
      fs_maxInlineFileSizeBytes = 0, fs_fileUriAllowlist = []\<rparr> [example_peer] demo_send_env
      \<lparr>fl_peer = pc_name example_peer, fl_uri = ''u'', fl_name = None, fl_mimeType = None, fl_text = None, fl_agentId = None\<rparr> demo_send_state =
   transfer_file demo_send_env example_peer
      \<lparr>fl_peer = pc_name example_peer, fl_uri = ''u'', fl_name = None, fl_mimeType = None, fl_text = None, fl_agentId = None\<rparr> demo_send_state"
proof -
  let ?i = "\<lparr>fl_peer = pc_name example_peer, fl_uri = ''u'', fl_name = None, fl_mimeType = None, fl_text = None, fl_agentId = None\<rparr>"
  have "find (\<lambda>p. pc_name p = fl_peer ?i) [example_peer] = Some example_peer" "fl_mimeType ?i = None" by simp_all
  from file_without_type_unchecked [where i = ?i and allowed = "[]" and sizeA = 0 and sizeB = 0 and env = demo_send_env and
      s = demo_send_state and parse = "\<lambda>_. Some (''https:'', ''8.8.8.8'')" and dns = Inr, OF this(1) _ this(2),
      of "\<lparr>fs_allowedMimeTypes = [], fs_maxFileSizeBytes = 0, fs_maxInlineFileSizeBytes = 0, fs_fileUriAllowlist = []\<rparr>"]
    demo_uri_accepted
  show ?thesis by simp
qed

section \<open>The plaza and profiles\<close>

definition failure_response :: "string \<Rightarrow> response" where
  "failure_response e = (False, JObj [(''error'', JStr e)])"

text \<open>\<open>v.length\<close> of what should be an array.\<close>

definition js_length :: "js \<Rightarrow> string + js" where
  "js_length v = (case v of
     JArr xs \<Rightarrow> Inr (num (int (length xs))) | JStr s \<Rightarrow> Inr (num (int (length s)))
   | JNull \<Rightarrow> Inl (null_error ''length'') | _ \<Rightarrow> Inr (get_prop v ''length''))"

definition profile_reply :: "fetch_reply \<Rightarrow> string + js" where
  "profile_reply r = api_reply ''Hub profile'' r"

definition handlePlazaList :: "(hub_request \<Rightarrow> fetch_reply) \<Rightarrow> bool \<Rightarrow> js \<Rightarrow> response" where
  "handlePlazaList fetch registered params =
    (let payload = asObject_or_empty params in
     if \<not> registered then failure_response no_registration
     else (case and_then (profile_reply (fetch (listPlazaAgents (Some (asString_or (get_prop payload ''skill'') []))
                   (Some (asString_or (coalesce (get_prop payload ''q'') (get_prop payload ''query'')) [])))))
                (\<lambda>agents. and_then (js_length agents) (\<lambda>n. Inr (JObj [(''agents'', agents), (''count'', n)]))) of
             Inl e \<Rightarrow> failure_response e | Inr d \<Rightarrow> (True, d)))"

definition profile_request :: "rat \<Rightarrow> hub_request" where
  "profile_request q = (if is_integer q then getProfile \<lfloor>q\<rfloor> else get_request (''/api/plaza/agents/'' @ rat_text q))"

definition handleProfileGet :: "(hub_request \<Rightarrow> fetch_reply) \<Rightarrow> bool \<Rightarrow> js \<Rightarrow> response" where
  "handleProfileGet fetch registered params =
    (if \<not> registered then failure_response no_registration
     else (case get_prop (asObject_or_empty params) ''agentId'' of
             JNum (Fin q) \<Rightarrow>
               (case profile_reply (fetch (profile_request q)) of
                  Inl e \<Rightarrow> failure_response e | Inr p \<Rightarrow> (True, JObj [(''profile'', p)]))
           | _ \<Rightarrow> failure_response ''agentId is required''))"

text \<open>\<open>asString(v, "") || undefined\<close>, the name skills a caller gives, and the members of an update.\<close>

definition text_or_undefined :: "js \<Rightarrow> js" where
  "text_or_undefined v = (let s = asString_or v [] in if s = [] then JUndef else JStr s)"

definition skills_param :: "js \<Rightarrow> string list option" where
  "skills_param v = (case v of JArr xs \<Rightarrow> Some (filter (\<lambda>s. trim s \<noteq> []) (strings_of xs)) | _ \<Rightarrow> None)"

definition override_members :: "string list \<Rightarrow> js \<Rightarrow> (string \<times> js) list" where
  "override_members ks payload = map (\<lambda>k. (k, text_or_undefined (get_prop payload k))) ks @
    (case get_prop payload ''plazaEnabled'' of JBool b \<Rightarrow> [(''plazaEnabled'', JBool b)] | _ \<Rightarrow> []) @
    (case skills_param (get_prop payload ''skills'') of Some ss \<Rightarrow> [(''skills'', strs ss)] | None \<Rightarrow> [])"

definition profile_texts :: "string list" where
  "profile_texts = [''displayName'', ''headline'', ''bio'', ''plazaMessage'', ''contactHint'']"

definition profile_override :: "js \<Rightarrow> (string \<times> js) list" where
  "profile_override payload = override_members ([''name'', ''description''] @ profile_texts) payload"

text \<open>A sync: the request of \<^const>\<open>syncHubProfile\<close> for the override, and the hub's answer to it.\<close>

definition run_sync :: "((string \<times> js) list \<Rightarrow> string + hub_request) \<Rightarrow> (hub_request \<Rightarrow> fetch_reply) \<Rightarrow> (string \<times> js) list \<Rightarrow>
    string + js" where
  "run_sync sync fetch override = and_then (sync override) (\<lambda>req. and_then (profile_reply (fetch req))
     (\<lambda>p. if nullish p then Inl (null_error ''agentId'') else Inr p))"

definition profile_detail :: "js \<Rightarrow> (string \<times> js) list" where
  "profile_detail p = [(''agentId'', get_prop p ''agentId''), (''displayName'', get_prop p ''displayName''),
     (''plazaEnabled'', get_prop p ''plazaEnabled'')]"

definition handleProfileUpdate :: "((string \<times> js) list \<Rightarrow> string + hub_request) \<Rightarrow> (hub_request \<Rightarrow> fetch_reply) \<Rightarrow> js \<Rightarrow>
    response \<times> (string \<times> js) list" where
  "handleProfileUpdate sync fetch params =
    (case run_sync sync fetch (profile_override (asObject_or_empty params)) of
       Inr p \<Rightarrow> ((True, JObj [(''profile'', p)]), entry_head ''profile.updated'' ''success'' ''outbound'' @ detail (profile_detail p))
     | Inl e \<Rightarrow> (failure_response e, entry_head ''profile.update_failed'' ''failure'' ''outbound'' @ detail [(''reason'', JStr e)]))"

section \<open>Matching and resolving\<close>

definition a2a_match :: "hs_env \<Rightarrow> js \<Rightarrow> hs_state \<Rightarrow> response \<times> hs_state" where
  "a2a_match env params s =
    (let payload = asObject_or_empty params; skills = opt_default [] (skills_param (get_prop payload ''skills''))
     in if skills = [] then (failure_response ''skills must be a non-empty string array'', s)
        else (let (t, r) = performMatchRequest env skills (Some (asString_or (get_prop payload ''description'') [])) s
              in ((mo_ok r, mo_details r), t)))"

definition empty_discovery :: discovery_input where
  "empty_discovery = \<lparr>dv_matchId = None, dv_agentId = None, dv_clientId = None, dv_skills = None, dv_description = None,
     dv_preferOfficial = None, dv_targetAgentId = None, dv_targetClientId = None\<rparr>"

definition description_param :: "js \<Rightarrow> string option" where
  "description_param payload = Some (asString_or (get_prop payload ''description'') [])"

text \<open>The discovery methods answer with the success flag and the typed details of the result; a refusal
  before any request is a plain failure.\<close>

definition openclaw_match :: "(hub_request \<Rightarrow> fetch_reply) \<Rightarrow> rat \<Rightarrow> int option \<Rightarrow> js \<Rightarrow> response + discovery_result" where
  "openclaw_match hub duration self params =
    (let payload = asObject_or_empty params; skills = opt_default [] (skills_param (get_prop payload ''skills''))
     in if skills = [] then Inl (failure_response ''skills must be a non-empty string array'')
        else Inr (performGenericHubMatch hub duration self skills
               (empty_discovery\<lparr>dv_skills := Some skills, dv_description := description_param payload\<rparr>)))"

definition resolve_input :: "js \<Rightarrow> discovery_input" where
  "resolve_input payload = empty_discovery
    \<lparr>dv_matchId := asPositiveInteger (get_prop payload ''matchId''), dv_agentId := asPositiveInteger (get_prop payload ''agentId''),
     dv_clientId := (let c = trim (asString_or (get_prop payload ''clientId'') []) in if c = [] then None else Some c),
     dv_skills := skills_param (get_prop payload ''skills''), dv_description := description_param payload\<rparr>"

definition openclaw_resolve :: "(hub_request \<Rightarrow> fetch_reply) \<Rightarrow> rat \<Rightarrow> int option \<Rightarrow> js \<Rightarrow> discovery_result" where
  "openclaw_resolve hub duration self params = resolveHubPeer hub duration self (resolve_input (asObject_or_empty params))"

section \<open>A partial update\<close>

lemma override_absent:
  "asString_or (get_prop payload k) [] = [] \<Longrightarrow> k \<in> set ks \<Longrightarrow> k \<notin> {''plazaEnabled'', ''skills''} \<Longrightarrow>
   map_of (override_members ks payload) k = Some JUndef"
proof -
  assume k: "asString_or (get_prop payload k) [] = []" "k \<in> set ks" "k \<notin> {''plazaEnabled'', ''skills''}"
  have "map_of (map (\<lambda>k. (k, text_or_undefined (get_prop payload k))) ks) k = Some JUndef"
    using k(1,2) by (induction ks) (auto simp: text_or_undefined_def)
  then show ?thesis by (simp add: override_members_def map_add_def)
qed

text \<open>What is left of an object's members once it has been serialised.\<close>

definition sent_members :: "(string \<times> js) list \<Rightarrow> (string \<times> js) list" where
  "sent_members fs = concat (map (\<lambda>(k, v). case json_clone v of None \<Rightarrow> [] | Some w \<Rightarrow> [(k, w)]) fs)"

lemma undefined_not_sent: "distinct (map fst fs) \<Longrightarrow> map_of fs k = Some JUndef \<Longrightarrow> k \<notin> fst ` set (sent_members fs)"
  by (auto simp: sent_members_def split: option.splits) (metis eq_key_imp_eq_value json_clone.simps(1) map_of_SomeD not_Some_eq)

lemma profile_override_keys: "distinct (map fst (profile_override payload))"
  by (simp add: profile_override_def override_members_def profile_texts_def split: js.split option.split)

lemma profile_request_body:
  "syncHubProfile sign km c p registration stored ch vr override = Inr req \<Longrightarrow>
   \<exists>r d tok. (\<forall>ov. syncHubProfile sign km c p registration stored ch vr ov = Inr (updateProfile (buildProfileUpdatePayload c p r d ov) tok))"
  by (auto simp: syncHubProfile_def split: option.splits sum.splits)

text \<open>An update of the profile erases what it does not mention: the request for an update that leaves out a text
  (the name, the description, the headline, ...) carries no such member at all, not even the one of the configuration,
  because the undefined member of the override replaces it; the same sync without an override sends the configured name.\<close>

theorem partial_update_drops_configured_text:
  assumes "k \<in> set ([''name'', ''description''] @ profile_texts)" "asString_or (get_prop payload k) [] = []"
    and "syncHubProfile sign km c p registration stored ch vr (profile_override payload) = Inr req"
  shows "(\<exists>fs gs. hq_body req = Some (JObj fs) \<and> json_clone (JObj fs) = Some (JObj gs) \<and> k \<notin> fst ` set gs) \<and>
    (\<exists>plain fs gs. syncHubProfile sign km c p registration stored ch vr [] = Inr plain \<and> hq_body plain = Some (JObj fs) \<and>
       json_clone (JObj fs) = Some (JObj gs) \<and> (''name'', JStr (cc_name c)) \<in> set gs)"
proof -
  obtain r d tok where sync: "\<And>ov. syncHubProfile sign km c p registration stored ch vr ov =
      Inr (updateProfile (buildProfileUpdatePayload c p r d ov) tok)"
    using profile_request_body [OF assms(3)] by blast
  with assms(3) obtain base where base: "hq_body req = Some (JObj (spread base (profile_override payload)))" "distinct (map fst base)"
    by (auto simp: buildProfileUpdatePayload_def updateProfile_def json_request_def)
  have "k \<notin> {''plazaEnabled'', ''skills''}" using assms(1) by (auto simp: profile_texts_def)
  then have "map_of (profile_override payload) k = Some JUndef"
    unfolding profile_override_def using assms(1,2) by (intro override_absent)
  then have "map_of (rev (profile_override payload)) k = Some JUndef"
    using profile_override_keys [of payload] by (simp add: map_of_eq_Some_iff rev_map [symmetric])
  then have "map_of (spread base (profile_override payload)) k = Some JUndef" by (simp add: map_of_spread)
  then have "k \<notin> fst ` set (sent_members (spread base (profile_override payload)))"
    by (intro undefined_not_sent distinct_spread base)
  then show ?thesis
    using base(1) sync
    by (auto simp: sent_members_def buildProfileUpdatePayload_def spread_def updateProfile_def json_request_def)
qed

definition demo_profile :: profile_config where
  "demo_profile = \<lparr>pf_plazaEnabled = True, pf_displayName = None, pf_headline = Some ''old'', pf_bio = None,
     pf_plazaMessage = None, pf_contactHint = None\<rparr>"

definition demo_saved :: registration_data where
  "demo_saved = \<lparr>rd_hubUrl = ''h'', rd_agentId = num 7, rd_clientId = ''c'', rd_publicKey = [], rd_keyVersion = 1,
     rd_signingPublicKey = None, rd_signingKeyVersion = 1, rd_registeredAt = [], rd_name = [], rd_description = [],
     rd_skills = [], rd_descriptor = JUndef\<rparr>"

lemma demo_sync: "syncHubProfile (\<lambda>_ _. Inr ''sig'') demo_keys demo_bot_card demo_profile (Some demo_saved) (Some demo_signer)
    demo_challenge (\<lambda>_. demo_token) ov =
    Inr (updateProfile (buildProfileUpdatePayload demo_bot_card demo_profile demo_saved demo_signer ov) (JStr ''t''))"
  by (simp add: syncHubProfile_def demo_saved_def demo_signer_def demo_challenge_def demo_token_def token_for_def
      getHubBearerToken_def requestJson_def reply_ok_def check_challenge_def check_verified_def js_eq_id_def num_def
      requireSigningIdentity_def loadOrCreateIdentity_def upgrade_signing_def upgrade_client_def hasSigningIdentity_def present_def
      Let_def)

theorem partial_update_drops_configured_text_witness:
  "\<exists>req fs gs. syncHubProfile (\<lambda>_ _. Inr ''sig'') demo_keys demo_bot_card demo_profile (Some demo_saved) (Some demo_signer)
       demo_challenge (\<lambda>_. demo_token) (profile_override (JObj [(''headline'', JStr ''new'')])) = Inr req \<and>
     hq_body req = Some (JObj fs) \<and> json_clone (JObj fs) = Some (JObj gs) \<and> ''name'' \<notin> fst ` set gs"
  using partial_update_drops_configured_text [of "''name''" "JObj [(''headline'', JStr ''new'')]", OF _ _ demo_sync] demo_sync
  by (auto simp: asString_or_def)

end
