(* ===== verification/Lifecycle.thy ===== *)
theory Lifecycle
  imports PluginMethods
begin

text \<open>
  The service of \<open>index.ts\<close>: the hub lifecycle around a gateway start and stop, and the service's
  \<open>start\<close> and \<open>stop\<close> with the handles they share. Every \<open>await\<close> is a point at which other calls may
  run: a call in progress is a phase, and what it waits for is an event. Servers and timers are
  numbered when they are created; the sockets, their errors and the hub's answers are the events'
  arguments. Closing an HTTP server that does not listen fails as Node documents it.
\<close>

section \<open>The hub lifecycle\<close>

datatype hub_action =
    HubPresence string
  | HubInfo string
  | HubWarn string
  | HubEntry "(string \<times> js) list"

text \<open>What the hub answers during a startup: the registration, the two steps of the presence update and
  the profile sync.\<close>

record hub_outcomes =
  ho_registration :: "string + js option"
  ho_client :: "string option"
  ho_presence :: "string option"
  ho_sync :: "string + js"

definition registration_actions :: "gateway_config \<Rightarrow> string \<Rightarrow> hub_outcomes \<Rightarrow> hub_action list" where
  "registration_actions cfg source o' =
    (if \<not> hc_registrationEnabled (gw_hub cfg) then []
     else (case ho_registration o' of
             Inl e \<Rightarrow> [HubWarn (''hub registration failed - '' @ e)]
           | Inr None \<Rightarrow> []
           | Inr (Some agentId) \<Rightarrow> [HubInfo (''registered with hub (agentId='' @ js_text agentId @ '', source='' @ source @ '')'')]))"

definition presence_actions :: "string \<Rightarrow> hub_outcomes \<Rightarrow> hub_action list" where
  "presence_actions status o' = (case ho_client o' of
     Some e \<Rightarrow> [HubWarn (''failed to update hub presence - '' @ e)]
   | None \<Rightarrow> HubPresence status # (case ho_presence o' of
       Some e \<Rightarrow> [HubWarn (''failed to update hub presence - '' @ e)] | None \<Rightarrow> []))"

definition sync_actions :: "gateway_config \<Rightarrow> string \<Rightarrow> hub_outcomes \<Rightarrow> hub_action list" where
  "sync_actions cfg source o' =
    (if \<not> gw_autoSyncOnStartup cfg then []
     else (case ho_sync o' of
             Inr p \<Rightarrow> [HubInfo (''synced hub plaza profile (agentId='' @ js_text (get_prop p ''agentId'') @ '', source='' @ source @ '')''),
                HubEntry (entry_head ''profile.synced'' ''success'' ''outbound'' @ detail (profile_detail p))]
           | Inl e \<Rightarrow> [HubWarn (''failed to sync hub plaza profile - '' @ e),
                HubEntry (entry_head ''profile.sync_failed'' ''failure'' ''outbound'' @ detail [(''reason'', JStr e)])]))"

definition hub_startup :: "gateway_config \<Rightarrow> string \<Rightarrow> hub_outcomes \<Rightarrow> hub_action list" where
  "hub_startup cfg source o' = registration_actions cfg source o' @ presence_actions ''online'' o' @ sync_actions cfg source o'"

text \<open>The shutdown swallows every failure; a failed update has still been asked for.\<close>

definition hub_shutdown :: "string \<Rightarrow> hub_outcomes \<Rightarrow> hub_action list" where
  "hub_shutdown source o' = (case ho_client o' of
     Some e \<Rightarrow> []
   | None \<Rightarrow> HubPresence ''offline'' # (case ho_presence o' of
       Some e \<Rightarrow> [] | None \<Rightarrow> [HubInfo (''hub presence set offline (source='' @ source @ '')'')]))"

section \<open>The state of the service\<close>

datatype once = Unset | Pending string | Finished

datatype phase =
    AwaitHub
  | AwaitListen nat
  | AwaitBind nat
  | AwaitOffline
  | AwaitClose nat
  | Ended "string option"

datatype timer_kind = HealthTimer | CleanupTimer | PollTimer

record service =
  lc_next :: nat
  lc_server :: "nat option"
  lc_grpc :: "nat option"
  lc_health :: "nat option"
  lc_cleanup :: "nat option"
  lc_polling :: "nat option"
  lc_startup :: once
  lc_shutdown :: once
  lc_opening :: "nat set"
  lc_listening :: "nat set"
  lc_closing :: "nat set"
  lc_binding :: "nat set"
  lc_bound :: "nat set"
  lc_timers :: "(nat \<times> timer_kind \<times> rat) list"
  lc_runs :: "phase list"
  lc_actions :: "hub_action list"

definition new_service :: service where
  "new_service = \<lparr>lc_next = 0, lc_server = None, lc_grpc = None, lc_health = None, lc_cleanup = None, lc_polling = None,
     lc_startup = Unset, lc_shutdown = Unset, lc_opening = {}, lc_listening = {}, lc_closing = {}, lc_binding = {},
     lc_bound = {}, lc_timers = [], lc_runs = [], lc_actions = []\<rparr>"

text \<open>\<open>setInterval\<close>: a delay outside 1 .. 2147483647 becomes one millisecond.\<close>

definition timer_delay :: "rat \<Rightarrow> rat" where
  "timer_delay d = (if 1 \<le> d \<and> d \<le> 2147483647 then d else 1)"

definition set_timer :: "timer_kind \<Rightarrow> rat \<Rightarrow> service \<Rightarrow> nat \<times> service" where
  "set_timer kind d s = (lc_next s, s\<lparr>lc_next := lc_next s + 1, lc_timers := lc_timers s @ [(lc_next s, kind, timer_delay d)]\<rparr>)"

definition clear_timer :: "nat option \<Rightarrow> service \<Rightarrow> service" where
  "clear_timer t s = (case t of None \<Rightarrow> s | Some i \<Rightarrow> s\<lparr>lc_timers := filter (\<lambda>x. i \<noteq> fst x) (lc_timers s)\<rparr>)"

text \<open>The health manager exists when peers were configured; its timer is overwritten by every start.\<close>

definition health_checked :: "gateway_config \<Rightarrow> bool" where
  "health_checked cfg \<longleftrightarrow> gw_peers cfg \<noteq> [] \<and> hk_enabled (gw_healthCheck cfg)"

definition start_health_checks :: "gateway_config \<Rightarrow> service \<Rightarrow> service" where
  "start_health_checks cfg s =
    (if health_checked cfg then
       (let (t, s1) = set_timer HealthTimer (hk_intervalMs (gw_healthCheck cfg)) s in s1\<lparr>lc_health := Some t\<rparr>)
     else s)"

definition stop_health_checks :: "service \<Rightarrow> service" where
  "stop_health_checks s = (clear_timer (lc_health s) s)\<lparr>lc_health := None\<rparr>"

section \<open>Starting\<close>

definition startHubLifecycle :: "gateway_config \<Rightarrow> string \<Rightarrow> service \<Rightarrow> service" where
  "startHubLifecycle cfg source s =
    (if hc_enabled (gw_hub cfg) \<and> lc_startup s = Unset then s\<lparr>lc_startup := Pending source\<rparr> else s)"

definition stopHubLifecycle :: "gateway_config \<Rightarrow> string \<Rightarrow> service \<Rightarrow> service" where
  "stopHubLifecycle cfg source s =
    (if hc_enabled (gw_hub cfg) \<and> lc_shutdown s = Unset then s\<lparr>lc_shutdown := Pending source\<rparr> else s)"

definition add_run :: "phase \<Rightarrow> service \<Rightarrow> service" where
  "add_run p s = s\<lparr>lc_runs := lc_runs s @ [p]\<rparr>"

definition set_run :: "nat \<Rightarrow> phase \<Rightarrow> service \<Rightarrow> service" where
  "set_run i p s = s\<lparr>lc_runs := (lc_runs s)[i := p]\<rparr>"

text \<open>A call moves from the phase it waits in to the next one; the calls waiting in a phase, in order.\<close>

definition waiting :: "phase \<Rightarrow> service \<Rightarrow> nat list" where
  "waiting p s = filter (\<lambda>i. lc_runs s ! i = p) [0..<length (lc_runs s)]"

definition valid_port :: "rat \<Rightarrow> bool" where
  "valid_port p \<longleftrightarrow> is_integer p \<and> 0 \<le> p \<and> p < 65536"

definition bad_port :: "rat \<Rightarrow> string" where
  "bad_port p = ''options.port should be >= 0 and < 65536. Received type number ('' @ rat_text p @ '').''"

definition open_server :: "gateway_config \<Rightarrow> nat \<Rightarrow> service \<Rightarrow> service" where
  "open_server cfg i s =
    (let s1 = start_health_checks cfg s; h = lc_next s1; port = sv_port (gw_server cfg)
     in if \<not> valid_port port then set_run i (Ended (Some (bad_port port))) s1
        else set_run i (AwaitListen h) (s1\<lparr>lc_next := h + 1, lc_server := Some h, lc_opening := insert h (lc_opening s1)\<rparr>))"

definition start_grpc :: "nat \<Rightarrow> service \<Rightarrow> service" where
  "start_grpc i s = set_run i (AwaitBind (lc_next s))
    (s\<lparr>lc_grpc := Some (lc_next s), lc_binding := insert (lc_next s) (lc_binding s), lc_next := lc_next s + 1\<rparr>)"

definition cleanup_interval :: "gateway_config \<Rightarrow> rat" where
  "cleanup_interval cfg = st_cleanupIntervalMinutes (gw_storage cfg) * 60000"

definition polling_interval :: "gateway_config \<Rightarrow> rat" where
  "polling_interval cfg = max 5000 (hk_intervalMs (gw_healthCheck cfg))"

definition finish_start :: "gateway_config \<Rightarrow> nat \<Rightarrow> service \<Rightarrow> service" where
  "finish_start cfg i s =
    (let (c, s1) = set_timer CleanupTimer (cleanup_interval cfg) s;
         s2 = s1\<lparr>lc_cleanup := Some c\<rparr>;
         s3 = (if hc_enabled (gw_hub cfg) then
                 (let (p, t) = set_timer PollTimer (polling_interval cfg) s2 in t\<lparr>lc_polling := Some p\<rparr>)
               else s2)
     in set_run i (Ended None) s3)"

definition service_start :: "gateway_config \<Rightarrow> service \<Rightarrow> service" where
  "service_start cfg s =
    (if lc_server s \<noteq> None then add_run (Ended None) s
     else add_run AwaitHub (startHubLifecycle cfg ''service'' s))"

section \<open>Stopping\<close>

definition not_running :: string where
  "not_running = ''Server is not running.''"

definition release_timers :: "service \<Rightarrow> service" where
  "release_timers s = (clear_timer (lc_polling s) (clear_timer (lc_cleanup s) s))\<lparr>lc_cleanup := None, lc_polling := None\<rparr>"

definition shutdown_grpc :: "service \<Rightarrow> service" where
  "shutdown_grpc s = (case lc_grpc s of
     None \<Rightarrow> s
   | Some g \<Rightarrow> s\<lparr>lc_grpc := None, lc_bound := lc_bound s - {g}, lc_binding := lc_binding s - {g}\<rparr>)"

definition close_server :: "nat \<Rightarrow> service \<Rightarrow> service" where
  "close_server i s = (case lc_server s of
     None \<Rightarrow> set_run i (Ended None) s
   | Some h \<Rightarrow>
       (let s1 = s\<lparr>lc_server := None\<rparr>
        in if h \<in> lc_listening s
           then set_run i (AwaitClose h) (s1\<lparr>lc_listening := lc_listening s - {h}, lc_closing := insert h (lc_closing s)\<rparr>)
           else set_run i (Ended (Some not_running)) s1))"

definition finish_stop :: "nat \<Rightarrow> service \<Rightarrow> service" where
  "finish_stop i s = close_server i (shutdown_grpc (release_timers s))"

definition service_stop :: "gateway_config \<Rightarrow> service \<Rightarrow> service" where
  "service_stop cfg s = add_run AwaitOffline (stopHubLifecycle cfg ''service'' (stop_health_checks s))"

section \<open>Events\<close>

datatype svc_event =
    HostStart
  | HostStop
  | GatewayStart
  | GatewayStop
  | HubUp hub_outcomes
  | HubDown hub_outcomes
  | HttpUp nat
  | HttpDown nat string
  | GrpcUp nat
  | GrpcDown nat
  | HttpClosed nat

definition hub_settles :: "gateway_config \<Rightarrow> hub_outcomes \<Rightarrow> service \<Rightarrow> service" where
  "hub_settles cfg o' s = (case lc_startup s of
     Pending source \<Rightarrow> s\<lparr>lc_startup := Finished, lc_actions := lc_actions s @ hub_startup cfg source o'\<rparr>
   | _ \<Rightarrow> s)"

definition hub_leaves :: "hub_outcomes \<Rightarrow> service \<Rightarrow> service" where
  "hub_leaves o' s = (case lc_shutdown s of
     Pending source \<Rightarrow> s\<lparr>lc_shutdown := Finished, lc_actions := lc_actions s @ hub_shutdown source o'\<rparr>
   | _ \<Rightarrow> s)"

fun svc_step :: "gateway_config \<Rightarrow> svc_event \<Rightarrow> service \<Rightarrow> service" where
  "svc_step cfg HostStart s = service_start cfg s"
| "svc_step cfg HostStop s = service_stop cfg s"
| "svc_step cfg GatewayStart s = startHubLifecycle cfg ''gateway_start'' s"
| "svc_step cfg GatewayStop s = stopHubLifecycle cfg ''gateway_stop'' s"
| "svc_step cfg (HubUp o') s = (let t = hub_settles cfg o' s in fold (open_server cfg) (waiting AwaitHub t) t)"
| "svc_step cfg (HubDown o') s = (let t = hub_leaves o' s in fold finish_stop (waiting AwaitOffline t) t)"
| "svc_step cfg (HttpUp h) s =
    (if h \<in> lc_opening s then
       (let t = s\<lparr>lc_opening := lc_opening s - {h}, lc_listening := insert h (lc_listening s)\<rparr>
        in fold start_grpc (waiting (AwaitListen h) t) t)
     else s)"
| "svc_step cfg (HttpDown h e) s =
    (if h \<in> lc_opening s then
       (let t = s\<lparr>lc_opening := lc_opening s - {h}\<rparr>
        in fold (\<lambda>i. set_run i (Ended (Some e))) (waiting (AwaitListen h) t) t)
     else s)"
| "svc_step cfg (GrpcUp g) s =
    (if g \<in> lc_binding s then
       (let t = s\<lparr>lc_binding := lc_binding s - {g}, lc_bound := insert g (lc_bound s)\<rparr>
        in fold (finish_start cfg) (waiting (AwaitBind g) t) t)
     else s)"
| "svc_step cfg (GrpcDown g) s =
    (let t = s\<lparr>lc_binding := lc_binding s - {g}, lc_grpc := None\<rparr>
     in if waiting (AwaitBind g) s = [] then s else fold (finish_start cfg) (waiting (AwaitBind g) t) t)"
| "svc_step cfg (HttpClosed h) s =
    (if h \<in> lc_closing s then
       (let t = s\<lparr>lc_closing := lc_closing s - {h}\<rparr>
        in fold (\<lambda>i. set_run i (Ended None)) (waiting (AwaitClose h) t) t)
     else s)"

definition svc_run :: "gateway_config \<Rightarrow> svc_event list \<Rightarrow> service \<Rightarrow> service" where
  "svc_run cfg evs s = fold (svc_step cfg) evs s"

section \<open>One call at a time\<close>

lemma waiting_last: "lc_runs s = rs @ [p] \<Longrightarrow> p \<notin> set rs \<Longrightarrow> waiting p s = [length rs]"
  by (auto simp: waiting_def nth_append in_set_conv_nth intro: filter_False)

lemma set_run_last [simp]: "lc_runs s = rs @ [p] \<Longrightarrow> lc_runs (set_run (length rs) q s) = rs @ [q]"
  by (simp add: set_run_def)

text \<open>Nothing runs: no server, no timer, no call in progress.\<close>

definition quiet :: "service \<Rightarrow> bool" where
  "quiet s \<longleftrightarrow> lc_server s = None \<and> lc_grpc s = None \<and> lc_health s = None \<and> lc_cleanup s = None \<and> lc_polling s = None \<and>
     lc_opening s = {} \<and> lc_listening s = {} \<and> lc_closing s = {} \<and> lc_binding s = {} \<and> lc_bound s = {} \<and> lc_timers s = [] \<and>
     (\<forall>p \<in> set (lc_runs s). \<exists>r. p = Ended r)"

lemma quiet_new: "quiet new_service"
  by (simp add: quiet_def new_service_def)

text \<open>The timers of a running service.\<close>

definition service_timers :: "gateway_config \<Rightarrow> (timer_kind \<times> rat) list" where
  "service_timers cfg = (if health_checked cfg then [(HealthTimer, timer_delay (hk_intervalMs (gw_healthCheck cfg)))] else []) @
     [(CleanupTimer, timer_delay (cleanup_interval cfg))] @
     (if hc_enabled (gw_hub cfg) then [(PollTimer, timer_delay (polling_interval cfg))] else [])"

definition first_server :: "gateway_config \<Rightarrow> service \<Rightarrow> nat" where
  "first_server cfg s = lc_next s + (if health_checked cfg then 1 else 0)"

lemmas service_defs = svc_run_def service_start_def service_stop_def startHubLifecycle_def stopHubLifecycle_def hub_settles_def
  hub_leaves_def add_run_def start_health_checks_def stop_health_checks_def set_timer_def clear_timer_def Let_def

lemma waiting_fields [simp]:
  "waiting p (s\<lparr>lc_startup := a\<rparr>) = waiting p s" "waiting p (s\<lparr>lc_actions := b\<rparr>) = waiting p s"
  "waiting p (s\<lparr>lc_shutdown := a\<rparr>) = waiting p s" "waiting p (s\<lparr>lc_opening := c\<rparr>) = waiting p s"
  "waiting p (s\<lparr>lc_listening := c\<rparr>) = waiting p s" "waiting p (s\<lparr>lc_binding := c\<rparr>) = waiting p s"
  "waiting p (s\<lparr>lc_bound := c\<rparr>) = waiting p s" "waiting p (s\<lparr>lc_grpc := g\<rparr>) = waiting p s"
  "waiting p (s\<lparr>lc_closing := c\<rparr>) = waiting p s"
  by (simp_all add: waiting_def)

lemma start_opens:
  assumes "quiet s" "valid_port (sv_port (gw_server cfg))" "t = svc_run cfg [HostStart, HubUp o'] s"
  shows "lc_server t = Some (first_server cfg s)" "lc_opening t = {first_server cfg s}" "lc_runs t = lc_runs s @ [AwaitListen (first_server cfg s)]"
    "lc_next t = first_server cfg s + 1" "lc_listening t = {}" "lc_closing t = {}" "lc_binding t = {}" "lc_bound t = {}" "lc_grpc t = None"
    "lc_cleanup t = None" "lc_polling t = None"
    "lc_timers t = (if health_checked cfg then [(lc_next s, HealthTimer, timer_delay (hk_intervalMs (gw_healthCheck cfg)))] else [])"
    "lc_health t = (if health_checked cfg then Some (lc_next s) else None)"
proof -
  let ?u = "hub_settles cfg o' (svc_run cfg [HostStart] s)"
  have runs: "lc_runs ?u = lc_runs s @ [AwaitHub]" and old: "AwaitHub \<notin> set (lc_runs s)"
    using assms(1) by (auto simp: quiet_def service_defs split: once.splits)
  then have w: "waiting AwaitHub ?u = [length (lc_runs s)]" by (rule waiting_last)
  have t: "t = open_server cfg (length (lc_runs s)) ?u" unfolding assms(3) using w by (simp add: svc_run_def)
  have u: "lc_next ?u = lc_next s" "lc_listening ?u = {}" "lc_closing ?u = {}" "lc_binding ?u = {}" "lc_bound ?u = {}" "lc_grpc ?u = None"
      "lc_cleanup ?u = None" "lc_polling ?u = None" "lc_timers ?u = []" "lc_health ?u = None" "lc_opening ?u = {}" "lc_server ?u = None"
    using assms(1) by (auto simp: quiet_def service_defs split: once.splits)
  show "lc_server t = Some (first_server cfg s)" "lc_opening t = {first_server cfg s}"
      "lc_runs t = lc_runs s @ [AwaitListen (first_server cfg s)]"
    "lc_next t = first_server cfg s + 1" "lc_listening t = {}" "lc_closing t = {}" "lc_binding t = {}" "lc_bound t = {}" "lc_grpc t = None"
    "lc_cleanup t = None" "lc_polling t = None"
    "lc_timers t = (if health_checked cfg then [(lc_next s, HealthTimer, timer_delay (hk_intervalMs (gw_healthCheck cfg)))] else [])"
    "lc_health t = (if health_checked cfg then Some (lc_next s) else None)"
    unfolding t using u runs assms(2)
    by (simp_all add: open_server_def first_server_def set_run_def start_health_checks_def set_timer_def Let_def)
qed

lemma svc_run_append: "svc_run cfg (xs @ ys) s = svc_run cfg ys (svc_run cfg xs s)"
  by (simp add: svc_run_def)

lemma start_completes:
  assumes "quiet s" "valid_port (sv_port (gw_server cfg))" "h = first_server cfg s" "g \<in> {GrpcUp (h + 1), GrpcDown (h + 1)}"
    and "u = svc_run cfg [HostStart, HubUp o', HttpUp h, g] s"
  shows "lc_server u = Some h" "lc_listening u = {h}" "lc_opening u = {}" "lc_closing u = {}" "lc_binding u = {}"
    "lc_bound u = (if g = GrpcUp (h + 1) then {h + 1} else {})" "lc_grpc u = (if g = GrpcUp (h + 1) then Some (h + 1) else None)"
    "lc_runs u = lc_runs s @ [Ended None]" "map snd (lc_timers u) = service_timers cfg"
    "lc_health u = (if health_checked cfg then Some (lc_next s) else None)" "lc_cleanup u = Some (h + 2)"
    "lc_polling u = (if hc_enabled (gw_hub cfg) then Some (h + 3) else None)"
    "\<And>x. x \<in> set (lc_timers u) \<Longrightarrow> Some (fst x) \<in> {lc_health u, lc_cleanup u, lc_polling u}"
proof -
  let ?t = "svc_run cfg [HostStart, HubUp o'] s"
  note t = start_opens [OF assms(1,2) refl, of o', folded assms(3)]
  have old: "\<And>p. p \<in> set (lc_runs s) \<Longrightarrow> \<exists>r. p = Ended r" using assms(1) by (simp add: quiet_def)
  have w0: "waiting (AwaitListen h) ?t = [length (lc_runs s)]" using t(3) old by (intro waiting_last) auto
  define v where "v = svc_step cfg (HttpUp h) ?t"
  then have v: "v = start_grpc (length (lc_runs s)) (?t\<lparr>lc_opening := {}, lc_listening := {h}\<rparr>)"
    using t(2,5) w0 by simp
  have vr: "lc_runs v = lc_runs s @ [AwaitBind (h + 1)]"
    unfolding v using t(3,4) by (simp add: start_grpc_def set_run_def)
  then have w: "waiting (AwaitBind (h + 1)) v = [length (lc_runs s)]" using old by (intro waiting_last) auto
  have vf: "lc_binding v = {h + 1}" "lc_bound v = {}" "lc_grpc v = Some (h + 1)" "lc_next v = h + 2" "lc_server v = Some h"
      "lc_listening v = {h}" "lc_opening v = {}" "lc_closing v = {}" "lc_timers v = lc_timers ?t" "lc_health v = lc_health ?t" "lc_polling v = None"
    unfolding v using t by (simp_all add: start_grpc_def set_run_def)
  define x where "x = v\<lparr>lc_binding := {}, lc_bound := (if g = GrpcUp (h + 1) then {h + 1} else {}),
      lc_grpc := (if g = GrpcUp (h + 1) then Some (h + 1) else None)\<rparr>"
  have "x = v\<lparr>lc_binding := {}, lc_bound := {h + 1}\<rparr>" if "g = GrpcUp (h + 1)"
    using that vf by (intro service.equality) (simp_all add: x_def)
  moreover have "x = v\<lparr>lc_binding := {}, lc_grpc := None\<rparr>" if "g = GrpcDown (h + 1)"
    using that vf by (intro service.equality) (simp_all add: x_def)
  ultimately have "svc_step cfg g v = finish_start cfg (length (lc_runs s)) x"
    using assms(4) w vf by auto
  then have u: "u = finish_start cfg (length (lc_runs s)) x"
    unfolding assms(5) v_def by (simp add: svc_run_def)
  show "lc_server u = Some h" "lc_listening u = {h}" "lc_opening u = {}" "lc_closing u = {}" "lc_binding u = {}"
    "lc_bound u = (if g = GrpcUp (h + 1) then {h + 1} else {})" "lc_grpc u = (if g = GrpcUp (h + 1) then Some (h + 1) else None)"
    "lc_runs u = lc_runs s @ [Ended None]" "map snd (lc_timers u) = service_timers cfg"
    "lc_health u = (if health_checked cfg then Some (lc_next s) else None)" "lc_cleanup u = Some (h + 2)"
    "lc_polling u = (if hc_enabled (gw_hub cfg) then Some (h + 3) else None)"
    "\<And>x. x \<in> set (lc_timers u) \<Longrightarrow> Some (fst x) \<in> {lc_health u, lc_cleanup u, lc_polling u}"
    unfolding u using vf vr t(12,13)
    by (auto simp: finish_start_def set_timer_def set_run_def x_def service_timers_def Let_def split: if_splits)
qed

lemma clear_timer_timers: "lc_timers (clear_timer t s) = filter (\<lambda>x. t \<noteq> Some (fst x)) (lc_timers s)"
  by (cases t) (simp_all add: clear_timer_def)

lemma clear_timer_fields [simp]:
  "lc_runs (clear_timer t s) = lc_runs s" "lc_server (clear_timer t s) = lc_server s" "lc_grpc (clear_timer t s) = lc_grpc s"
  "lc_listening (clear_timer t s) = lc_listening s" "lc_opening (clear_timer t s) = lc_opening s" "lc_closing (clear_timer t s) = lc_closing s"
  "lc_bound (clear_timer t s) = lc_bound s" "lc_binding (clear_timer t s) = lc_binding s" "lc_health (clear_timer t s) = lc_health s"
  "lc_cleanup (clear_timer t s) = lc_cleanup s" "lc_polling (clear_timer t s) = lc_polling s" "lc_startup (clear_timer t s) = lc_startup s"
  "lc_shutdown (clear_timer t s) = lc_shutdown s" "lc_actions (clear_timer t s) = lc_actions s" "lc_next (clear_timer t s) = lc_next s"
  by (simp_all add: clear_timer_def split: option.split)

lemma stop_completes:
  assumes "lc_server u = Some h" "h \<in> lc_listening u" "\<And>p. p \<in> set (lc_runs u) \<Longrightarrow> \<exists>r. p = Ended r"
    and "v = svc_run cfg [HostStop, HubDown o', HttpClosed h] u" "lc_closing u = {}"
  shows "lc_server v = None" "lc_grpc v = None" "lc_health v = None" "lc_cleanup v = None" "lc_polling v = None"
    "lc_opening v = lc_opening u" "lc_listening v = lc_listening u - {h}" "lc_closing v = {}"
    "lc_binding v = lc_binding u - set_option (lc_grpc u)" "lc_bound v = lc_bound u - set_option (lc_grpc u)"
    "lc_timers v = filter (\<lambda>x. lc_health u \<noteq> Some (fst x) \<and> lc_cleanup u \<noteq> Some (fst x) \<and> lc_polling u \<noteq> Some (fst x)) (lc_timers u)"
    "lc_runs v = lc_runs u @ [Ended None]"
proof -
  let ?a = "hub_leaves o' (svc_run cfg [HostStop] u)"
  have ra: "lc_runs ?a = lc_runs u @ [AwaitOffline]"
    by (simp add: service_defs split: once.split option.split)
  then have wa: "waiting AwaitOffline ?a = [length (lc_runs u)]" using assms(3) by (intro waiting_last) auto
  have fa: "lc_server ?a = Some h" "lc_health ?a = None" "lc_grpc ?a = lc_grpc u" "lc_listening ?a = lc_listening u" "lc_opening ?a = lc_opening u"
      "lc_closing ?a = {}" "lc_binding ?a = lc_binding u" "lc_bound ?a = lc_bound u" "lc_cleanup ?a = lc_cleanup u" "lc_polling ?a = lc_polling u"
      "lc_timers ?a = filter (\<lambda>x. lc_health u \<noteq> Some (fst x)) (lc_timers u)"
    using assms(1,5) by (auto simp: service_defs split: once.split option.split)
  define b where "b = finish_stop (length (lc_runs u)) ?a"
  have rb: "lc_runs b = lc_runs u @ [AwaitClose h]"
    unfolding b_def using ra fa assms(2)
    by (auto simp: finish_stop_def close_server_def shutdown_grpc_def release_timers_def set_run_def Let_def split: option.split)
  then have wb: "waiting (AwaitClose h) b = [length (lc_runs u)]" using assms(3) by (intro waiting_last) auto
  have fb: "lc_server b = None" "lc_health b = None" "lc_grpc b = None" "lc_cleanup b = None" "lc_polling b = None"
      "lc_listening b = lc_listening u - {h}" "lc_opening b = lc_opening u" "lc_closing b = {h}"
      "lc_binding b = lc_binding u - set_option (lc_grpc u)" "lc_bound b = lc_bound u - set_option (lc_grpc u)"
      "lc_timers b = filter (\<lambda>x. lc_health u \<noteq> Some (fst x) \<and> lc_cleanup u \<noteq> Some (fst x) \<and> lc_polling u \<noteq> Some (fst x)) (lc_timers u)"
    unfolding b_def using fa assms(2)
    by (auto simp: finish_stop_def close_server_def shutdown_grpc_def release_timers_def set_run_def clear_timer_timers Let_def
        intro: filter_cong split: option.splits)
  have v: "v = set_run (length (lc_runs u)) (Ended None) (b\<lparr>lc_closing := {}\<rparr>)"
    unfolding assms(4) using wa wb fb(8) by (simp add: svc_run_def b_def [unfolded svc_run_def])
  show "lc_server v = None" "lc_grpc v = None" "lc_health v = None" "lc_cleanup v = None" "lc_polling v = None"
    "lc_opening v = lc_opening u" "lc_listening v = lc_listening u - {h}" "lc_closing v = {}"
    "lc_binding v = lc_binding u - set_option (lc_grpc u)" "lc_bound v = lc_bound u - set_option (lc_grpc u)"
    "lc_timers v = filter (\<lambda>x. lc_health u \<noteq> Some (fst x) \<and> lc_cleanup u \<noteq> Some (fst x) \<and> lc_polling u \<noteq> Some (fst x)) (lc_timers u)"
    "lc_runs v = lc_runs u @ [Ended None]"
    unfolding v using fb rb by (simp_all add: set_run_def)
qed

text \<open>C9. A start that runs alone from a quiet state on a valid port ends with exactly one listening server, with the gRPC
  server if it could be bound, and with exactly the timers of the configuration; a stop that runs alone after it leaves
  nothing behind: no server, no timer, no call in progress, so start and stop can be repeated.\<close>

theorem service_cycle_clean:
  assumes "quiet s" "valid_port (sv_port (gw_server cfg))" "h = first_server cfg s" "g \<in> {GrpcUp (h + 1), GrpcDown (h + 1)}"
    and "u = svc_run cfg [HostStart, HubUp o', HttpUp h, g] s" "v = svc_run cfg [HostStop, HubDown p, HttpClosed h] u"
  shows "lc_server u = Some h \<and> lc_listening u = {h} \<and> lc_bound u = (if g = GrpcUp (h + 1) then {h + 1} else {}) \<and>
    map snd (lc_timers u) = service_timers cfg \<and> lc_runs u = lc_runs s @ [Ended None] \<and>
    quiet v \<and> lc_runs v = lc_runs s @ [Ended None, Ended None]"
proof -
  note u = start_completes [OF assms(1-5)]
  have open_h: "h \<in> lc_listening u" using u(2) by simp
  have runs: "\<And>p. p \<in> set (lc_runs u) \<Longrightarrow> \<exists>r. p = Ended r"
    using u(8) assms(1) by (auto simp: quiet_def)
  note v = stop_completes [OF u(1) open_h runs assms(6) u(4)]
  have "filter (\<lambda>x. lc_health u \<noteq> Some (fst x) \<and> lc_cleanup u \<noteq> Some (fst x) \<and> lc_polling u \<noteq> Some (fst x)) (lc_timers u) = []"
    by (auto simp: filter_empty_conv dest!: u(13))
  then have "lc_timers v = []" by (simp only: v(11))
  moreover have "\<forall>p \<in> set (lc_runs v). \<exists>r. p = Ended r" using v(12) runs by auto
  ultimately have "quiet v" using u v by (auto simp: quiet_def)
  then show ?thesis using u v(12) by simp
qed

section \<open>Calls that overlap\<close>

text \<open>A server nobody refers to: it listens, but it is not the service's server any more.\<close>

definition leaked :: "nat \<Rightarrow> service \<Rightarrow> bool" where
  "leaked h s \<longleftrightarrow> h \<in> lc_listening s \<and> lc_server s \<noteq> Some h \<and> h < lc_next s"

lemma leaked_set_run [simp]: "leaked h (set_run i p s) = leaked h s"
  by (simp add: leaked_def set_run_def)

lemma leaked_fold: "(\<And>i s. leaked h s \<Longrightarrow> leaked h (f i s)) \<Longrightarrow> leaked h s \<Longrightarrow> leaked h (fold f is s)"
  by (induction "is" arbitrary: s) simp_all

lemma leaked_open_server: "leaked h s \<Longrightarrow> leaked h (open_server cfg i s)"
  by (auto simp: open_server_def leaked_def start_health_checks_def set_timer_def set_run_def Let_def)

lemma leaked_start_grpc: "leaked h s \<Longrightarrow> leaked h (start_grpc i s)"
  by (auto simp: start_grpc_def leaked_def set_run_def)

lemma leaked_finish_start: "leaked h s \<Longrightarrow> leaked h (finish_start cfg i s)"
  by (auto simp: finish_start_def leaked_def set_timer_def set_run_def Let_def)

lemma leaked_finish_stop: "leaked h s \<Longrightarrow> leaked h (finish_stop i s)"
  by (auto simp: finish_stop_def leaked_def close_server_def shutdown_grpc_def release_timers_def set_run_def Let_def split: option.split)

lemma leaked_step: "leaked h s \<Longrightarrow> leaked h (svc_step cfg ev s)"
proof (cases ev)
  case (HubUp o')
  assume "leaked h s"
  then have "leaked h (hub_settles cfg o' s)" by (simp add: leaked_def hub_settles_def split: once.split)
  then show ?thesis using HubUp by (auto simp: Let_def intro!: leaked_fold leaked_open_server)
next
  case (HubDown o')
  assume "leaked h s"
  then have "leaked h (hub_leaves o' s)" by (simp add: leaked_def hub_leaves_def split: once.split)
  then show ?thesis using HubDown by (auto simp: Let_def intro!: leaked_fold leaked_finish_stop)
next
  case (HttpUp g)
  assume l: "leaked h s"
  then show ?thesis using HttpUp by (auto simp: Let_def leaked_def intro!: leaked_fold [OF leaked_start_grpc, unfolded leaked_def])
next
  case (GrpcUp g)
  assume "leaked h s"
  then have "leaked h (s\<lparr>lc_binding := lc_binding s - {g}, lc_bound := insert g (lc_bound s)\<rparr>)" by (simp add: leaked_def)
  with \<open>leaked h s\<close> show ?thesis using GrpcUp by (auto simp: Let_def intro!: leaked_fold leaked_finish_start)
next
  case (GrpcDown g)
  assume "leaked h s"
  then have "leaked h (s\<lparr>lc_binding := lc_binding s - {g}, lc_grpc := None\<rparr>)" by (simp add: leaked_def)
  with \<open>leaked h s\<close> show ?thesis using GrpcDown by (auto simp: Let_def intro!: leaked_fold leaked_finish_start)
qed (auto simp: Let_def leaked_def service_defs set_run_def split: option.split intro!: leaked_fold [unfolded leaked_def])

lemma leaked_forever: "leaked h s \<Longrightarrow> leaked h (svc_run cfg evs s)"
  unfolding svc_run_def by (induction evs arbitrary: s) (simp_all add: leaked_step)

lemma waiting_two: "lc_runs s = rs @ [p, p] \<Longrightarrow> p \<notin> set rs \<Longrightarrow> waiting p s = [length rs, Suc (length rs)]"
  by (auto simp: waiting_def nth_append in_set_conv_nth intro: filter_False)

lemma two_starts_open:
  assumes "quiet s" "valid_port (sv_port (gw_server cfg))" "h = first_server cfg s"
    and "t = svc_run cfg [HostStart, HostStart, HubUp o'] s"
  shows "h \<in> lc_opening t" "lc_server t \<noteq> Some h" "h < lc_next t"
proof -
  let ?u = "hub_settles cfg o' (svc_run cfg [HostStart, HostStart] s)"
  have runs: "lc_runs ?u = lc_runs s @ [AwaitHub, AwaitHub]" and old: "AwaitHub \<notin> set (lc_runs s)"
    using assms(1) by (auto simp: quiet_def service_defs split: once.splits)
  have t: "t = open_server cfg (Suc (length (lc_runs s))) (open_server cfg (length (lc_runs s)) ?u)"
    unfolding assms(4) using waiting_two [OF runs old] by (simp add: svc_run_def)
  have "lc_next ?u = lc_next s" using assms(1) by (auto simp: quiet_def service_defs split: once.splits)
  then show "h \<in> lc_opening t" "lc_server t \<noteq> Some h" "h < lc_next t"
    unfolding t using assms(2,3)
    by (auto simp: open_server_def start_health_checks_def set_timer_def set_run_def first_server_def Let_def)
qed

text \<open>Two starts that overlap each open a server, because the handle is only checked before the hub is asked: once
  the first server listens, no later event closes it, no matter how often the service is stopped.\<close>

theorem overlapping_starts_leak_server:
  assumes "quiet s" "valid_port (sv_port (gw_server cfg))" "h = first_server cfg s"
  shows "h \<in> lc_listening (svc_run cfg ([HostStart, HostStart, HubUp o', HttpUp h] @ evs) s)"
proof -
  let ?t = "svc_run cfg [HostStart, HostStart, HubUp o'] s"
  note t = two_starts_open [OF assms refl, of o']
  have "leaked h (?t\<lparr>lc_opening := lc_opening ?t - {h}, lc_listening := insert h (lc_listening ?t)\<rparr>)"
    using t by (simp add: leaked_def)
  then have "leaked h (svc_step cfg (HttpUp h) ?t)"
    using t(1) by (auto simp: Let_def intro!: leaked_fold leaked_start_grpc)
  from leaked_forever [OF this, of cfg evs] have "leaked h (svc_run cfg ([HostStart, HostStart, HubUp o', HttpUp h] @ evs) s)"
    by (simp add: svc_run_def)
  then show ?thesis by (simp add: leaked_def)
qed

section \<open>Failures\<close>

text \<open>A start whose server fails to listen is rejected, but keeps the dead server as the service's server and the
  health checks running: every later start resolves at once although nothing listens, and a stop is rejected because
  the server does not run.\<close>

theorem failed_start_blocks_restart:
  assumes "quiet s" "valid_port (sv_port (gw_server cfg))" "h = first_server cfg s"
    and "u = svc_run cfg [HostStart, HubUp o', HttpDown h e] s"
  shows "lc_runs u = lc_runs s @ [Ended (Some e)] \<and> lc_listening u = {} \<and> (lc_timers u \<noteq> [] \<longleftrightarrow> health_checked cfg) \<and>
    svc_step cfg HostStart u = add_run (Ended None) u \<and>
    lc_runs (svc_run cfg [HostStop, HubDown p] u) = lc_runs u @ [Ended (Some not_running)]"
proof -
  let ?t = "svc_run cfg [HostStart, HubUp o'] s"
  note t = start_opens [OF assms(1,2) refl, of o', folded assms(3)]
  have old: "\<And>p. p \<in> set (lc_runs s) \<Longrightarrow> \<exists>r. p = Ended r" using assms(1) by (simp add: quiet_def)
  have "waiting (AwaitListen h) ?t = [length (lc_runs s)]" using t(3) old by (intro waiting_last) auto
  then have "u = set_run (length (lc_runs s)) (Ended (Some e)) (?t\<lparr>lc_opening := {}\<rparr>)"
    unfolding assms(4) using t(2) by (simp add: svc_run_def)
  then have u: "lc_runs u = lc_runs s @ [Ended (Some e)]" "lc_listening u = {}" "lc_server u = Some h"
      "lc_timers u \<noteq> [] \<longleftrightarrow> health_checked cfg"
    using t by (simp_all add: set_run_def)
  let ?a = "hub_leaves p (svc_run cfg [HostStop] u)"
  have ra: "lc_runs ?a = lc_runs u @ [AwaitOffline]" and fa: "lc_server ?a = Some h" "lc_listening ?a = {}"
    using u by (simp_all add: service_defs split: once.split option.split)
  have "waiting AwaitOffline ?a = [length (lc_runs u)]" using ra u(1) old by (intro waiting_last) auto
  then have "svc_run cfg [HostStop, HubDown p] u = finish_stop (length (lc_runs u)) ?a" by (simp add: svc_run_def)
  then have "lc_runs (svc_run cfg [HostStop, HubDown p] u) = lc_runs u @ [Ended (Some not_running)]"
    using ra fa by (auto simp: finish_stop_def close_server_def shutdown_grpc_def release_timers_def set_run_def Let_def split: option.split)
  then show ?thesis using u by (simp add: service_start_def)
qed

text \<open>The presence updates that say the gateway is online.\<close>

definition online_updates :: "service \<Rightarrow> hub_action list" where
  "online_updates s = filter (\<lambda>a. a = HubPresence ''online'') (lc_actions s)"

definition announced :: "hub_action list \<Rightarrow> service \<Rightarrow> bool" where
  "announced as s \<longleftrightarrow> lc_startup s = Finished \<and> online_updates s = as"

lemma announced_upd [simp]:
  "announced as (set_run i p s) = announced as s" "announced as (clear_timer x s) = announced as s"
  by (simp_all add: announced_def online_updates_def set_run_def)

lemma announced_fold: "(\<And>i s. announced as s \<Longrightarrow> announced as (f i s)) \<Longrightarrow> announced as s \<Longrightarrow> announced as (fold f is s)"
  by (induction "is" arbitrary: s) simp_all

lemma announced_parts:
  assumes "announced as s"
  shows "announced as (open_server cfg i s)" "announced as (start_grpc i s)" "announced as (finish_start cfg i s)" "announced as (finish_stop i s)"
    "announced as (hub_settles cfg o' s)" "announced as (hub_leaves o' s)"
  using assms
  by (auto simp: announced_def online_updates_def open_server_def start_health_checks_def start_grpc_def finish_start_def finish_stop_def
      close_server_def shutdown_grpc_def release_timers_def set_timer_def set_run_def hub_settles_def hub_leaves_def hub_shutdown_def Let_def
      split: option.split once.split)

lemma announced_step: "announced as s \<Longrightarrow> announced as (svc_step cfg ev s)"
proof (cases ev)
  case (HttpUp h)
  assume "announced as s"
  then have "announced as (s\<lparr>lc_opening := lc_opening s - {h}, lc_listening := insert h (lc_listening s)\<rparr>)"
    by (simp add: announced_def online_updates_def)
  with \<open>announced as s\<close> show ?thesis using HttpUp by (auto simp: Let_def intro!: announced_fold announced_parts)
next
  case (HttpDown h e)
  assume "announced as s"
  then have "announced as (s\<lparr>lc_opening := lc_opening s - {h}\<rparr>)" by (simp add: announced_def online_updates_def)
  with \<open>announced as s\<close> show ?thesis using HttpDown by (auto simp: Let_def intro!: announced_fold)
next
  case (GrpcUp g)
  assume "announced as s"
  then have "announced as (s\<lparr>lc_binding := lc_binding s - {g}, lc_bound := insert g (lc_bound s)\<rparr>)"
    by (simp add: announced_def online_updates_def)
  with \<open>announced as s\<close> show ?thesis using GrpcUp by (auto simp: Let_def intro!: announced_fold announced_parts)
next
  case (GrpcDown g)
  assume "announced as s"
  then have "announced as (s\<lparr>lc_binding := lc_binding s - {g}, lc_grpc := None\<rparr>)" by (simp add: announced_def online_updates_def)
  with \<open>announced as s\<close> show ?thesis using GrpcDown by (auto simp: Let_def intro!: announced_fold announced_parts)
next
  case (HttpClosed h)
  assume "announced as s"
  then have "announced as (s\<lparr>lc_closing := lc_closing s - {h}\<rparr>)" by (simp add: announced_def online_updates_def)
  with \<open>announced as s\<close> show ?thesis using HttpClosed by (auto simp: Let_def intro!: announced_fold)
next
  case (HubUp o')
  assume "announced as s"
  then show ?thesis using HubUp by (auto simp: Let_def intro!: announced_fold announced_parts)
next
  case (HubDown o')
  assume "announced as s"
  then show ?thesis using HubDown by (auto simp: Let_def intro!: announced_fold announced_parts)
qed (auto simp: announced_def online_updates_def service_start_def service_stop_def startHubLifecycle_def stopHubLifecycle_def
    add_run_def stop_health_checks_def)

text \<open>The hub is told only once that the gateway is online: after the first startup has settled, no sequence of
  starts and stops sends another online update, so a service that is stopped and started again polls the hub for matches
  while the hub lists it as offline.\<close>

theorem restart_stays_offline:
  assumes "lc_startup s = Finished"
  shows "online_updates (svc_run cfg evs s) = online_updates s"
proof -
  have "announced (online_updates s) (svc_run cfg evs s)"
    unfolding svc_run_def by (rule fold_invariant [where Q = "\<lambda>_. True"])
      (simp_all add: announced_step, simp add: announced_def assms)
  then show ?thesis by (simp add: announced_def)
qed

section \<open>An example\<close>

definition demo_gateway :: gateway_config where
  "demo_gateway = the (parseConfig demo_env JUndef)"

definition demo_outcomes :: hub_outcomes where
  "demo_outcomes = \<lparr>ho_registration = Inr (Some (num 7)), ho_client = None, ho_presence = None, ho_sync = Inl ''offline''\<rparr>"

lemma demo_gateway_fields: "sv_port (gw_server demo_gateway) = 18800" "gw_peers demo_gateway = []" "hc_enabled (gw_hub demo_gateway)"
proof -
  have "parse_skills JUndef = Some [chat_skill]" by (simp add: parse_skills_def)
  then show "sv_port (gw_server demo_gateway) = 18800" "gw_peers demo_gateway = []" "hc_enabled (gw_hub demo_gateway)"
    by (simp_all add: demo_gateway_def parseConfig_def parseAgentCard_def asObject_or_empty_def parsePeers_def array_or_empty_def
        asNumber_or_def parse_hub_def asBoolean_or_def Let_def)
qed

lemma demo_gateway_port: "valid_port (sv_port (gw_server demo_gateway))"
  by (simp add: demo_gateway_fields valid_port_def is_integer_def)

lemma demo_first_server: "first_server demo_gateway new_service = 0"
  by (simp add: first_server_def health_checked_def demo_gateway_fields new_service_def)

theorem service_cycle_clean_witness:
  "quiet (svc_run demo_gateway [HostStop, HubDown demo_outcomes, HttpClosed 0]
     (svc_run demo_gateway [HostStart, HubUp demo_outcomes, HttpUp 0, GrpcUp 1] new_service))"
  using service_cycle_clean [OF quiet_new demo_gateway_port refl _ refl refl, of "GrpcUp 1" demo_outcomes demo_outcomes]
  by (simp add: demo_first_server)

theorem overlapping_starts_leak_server_witness:
  "0 \<in> lc_listening (svc_run demo_gateway ([HostStart, HostStart, HubUp demo_outcomes, HttpUp 0] @
     [HttpDown 1 ''EADDRINUSE'', GrpcUp 2, HostStop, HubDown demo_outcomes]) new_service)"
  using overlapping_starts_leak_server [OF quiet_new demo_gateway_port refl, of demo_outcomes]
  by (simp only: demo_first_server)

theorem failed_start_blocks_restart_witness:
  "svc_step demo_gateway HostStart (svc_run demo_gateway [HostStart, HubUp demo_outcomes, HttpDown 0 ''EADDRINUSE''] new_service) =
     add_run (Ended None) (svc_run demo_gateway [HostStart, HubUp demo_outcomes, HttpDown 0 ''EADDRINUSE''] new_service)"
  using failed_start_blocks_restart [OF quiet_new demo_gateway_port refl refl, of demo_outcomes "''EADDRINUSE''"]
  by (simp add: demo_first_server)

lemma demo_started:
  "lc_startup (svc_run demo_gateway [HostStart, HubUp demo_outcomes] new_service) = Finished"
  "online_updates (svc_run demo_gateway [HostStart, HubUp demo_outcomes] new_service) = [HubPresence ''online'']"
  by (auto simp: new_service_def service_defs open_server_def waiting_def demo_gateway_fields set_run_def health_checked_def online_updates_def
      hub_startup_def registration_actions_def presence_actions_def sync_actions_def demo_outcomes_def)

theorem restart_stays_offline_witness:
  "online_updates (svc_run demo_gateway [HttpUp 0, GrpcUp 1, HostStop, HubDown demo_outcomes, HttpClosed 0, HostStart, HubUp demo_outcomes]
     (svc_run demo_gateway [HostStart, HubUp demo_outcomes] new_service)) = [HubPresence ''online'']"
  using restart_stays_offline [OF demo_started(1)] demo_started(2) by simp

end
