(* ===== verification/AgentTools.thy ===== *)
theory AgentTools
  imports Lifecycle
begin

text \<open>
  The tools \<open>index.ts\<close> offers to the agent: shared rooms, matching and resolving, the plaza search, the
  connection requests, offers and sessions, and the profile. A tool returns a text and details; what the
  hub answers is a parameter, and where the hub's declared types promise an array or a field, other values
  are treated as absent.
\<close>

definition tool_answer :: "string \<Rightarrow> (string \<times> js) list \<Rightarrow> tool_result" where
  "tool_answer t fs = \<lparr>tr_text = t, tr_details = JObj ((''ok'', JBool True) # fs)\<rparr>"

definition tool_failure :: "string \<Rightarrow> string \<Rightarrow> tool_result" where
  "tool_failure label e = \<lparr>tr_text = label @ '': '' @ e, tr_details = JObj [(''ok'', JBool False), (''error'', JStr e)]\<rparr>"

definition tool_refusal :: "string \<Rightarrow> string \<Rightarrow> tool_result" where
  "tool_refusal t e = \<lparr>tr_text = t, tr_details = JObj [(''ok'', JBool False), (''error'', JStr e)]\<rparr>"

definition text_or :: "string \<Rightarrow> string \<Rightarrow> string" where
  "text_or t d = (if t = [] then d else t)"

section \<open>Shared rooms\<close>

text \<open>What one room tool decides: its answer, the events it appends and the history entry it records.\<close>

record room_step =
  rt_result :: tool_result
  rt_events :: "shared_event list"
  rt_entry :: "(string \<times> js) list option"

definition room_failed :: "string \<Rightarrow> string \<Rightarrow> room_step" where
  "room_failed label e = \<lparr>rt_result = tool_failure label e, rt_events = [], rt_entry = None\<rparr>"

definition room_done :: "shared_event list \<Rightarrow> (string \<times> js) list option \<Rightarrow> string \<Rightarrow> (string \<times> js) list \<Rightarrow> room_step" where
  "room_done evs entry t fs = \<lparr>rt_result = tool_answer t fs, rt_events = evs, rt_entry = entry\<rparr>"

definition status_name :: "room_status \<Rightarrow> string" where
  "status_name s = (case s of RoomOpen \<Rightarrow> ''open'' | RoomArchived \<Rightarrow> ''archived'')"

definition room_create_tool :: "shared_options \<Rightarrow> string \<Rightarrow> (nat \<Rightarrow> string) \<Rightarrow> js \<Rightarrow> room_step" where
  "room_create_tool opts now uuids p =
    (case createRoom opts now (uuids 0) (create_input p) of
       Inl e \<Rightarrow> room_failed ''Failed to create shared room'' e
     | Inr (evs, room) \<Rightarrow> room_done evs
         (Some (shared_entry ''shared.room_created'' [] [(''roomId'', JStr (sr_id room)), (''title'', JStr (sr_title room))]))
         (''Shared room created: '' @ sr_id room @ newline @ ''Title: '' @ sr_title room) [(''room'', room_js room)])"

definition room_line :: "shared_room \<Rightarrow> string" where
  "room_line r = sr_id r @ '' ['' @ status_name (sr_status r) @ ''] '' @ sr_title r @
     (if sr_topic r = [] then [] else '' - '' @ sr_topic r)"

definition room_list_tool :: "shared_options \<Rightarrow> shared_state \<Rightarrow> js \<Rightarrow> room_step" where
  "room_list_tool opts st p =
    (case listRooms opts st (count_param p 50) (status_param p) (asString_or (get_prop p ''participant'') [])
            (asString_or (get_prop p ''tag'') []) of
       Inl e \<Rightarrow> room_failed ''Failed to list shared rooms'' e
     | Inr rooms \<Rightarrow> room_done [] None (text_or (join newline (map room_line rooms)) ''No shared rooms found.'')
         [(''rooms'', JArr (map room_js rooms)), (''count'', num (int (length rooms)))])"

definition room_post_input :: "js \<Rightarrow> js" where
  "room_post_input p = JObj [(''roomId'', text_param ''roomId'' p), (''author'', text_param ''author'' p),
     (''content'', content_param p), (''kind'', opt_str (asSharedMessageKind (get_prop p ''kind''))),
     (''metadata'', meta_js (asMetadata (get_prop p ''metadata'')))]"

definition room_post_tool :: "shared_options \<Rightarrow> string \<Rightarrow> (nat \<Rightarrow> string) \<Rightarrow> shared_state \<Rightarrow> js \<Rightarrow> room_step" where
  "room_post_tool opts now uuids st p =
    (case postMessage opts now uuids st (room_post_input p) of
       Inl e \<Rightarrow> room_failed ''Failed to post shared room message'' e
     | Inr (evs, m) \<Rightarrow> room_done evs
         (Some (shared_entry ''shared.message_posted'' [(''peer'', JStr (sm_author m))]
            [(''roomId'', JStr (sm_roomId m)), (''messageId'', JStr (sm_id m)), (''kind'', JStr (sm_kind m))]))
         (''Message posted to '' @ sm_roomId m @ '': '' @ sm_id m) [(''message'', message_js m)])"

definition message_line :: "shared_message \<Rightarrow> string" where
  "message_line m = ''['' @ sm_ts m @ ''] '' @ sm_author m @ '' '' @ sm_kind m @ '': '' @ sm_content m"

definition room_read_tool :: "shared_options \<Rightarrow> shared_state \<Rightarrow> js \<Rightarrow> room_step" where
  "room_read_tool opts st p =
    (case readMessages opts st (asString_or (get_prop p ''roomId'') []) (count_param p 50) (asString_or (get_prop p ''after'') []) of
       Inl e \<Rightarrow> room_failed ''Failed to read shared room'' e
     | Inr ms \<Rightarrow> room_done [] None (text_or (join (newline @ newline) (map message_line ms)) ''No messages found.'')
         [(''messages'', JArr (map message_js ms)), (''count'', num (int (length ms)))])"

definition contents_text :: "shared_message list \<Rightarrow> string" where
  "contents_text ms = text_or (join '' | '' (map sm_content ms)) ''(none)''"

definition room_summary_tool :: "shared_options \<Rightarrow> shared_state \<Rightarrow> js \<Rightarrow> room_step" where
  "room_summary_tool opts st p =
    (case summarizeRoom opts st (asString_or (get_prop p ''roomId'') []) (count_param p 20) of
       Inl e \<Rightarrow> room_failed ''Failed to summarize shared room'' e
     | Inr s \<Rightarrow> room_done [] None
         (join newline [''Room: '' @ sr_title (rs_room s) @ '' ('' @ sr_id (rs_room s) @ '')'',
            ''Participants: '' @ text_or (join '', '' (rs_participants s)) ''(none)'',
            ''Messages: '' @ show_nat (rs_messageCount s) @ ''; Artifacts: '' @ show_nat (rs_artifactCount s),
            ''Recent: '' @ show_nat (length (rs_recent s)),
            ''Blockers: '' @ contents_text (rs_blockers s),
            ''Decisions: '' @ contents_text (rs_decisions s)])
         [(''summary'', summary_js s)])"

definition room_tool :: "shared_options \<Rightarrow> string \<Rightarrow> (nat \<Rightarrow> string) \<Rightarrow> shared_state \<Rightarrow> string \<Rightarrow> js \<Rightarrow> room_step option" where
  "room_tool opts now uuids st tool p =
    (if tool = ''openclaw_room_create'' then Some (room_create_tool opts now uuids p)
     else if tool = ''openclaw_room_list'' then Some (room_list_tool opts st p)
     else if tool = ''openclaw_room_post'' then Some (room_post_tool opts now uuids st p)
     else if tool = ''openclaw_room_read'' then Some (room_read_tool opts st p)
     else if tool = ''openclaw_room_summary'' then Some (room_summary_tool opts st p)
     else None)"

text \<open>Running a room tool: the state is loaded, the events are appended, the entry is recorded.\<close>

definition run_room_tool :: "shared_options \<Rightarrow> string \<Rightarrow> (nat \<Rightarrow> string) \<Rightarrow> string \<Rightarrow> js \<Rightarrow> api_state \<Rightarrow>
    tool_result option \<times> api_state" where
  "run_room_tool opts now uuids tool params s =
    (case room_tool opts now uuids (loadState (as_shared s)) tool (asObject_or_empty params) of
       None \<Rightarrow> (None, s)
     | Some r \<Rightarrow>
        let s1 = (if rt_events r = [] then s else s\<lparr>as_shared := appendMany (rt_events r) (as_shared s)\<rparr>)
        in (Some (rt_result r), (case rt_entry r of None \<Rightarrow> s1 | Some e \<Rightarrow> note_entry e s1)))"

section \<open>Matching and the plaza\<close>

definition match_request_tool :: "hs_env \<Rightarrow> string list \<Rightarrow> string option \<Rightarrow> hs_state \<Rightarrow> tool_result \<times> hs_state" where
  "match_request_tool env skills description s =
    (let (t, r) = performMatchRequest env skills description s in (\<lparr>tr_text = mo_text r, tr_details = mo_details r\<rparr>, t))"

definition match_agent_tool :: "(hub_request \<Rightarrow> fetch_reply) \<Rightarrow> rat \<Rightarrow> int option \<Rightarrow> js \<Rightarrow> tool_result + discovery_result" where
  "match_agent_tool hub duration self params =
    (let input = asObject_or_empty params; skills = opt_default [] (skills_param (get_prop input ''skills''))
     in if skills = [] then Inl (tool_refusal ''skills must be a non-empty string array'' ''skills_required'')
        else Inr (performGenericHubMatch hub duration self skills
               (empty_discovery\<lparr>dv_skills := Some skills, dv_description := description_param input\<rparr>)))"

definition resolve_agent_tool :: "(hub_request \<Rightarrow> fetch_reply) \<Rightarrow> rat \<Rightarrow> int option \<Rightarrow> js \<Rightarrow> discovery_result" where
  "resolve_agent_tool hub duration self params = resolveHubPeer hub duration self (resolve_input (asObject_or_empty params))"

definition truthy_text :: "string \<Rightarrow> js \<Rightarrow> string \<Rightarrow> string" where
  "truthy_text label a k = (if truthy (get_prop a k) then label @ field_text a k else [])"

definition join_nonempty :: "string \<Rightarrow> string list \<Rightarrow> string" where
  "join_nonempty sep ts = join sep (filter (\<lambda>t. t \<noteq> []) ts)"

definition plaza_facts :: "js \<Rightarrow> string" where
  "plaza_facts a =
    (let trust = join_nonempty '', '' [if truthy (get_prop a ''official'') then ''official'' else [],
           if truthy (get_prop a ''verified'') then ''verified'' else [], truthy_text ''operator='' a ''operatorName''];
         model = (if truthy (get_prop a ''modelDisplayName'') then field_text a ''modelDisplayName''
                  else join_nonempty '' / '' [truthy_text [] a ''modelProvider'', truthy_text [] a ''modelName'']);
         protocols = get_prop a ''connectionProtocols''
     in join_nonempty '' '' [if trust \<noteq> [] then ''trust=['' @ trust @ '']'' else [], truthy_text ''boundary='' a ''riskBoundary'',
          truthy_text ''type='' a ''agentType'', truthy_text ''domain='' a ''domain'',
          if model \<noteq> [] then ''model='' @ model else [], truthy_text ''modelUse='' a ''modelUsage'',
          truthy_text ''retention='' a ''dataRetention'',
          if array_or_empty protocols \<noteq> [] then ''protocols=['' @ joined_list '', '' protocols @ '']'' else []])"

definition plaza_line :: "js \<Rightarrow> string" where
  "plaza_line a = ''- '' @ (if truthy (get_prop a ''displayName'') then field_text a ''displayName'' else field_text a ''name'') @
     '' (agentId='' @ field_text a ''agentId'' @ '', '' @
     (if truthy (get_prop a ''presenceStatus'') then field_text a ''presenceStatus'' else ''unknown'') @ '') '' @
     plaza_facts a @ '' skills=['' @ shown_skills a ''skills'' @ '']''"

definition executePlazaSearchTool :: "(hub_request \<Rightarrow> fetch_reply) \<Rightarrow> bool \<Rightarrow> js \<Rightarrow> tool_result" where
  "executePlazaSearchTool fetch registered params =
    (let input = asObject_or_empty params in
     case (if \<not> registered then Inl no_registration
           else profile_reply (fetch (listPlazaAgents (Some (asString_or (get_prop input ''skill'') []))
                  (Some (asString_or (get_prop input ''q'') []))))) of
       Inl e \<Rightarrow> tool_failure ''Failed to search Hub plaza'' e
     | Inr reply \<Rightarrow>
        let agents = array_or_empty reply
        in tool_answer (text_or (join newline (map plaza_line (take 10 agents))) ''No public agents found.'')
             [(''count'', num (int (length agents))), (''agents'', reply)])"

section \<open>Connection requests, offers and sessions\<close>

text \<open>A session as the hub sends it, read under the declared types.\<close>

definition string_at :: "js \<Rightarrow> string \<Rightarrow> string option" where
  "string_at v k = (case get_prop v k of JStr s \<Rightarrow> Some s | _ \<Rightarrow> None)"

definition int_at :: "js \<Rightarrow> string \<Rightarrow> int option" where
  "int_at v k = (case get_prop v k of JNum (Fin q) \<Rightarrow> Some \<lfloor>q\<rfloor> | _ \<Rightarrow> None)"

definition endpoint_entry :: "js \<Rightarrow> connection_endpoint" where
  "endpoint_entry e = \<lparr>ce_protocol = opt_default [] (string_at e ''protocol''), ce_transport = opt_default [] (string_at e ''transport''),
     ce_url = opt_default [] (string_at e ''url''), ce_auth = string_at e ''auth'', ce_metadata = get_prop e ''metadata''\<rparr>"

definition descriptor_of :: "js \<Rightarrow> connection_descriptor option" where
  "descriptor_of v = (if nullish v then None else Some
     \<lparr>cd_clientId = opt_default [] (string_at v ''clientId''),
      cd_protocols = (case get_prop (get_prop v ''capabilities'') ''protocols'' of JArr ps \<Rightarrow> Some (strings_of ps) | _ \<Rightarrow> None),
      cd_endpoints = (case get_prop v ''endpoints'' of JArr es \<Rightarrow> Some (map endpoint_entry es) | _ \<Rightarrow> None)\<rparr>)"

definition session_of :: "js \<Rightarrow> connection_session" where
  "session_of v = \<lparr>cs_id = opt_default 0 (int_at v ''id''), cs_requestId = opt_default 0 (int_at v ''requestId''),
     cs_offerId = opt_default 0 (int_at v ''offerId''), cs_requesterAgentId = int_at v ''requesterAgentId'',
     cs_responderAgentId = opt_default 0 (int_at v ''responderAgentId''),
     cs_requesterClientId = string_at v ''requesterClientId'', cs_requesterPublicKey = string_at v ''requesterPublicKey'',
     cs_requesterSigningKey = string_at v ''requesterSigningPublicKey'',
     cs_requesterDescriptor = descriptor_of (get_prop v ''requesterConnectionDescriptor''),
     cs_responderClientId = string_at v ''responderClientId'', cs_responderPublicKey = string_at v ''responderPublicKey'',
     cs_responderSigningKey = string_at v ''responderSigningPublicKey'',
     cs_responderDescriptor = descriptor_of (get_prop v ''responderConnectionDescriptor''),
     cs_status = opt_default [] (string_at v ''status''), cs_sharedContextRoomId = string_at v ''sharedContextRoomId'',
     cs_createdAt = string_at v ''createdAt''\<rparr>"

text \<open>What the connection tools use: the registration, the bearer token, the hub, the clock, URL parsing and the
  path of the state file.\<close>

record conn_env =
  cv_registration :: "registration_data option"
  cv_token :: "string + js"
  cv_hub :: "hub_request \<Rightarrow> fetch_reply"
  cv_now :: string
  cv_parse :: url_parser
  cv_statePath :: string

definition conn_call :: "conn_env \<Rightarrow> connection_op \<Rightarrow> string + js" where
  "conn_call env op' = (case cv_registration env of
     None \<Rightarrow> Inl no_registration
   | Some r \<Rightarrow> api_reply ''Hub connection request'' (cv_hub env (connection_request r (cv_token env) op')))"

text \<open>An answer whose members are read: a \<open>null\<close> body throws at the first of them.\<close>

definition conn_object :: "conn_env \<Rightarrow> string \<Rightarrow> connection_op \<Rightarrow> string + js" where
  "conn_object env first_member op' =
    and_then (conn_call env op') (\<lambda>v. if nullish v then Inl (null_error first_member) else Inr v)"

definition list_requests_tool :: "conn_env \<Rightarrow> js \<Rightarrow> tool_result" where
  "list_requests_tool env params =
    (let input = asObject_or_empty params in
     case conn_call env (ListRequests \<lparr>lp_q = text_param ''q'' input, lp_skill = text_param ''skill'' input,
            lp_requestType = text_param ''requestType'' input,
            lp_limit = map_option of_int (asPositiveInteger (get_prop input ''limit''))\<rparr>) of
       Inl e \<Rightarrow> tool_failure ''Failed to list Hub connection requests'' e
     | Inr reply \<Rightarrow> tool_answer (formatConnectionRequests (array_or_empty reply))
         [(''count'', num (int (length (array_or_empty reply)))), (''requests'', reply)])"

definition some_text :: "js \<Rightarrow> string \<Rightarrow> string option" where
  "some_text p k = Some (asString_or (get_prop p k) [])"

definition request_params :: "js \<Rightarrow> create_request_params" where
  "request_params p = \<lparr>cr_title = asString_or (get_prop p ''title'') [], cr_summary = asString_or (get_prop p ''summary'') [],
     cr_details = some_text p ''details'', cr_requestType = some_text p ''requestType'',
     cr_requiredSkills = Some (asStringArray (coalesce (get_prop p ''requiredSkills'') (get_prop p ''skills''))),
     cr_collaborationMode = some_text p ''collaborationMode'', cr_inputModes = Some (asStringArray (get_prop p ''inputModes'')),
     cr_outputModes = Some (asStringArray (get_prop p ''outputModes'')),
     cr_connectionHint = meta_js (asMetadata (get_prop p ''connectionHint'')), cr_expiresAt = None\<rparr>"

definition moderation_text :: "js \<Rightarrow> string" where
  "moderation_text v = js_text (coalesce (get_prop v ''moderationStatus'') (JStr ''unknown''))"

text \<open>Recording in the state file never fails the tool: a record that throws leaves the file as it is.\<close>

definition create_request_tool :: "conn_env \<Rightarrow> js \<Rightarrow> state_file \<Rightarrow> tool_result \<times> state_file" where
  "create_request_tool env params f =
    (case conn_object env ''id'' (CreateRequest (request_params (asObject_or_empty params))) of
       Inl e \<Rightarrow> (tool_failure ''Failed to create Hub connection request'' e, f)
     | Inr request \<Rightarrow>
        (tool_answer (''Hub connection request published: #'' @ field_text request ''id'' @ '' '' @ field_text request ''title'' @ newline @
            ''Status: '' @ field_text request ''status'' @ newline @ ''Moderation: '' @ moderation_text request)
          [(''request'', request), (''statePath'', JStr (cv_statePath env))],
         snd (recordRequest (cv_now env) request f)))"

definition get_request_tool :: "conn_env \<Rightarrow> js \<Rightarrow> tool_result" where
  "get_request_tool env params =
    (case asPositiveInteger (get_prop (asObject_or_empty params) ''requestId'') of
       None \<Rightarrow> tool_refusal ''requestId must be a positive integer'' ''request_id_required''
     | Some requestId \<Rightarrow>
        (case and_then (conn_object env ''displaySkills'' (GetRequest requestId))
                (\<lambda>request. and_then (conn_call env (ListOffers requestId)) (\<lambda>offers. Inr (request, offers))) of
           Inl e \<Rightarrow> tool_failure ''Failed to get Hub connection request'' e
         | Inr (request, offers) \<Rightarrow>
            tool_answer (join newline [formatConnectionRequests [request], [], ''Offers:'', formatConnectionOffers (array_or_empty offers)])
              [(''request'', request), (''offers'', offers)]))"

definition create_offer_tool :: "conn_env \<Rightarrow> js \<Rightarrow> state_file \<Rightarrow> tool_result \<times> state_file" where
  "create_offer_tool env params f =
    (let input = asObject_or_empty params in
     case asPositiveInteger (get_prop input ''requestId'') of
       None \<Rightarrow> (tool_refusal ''requestId must be a positive integer'' ''request_id_required'', f)
     | Some requestId \<Rightarrow>
        (case conn_object env ''id'' (CreateOffer requestId (asString_or (get_prop input ''message'') [])
                (Some (asStringArray (get_prop input ''skills''))) (some_text input ''collaborationMode'')) of
           Inl e \<Rightarrow> (tool_failure ''Failed to create Hub connection offer'' e, f)
         | Inr offer \<Rightarrow>
            (tool_answer (''Hub connection offer submitted: offer #'' @ field_text offer ''id'' @ '' for request #'' @
                field_text offer ''requestId'' @ newline @ ''Status: '' @ field_text offer ''status'' @ newline @
                ''Moderation: '' @ moderation_text offer)
              [(''offer'', offer), (''statePath'', JStr (cv_statePath env))],
             snd (recordOffer (cv_now env) offer f))))"

text \<open>The view as the details show it; descriptors are those of the session itself.\<close>

definition participant_js :: "participant_view \<Rightarrow> js \<Rightarrow> js" where
  "participant_js v descriptor = JObj [(''role'', JStr (case pv_role v of RequesterRole \<Rightarrow> ''requester'' | ResponderRole \<Rightarrow> ''responder'')),
     (''agentId'', case pv_agentId v of None \<Rightarrow> JUndef | Some i \<Rightarrow> num i), (''clientId'', opt_str (pv_clientId v)),
     (''encryptionPublicKey'', opt_str (pv_encryptionKey v)), (''signingPublicKey'', opt_str (pv_signingKey v)),
     (''descriptor'', descriptor), (''protocols'', strs (pv_protocols v))]"

definition endpoint_json :: "connection_endpoint \<Rightarrow> js" where
  "endpoint_json e = JObj [(''protocol'', JStr (ce_protocol e)), (''transport'', JStr (ce_transport e)), (''url'', JStr (ce_url e)),
     (''auth'', opt_str (ce_auth e)), (''metadata'', ce_metadata e)]"

definition plan_js :: "a2a_plan \<Rightarrow> js" where
  "plan_js a = JObj [(''available'', JBool (ap_available a)), (''agentCardUrl'', opt_str (ap_agentCardUrl a)),
     (''endpoint'', case ap_endpoint a of None \<Rightarrow> JUndef | Some e \<Rightarrow> endpoint_json e), (''reason'', opt_str (ap_reason a))]"

definition mode_name :: "session_view \<Rightarrow> string" where
  "mode_name v = (if sv_a2a_mode v then ''a2a'' else ''generic'')"

definition view_js :: "session_view \<Rightarrow> js \<Rightarrow> js" where
  "view_js v session = JObj [(''sessionId'', num (sv_sessionId v)), (''requestId'', num (sv_requestId v)),
     (''offerId'', num (sv_offerId v)), (''status'', JStr (sv_status v)),
     (''requester'', participant_js (sv_requester v) (get_prop session ''requesterConnectionDescriptor'')),
     (''responder'', participant_js (sv_responder v) (get_prop session ''responderConnectionDescriptor'')),
     (''recommendedMode'', JStr (mode_name v)), (''a2a'', plan_js (sv_a2a v)),
     (''generic'', JObj [(''protocols'', strs (sv_protocols v)), (''endpointCount'', num (int (sv_endpointCount v)))]),
     (''nextSteps'', strs (sv_nextSteps v))]"

definition session_answer :: "conn_env \<Rightarrow> string \<Rightarrow> connection_op \<Rightarrow> state_file \<Rightarrow> tool_result \<times> state_file" where
  "session_answer env label op' f =
    (case conn_object env ''requesterAgentId'' op' of
       Inl e \<Rightarrow> (tool_failure label e, f)
     | Inr v \<Rightarrow>
        let session = session_of v; view = buildConnectionSessionView (cv_parse env) session
        in (tool_answer (formatConnectionSession (cv_parse env) session)
              [(''session'', v), (''connection'', view_js view v), (''statePath'', JStr (cv_statePath env))],
            snd (recordSession (cv_now env) session (Some view) f)))"

definition accept_offer_tool :: "conn_env \<Rightarrow> js \<Rightarrow> state_file \<Rightarrow> tool_result \<times> state_file" where
  "accept_offer_tool env params f =
    (let input = asObject_or_empty params in
     case asPositiveInteger (get_prop input ''offerId'') of
       None \<Rightarrow> (tool_refusal ''offerId must be a positive integer'' ''offer_id_required'', f)
     | Some offerId \<Rightarrow> session_answer env ''Failed to accept Hub connection offer''
         (AcceptOffer offerId (some_text input ''sharedContextRoomId'')) f)"

definition get_session_tool :: "conn_env \<Rightarrow> js \<Rightarrow> state_file \<Rightarrow> tool_result \<times> state_file" where
  "get_session_tool env params f =
    (case asPositiveInteger (get_prop (asObject_or_empty params) ''sessionId'') of
       None \<Rightarrow> (tool_refusal ''sessionId must be a positive integer'' ''session_id_required'', f)
     | Some sessionId \<Rightarrow> session_answer env ''Failed to get Hub connection session'' (GetSession sessionId) f)"

definition connection_state_tool :: "conn_env \<Rightarrow> state_file \<Rightarrow> tool_result" where
  "connection_state_tool env f =
    (let state = load_state f
     in tool_answer (formatConnectionState state) [(''state'', state_js state), (''statePath'', JStr (cv_statePath env))])"

section \<open>The profile\<close>

definition executeProfileUpdateTool :: "((string \<times> js) list \<Rightarrow> string + hub_request) \<Rightarrow> (hub_request \<Rightarrow> fetch_reply) \<Rightarrow> js \<Rightarrow> tool_result" where
  "executeProfileUpdateTool sync fetch params =
    (case and_then (sync (override_members profile_texts (asObject_or_empty params))) (\<lambda>req. and_then (profile_reply (fetch req))
            (\<lambda>p. if nullish p then Inl (null_error ''displayName'') else Inr p)) of
       Inl e \<Rightarrow> tool_failure ''Failed to update Hub plaza profile'' e
     | Inr p \<Rightarrow> tool_answer (''Hub plaza profile updated for '' @
           (if truthy (get_prop p ''displayName'') then field_text p ''displayName'' else field_text p ''name'') @
           '' (agentId='' @ field_text p ''agentId'' @ '').'') [(''profile'', p)])"

section \<open>Tools and methods agree\<close>

definition method_of_tool :: "string \<Rightarrow> string option" where
  "method_of_tool tool = map_of [(''openclaw_room_create'', ''openclaw.room.create''), (''openclaw_room_list'', ''openclaw.room.list''),
     (''openclaw_room_post'', ''openclaw.room.post''), (''openclaw_room_read'', ''openclaw.room.read''),
     (''openclaw_room_summary'', ''openclaw.room.summary'')] tool"

lemma postMessage_members:
  "(\<And>k. get_prop a k = get_prop b k) \<Longrightarrow> postMessage opts now uuids st a = postMessage opts now uuids st b"
proof -
  assume "\<And>k. get_prop a k = get_prop b k"
  then have same: "get_prop a = get_prop b" by (rule ext)
  show ?thesis unfolding postMessage_def same by (rule refl)
qed

lemma room_post_input_agrees:
  "get_prop p ''artifacts'' = JUndef \<Longrightarrow> postMessage opts now uuids st (room_post_input p) = postMessage opts now uuids st (post_input p)"
  by (rule postMessage_members) (simp add: room_post_input_def post_input_def asSharedArtifactInputs_def)

text \<open>What a room tool answers, next to what the gateway method of the same name decides on the same parameters.\<close>

definition same_outcome :: "room_step \<Rightarrow> shared_outcome \<Rightarrow> bool" where
  "same_outcome r out = (case out of
     Inl e \<Rightarrow> rt_events r = [] \<and> rt_entry r = None \<and> tr_details (rt_result r) = JObj [(''ok'', JBool False), (''error'', JStr e)]
   | Inr (evs, data, entry) \<Rightarrow> rt_events r = evs \<and> (rt_entry r = None \<longleftrightarrow> entry = None) \<and>
       (case data of JObj fs \<Rightarrow> tr_details (rt_result r) = JObj ((''ok'', JBool True) # fs) | _ \<Rightarrow> False))"

lemmas room_tool_defs = room_create_tool_def room_list_tool_def room_post_tool_def room_read_tool_def room_summary_tool_def
  shared_create_def shared_list_def shared_post_def shared_read_def shared_summary_def
  same_outcome_def room_failed_def room_done_def tool_failure_def tool_answer_def room_outcome_def listed_def

lemma room_steps_agree:
  "same_outcome (room_create_tool opts now uuids p) (shared_create opts now uuids p)"
  "same_outcome (room_list_tool opts st p) (shared_list opts st p)"
  "get_prop p ''artifacts'' = JUndef \<Longrightarrow> same_outcome (room_post_tool opts now uuids st p) (shared_post opts now uuids st p)"
  "same_outcome (room_read_tool opts st p) (shared_read opts st p)"
  "same_outcome (room_summary_tool opts st p) (shared_summary opts st p)"
  by (auto simp: room_tool_defs room_post_input_agrees split: sum.split)

text \<open>C33. Each room tool of the agent is equivalent to the gateway method of the same name: on the same state and parameters
  (for a post, without artifacts, which the tool does not take) it fails with the same error or appends the same events, records
  an entry exactly when the method does, and answers the same data.\<close>

theorem room_tools_agree_with_methods:
  assumes "method_of_tool tool = Some m" "get_prop p ''artifacts'' = JUndef"
  shows "\<exists>r out. room_tool opts now uuids st tool p = Some r \<and> shared_method opts now uuids st m p = Some out \<and> same_outcome r out"
  using assms room_steps_agree
  by (auto simp: method_of_tool_def room_tool_def shared_method_def split: if_splits)

theorem room_tools_agree_with_methods_witness:
  "\<exists>r out. room_tool demo_opts ''T'' (\<lambda>_. ''u'') (loadState None) ''openclaw_room_create'' (JObj [(''title'', JStr ''Plan'')]) = Some r \<and>
     shared_method demo_opts ''T'' (\<lambda>_. ''u'') (loadState None) ''openclaw.room.create'' (JObj [(''title'', JStr ''Plan'')]) = Some out \<and>
     same_outcome r out"
  by (rule room_tools_agree_with_methods) (simp_all add: method_of_tool_def)

section \<open>What is cached\<close>

text \<open>A request the hub has published is the newest one of the state file afterwards; when the hub refuses, the file is unchanged.\<close>

lemma created_request_cached:
  assumes "conn_call env (CreateRequest (request_params (asObject_or_empty params))) = Inr v"
    and "get_prop v ''id'' = id_js n" "0 < n" "\<not> (\<exists>q \<in> set (st_requests (load_state f)). nullish q)"
  shows "get_prop (tr_details (fst (create_request_tool env params f))) ''ok'' = JBool True \<and>
    hd (st_requestIds (load_state (snd (create_request_tool env params f)))) = n \<and>
    get_prop (hd (st_requests (load_state (snd (create_request_tool env params f))))) ''id'' = id_js n"
proof -
  obtain s f' q rest where rec: "recordRequest (cv_now env) v f = (Some s, f')" "hd (st_requestIds (load_state f')) = n"
      "st_requests (load_state f') = q # rest" "get_prop q ''id'' = id_js n"
    using recordRequest_newest [OF assms(2-4)] by blast
  have "\<not> nullish v" using assms(2) by (auto simp: nullish_def id_js_def)
  with assms(1) have "conn_object env ''id'' (CreateRequest (request_params (asObject_or_empty params))) = Inr v"
    by (simp add: conn_object_def)
  with rec show ?thesis by (simp add: create_request_tool_def tool_answer_def)
qed

lemma refused_request_not_cached:
  "conn_call env (CreateRequest (request_params (asObject_or_empty params))) = Inl e \<Longrightarrow>
   create_request_tool env params f = (tool_failure ''Failed to create Hub connection request'' e, f)"
  by (simp add: create_request_tool_def conn_object_def)

text \<open>The A2A plan of a session looks only at the responder: the view is the same whichever side reads it, so a responder is
  advised to use its own agent card.\<close>

lemma plan_ignores_requester:
  "sv_a2a (buildConnectionSessionView parse (s\<lparr>cs_requesterDescriptor := d\<rparr>)) = sv_a2a (buildConnectionSessionView parse s)"
  by (simp add: buildConnectionSessionView_def Let_def buildParticipant_def)

end
