(* ===== verification/OfficialCall.thy ===== *)
theory OfficialCall
  imports SensitiveScan AgentTools
begin

text \<open>
  Calling a declared action of an official agent: \<open>src/official-agent-call.ts\<close>, and the tool and the gateway
  method of \<open>index.ts\<close> that do so. The hub, \<open>fetch\<close>, URL parsing and building and \<open>JSON.parse\<close> are
  parameters; an abort after thirty seconds is a failing fetch.
\<close>

section \<open>Declared actions\<close>

record official_action =
  ac_name :: string
  ac_riskLevel :: string
  ac_method :: string
  ac_path :: string

definition trimmed_opt :: "js \<Rightarrow> string option" where
  "trimmed_opt v = (case v of JStr s \<Rightarrow> if trim s = [] then None else Some (trim s) | _ \<Rightarrow> None)"

definition lower_js :: "js \<Rightarrow> string" where
  "lower_js v = (case v of JStr s \<Rightarrow> to_lower (trim s) | _ \<Rightarrow> [])"

text \<open>The two methods in upper case; any other text is not a method.\<close>

definition verb_of :: "string \<Rightarrow> string option" where
  "verb_of lower = (if lower = ''get'' then Some ''GET'' else if lower = ''post'' then Some ''POST'' else None)"

definition letter :: "char \<Rightarrow> bool" where
  "letter c = (let n = (of_char c :: nat) in (65 \<le> n \<and> n \<le> 90) \<or> (97 \<le> n \<and> n \<le> 122))"

text \<open>\<open>/^([A-Za-z]+)\s+(\S+)$/\<close>.\<close>

definition endpoint_parts :: "string \<Rightarrow> (string \<times> string) option" where
  "endpoint_parts s =
    (let word = takeWhile letter s; rest = dropWhile letter s; path = dropWhile is_js_space rest
     in if word \<noteq> [] \<and> takeWhile is_js_space rest \<noteq> [] \<and> path \<noteq> [] \<and> list_all (\<lambda>c. \<not> is_js_space c) path
        then Some (word, path) else None)"

definition normalizeAction :: "js \<Rightarrow> official_action option" where
  "normalizeAction raw = (case raw of
     JObj fs \<Rightarrow>
       (let given = (lower_js (jprop ''method'' fs), opt_default [] (trimmed_opt (jprop ''path'' fs)));
            (method_text, path) = (if fst given = [] \<or> snd given = [] then
               (case trimmed_opt (jprop ''endpoint'' fs) of
                  Some e \<Rightarrow> (case endpoint_parts e of Some (w, p) \<Rightarrow> (to_lower w, p) | None \<Rightarrow> given)
                | None \<Rightarrow> given) else given);
            riskLevel = lower_js (jprop ''riskLevel'' fs)
        in case (trimmed_opt (jprop ''name'' fs), verb_of method_text) of
             (Some n, Some verb) \<Rightarrow> if riskLevel = [] \<or> path = [] then None
               else Some \<lparr>ac_name = n, ac_riskLevel = riskLevel, ac_method = verb, ac_path = path\<rparr>
           | _ \<Rightarrow> None)
   | _ \<Rightarrow> None)"

definition findAction :: "js \<Rightarrow> string \<Rightarrow> official_action option" where
  "findAction agent actionName =
    find (\<lambda>a. to_lower (ac_name a) = to_lower (trim actionName))
      (List.map_filter normalizeAction (array_or_empty (get_prop (get_prop agent ''capabilityManifest'') ''actions'')))"

section \<open>The endpoint\<close>

definition protocol_name :: "connection_endpoint \<Rightarrow> string" where
  "protocol_name e = to_lower (trim (ce_protocol e))"

definition endpointPriority :: "connection_endpoint \<Rightarrow> nat" where
  "endpointPriority e =
    (if protocol_name e = ''custom-http'' then 0
     else if protocol_name e = ''http'' \<or> protocol_name e = ''https'' then 1
     else if protocol_name e = ''http-json'' \<or> str_includes (to_lower (ce_transport e)) ''http'' then 2 else 10)"

definition speaks_http :: "connection_endpoint \<Rightarrow> bool" where
  "speaks_http e \<longleftrightarrow> protocol_name e \<noteq> ''openapi'' \<and>
     (str_includes (protocol_name e) ''http'' \<or> str_includes (to_lower (trim (ce_transport e))) ''http'')"

definition agent_endpoints :: "js \<Rightarrow> connection_endpoint list" where
  "agent_endpoints agent = descriptor_endpoints (descriptor_of (get_prop agent ''connectionDescriptor''))"

definition selectHttpEndpoint :: "js \<Rightarrow> connection_endpoint option" where
  "selectHttpEndpoint agent = (case sort_key endpointPriority (filter speaks_http (agent_endpoints agent)) of
     [] \<Rightarrow> None | e # _ \<Rightarrow> Some e)"

section \<open>The URL\<close>

record url_info =
  ui_href :: string
  ui_protocol :: string
  ui_username :: string
  ui_password :: string
  ui_pathname :: string

text \<open>\<open>new URL\<close> and what setting its path and adding search parameters yields.\<close>

record url_env =
  ue_parse :: "string \<Rightarrow> url_info option"
  ue_build :: "string \<Rightarrow> string \<Rightarrow> (string \<times> string) list \<Rightarrow> string"
  ue_fields :: url_fields
  ue_bare :: "string \<Rightarrow> string option"

definition scheme_char :: "char \<Rightarrow> bool" where
  "scheme_char c = (letter c \<or> c \<in> set ''0123456789+.-'')"

definition absolute_action :: "string \<Rightarrow> bool" where
  "absolute_action s = (case s of [] \<Rightarrow> False
     | c # cs \<Rightarrow> letter c \<and> (case dropWhile scheme_char cs of [] \<Rightarrow> False | d # _ \<Rightarrow> d = CHR '':''))"

fun query_entry :: "string \<times> js \<Rightarrow> (string \<times> string) list" where
  "query_entry (k, JArr xs) = map (\<lambda>x. (k, js_text x)) (filter (\<lambda>x. \<not> nullish x) xs)"
| "query_entry (k, JObj fs) = [(k, wire_text (JObj fs))]"
| "query_entry (k, v) = (if nullish v then [] else [(k, js_text v)])"

definition buildActionUrl :: "url_env \<Rightarrow> string \<Rightarrow> string \<Rightarrow> (string \<times> js) list option \<Rightarrow> string + string" where
  "buildActionUrl ue baseUrl actionPath query =
    (if absolute_action actionPath then Inl ''official action endpoint must be a path, not an absolute URL''
     else case ue_parse ue baseUrl of
       None \<Rightarrow> Inl ''Invalid URL''
     | Some base \<Rightarrow>
        if ui_protocol base \<noteq> ''https:'' then Inl ''official agent endpoint must use HTTPS''
        else if ui_username base \<noteq> [] \<or> ui_password base \<noteq> [] then Inl ''official agent endpoint must not include URL credentials''
        else (case validateUriSchemeAndIp (ue_fields ue) (ui_href base) of
                Some e \<Rightarrow> Inl (''official agent endpoint is blocked: '' @ e)
              | None \<Rightarrow>
                 let basePath = rev (dropWhile (\<lambda>c. c = CHR ''/'') (rev (ui_pathname base)));
                     relativePath = dropWhile (\<lambda>c. c = CHR ''/'') actionPath
                 in Inr (ue_build ue (ui_href base) (join_nonempty ''/'' [basePath, relativePath])
                      (concat (map query_entry (opt_default [] query))))))"

section \<open>Preparing a call\<close>

definition MAX_INPUT_BYTES :: nat where
  "MAX_INPUT_BYTES = 32768"

definition MAX_OUTPUT_CHARS :: nat where
  "MAX_OUTPUT_CHARS = 65536"

record official_input =
  oi_agentId :: "int option"
  oi_clientId :: "string option"
  oi_skills :: "string list option"
  oi_description :: "string option"
  oi_actionName :: string
  oi_body :: js
  oi_query :: "(string \<times> js) list option"
  oi_preferOfficial :: "bool option"

record prepared_call =
  oc_agent :: resolved_agent
  oc_actionName :: string
  oc_method :: string
  oc_url :: string
  oc_bodyText :: "string option"
  oc_headers :: "(string \<times> string) list"

record refusal =
  rf_error :: string
  rf_message :: string
  rf_findings :: "finding list option"

definition refused :: "string \<Rightarrow> string \<Rightarrow> refusal" where
  "refused e m = \<lparr>rf_error = e, rf_message = m, rf_findings = None\<rparr>"

definition query_js :: "official_input \<Rightarrow> js" where
  "query_js i = (case oi_query i of None \<Rightarrow> JUndef | Some fs \<Rightarrow> JObj fs)"

definition scanned_input :: "official_input \<Rightarrow> js" where
  "scanned_input i = JObj [(''body'', oi_body i), (''query'', query_js i)]"

definition input_bytes :: "official_input \<Rightarrow> nat" where
  "input_bytes i = utf8_length (wire_text (JObj [(''body'', coalesce (oi_body i) JNull), (''query'', coalesce (query_js i) JNull)]))"

definition serializeBody :: "string \<Rightarrow> js \<Rightarrow> string option" where
  "serializeBody verb body = (if verb = ''GET'' then None else json_stringify (coalesce body (JObj [])))"

definition public_endpoint :: "connection_endpoint \<Rightarrow> bool" where
  "public_endpoint e = (case ce_auth e of None \<Rightarrow> True | Some a \<Rightarrow> a = [] \<or> to_lower (trim a) = ''none'')"

definition prepareOfficialAgentActionCall :: "cjk_patterns \<Rightarrow> url_env \<Rightarrow> js \<Rightarrow> official_input \<Rightarrow> refusal + prepared_call" where
  "prepareOfficialAgentActionCall cp ue agent i =
    (let actionName = trim (oi_actionName i) in
     if \<not> truthy (get_prop agent ''official'') \<or> \<not> truthy (get_prop agent ''verified'') then
       Inl (refused ''agent_not_official_verified'' ''Only Hub official and verified agents can be called through this tool.'')
     else if actionName = [] then Inl (refused ''action_name_required'' ''actionName is required.'')
     else (case findAction agent actionName of
       None \<Rightarrow> Inl (refused ''action_not_declared'' (''Official agent does not declare action '' @ quoted actionName @ ''.''))
     | Some action \<Rightarrow>
        if ac_riskLevel action \<noteq> ''low'' then
          Inl (refused ''action_not_low_risk'' (''Official agent action '' @ quoted actionName @ '' is not declared as low risk.''))
        else (case selectHttpEndpoint agent of
          None \<Rightarrow> Inl (refused ''official_http_endpoint_missing'' ''Official agent does not publish a supported HTTPS endpoint.'')
        | Some endpoint \<Rightarrow>
           if \<not> public_endpoint endpoint then
             Inl (refused ''official_endpoint_auth_unsupported''
               ''Official agent endpoint requires public auth metadata that this tool does not support.'')
           else (let findings = detectSensitiveOfficialAgentInput cp (scanned_input i) (forbiddenList agent ''inputPolicy'') in
             if findings \<noteq> [] then
               Inl \<lparr>rf_error = ''sensitive_input_blocked'',
                 rf_message = ''Input appears to contain sensitive data. Redact it locally before calling the official agent.'',
                 rf_findings = Some findings\<rparr>
             else if MAX_INPUT_BYTES < input_bytes i then
               Inl (refused ''input_too_large'' (''Official agent input exceeds '' @ show_nat MAX_INPUT_BYTES @ '' bytes.''))
             else (case buildActionUrl ue (ce_url endpoint) (ac_path action) (if ac_method action = ''GET'' then oi_query i else None) of
               Inl e \<Rightarrow> Inl (refused ''official_endpoint_invalid'' e)
             | Inr url \<Rightarrow>
                (case summarizeHubAgent agent of
                   None \<Rightarrow> Inl (refused ''agent_resolution_failed'' ''Official agent could not be resolved.'')
                 | Some resolved \<Rightarrow>
                     Inr \<lparr>oc_agent = resolved, oc_actionName = ac_name action, oc_method = ac_method action, oc_url = url,
                       oc_bodyText = serializeBody (ac_method action) (oi_body i),
                       oc_headers = (if ac_method action = ''POST'' then [(''Content-Type'', ''application/json'')] else [])\<rparr>))))))"

section \<open>The call\<close>

record http_answer =
  ha_status :: nat
  ha_contentType :: string
  ha_body :: string

record official_env =
  ov_self :: "int option"
  ov_hub :: "hub_request \<Rightarrow> fetch_reply"
  ov_cjk :: cjk_patterns
  ov_urls :: url_env
  ov_fetch :: "prepared_call \<Rightarrow> string + http_answer"
  ov_json :: "string \<Rightarrow> js option"
  ov_duration :: rat

definition truncateOutput :: "string \<Rightarrow> string" where
  "truncateOutput t = (if length t \<le> MAX_OUTPUT_CHARS then t else take MAX_OUTPUT_CHARS t @ ''...[truncated]'')"

definition readResponse :: "(string \<Rightarrow> js option) \<Rightarrow> http_answer \<Rightarrow> js" where
  "readResponse parse a =
    (let t = truncateOutput (ha_body a)
     in if str_includes (ha_contentType a) ''application/json'' then opt_default (JStr t) (parse t) else JStr t)"

text \<open>The agent asked for, with the match made for it; the agent's id is asked for as the hub gave it.\<close>

definition agent_lookup :: "(hub_request \<Rightarrow> fetch_reply) \<Rightarrow> js \<Rightarrow> string + js" where
  "agent_lookup hub agentId = api_reply ''Hub match'' (hub (get_request (''/api/agents/'' @ js_text agentId)))"

definition official_match :: "official_input \<Rightarrow> string list \<Rightarrow> match_op" where
  "official_match i skills = CreateMatch \<lparr>mp_skills = skills, mp_description = oi_description i, mp_connectionMode = Some ''generic'',
     mp_preferOfficial = Some (opt_default True (oi_preferOfficial i)), mp_targetAgentId = None, mp_targetClientId = None\<rparr>"

definition resolveOfficialAgent :: "(hub_request \<Rightarrow> fetch_reply) \<Rightarrow> int \<Rightarrow> official_input \<Rightarrow> string + (js \<times> js)" where
  "resolveOfficialAgent hub me i =
    (case oi_agentId i of
       Some a \<Rightarrow> and_then (agent_lookup hub (num a)) (\<lambda>agent. Inr (agent, JUndef))
     | None \<Rightarrow>
        if present (oi_clientId i) then
          (let op' = FindAgentByClientId (the (oi_clientId i)) in
           and_then (match_reply op' (hub (match_request me op')))
             (\<lambda>agent. if truthy agent then Inr (agent, JUndef)
                      else Inl (''No Hub agent found for clientId='' @ the (oi_clientId i))))
        else if opt_default [] (oi_skills i) \<noteq> [] then
          (let op' = official_match i (the (oi_skills i)) in
           and_then (match_reply op' (hub (match_request me op')))
             (\<lambda>mtch. case rs_peer (buildGenericMatchResolution mtch (num me) ''generic_match'') of
                 Some peer \<Rightarrow> if truthy (ra_agentId peer)
                   then and_then (agent_lookup hub (ra_agentId peer)) (\<lambda>agent. Inr (agent, get_prop mtch ''id''))
                   else Inl ''Hub match did not resolve a peer official agent.''
               | None \<Rightarrow> Inl ''Hub match did not resolve a peer official agent.''))
        else Inl ''Provide agentId, clientId, or skills to call an official agent.'')"

datatype official_details =
    CallRefused refusal
  | CallFailed string js
  | OutputBlocked "finding list" prepared_call
  | CallDone "resolved_agent option" js prepared_call nat js

text \<open>The outcome: success, text and details; the call sent to the agent, if any; the history entry.\<close>

record official_outcome =
  oo_ok :: bool
  oo_text :: string
  oo_details :: official_details
  oo_sent :: "prepared_call option"
  oo_entry :: "(string \<times> js) list"

definition findings_js :: "finding list \<Rightarrow> js" where
  "findings_js fs = JArr (map (\<lambda>f. JObj [(''type'', JStr (sf_type f)), (''message'', JStr (sf_message f)), (''path'', JStr (sf_path f))]) fs)"

definition failed_entry :: "official_env \<Rightarrow> js \<Rightarrow> js \<Rightarrow> (string \<times> js) list \<Rightarrow> (string \<times> js) list" where
  "failed_entry env matchId agentName d =
    outbound ''official_agent.call_failed'' ''failure'' (ov_duration env) [(''matchId'', matchId), (''peer'', agentName)] d"

definition call_failed :: "official_env \<Rightarrow> official_input \<Rightarrow> js \<Rightarrow> js \<Rightarrow> prepared_call option \<Rightarrow> string \<Rightarrow> official_outcome" where
  "call_failed env i matchId agentName sent e =
    \<lparr>oo_ok = False, oo_text = ''Failed to call official agent: '' @ e, oo_details = CallFailed e matchId, oo_sent = sent,
     oo_entry = failed_entry env matchId agentName [(''reason'', JStr e), (''actionName'', JStr (oi_actionName i))]\<rparr>"

definition logged_url :: "official_env \<Rightarrow> prepared_call \<Rightarrow> js" where
  "logged_url env req = JStr (sanitizeUriForLog (ue_bare (ov_urls env)) (oc_url req) 200)"

definition output_blocked :: "official_env \<Rightarrow> official_input \<Rightarrow> js \<Rightarrow> js \<Rightarrow> prepared_call \<Rightarrow> finding list \<Rightarrow> official_outcome" where
  "output_blocked env i matchId agentName req findings =
    \<lparr>oo_ok = False, oo_text = ''Official agent response appears to contain sensitive data, so it was not returned.'',
     oo_details = OutputBlocked findings req, oo_sent = Some req,
     oo_entry = failed_entry env matchId agentName [(''reason'', JStr ''sensitive_output_blocked''), (''actionName'', JStr (oi_actionName i)),
       (''url'', logged_url env req), (''findings'', findings_js findings)]\<rparr>"

definition call_done :: "official_env \<Rightarrow> js \<Rightarrow> js \<Rightarrow> js \<Rightarrow> prepared_call \<Rightarrow> nat \<Rightarrow> js \<Rightarrow> official_outcome" where
  "call_done env agent matchId self req status body =
    \<lparr>oo_ok = True, oo_text = ''Official agent call completed: '' @ field_text agent ''name'' @ '' / '' @ oc_actionName req,
     oo_details = CallDone (rs_peer (buildAgentResolution agent self)) matchId req status body, oo_sent = Some req,
     oo_entry = outbound ''official_agent.call_completed'' ''success'' (ov_duration env)
       [(''matchId'', matchId), (''peer'', get_prop agent ''name'')]
       [(''actionName'', JStr (oc_actionName req)), (''method'', JStr (oc_method req)), (''url'', logged_url env req),
        (''statusCode'', num (int status))]\<rparr>"

text \<open>What is done with a prepared call once the agent has answered.\<close>

definition finish_call :: "official_env \<Rightarrow> official_input \<Rightarrow> js \<Rightarrow> js \<Rightarrow> js \<Rightarrow> prepared_call \<Rightarrow> official_outcome" where
  "finish_call env i agent matchId self req =
    (case ov_fetch env req of
       Inl e \<Rightarrow> call_failed env i matchId (get_prop agent ''name'') (Some req) e
     | Inr a \<Rightarrow>
        (let body = readResponse (ov_json env) a
         in if \<not> reply_ok (ha_status a) then
              call_failed env i matchId (get_prop agent ''name'') (Some req)
                (''Official agent returned HTTP '' @ show_nat (ha_status a) @ '': '' @ wire_text body)
            else (let findings = detectSensitiveOfficialAgentInput (ov_cjk env) body (forbiddenList agent ''outputPolicy'')
                  in if findings \<noteq> [] then output_blocked env i matchId (get_prop agent ''name'') req findings
                     else call_done env agent matchId self req (ha_status a) body)))"

definition call_refused :: "official_env \<Rightarrow> official_input \<Rightarrow> js \<Rightarrow> js \<Rightarrow> refusal \<Rightarrow> official_outcome" where
  "call_refused env i matchId agentName r =
    \<lparr>oo_ok = False, oo_text = rf_message r, oo_details = CallRefused r, oo_sent = None,
     oo_entry = failed_entry env matchId agentName [(''reason'', JStr (rf_error r)), (''actionName'', JStr (oi_actionName i)),
       (''findings'', case rf_findings r of None \<Rightarrow> JUndef | Some fs \<Rightarrow> findings_js fs)]\<rparr>"

definition callOfficialAgentAction :: "official_env \<Rightarrow> official_input \<Rightarrow> official_outcome" where
  "callOfficialAgentAction env i =
    (case ov_self env of
       None \<Rightarrow> call_failed env i JUndef JUndef None no_registration
     | Some me \<Rightarrow>
        (case resolveOfficialAgent (ov_hub env) me i of
           Inl e \<Rightarrow> call_failed env i JUndef JUndef None e
         | Inr (agent, matchId) \<Rightarrow>
            if nullish agent then call_failed env i matchId JUndef None (null_error ''name'')
            else (case prepareOfficialAgentActionCall (ov_cjk env) (ov_urls env) agent i of
                    Inl r \<Rightarrow> call_refused env i matchId (get_prop agent ''name'') r
                  | Inr req \<Rightarrow> finish_call env i agent matchId (num me) req)))"

text \<open>The tool and the method read the same input.\<close>

definition official_input_of :: "js \<Rightarrow> official_input" where
  "official_input_of payload = \<lparr>oi_agentId = asPositiveInteger (get_prop payload ''agentId''),
     oi_clientId = (let c = trim (asString_or (get_prop payload ''clientId'') []) in if c = [] then None else Some c),
     oi_skills = skills_param (get_prop payload ''skills''), oi_description = description_param payload,
     oi_actionName = asString_or (get_prop payload ''actionName'') [], oi_body = get_prop payload ''body'',
     oi_query = Some (object_fields (asObject_or_empty (get_prop payload ''query''))),
     oi_preferOfficial = (case get_prop payload ''preferOfficial'' of JBool b \<Rightarrow> Some b | _ \<Rightarrow> None)\<rparr>"

definition official_call :: "official_env \<Rightarrow> js \<Rightarrow> official_outcome" where
  "official_call env params = callOfficialAgentAction env (official_input_of (asObject_or_empty params))"

section \<open>What is sent and what is returned\<close>

lemma prepared_cases:
  assumes "prepareOfficialAgentActionCall cp ue agent i = Inr req"
  shows "\<exists>action endpoint url resolved. truthy (get_prop agent ''official'') \<and> truthy (get_prop agent ''verified'') \<and>
       findAction agent (trim (oi_actionName i)) = Some action \<and> ac_riskLevel action = ''low'' \<and>
       selectHttpEndpoint agent = Some endpoint \<and> public_endpoint endpoint \<and>
       detectSensitiveOfficialAgentInput cp (scanned_input i) (forbiddenList agent ''inputPolicy'') = [] \<and> input_bytes i \<le> MAX_INPUT_BYTES \<and>
       buildActionUrl ue (ce_url endpoint) (ac_path action) (if ac_method action = ''GET'' then oi_query i else None) = Inr url \<and>
       req = \<lparr>oc_agent = resolved, oc_actionName = ac_name action, oc_method = ac_method action, oc_url = url,
         oc_bodyText = serializeBody (ac_method action) (oi_body i),
         oc_headers = (if ac_method action = ''POST'' then [(''Content-Type'', ''application/json'')] else [])\<rparr>"
  using assms unfolding prepareOfficialAgentActionCall_def Let_def
  by (clarsimp simp: not_less split: if_split_asm option.split_asm sum.split_asm split del: if_split)

lemma built_url:
  "buildActionUrl ue u path query = Inr url \<Longrightarrow> \<exists>base tail ps. ue_parse ue u = Some base \<and> ui_protocol base = ''https:'' \<and>
     ui_username base = [] \<and> ui_password base = [] \<and> validateUriSchemeAndIp (ue_fields ue) (ui_href base) = None \<and>
     url = ue_build ue (ui_href base) tail ps"
  by (auto simp: buildActionUrl_def Let_def split: if_splits option.splits)

lemma normalized_verb: "normalizeAction raw = Some a \<Longrightarrow> ac_method a \<in> {''GET'', ''POST''}"
  by (auto simp: normalizeAction_def verb_of_def Let_def split: js.splits if_splits option.splits prod.splits)

lemma found_action:
  assumes "findAction agent n = Some a"
  shows "ac_method a \<in> {''GET'', ''POST''} \<and> to_lower (ac_name a) = to_lower (trim n) \<and>
    (\<exists>raw \<in> set (array_or_empty (get_prop (get_prop agent ''capabilityManifest'') ''actions'')). normalizeAction raw = Some a)"
proof -
  have "a \<in> set (List.map_filter normalizeAction (array_or_empty (get_prop (get_prop agent ''capabilityManifest'') ''actions'')))"
    "to_lower (ac_name a) = to_lower (trim n)"
    using assms by (auto simp: findAction_def find_Some_iff)
  then show ?thesis
    using normalized_verb by (auto simp: map_filter_mem)
qed

lemma call_cases:
  assumes "oo_sent (callOfficialAgentAction env i) = Some req"
  shows "\<exists>me agent matchId. ov_self env = Some me \<and> resolveOfficialAgent (ov_hub env) me i = Inr (agent, matchId) \<and>
    prepareOfficialAgentActionCall (ov_cjk env) (ov_urls env) agent i = Inr req \<and>
    callOfficialAgentAction env i = finish_call env i agent matchId (num me) req"
proof -
  have sent: "oo_sent (finish_call env i agent matchId self r) = Some r" for agent matchId self r
    by (auto simp: finish_call_def call_failed_def output_blocked_def call_done_def Let_def split: sum.split)
  show ?thesis
    using assms
    by (auto simp: callOfficialAgentAction_def call_failed_def call_refused_def sent split: option.splits sum.splits prod.splits if_splits)
qed

text \<open>C6. Whatever the hub answers, a call leaves this machine only for the agent the hub resolved, one it marks official and
  verified, for an action it declares as low risk under the name asked for, over HTTPS to a host that is not a private address and without
  credentials, with an input of at most 32768 bytes every text and key of which the agent's policy allows.\<close>

theorem official_call_guarded:
  assumes "oo_sent (callOfficialAgentAction env i) = Some req"
  shows "\<exists>me agent matchId action endpoint base tail ps. ov_self env = Some me \<and>
    resolveOfficialAgent (ov_hub env) me i = Inr (agent, matchId) \<and> truthy (get_prop agent ''official'') \<and> truthy (get_prop agent ''verified'') \<and>
    (\<exists>raw \<in> set (array_or_empty (get_prop (get_prop agent ''capabilityManifest'') ''actions'')). normalizeAction raw = Some action) \<and>
    ac_riskLevel action = ''low'' \<and> to_lower (ac_name action) = to_lower (trim (oi_actionName i)) \<and>
    selectHttpEndpoint agent = Some endpoint \<and> public_endpoint endpoint \<and>
    ue_parse (ov_urls env) (ce_url endpoint) = Some base \<and> ui_protocol base = ''https:'' \<and> ui_username base = [] \<and> ui_password base = [] \<and>
    validateUriSchemeAndIp (ue_fields (ov_urls env)) (ui_href base) = None \<and> oc_url req = ue_build (ov_urls env) (ui_href base) tail ps \<and>
    oc_method req \<in> {''GET'', ''POST''} \<and> (oc_method req = ''GET'' \<longleftrightarrow> oc_bodyText req = None) \<and> input_bytes i \<le> 32768 \<and>
    (\<forall>t \<in> set (texts_in (scanned_input i)). text_allowed (ov_cjk env) (forbidden_set (forbiddenList agent ''inputPolicy'')) t) \<and>
    (\<forall>k \<in> set (keys_in (scanned_input i)). key_allowed (ov_cjk env) (forbidden_set (forbiddenList agent ''inputPolicy'')) k)"
proof -
  obtain me agent matchId where self: "ov_self env = Some me" "resolveOfficialAgent (ov_hub env) me i = Inr (agent, matchId)"
    and prep: "prepareOfficialAgentActionCall (ov_cjk env) (ov_urls env) agent i = Inr req"
    using call_cases [OF assms] by blast
  obtain action endpoint where p: "truthy (get_prop agent ''official'')" "truthy (get_prop agent ''verified'')" "input_bytes i \<le> MAX_INPUT_BYTES"
      "detectSensitiveOfficialAgentInput (ov_cjk env) (scanned_input i) (forbiddenList agent ''inputPolicy'') = []"
    and a: "findAction agent (trim (oi_actionName i)) = Some action" "ac_riskLevel action = ''low''"
      "selectHttpEndpoint agent = Some endpoint" "public_endpoint endpoint" "oc_method req = ac_method action"
      "oc_bodyText req = serializeBody (ac_method action) (oi_body i)"
      "buildActionUrl (ov_urls env) (ce_url endpoint) (ac_path action) (if ac_method action = ''GET'' then oi_query i else None) = Inr (oc_url req)"
    using prepared_cases [OF prep] by auto
  obtain base tail ps where u: "ue_parse (ov_urls env) (ce_url endpoint) = Some base" "ui_protocol base = ''https:''"
      "ui_username base = []" "ui_password base = []" "validateUriSchemeAndIp (ue_fields (ov_urls env)) (ui_href base) = None"
      "oc_url req = ue_build (ov_urls env) (ui_href base) tail ps"
    using built_url [OF a(7)] by blast
  have body: "oc_method req = ''GET'' \<longleftrightarrow> oc_bodyText req = None"
    using a(5,6) by (auto simp: serializeBody_def json_stringify_None coalesce_def nullish_def)
  have clean: "scanValue (ov_cjk env) (forbidden_set (forbiddenList agent ''inputPolicy'')) [] (scanned_input i) = []"
    using p(4) by (simp add: detectSensitiveOfficialAgentInput_def)
  show ?thesis
    by (intro exI [of _ me] exI [of _ agent] exI [of _ matchId] exI [of _ action] exI [of _ endpoint] exI [of _ base] exI [of _ tail] exI [of _ ps] conjI)
      (use self p a(2-4) u found_action [OF a(1)] body clean in \<open>auto simp: scan_Nil(1) a(5) MAX_INPUT_BYTES_def trim_idem\<close>)
qed

text \<open>The answer of an agent is checked only when it is a success: a refusal's body is put into the text and the details of
  the result whatever sensitive data it contains, and a number in any answer is never looked at.\<close>

theorem refusing_agent_leaks_body:
  assumes "ov_self env = Some me" "resolveOfficialAgent (ov_hub env) me i = Inr (agent, matchId)" "\<not> nullish agent"
    and "prepareOfficialAgentActionCall (ov_cjk env) (ov_urls env) agent i = Inr req"
    and "ov_fetch env req = Inr a" "\<not> reply_ok (ha_status a)" "length (ha_body a) \<le> 65536" "ov_json env (ha_body a) = None"
  shows "oo_text (callOfficialAgentAction env i) =
    ''Failed to call official agent: Official agent returned HTTP '' @ show_nat (ha_status a) @ '': '' @ json_string (ha_body a)"
proof -
  have "callOfficialAgentAction env i = finish_call env i agent matchId (num me) req"
    using assms by (simp add: callOfficialAgentAction_def)
  moreover have "readResponse (ov_json env) a = JStr (ha_body a)"
    using assms(7,8) by (simp add: readResponse_def truncateOutput_def MAX_OUTPUT_CHARS_def Let_def)
  ultimately show ?thesis
    using assms(5,6) by (simp add: finish_call_def call_failed_def wire_text_def Let_def)
qed

section \<open>A concrete agent\<close>

definition official_demo :: js where
  "official_demo = JObj [(''official'', JBool True), (''verified'', JBool True), (''name'', JStr ''Bot''),
     (''capabilityManifest'', JObj [(''actions'', JArr [JObj [(''name'', JStr ''Lookup''), (''riskLevel'', JStr ''low''),
        (''endpoint'', JStr ''GET /lookup'')]])]),
     (''connectionDescriptor'', JObj [(''endpoints'', JArr [JObj [(''protocol'', JStr ''https''), (''transport'', JStr ''https''),
        (''url'', JStr ''https://8.8.8.8/api'')]])])]"

definition demo_urls :: url_env where
  "demo_urls = \<lparr>ue_parse = \<lambda>u. Some \<lparr>ui_href = u, ui_protocol = ''https:'', ui_username = [], ui_password = [], ui_pathname = ''/api''\<rparr>,
     ue_build = \<lambda>u p ps. u @ p, ue_fields = \<lambda>u. Some (''https:'', ''8.8.8.8''), ue_bare = Some\<rparr>"

definition demo_call_env :: "http_answer \<Rightarrow> official_env" where
  "demo_call_env a = \<lparr>ov_self = Some 1, ov_hub = \<lambda>_. HttpReply 200 (Inr (JArr [official_demo])), ov_cjk = no_cjk, ov_urls = demo_urls,
     ov_fetch = \<lambda>_. Inr a, ov_json = \<lambda>_. None, ov_duration = 0\<rparr>"

definition demo_input :: official_input where
  "demo_input = \<lparr>oi_agentId = None, oi_clientId = Some ''c'', oi_skills = None, oi_description = None, oi_actionName = '' lookup'',
     oi_body = JUndef, oi_query = None, oi_preferOfficial = None\<rparr>"

lemma demo_resolved: "resolveOfficialAgent (\<lambda>_. HttpReply 200 (Inr (JArr [official_demo]))) 1 demo_input = Inr (official_demo, JUndef)"
  by code_simp

lemma demo_action: "findAction official_demo ''lookup'' =
    Some \<lparr>ac_name = ''Lookup'', ac_riskLevel = ''low'', ac_method = ''GET'', ac_path = ''/lookup''\<rparr>"
  by code_simp

lemma demo_endpoint: "selectHttpEndpoint official_demo =
    Some \<lparr>ce_protocol = ''https'', ce_transport = ''https'', ce_url = ''https://8.8.8.8/api'', ce_auth = None, ce_metadata = JUndef\<rparr>"
  by code_simp

lemma demo_no_findings: "detectSensitiveOfficialAgentInput no_cjk (scanned_input demo_input) (forbiddenList official_demo ''inputPolicy'') = []"
  by code_simp

lemma demo_input_small: "input_bytes demo_input \<le> MAX_INPUT_BYTES"
  by (simp add: input_bytes_def demo_input_def query_js_def coalesce_def wire_text_def json_string_def json_char_def nullish_def utf8_length_def
      MAX_INPUT_BYTES_def)

lemma demo_not_blocked: "validateUriSchemeAndIp (ue_fields demo_urls) u = None"
  by (simp add: validateUriSchemeAndIp_def demo_urls_def) code_simp

lemma demo_agent_there: "\<not> nullish official_demo"
  by (simp add: official_demo_def nullish_def)

lemma demo_prepared: "\<exists>req. prepareOfficialAgentActionCall no_cjk demo_urls official_demo demo_input = Inr req"
proof -
  have marks: "truthy (get_prop official_demo ''official'')" "truthy (get_prop official_demo ''verified'')" "truthy official_demo"
      "trim (oi_actionName demo_input) = ''lookup''"
    by code_simp+
  obtain url where "buildActionUrl demo_urls ''https://8.8.8.8/api'' ''/lookup'' (oi_query demo_input) = Inr url"
    using demo_not_blocked
    by (auto simp: buildActionUrl_def absolute_action_def letter_def demo_urls_def Let_def)
  then show ?thesis
    using marks demo_input_small
    by (simp add: prepareOfficialAgentActionCall_def demo_action demo_endpoint demo_no_findings public_endpoint_def
        summarizeHubAgent_def Let_def)
qed

lemma demo_sent: "\<exists>req. oo_sent (callOfficialAgentAction (demo_call_env a) demo_input) = Some req"
proof -
  obtain req where "prepareOfficialAgentActionCall no_cjk demo_urls official_demo demo_input = Inr req"
    using demo_prepared by blast
  then have "callOfficialAgentAction (demo_call_env a) demo_input = finish_call (demo_call_env a) demo_input official_demo JUndef (num 1) req"
    using demo_resolved by (simp add: callOfficialAgentAction_def demo_call_env_def demo_agent_there)
  then show ?thesis
    by (simp add: finish_call_def demo_call_env_def call_failed_def output_blocked_def call_done_def Let_def)
qed

lemma official_call_guarded_witness:
  "\<exists>a req agent. oo_sent (callOfficialAgentAction (demo_call_env a) demo_input) = Some req \<and> truthy (get_prop agent ''official'') \<and>
     oc_method req \<in> {''GET'', ''POST''} \<and> input_bytes demo_input \<le> 32768"
proof -
  obtain req where "oo_sent (callOfficialAgentAction (demo_call_env \<lparr>ha_status = 200, ha_contentType = [], ha_body = []\<rparr>) demo_input) = Some req"
    using demo_sent by blast
  from this official_call_guarded [OF this] show ?thesis by blast
qed

lemma refusing_agent_leaks_body_witness:
  "oo_text (callOfficialAgentAction (demo_call_env \<lparr>ha_status = 500, ha_contentType = [], ha_body = ''call 13812345678''\<rparr>) demo_input) =
    ''Failed to call official agent: Official agent returned HTTP '' @ show_nat 500 @ '': '' @ json_string ''call 13812345678''"
proof -
  obtain req where "prepareOfficialAgentActionCall no_cjk demo_urls official_demo demo_input = Inr req"
    using demo_prepared by blast
  then show ?thesis
    using demo_resolved refusing_agent_leaks_body [where env = "demo_call_env \<lparr>ha_status = 500, ha_contentType = [], ha_body = ''call 13812345678''\<rparr>"
        and me = 1 and i = demo_input and agent = official_demo and matchId = JUndef and req = req
        and a = "\<lparr>ha_status = 500, ha_contentType = [], ha_body = ''call 13812345678''\<rparr>"]
    by (simp add: demo_call_env_def reply_ok_def demo_agent_there)
qed

end
