(* ===== verification/SendScript.thy ===== *)
theory SendScript
  imports Config
begin

text \<open>
  The command line client \<open>skill/scripts/a2a-send.mjs\<close>: reading the arguments, building the message, sending it,
  and waiting for the task. The A2A client, the file system, the clock and the uuid are parameters; a run is the lines
  printed and the exit code, or nothing when it never ends. The line of a status update joins its parts with a dash
  outside the characters of the model and is kept in parts. A thrown error is the text the last handler prints.
\<close>

section \<open>Arguments\<close>

datatype arg_value = Flag | Given string

type_synonym arg_map = "string \<Rightarrow> arg_value option"

definition is_option :: "string \<Rightarrow> bool" where
  "is_option arg \<longleftrightarrow> starts_with arg ''--''"

definition takes_value :: "string list \<Rightarrow> bool" where
  "takes_value rest = (case rest of [] \<Rightarrow> False | v # _ \<Rightarrow> v \<noteq> [] \<and> \<not> is_option v)"

fun read_args :: "arg_map \<Rightarrow> string list \<Rightarrow> arg_map" where
  "read_args m [] = m"
| "read_args m [arg] = (if is_option arg then m(drop 2 arg \<mapsto> Flag) else m)"
| "read_args m (arg # v # rest) =
     (if \<not> is_option arg then read_args m (v # rest)
      else if takes_value (v # rest) then read_args (m(drop 2 arg \<mapsto> Given v)) rest
      else read_args (m(drop 2 arg \<mapsto> Flag)) (v # rest))"

text \<open>\<open>opts[a] || opts[b]\<close>, and its text; every value read is truthy.\<close>

definition either_arg :: "arg_map \<Rightarrow> string \<Rightarrow> string \<Rightarrow> arg_value option" where
  "either_arg m a b = (case m a of Some v \<Rightarrow> Some v | None \<Rightarrow> m b)"

definition arg_text :: "arg_value option \<Rightarrow> string" where
  "arg_text v = (case v of None \<Rightarrow> [] | Some Flag \<Rightarrow> ''true'' | Some (Given s) \<Rightarrow> s)"

definition arg_number :: "arg_value option \<Rightarrow> rat \<Rightarrow> rat option" where
  "arg_number v fallback = (case v of None \<Rightarrow> Some fallback | Some Flag \<Rightarrow> Some 1 | Some (Given s) \<Rightarrow> js_number s)"

record send_options =
  so_peerUrl :: string
  so_message :: string
  so_fileUri :: string
  so_filePath :: string
  so_token :: string
  so_agentId :: string
  so_taskId :: string
  so_contextId :: string
  so_nonBlocking :: bool
  so_wait :: bool
  so_stream :: bool

text \<open>The options of a run that goes on, or the exit code with which the usage is shown.\<close>

definition parseArgs :: "string list \<Rightarrow> nat + arg_map \<times> send_options" where
  "parseArgs argv =
    (let m = read_args Map.empty argv;
         peerUrl = trim (arg_text (either_arg m ''peer-url'' ''peerUrl''));
         message = trim (arg_text (m ''message''));
         fileUri = trim (arg_text (either_arg m ''file-uri'' ''fileUri''));
         filePath = trim (arg_text (either_arg m ''file-path'' ''filePath''))
     in if either_arg m ''help'' ''h'' \<noteq> None then Inl 0
        else if peerUrl = [] \<or> (message = [] \<and> fileUri = [] \<and> filePath = []) then Inl 1
        else Inr (m, \<lparr>so_peerUrl = peerUrl, so_message = message, so_fileUri = fileUri, so_filePath = filePath,
               so_token = (case m ''token'' of Some (Given t) \<Rightarrow> t | _ \<Rightarrow> []),
               so_agentId = trim (arg_text (either_arg m ''agent-id'' ''agentId'')),
               so_taskId = take 256 (trim (arg_text (either_arg m ''task-id'' ''taskId''))),
               so_contextId = take 256 (trim (arg_text (either_arg m ''context-id'' ''contextId''))),
               so_nonBlocking = (either_arg m ''non-blocking'' ''nonBlocking'' \<noteq> None),
               so_wait = (m ''wait'' \<noteq> None), so_stream = (m ''stream'' \<noteq> None)\<rparr>))"

section \<open>Output\<close>

datatype out_line = Out string | Err string | StatusUpdate js "string option"

definition USAGE :: string where
  "USAGE = ''Usage: node a2a-send.mjs --peer-url <URL> --token <TOKEN> --message <TEXT> [--file-uri <url>] [--file-path <localpath>] [--task-id <id>] [--context-id <id>] [--non-blocking] [--wait] [--stream] [--timeout-ms <ms>] [--poll-ms <ms>] [--agent-id <openclaw-agent-id>] [--help]''"

text \<open>What a run prints and its exit code.\<close>

type_synonym script_end = "out_line list \<times> nat"

definition usageAndExit :: "nat \<Rightarrow> script_end" where
  "usageAndExit code = ([if code = 0 then Out USAGE else Err USAGE], code)"

definition crashed :: "string \<Rightarrow> script_end" where
  "crashed e = ([Err (''Error: '' @ e)], 1)"

definition blanks :: "nat \<Rightarrow> string" where
  "blanks n = replicate (2 * n) (CHR '' '')"

definition bracketed :: "char \<Rightarrow> char \<Rightarrow> nat \<Rightarrow> string list \<Rightarrow> string" where
  "bracketed l r n items = (if items = [] then [l, r]
     else [l] @ newline @ blanks (Suc n) @ join ('','' @ newline @ blanks (Suc n)) items @ newline @ blanks n @ [r])"

text \<open>\<open>JSON.stringify(value, null, 2)\<close> at a nesting depth.\<close>

fun json_pretty :: "nat \<Rightarrow> js \<Rightarrow> string option" where
  "json_pretty n (JArr xs) = Some (bracketed (CHR ''['') (CHR '']'') n (map (\<lambda>x. opt_default ''null'' (json_pretty (Suc n) x)) xs))"
| "json_pretty n (JObj fs) = Some (bracketed (CHR ''{'') (CHR ''}'') n
     (concat (map (\<lambda>(k, v). case json_pretty (Suc n) v of None \<Rightarrow> [] | Some t \<Rightarrow> [json_string k @ '': '' @ t]) fs)))"
| "json_pretty n v = json_stringify v"

definition printed :: "js \<Rightarrow> string" where
  "printed v = opt_default ''undefined'' (json_pretty 0 v)"

definition shown_json :: "js \<Rightarrow> string" where
  "shown_json v = opt_default ''undefined'' (json_stringify v)"

definition is_text_part :: "js \<Rightarrow> bool" where
  "is_text_part p \<longleftrightarrow> get_prop p ''kind'' = JStr ''text'' \<and> is_string (get_prop p ''text'')"

definition extractFirstTextParts :: "js \<Rightarrow> string option" where
  "extractFirstTextParts parts = (case find is_text_part (array_or_empty parts) of
     Some p \<Rightarrow> Some (js_text (get_prop p ''text'')) | None \<Rightarrow> None)"

definition text_or_json :: "js \<Rightarrow> js \<Rightarrow> out_line" where
  "text_or_json parts v = (case extractFirstTextParts parts of
     Some (c # cs) \<Rightarrow> Out (c # cs) | _ \<Rightarrow> Out (printed v))"

definition status_parts :: "js \<Rightarrow> js" where
  "status_parts v = get_prop (get_prop (get_prop v ''status'') ''message'') ''parts''"

definition state_of :: "js \<Rightarrow> js" where
  "state_of v = get_prop (get_prop v ''status'') ''state''"

section \<open>The message\<close>

definition MAX_INLINE_FILE_SIZE :: nat where
  "MAX_INLINE_FILE_SIZE = 10485760"

definition CLI_MIME_MAP :: "(string \<times> string) list" where
  "CLI_MIME_MAP = [(''.jpg'', ''image/jpeg''), (''.jpeg'', ''image/jpeg''), (''.png'', ''image/png''),
     (''.gif'', ''image/gif''), (''.webp'', ''image/webp''), (''.svg'', ''image/svg+xml''),
     (''.pdf'', ''application/pdf''), (''.txt'', ''text/plain''), (''.csv'', ''text/csv''),
     (''.json'', ''application/json''), (''.mp3'', ''audio/mpeg''), (''.wav'', ''audio/wav''),
     (''.mp4'', ''video/mp4''), (''.webm'', ''video/webm''), (''.zip'', ''application/zip'')]"

definition CLI_ALLOWED_MIME_PATTERNS :: "string list" where
  "CLI_ALLOWED_MIME_PATTERNS = [''image/*'', ''application/pdf'', ''text/plain'', ''text/csv'', ''application/json'', ''audio/*'', ''video/*'']"

definition detectMimeFromPath :: "string \<Rightarrow> string" where
  "detectMimeFromPath path = opt_default ''application/octet-stream'' (map_of CLI_MIME_MAP (to_lower (extname path)))"

definition isMimeAllowed :: "string \<Rightarrow> bool" where
  "isMimeAllowed mimeType = list_ex (\<lambda>pattern. to_lower mimeType = pattern \<or>
     (ends_with pattern ''/*'' \<and> starts_with (to_lower mimeType) (butlast pattern))) CLI_ALLOWED_MIME_PATTERNS"

record send_client =
  sl_url :: string
  sl_token :: "string option"
  sl_transports :: "string list"

text \<open>The client's construction (an error text when it fails), the three calls, files (size, then content in base64),
  the uuid, the time the wait begins and the time read after each tasks/get.\<close>

record script_env =
  se_connect :: "send_client \<Rightarrow> string option"
  se_send :: "js \<Rightarrow> string option \<Rightarrow> string + js"
  se_stream :: "js \<Rightarrow> string option \<Rightarrow> js list \<times> string option"
  se_task :: "nat \<Rightarrow> string + js"
  se_size :: "string \<Rightarrow> string + nat"
  se_base64 :: "string \<Rightarrow> string + string"
  se_uuid :: string
  se_started :: rat
  se_clock :: "nat \<Rightarrow> rat"

definition opt_text :: "string \<Rightarrow> string option" where
  "opt_text s = (if s = [] then None else Some s)"

definition client_of :: "send_options \<Rightarrow> send_client" where
  "client_of opts = \<lparr>sl_url = so_peerUrl opts, sl_token = opt_text (so_token opts),
     sl_transports = [''JSONRPC'', ''HTTP+JSON''] @ (if so_agentId opts = [] then [''GRPC''] else [])\<rparr>"

definition base_name :: "string \<Rightarrow> string" where
  "base_name path = (let b = last (split_on (CHR ''/'') path) in if b = [] then ''file'' else b)"

definition file_js :: "(string \<times> js) list \<Rightarrow> js" where
  "file_js fs = JObj [(''kind'', JStr ''file''), (''file'', JObj fs)]"

definition file_parts :: "script_env \<Rightarrow> send_options \<Rightarrow> script_end + js list" where
  "file_parts env opts =
    (let path = so_filePath opts; mimeType = detectMimeFromPath path in
     if path \<noteq> [] then
       (case se_size env path of
          Inl e \<Rightarrow> Inl (crashed e)
        | Inr bytes \<Rightarrow>
            if MAX_INLINE_FILE_SIZE < bytes then
              Inl ([Err (''File too large: '' @ to_fixed1 (of_nat bytes / 1048576) @ ''MB exceeds 10MB limit'')], 2)
            else if \<not> isMimeAllowed mimeType then Inl ([Err (''MIME type not allowed: '' @ mimeType)], 2)
            else (case se_base64 env path of
                    Inl e \<Rightarrow> Inl (crashed e)
                  | Inr b \<Rightarrow> Inr [file_js [(''bytes'', JStr b), (''mimeType'', JStr mimeType), (''name'', JStr (base_name path))]]))
     else if so_fileUri opts \<noteq> [] then Inr [file_js [(''uri'', JStr (so_fileUri opts))]] else Inr [])"

definition member_if :: "string \<Rightarrow> string \<Rightarrow> (string \<times> js) list" where
  "member_if k v = (if v = [] then [] else [(k, JStr v)])"

definition send_params :: "script_env \<Rightarrow> send_options \<Rightarrow> js list \<Rightarrow> js" where
  "send_params env opts parts = JObj ((''message'', JObj ([(''kind'', JStr ''message''), (''messageId'', JStr (se_uuid env)),
       (''role'', JStr ''user''), (''parts'', JArr parts)] @ member_if ''taskId'' (so_taskId opts) @
       member_if ''contextId'' (so_contextId opts) @ member_if ''agentId'' (so_agentId opts))) #
     (if so_nonBlocking opts then [(''configuration'', JObj [(''blocking'', JBool False)])] else []))"

section \<open>Running\<close>

definition event_line :: "js \<Rightarrow> out_line" where
  "event_line event =
    (let kind = get_prop event ''kind''; state = state_of event; words = extractFirstTextParts (status_parts event) in
     if kind = JStr ''task'' then
       (if state = JStr ''working'' then
          (let ts = get_prop (get_prop event ''status'') ''timestamp''
           in Out (''[stream] working... ('' @ (if truthy ts then js_text ts else []) @ '')''))
        else (case words of
                Some (c # cs) \<Rightarrow> Out (''[stream] '' @ js_text state @ '': '' @ c # cs)
              | _ \<Rightarrow> Out (''[stream] '' @ js_text state @ '': '' @ shown_json (get_prop event ''status''))))
     else if kind = JStr ''status-update'' then StatusUpdate state (if words = Some [] then None else words)
     else Out (''[stream] '' @ (if truthy kind then js_text kind else ''unknown'') @ '': '' @ shown_json event))"

definition stream_run :: "script_env \<Rightarrow> js \<Rightarrow> string option \<Rightarrow> script_end" where
  "stream_run env params token =
    (case se_stream env params token of (events, failure) \<Rightarrow>
       (let lines = Out ''[stream] connecting...'' # map event_line events in
        case failure of
          None \<Rightarrow> (lines @ [Out ''[stream] done''], 0)
        | Some e \<Rightarrow> (lines @ fst (crashed e), snd (crashed e))))"

definition task_handle :: "string \<Rightarrow> js \<Rightarrow> out_line list" where
  "task_handle continuation task =
    (let named = (\<lambda>k. case get_prop task k of JStr s \<Rightarrow> Some s | _ \<Rightarrow> None);
         taskId = (case named ''id'' of Some s \<Rightarrow> s | None \<Rightarrow> opt_default [] (named ''taskId''));
         contextId = opt_default continuation (named ''contextId'')
     in if taskId = [] then []
        else [Out (''[task] id='' @ taskId @ '' contextId='' @ (if contextId = [] then ''-'' else contextId))])"

definition immediate :: "send_options \<Rightarrow> js \<Rightarrow> script_end" where
  "immediate opts result =
    (if get_prop result ''kind'' = JStr ''message'' then ([text_or_json (get_prop result ''parts'') result], 0)
     else if get_prop result ''kind'' = JStr ''task'' then
       (task_handle (so_contextId opts) result @ [text_or_json (status_parts result) result], 0)
     else ([Out (printed result)], 0))"

definition final_state :: "js \<Rightarrow> bool" where
  "final_state task \<longleftrightarrow> state_of task \<in> {JStr ''completed'', JStr ''failed'', JStr ''canceled''}"

text \<open>The wait: what is printed, the exit code, and how many times the task was asked for.\<close>

partial_function (option) wait_for_task :: "script_env \<Rightarrow> string \<Rightarrow> rat \<Rightarrow> nat \<Rightarrow> (script_end \<times> nat) option" where
  "wait_for_task env taskId timeoutMs i =
    (case se_task env i of
       Inl e \<Rightarrow> Some (crashed e, Suc i)
     | Inr task \<Rightarrow>
        if final_state task then Some (([text_or_json (status_parts task) task], 0), Suc i)
        else if timeoutMs < se_clock env i - se_started env
        then Some (([Err (''Timeout waiting for task '' @ taskId @ '' after '' @ rat_text timeoutMs @ ''ms''), Out (printed task)], 3), Suc i)
        else wait_for_task env taskId timeoutMs (Suc i))"

definition response_task :: "js \<Rightarrow> string option" where
  "response_task result =
    (case get_prop result (if get_prop result ''kind'' = JStr ''task'' then ''id'' else ''taskId'') of
       JStr s \<Rightarrow> opt_text s | _ \<Rightarrow> None)"

definition waited :: "script_env \<Rightarrow> send_options \<Rightarrow> rat \<Rightarrow> js \<Rightarrow> script_end option" where
  "waited env opts timeoutMs result =
    (case response_task result of
       None \<Rightarrow> Some ([Out (printed result)], 0)
     | Some taskId \<Rightarrow>
        (let shown = (if get_prop result ''kind'' = JStr ''task'' then task_handle (so_contextId opts) result else [])
         in map_option (\<lambda>((lines, code), _). (shown @ lines, code)) (wait_for_task env taskId timeoutMs 0)))"

definition sent_run :: "script_env \<Rightarrow> send_options \<Rightarrow> rat \<Rightarrow> js list \<Rightarrow> script_end option" where
  "sent_run env opts timeoutMs parts =
    (let params = send_params env opts parts; token = opt_text (so_token opts) in
     if so_stream opts then Some (stream_run env params token)
     else (case se_send env params token of
             Inl e \<Rightarrow> Some (crashed e)
           | Inr result \<Rightarrow>
              if \<not> so_nonBlocking opts \<or> \<not> so_wait opts then Some (immediate opts result)
              else waited env opts timeoutMs result))"

definition text_parts :: "send_options \<Rightarrow> js list" where
  "text_parts opts = (if so_message opts = [] then [] else [JObj [(''kind'', JStr ''text''), (''text'', JStr (so_message opts))]])"

definition refuse_number :: "string \<Rightarrow> script_end" where
  "refuse_number name = (Err (''Invalid '' @ name) # fst (usageAndExit 2), 2)"

definition positive :: "rat option \<Rightarrow> bool" where
  "positive n = (case n of None \<Rightarrow> False | Some q \<Rightarrow> 0 < q)"

definition script_main :: "script_env \<Rightarrow> string list \<Rightarrow> script_end option" where
  "script_main env argv =
    (case parseArgs argv of
       Inl code \<Rightarrow> Some (usageAndExit code)
     | Inr (m, opts) \<Rightarrow>
        (let timeoutMs = arg_number (either_arg m ''timeout-ms'' ''timeoutMs'') 600000;
             pollMs = arg_number (either_arg m ''poll-ms'' ''pollMs'') 1000 in
         if \<not> positive timeoutMs then Some (refuse_number ''--timeout-ms'')
         else if \<not> positive pollMs then Some (refuse_number ''--poll-ms'')
         else (case se_connect env (client_of opts) of
                 Some e \<Rightarrow> Some (crashed e)
               | None \<Rightarrow>
                  (case file_parts env opts of
                     Inl stop \<Rightarrow> Some stop
                   | Inr files \<Rightarrow>
                      if text_parts opts @ files = [] then Some ([Err ''No message content to send''], 2)
                      else sent_run env opts (the timeoutMs) (text_parts opts @ files)))))"

section \<open>Arguments as given\<close>

definition dashed :: "string \<Rightarrow> string" where
  "dashed k = ''--'' @ k"

fun render :: "string \<times> arg_value \<Rightarrow> string list" where
  "render (k, Flag) = [dashed k]"
| "render (k, Given v) = [dashed k, v]"

definition well_given :: "string \<times> arg_value \<Rightarrow> bool" where
  "well_given o' \<longleftrightarrow> (case snd o' of Flag \<Rightarrow> True | Given v \<Rightarrow> v \<noteq> [] \<and> \<not> is_option v)"

lemma dashed_key [simp]: "is_option (dashed k)" "drop 2 (dashed k) = k"
  by (simp_all add: dashed_def is_option_def starts_with_def)

lemma read_args_given: "v \<noteq> [] \<Longrightarrow> \<not> is_option v \<Longrightarrow> read_args m (dashed k # v # rest) = read_args (m(k \<mapsto> Given v)) rest"
  by (simp add: takes_value_def)

lemma read_args_flag: "rest = [] \<or> is_option (hd rest) \<Longrightarrow> read_args m (dashed k # rest) = read_args (m(k \<mapsto> Flag)) rest"
  by (cases rest) (simp_all add: takes_value_def)

lemma render_starts: "concat (map render os) = [] \<or> is_option (hd (concat (map render os)))"
proof (cases os)
  case (Cons o' rest)
  then show ?thesis by (cases o'; cases "snd o'") simp_all
qed simp

lemma read_args_render: "list_all well_given os \<Longrightarrow> read_args m (concat (map render os)) = m ++ map_of (rev os)"
proof (induction os arbitrary: m)
  case (Cons o' os)
  obtain k v where o': "o' = (k, v)" by (cases o')
  have "read_args m (concat (map render (o' # os))) = read_args (m(k \<mapsto> v)) (concat (map render os))"
  proof (cases v)
    case Flag
    then show ?thesis using read_args_flag [OF render_starts [of os]] by (simp add: o')
  next
    case (Given s)
    then show ?thesis using Cons.prems by (simp add: o' well_given_def read_args_given del: read_args.simps)
  qed
  also have "\<dots> = m(k \<mapsto> v) ++ map_of (rev os)"
    using Cons by simp
  also have "\<dots> = m ++ map_of (rev (o' # os))"
    by (simp add: o' map_add_def fun_eq_iff split: option.split)
  finally show ?case .
qed simp

text \<open>The command line is read back exactly: a list of options, each a flag or a key with a value that is not empty and does
  not look like an option, yields for every key the value given last.\<close>

theorem arguments_roundtrip:
  assumes "list_all well_given os"
  shows "read_args Map.empty (concat (map render os)) = map_of (rev os)"
  using assms by (simp add: read_args_render)

lemma arguments_roundtrip_witness:
  "read_args Map.empty [''--peer-url'', ''http://p'', ''--wait'', ''--message'', ''hi''] ''message'' = Some (Given ''hi'')"
  using arguments_roundtrip [of "[(''peer-url'', Given ''http://p''), (''wait'', Flag), (''message'', Given ''hi'')]"]
  by (simp add: well_given_def is_option_def starts_with_def dashed_def del: read_args.simps)

lemma parsed_message: "parseArgs argv = Inr (am, opts) \<Longrightarrow> so_message opts = trim (arg_text (read_args Map.empty argv ''message''))"
  by (simp add: parseArgs_def Let_def split: if_split_asm) auto

text \<open>A message that begins with two dashes is not sent: it is read as an option of its own, and the word true is sent.\<close>

theorem dashed_message_sends_true:
  assumes "u \<noteq> []" "\<not> is_option u" "is_option m"
    and "parseArgs [dashed ''peer-url'', u, dashed ''message'', m] = Inr (am, opts)"
  shows "text_parts opts = [JObj [(''kind'', JStr ''text''), (''text'', JStr ''true'')]]"
proof -
  have "read_args Map.empty [dashed ''peer-url'', u, dashed ''message'', m] ''message'' = Some Flag"
    using assms(1-3) by (simp add: read_args_given read_args_flag del: read_args.simps) simp
  then have "so_message opts = trim ''true''"
    using parsed_message [OF assms(4)] by (simp add: arg_text_def)
  also have "\<dots> = ''true''" by code_simp
  finally show ?thesis by (simp add: text_parts_def)
qed

lemma dashed_message_sends_true_witness:
  "\<exists>opts am. parseArgs [dashed ''peer-url'', ''http://p'', dashed ''message'', ''--draft''] = Inr (am, opts) \<and>
    text_parts opts = [JObj [(''kind'', JStr ''text''), (''text'', JStr ''true'')]]"
proof -
  have "case parseArgs [dashed ''peer-url'', ''http://p'', dashed ''message'', ''--draft''] of Inl _ \<Rightarrow> False | Inr _ \<Rightarrow> True"
    by code_simp
  then obtain am opts where "parseArgs [dashed ''peer-url'', ''http://p'', dashed ''message'', ''--draft''] = Inr (am, opts)"
    by (auto split: sum.splits)
  then show ?thesis
    using dashed_message_sends_true [of "''http://p''" "''--draft''" am opts] by (auto simp: is_option_def starts_with_def)
qed

section \<open>Waiting\<close>

lemma wait_step:
  "wait_for_task env taskId timeoutMs i =
    (case se_task env i of
       Inl e \<Rightarrow> Some (crashed e, Suc i)
     | Inr task \<Rightarrow>
        if final_state task then Some (([text_or_json (status_parts task) task], 0), Suc i)
        else if timeoutMs < se_clock env i - se_started env
        then Some (([Err (''Timeout waiting for task '' @ taskId @ '' after '' @ rat_text timeoutMs @ ''ms''), Out (printed task)], 3), Suc i)
        else wait_for_task env taskId timeoutMs (Suc i))"
  by (rule wait_for_task.simps)

lemma clock_advances:
  fixes q :: rat
  assumes "\<And>i. se_clock env i + q \<le> se_clock env (Suc i)" and "se_started env \<le> se_clock env 0"
  shows "se_started env + of_nat i * q \<le> se_clock env i"
proof (induction i)
  case (Suc i)
  then show ?case using assms(1) [of i] by (simp add: algebra_simps)
qed (use assms(2) in simp)

text \<open>The last request decides: its failure, its terminal state, or the time that has passed.\<close>

definition wait_end :: "script_env \<Rightarrow> rat \<Rightarrow> nat \<Rightarrow> nat \<Rightarrow> bool" where
  "wait_end env timeoutMs code j \<longleftrightarrow> (case se_task env j of
     Inl e \<Rightarrow> code = 1
   | Inr task \<Rightarrow> if final_state task then code = 0 else code = 3 \<and> timeoutMs < se_clock env j - se_started env)"

lemma wait_returns:
  assumes "timeoutMs < se_clock env (i + d) - se_started env"
  shows "\<exists>lines code j. i \<le> j \<and> j \<le> i + d \<and> wait_for_task env taskId timeoutMs i = Some ((lines, code), Suc j) \<and> wait_end env timeoutMs code j"
  using assms
proof (induction d arbitrary: i)
  case 0
  then show ?case
    by (subst wait_step) (auto simp: wait_end_def crashed_def split: sum.split)
next
  case (Suc d)
  show ?case
  proof (cases "wait_for_task env taskId timeoutMs i = wait_for_task env taskId timeoutMs (Suc i)")
    case True
    obtain lines code j where "Suc i \<le> j" "j \<le> Suc i + d" "wait_for_task env taskId timeoutMs (Suc i) = Some ((lines, code), Suc j)"
        "wait_end env timeoutMs code j"
      using Suc.IH [of "Suc i"] Suc.prems by auto
    then show ?thesis using True by (intro exI [of _ lines] exI [of _ code] exI [of _ j]) simp
  next
    case False
    then show ?thesis
      using wait_step [of env taskId timeoutMs i]
      by (intro exI [of _ "fst (fst (the (wait_for_task env taskId timeoutMs i)))"]
          exI [of _ "snd (fst (the (wait_for_task env taskId timeoutMs i)))"] exI [of _ i])
        (auto simp: wait_end_def crashed_def split: sum.splits if_splits)
  qed
qed

lemma deadline_passes:
  assumes "0 < q" and "\<And>i. se_clock env i + q \<le> se_clock env (Suc i)" and "se_started env \<le> se_clock env 0" and "0 < timeoutMs"
  shows "timeoutMs < se_clock env (0 + Suc (nat \<lfloor>timeoutMs / q\<rfloor>)) - se_started env"
proof -
  let ?d = "Suc (nat \<lfloor>timeoutMs / q\<rfloor>)"
  have "timeoutMs / q < of_nat ?d"
    using assms(1,4) by (simp add: of_nat_nat) linarith
  then have "timeoutMs < of_nat ?d * q"
    using assms(1) by (simp add: divide_less_eq)
  also have "\<dots> \<le> se_clock env ?d - se_started env"
    using clock_advances [of env q ?d, OF assms(2,3)] by simp
  finally show ?thesis by simp
qed

text \<open>C24. The wait always ends, and its cost is bounded: when successive polls lie at least q milliseconds apart, the task is asked
  for at most timeout / q + 2 times; the exit code is 0 exactly when the last answer was a terminal state the script knows,
  1 when the request failed, and 3 only after the timeout has passed.\<close>

theorem wait_bounded:
  assumes "0 < q" and "\<And>i. se_clock env i + q \<le> se_clock env (Suc i)" and "se_started env \<le> se_clock env 0" and "0 < timeoutMs"
  shows "\<exists>lines code n. wait_for_task env taskId timeoutMs 0 = Some ((lines, code), Suc n) \<and>
    of_nat (Suc n) \<le> timeoutMs / q + 2 \<and> wait_end env timeoutMs code n"
proof -
  define d where "d = Suc (nat \<lfloor>timeoutMs / q\<rfloor>)"
  have "timeoutMs < se_clock env (0 + d) - se_started env"
    unfolding d_def by (rule deadline_passes [OF assms])
  from wait_returns [OF this, of taskId] obtain lines code j where j: "j \<le> d"
      "wait_for_task env taskId timeoutMs 0 = Some ((lines, code), Suc j)" "wait_end env timeoutMs code j"
    by (auto simp: d_def)
  have "of_nat d \<le> timeoutMs / q + 1"
    unfolding d_def using assms(1,4) by (simp add: of_nat_nat)
  moreover have "of_nat (Suc j) \<le> (of_nat (Suc d) :: rat)"
    using j(1) by (simp only: of_nat_le_iff Suc_le_mono)
  ultimately have "of_nat (Suc j) \<le> timeoutMs / q + 2"
    by simp
  with j show ?thesis by blast
qed

definition slow_env :: "(nat \<Rightarrow> string + js) \<Rightarrow> script_env" where
  "slow_env tasks = \<lparr>se_connect = \<lambda>_. None, se_send = \<lambda>_ _. Inr (JObj [(''kind'', JStr ''task''), (''id'', JStr ''t-1'')]),
     se_stream = \<lambda>_ _. ([], None), se_task = tasks, se_size = \<lambda>_. Inl ''ENOENT'', se_base64 = \<lambda>_. Inl ''ENOENT'', se_uuid = ''u-1'',
     se_started = 0, se_clock = \<lambda>i. of_nat i * 1000\<rparr>"

definition task_in :: "string \<Rightarrow> js" where
  "task_in state = JObj [(''kind'', JStr ''task''), (''id'', JStr ''t-1''), (''status'', JObj [(''state'', JStr state)])]"

lemma wait_bounded_witness:
  "\<exists>lines code n. wait_for_task (slow_env (\<lambda>_. Inr (task_in ''working''))) ''t-1'' 5000 0 = Some ((lines, code), Suc n) \<and>
    of_nat (Suc n) \<le> (7 :: rat)"
  using wait_bounded [of "1000 :: rat" "slow_env (\<lambda>_. Inr (task_in ''working''))" 5000 "''t-1''"]
  by (force simp: slow_env_def algebra_simps)

text \<open>A task the peer has rejected, as a gateway with a full queue does, is not a state the script knows as final: it asks for
  the task until the timeout has passed and then reports a timeout, exit code 3.\<close>

theorem rejected_task_times_out:
  assumes "0 < q" "\<And>i. se_clock env i + q \<le> se_clock env (Suc i)" "se_started env \<le> se_clock env 0" "0 < timeoutMs"
    and "\<And>i. \<exists>task. se_task env i = Inr task \<and> state_of task = JStr ''rejected''"
  shows "\<exists>lines n. wait_for_task env taskId timeoutMs 0 = Some ((lines, 3), Suc n) \<and> timeoutMs < se_clock env n - se_started env"
proof -
  define d where "d = Suc (nat \<lfloor>timeoutMs / q\<rfloor>)"
  have "timeoutMs < se_clock env (0 + d) - se_started env"
    unfolding d_def by (rule deadline_passes [OF assms(1-4)])
  from wait_returns [OF this, of taskId] obtain lines code j where
      "wait_for_task env taskId timeoutMs 0 = Some ((lines, code), Suc j)" "wait_end env timeoutMs code j"
    by (auto simp: d_def)
  moreover obtain task where "se_task env j = Inr task" "state_of task = JStr ''rejected''"
    using assms(5) by blast
  ultimately show ?thesis
    by (auto simp: wait_end_def final_state_def)
qed

lemma rejected_task_times_out_witness:
  "\<exists>lines n. wait_for_task (slow_env (\<lambda>_. Inr (task_in ''rejected''))) ''t-1'' 5000 0 = Some ((lines, 3), Suc n)"
  using rejected_task_times_out [of "1000 :: rat" "slow_env (\<lambda>_. Inr (task_in ''rejected''))" 5000 "''t-1''"]
  by (force simp: slow_env_def algebra_simps task_in_def state_of_def)

lemma wait_end_code: "wait_end env timeoutMs code j \<Longrightarrow> code \<le> 3"
  by (auto simp: wait_end_def split: sum.splits if_splits)

lemma waited_ends:
  assumes "0 < q" "\<And>i. se_clock env i + q \<le> se_clock env (Suc i)" "se_started env \<le> se_clock env 0" "0 < t"
  shows "\<exists>lines code. waited env opts t result = Some (lines, code) \<and> code \<le> 3"
proof (cases "response_task result")
  case None
  then show ?thesis by (simp add: waited_def)
next
  case (Some taskId)
  obtain lines code j where "wait_for_task env taskId t 0 = Some ((lines, code), Suc j)" "wait_end env t code j"
    using wait_returns [OF deadline_passes [OF assms], of taskId] by auto
  then show ?thesis using Some wait_end_code by (auto simp: waited_def Let_def)
qed

lemma sent_run_ends:
  assumes "0 < q" "\<And>i. se_clock env i + q \<le> se_clock env (Suc i)" "se_started env \<le> se_clock env 0" "0 < t"
  shows "\<exists>lines code. sent_run env opts t parts = Some (lines, code) \<and> code \<le> 3 \<and>
    (code = 3 \<longrightarrow> so_nonBlocking opts \<and> so_wait opts \<and> \<not> so_stream opts)"
proof -
  have streamed: "snd (stream_run env params token) \<le> 1" for params token
    by (auto simp: stream_run_def crashed_def Let_def split: prod.split option.split)
  have answered: "snd (immediate opts result) = 0" for result
    by (simp add: immediate_def)
  show ?thesis
  proof (cases "\<not> so_stream opts \<and> so_nonBlocking opts \<and> so_wait opts")
    case True
    then show ?thesis
      using waited_ends [OF assms, of opts] by (auto simp: sent_run_def Let_def crashed_def split: sum.split)
  next
    case False
    then show ?thesis
      using streamed [of "send_params env opts parts" "opt_text (so_token opts)"] answered
      by (auto simp: sent_run_def Let_def crashed_def prod_eq_iff split: sum.split)
  qed
qed

lemma file_parts_code: "file_parts env opts = Inl (lines, code) \<Longrightarrow> code \<le> 2"
  by (auto simp: file_parts_def crashed_def Let_def split: if_splits sum.splits)

text \<open>Every run of the script ends, whatever arguments it is given and however the peer answers, with an exit code of at most 3;
  code 3, the timeout, is only reached by a run that does not stream and was asked not to block and to wait.\<close>

theorem script_ends:
  assumes "0 < q" and "\<And>i. se_clock env i + q \<le> se_clock env (Suc i)" and "se_started env \<le> se_clock env 0"
  shows "\<exists>lines code. script_main env argv = Some (lines, code) \<and> code \<le> 3 \<and>
    (code = 3 \<longrightarrow> (\<exists>m opts. parseArgs argv = Inr (m, opts) \<and> so_nonBlocking opts \<and> so_wait opts \<and> \<not> so_stream opts))"
proof (cases "parseArgs argv")
  case (Inl code)
  then show ?thesis
    by (auto simp: script_main_def usageAndExit_def parseArgs_def Let_def split: if_splits)
next
  case (Inr r)
  obtain m opts where r: "parseArgs argv = Inr (m, opts)" using Inr by (cases r) auto
  define t where "t = arg_number (either_arg m ''timeout-ms'' ''timeoutMs'') 600000"
  show ?thesis
  proof (cases "positive t")
    case True
    then have "0 < the t" by (auto simp: positive_def split: option.splits)
    note sent = sent_run_ends [OF assms this, of opts]
    show ?thesis
      using True r sent file_parts_code [of env opts]
      by (auto simp: script_main_def refuse_number_def crashed_def Let_def simp flip: t_def split: option.split sum.split)
  next
    case False
    then show ?thesis by (simp add: script_main_def r refuse_number_def Let_def flip: t_def)
  qed
qed

lemma script_ends_witness:
  "\<exists>lines code. script_main (slow_env (\<lambda>_. Inr (task_in ''working'')))
      [''--peer-url'', ''http://p'', ''--message'', ''hi'', ''--non-blocking'', ''--wait''] = Some (lines, code) \<and> code \<le> 3"
  using script_ends [of "1000 :: rat" "slow_env (\<lambda>_. Inr (task_in ''working''))"
      "[''--peer-url'', ''http://p'', ''--message'', ''hi'', ''--non-blocking'', ''--wait'']"]
  by (force simp: slow_env_def algebra_simps)

end
