(* ===== verification/OutboxRelay.thy ===== *)
theory OutboxRelay
  imports Outbox
begin

text \<open>
  \<open>src/internal/outbox.ts\<close>: the relay between its awaits. A timer callback of \<open>startRelay\<close> runs without interruption up to
  its first \<open>await sendFn(entry)\<close>, and from each settled send to the next; in between, other callbacks of the timer and calls of
  \<open>enqueue\<close>, \<open>remove\<close>, \<open>cleanup\<close>, \<open>startRelay\<close> and \<open>stopRelay\<close> take their turn. A state holds the outbox, the rest of the
  pending list of the running flush and the entry being sent; three histories record the sends begun, the entries accepted
  and the ids handed out. The calls of \<open>markSent\<close> and \<open>markFailed\<close> are the relay's own.
\<close>

section \<open>The steps of the relay\<close>

record relay_state =
  rs_box :: outbox
  rs_queue :: "string list"
  rs_sending :: "string option"
  rs_calls :: "string list"
  rs_accepted :: "string list"
  rs_ids :: "string list"

definition new_relay :: "outbox_config \<Rightarrow> relay_state" where
  "new_relay cfg = \<lparr>rs_box = \<lparr>ob_store = [], ob_timer = False, isFlushing = False, ob_config = cfg\<rparr>,
     rs_queue = [], rs_sending = None, rs_calls = [], rs_accepted = [], rs_ids = []\<rparr>"

text \<open>The head of the loop: the next entry is marked and handed to \<open>sendFn\<close>, or the loop ends in the \<open>finally\<close>.\<close>

definition next_entry :: "relay_state \<Rightarrow> relay_state" where
  "next_entry s =
    (case rs_queue s of [] \<Rightarrow> s\<lparr>rs_sending := None, rs_box := (rs_box s)\<lparr>isFlushing := False\<rparr>\<rparr>
     | i # ids \<Rightarrow> s\<lparr>rs_queue := ids, rs_sending := Some i, rs_calls := i # rs_calls s, rs_box := markSending i (rs_box s)\<rparr>)"

definition tick_begins :: "rat \<Rightarrow> relay_state \<Rightarrow> relay_state" where
  "tick_begins now s =
    (if isFlushing (rs_box s) then s
     else next_entry (s\<lparr>rs_queue := map fst (getPending now (rs_box s)), rs_box := (rs_box s)\<lparr>isFlushing := True\<rparr>\<rparr>))"

definition record_outcome :: "string \<Rightarrow> send_outcome \<Rightarrow> rat \<Rightarrow> rat \<Rightarrow> outbox \<Rightarrow> outbox" where
  "record_outcome i r now random ob =
    (case r of Resolved ok \<Rightarrow> if ok then markSent i ob else markFailed now random i ''sendFn returned false'' ob
     | Threw msg \<Rightarrow> markFailed now random i msg ob)"

definition send_settles :: "send_outcome \<Rightarrow> rat \<Rightarrow> rat \<Rightarrow> string \<Rightarrow> relay_state \<Rightarrow> relay_state" where
  "send_settles r now random i s =
    next_entry (s\<lparr>rs_box := record_outcome i r now random (rs_box s),
      rs_accepted := (if r = Resolved True then i # rs_accepted s else rs_accepted s)\<rparr>)"

text \<open>What can happen. \<open>relay_turn\<close> is \<^const>\<open>None\<close> for an event that cannot: a tick without a timer, a settled send where none
  runs, or an id that was handed out before (\<open>crypto.randomUUID\<close> never repeats one).\<close>

datatype relay_event = Tick rat | Settled send_outcome rat rat | Enqueued rat string js | Removed string | CleanedUp rat rat
  | Started | Stopped

fun relay_turn :: "relay_event \<Rightarrow> relay_state \<Rightarrow> relay_state option" where
  "relay_turn (Tick now) s = (if ob_timer (rs_box s) then Some (tick_begins now s) else None)"
| "relay_turn (Settled r now random) s = map_option (\<lambda>i. send_settles r now random i s) (rs_sending s)"
| "relay_turn (Enqueued now uuid payload) s =
    (if uuid \<in> set (rs_ids s) then None
     else Some (s\<lparr>rs_box := fst (enqueue now uuid payload (rs_box s)), rs_ids := uuid # rs_ids s\<rparr>))"
| "relay_turn (Removed i) s = Some (s\<lparr>rs_box := outbox_remove i (rs_box s)\<rparr>)"
| "relay_turn (CleanedUp now maxAgeMs) s = Some (s\<lparr>rs_box := outbox_cleanup now maxAgeMs (rs_box s)\<rparr>)"
| "relay_turn Started s = Some (s\<lparr>rs_box := startRelay (rs_box s)\<rparr>)"
| "relay_turn Stopped s = Some (s\<lparr>rs_box := stopRelay (rs_box s)\<rparr>)"

inductive relay_reachable :: "outbox_config \<Rightarrow> relay_state \<Rightarrow> bool" for cfg where
  relay_init: "relay_reachable cfg (new_relay cfg)"
| relay_step: "relay_reachable cfg s \<Longrightarrow> relay_turn e s = Some s' \<Longrightarrow> relay_reachable cfg s'"

fun relay_events :: "relay_event list \<Rightarrow> relay_state \<Rightarrow> relay_state option" where
  "relay_events [] s = Some s"
| "relay_events (e # es) s = Option.bind (relay_turn e s) (relay_events es)"

lemma relay_events_reachable:
  "relay_reachable cfg s \<Longrightarrow> relay_events es s = Some s' \<Longrightarrow> relay_reachable cfg s'"
  by (induction es arbitrary: s) (auto split: bind_splits intro: relay_step)

section \<open>The invariant of the run\<close>

text \<open>How the state of a stored entry, the flush and the histories fit together. A removed entry leaves the store only; it may
  still be queued or in flight.\<close>

definition begun :: "outbox_entry \<Rightarrow> nat" where
  "begun e = retry_count e + (if oe_status e = Sending \<or> oe_status e = Sent then 1 else 0)"

definition entry_fits :: "relay_state \<Rightarrow> string \<Rightarrow> outbox_entry \<Rightarrow> bool" where
  "entry_fits s i e \<longleftrightarrow> (oe_status e = Sending \<longleftrightarrow> rs_sending s = Some i) \<and> (oe_status e = Sent \<longleftrightarrow> i \<in> set (rs_accepted s)) \<and>
     (i \<in> set (rs_queue s) \<longrightarrow> oe_status e = Pending) \<and>
     count_list (rs_calls s) i = begun e"

definition attempts :: "outbox_config \<Rightarrow> nat" where
  "attempts cfg = max 1 (maxRetries cfg)"

definition loop_inv :: "outbox_config \<Rightarrow> relay_state \<Rightarrow> bool" where
  "loop_inv cfg s \<longleftrightarrow> outbox_inv (rs_box s) \<and> ob_config (rs_box s) = cfg \<and>
     distinct (rs_queue s @ rs_accepted s) \<and> (\<forall>i. rs_sending s = Some i \<longrightarrow> i \<notin> set (rs_queue s) \<union> set (rs_accepted s)) \<and>
     set (rs_calls s) \<union> set (rs_queue s) \<subseteq> set (rs_ids s) \<and> set (rs_accepted s) \<union> set_option (rs_sending s) \<subseteq> set (rs_calls s) \<and>
     (\<forall>i e. map_of (ob_store (rs_box s)) i = Some e \<longrightarrow> i \<in> set (rs_ids s) \<and> entry_fits s i e) \<and>
     (\<forall>i. count_list (rs_calls s) i \<le> attempts cfg) \<and> (\<forall>i \<in> set (rs_queue s). count_list (rs_calls s) i < attempts cfg)"

definition relay_inv :: "outbox_config \<Rightarrow> relay_state \<Rightarrow> bool" where
  "relay_inv cfg s \<longleftrightarrow> loop_inv cfg s \<and> (isFlushing (rs_box s) \<longleftrightarrow> rs_sending s \<noteq> None) \<and>
     (rs_sending s = None \<longrightarrow> rs_queue s = [])"

lemma begun_update [simp]:
  "begun (e\<lparr>oe_status := st\<rparr>) = retry_count e + (if st = Sending \<or> st = Sent then 1 else 0)"
  "begun (e\<lparr>retry_count := n, last_error := err, oe_status := st\<rparr>) = n + (if st = Sending \<or> st = Sent then 1 else 0)"
  "begun (e\<lparr>retry_count := n, last_error := err, oe_status := st, next_retry_at := t\<rparr>) =
    n + (if st = Sending \<or> st = Sent then 1 else 0)"
  "begun (e\<lparr>oe_status := st, retry_count := n, last_error := err\<rparr>) = n + (if st = Sending \<or> st = Sent then 1 else 0)"
  "begun (e\<lparr>oe_status := st, retry_count := n, next_retry_at := t, last_error := err\<rparr>) =
    n + (if st = Sending \<or> st = Sent then 1 else 0)"
  by (simp_all add: begun_def)

lemma begun_pending: "oe_status e = Pending \<Longrightarrow> begun e = retry_count e"
  by (simp add: begun_def)

lemma flags_set_status [simp]:
  "isFlushing (set_status st i ob) = isFlushing ob" "isFlushing (markFailed now random i err ob) = isFlushing ob"
  by (simp_all add: set_status_def markFailed_def Let_def split: option.split)

lemma next_entry_inv:
  assumes "loop_inv cfg s" "rs_sending s = None" "isFlushing (rs_box s)"
  shows "relay_inv cfg (next_entry s)"
proof (cases "rs_queue s")
  case Nil
  with assms show ?thesis
    by (auto simp: relay_inv_def next_entry_def loop_inv_def entry_fits_def)
next
  case (Cons i ids)
  have pending: "oe_status e = Pending \<and> count_list (rs_calls s) i = retry_count e" if "map_of (ob_store (rs_box s)) i = Some e" for e
    using assms(1) Cons that by (fastforce simp: loop_inv_def entry_fits_def begun_def)
  then have "outbox_inv (markSending i (rs_box s))"
    using assms(1) by (intro markSending_inv) (auto simp: loop_inv_def)
  then show ?thesis
    using assms Cons pending
    by (auto simp: relay_inv_def next_entry_def loop_inv_def entry_fits_def markSending_def lookup_set_status Suc_le_eq split: if_splits)
qed

lemma outbox_inv_lookup_attempts:
  "outbox_inv ob \<Longrightarrow> map_of (ob_store ob) i = Some e \<Longrightarrow> oe_status e = Pending \<Longrightarrow> retry_count e < attempts (ob_config ob)"
  using outbox_inv_lookup [of ob i e] by (auto simp: entry_ok_def attempts_def)

lemma settled_loop_inv:
  assumes "loop_inv cfg s" "rs_sending s = Some i"
  shows "loop_inv cfg (s\<lparr>rs_box := record_outcome i r now random (rs_box s),
    rs_accepted := (if r = Resolved True then i # rs_accepted s else rs_accepted s), rs_sending := None\<rparr>)"
proof -
  have sending: "oe_status e = Sending \<and> count_list (rs_calls s) i = Suc (retry_count e)"
    if "map_of (ob_store (rs_box s)) i = Some e" for e
    using assms that by (fastforce simp: loop_inv_def entry_fits_def begun_def)
  have inv: "outbox_inv (markSent i (rs_box s))"
    using assms sending by (intro markSent_inv) (auto simp: loop_inv_def)
  show ?thesis
  proof (cases "r = Resolved True")
    case True
    then show ?thesis
      using assms sending inv
      by (auto simp: loop_inv_def entry_fits_def record_outcome_def markSent_def lookup_set_status split: if_splits)
  next
    case False
    then obtain err where "record_outcome i r now random (rs_box s) = markFailed now random i err (rs_box s)"
      by (cases r) (auto simp: record_outcome_def)
    then show ?thesis
      using assms sending False markFailed_inv [of "rs_box s" now random]
      by (auto simp: loop_inv_def entry_fits_def markFailed_def Let_def amap.get_put split: option.split_asm if_splits)
  qed
qed

lemma tick_loop_inv:
  assumes "relay_inv cfg s" "\<not> isFlushing (rs_box s)"
  shows "loop_inv cfg (s\<lparr>rs_queue := map fst (getPending now (rs_box s)), rs_box := (rs_box s)\<lparr>isFlushing := True\<rparr>\<rparr>)"
proof -
  let ?due = "fst ` set (getPending now (rs_box s))"
  have loop: "loop_inv cfg s" "rs_sending s = None" "rs_queue s = []" and inv: "outbox_inv (rs_box s)"
    using assms by (auto simp: relay_inv_def loop_inv_def)
  have due: "\<exists>e. map_of (ob_store (rs_box s)) i = Some e \<and> oe_status e = Pending" if "i \<in> ?due" for i
    using that inv by (force simp: getPending_def outbox_inv_def)
  have "i \<in> set (rs_ids s) \<and> i \<notin> set (rs_accepted s) \<and> count_list (rs_calls s) i < attempts cfg" if i: "i \<in> ?due" for i
  proof -
    obtain e where e: "map_of (ob_store (rs_box s)) i = Some e" "oe_status e = Pending"
      using due [OF i] by blast
    have "retry_count e < attempts cfg"
      using outbox_inv_lookup_attempts [OF inv e] loop(1) by (simp add: loop_inv_def)
    moreover have "i \<in> set (rs_ids s)" "entry_fits s i e"
      using loop(1) e(1) by (simp_all add: loop_inv_def)
    ultimately show ?thesis
      using e(2) by (simp add: entry_fits_def begun_def)
  qed
  moreover have "map_of (ob_store (rs_box s)) i = Some e \<Longrightarrow> oe_status e = Pending" if "i \<in> ?due" for i e
    using due [OF that] by auto
  ultimately show ?thesis
    using loop getPending_ids(1) [OF inv, of now] by (auto simp: loop_inv_def entry_fits_def)
qed

text \<open>An outbox with fewer entries and other flags keeps the invariant of the loop.\<close>

lemma loop_inv_box:
  assumes "loop_inv cfg s" "outbox_inv ob" "ob_config ob = cfg"
    and "\<And>i e. map_of (ob_store ob) i = Some e \<Longrightarrow> map_of (ob_store (rs_box s)) i = Some e"
  shows "loop_inv cfg (s\<lparr>rs_box := ob\<rparr>)"
  using assms(1-3) by (auto simp: loop_inv_def entry_fits_def dest: assms(4))

lemma relay_inv_box:
  assumes "relay_inv cfg s" "outbox_inv ob" "ob_config ob = cfg" "isFlushing ob = isFlushing (rs_box s)"
    and "\<And>i e. map_of (ob_store ob) i = Some e \<Longrightarrow> map_of (ob_store (rs_box s)) i = Some e"
  shows "relay_inv cfg (s\<lparr>rs_box := ob\<rparr>)"
  using assms(1,4) loop_inv_box [OF _ assms(2,3,5)] by (simp add: relay_inv_def)

lemma relay_inv_facts:
  "relay_inv cfg s \<Longrightarrow> outbox_inv (rs_box s)" "relay_inv cfg s \<Longrightarrow> ob_config (rs_box s) = cfg"
  "relay_inv cfg s \<Longrightarrow> keys_distinct (ob_store (rs_box s))"
  by (simp_all add: relay_inv_def loop_inv_def) (simp add: outbox_inv_def)

lemma outbox_inv_timer: "outbox_inv (ob\<lparr>ob_timer := b\<rparr>) = outbox_inv ob"
  by (simp add: outbox_inv_def)

lemma enqueued_inv:
  assumes "relay_inv cfg s" "uuid \<notin> set (rs_ids s)"
  shows "relay_inv cfg (s\<lparr>rs_box := fst (enqueue now uuid payload (rs_box s)), rs_ids := uuid # rs_ids s\<rparr>)"
proof -
  have "uuid \<notin> set (rs_calls s) \<union> set (rs_queue s) \<union> set (rs_accepted s) \<union> set_option (rs_sending s)"
    using assms by (auto simp: relay_inv_def loop_inv_def)
  moreover from this have "count_list (rs_calls s) uuid = 0"
    by simp
  ultimately show ?thesis
    using assms enqueue_inv [of "rs_box s" now uuid payload]
    by (auto simp: relay_inv_def loop_inv_def entry_fits_def enqueue_def amap.get_put begun_pending)
qed

lemma relay_turn_inv:
  assumes "relay_inv cfg s" "relay_turn e s = Some s'"
  shows "relay_inv cfg s'"
proof (cases e)
  case (Tick now)
  with assms have "s' = tick_begins now s"
    by (simp split: if_splits)
  with assms(1) tick_loop_inv [OF assms(1), of now] show ?thesis
    by (cases "isFlushing (rs_box s)") (simp_all add: tick_begins_def next_entry_inv relay_inv_def [of cfg s])
next
  case (Settled r now random)
  with assms obtain i where i: "rs_sending s = Some i" "s' = send_settles r now random i s"
    by auto
  have "send_settles r now random i s = next_entry (s\<lparr>rs_box := record_outcome i r now random (rs_box s),
    rs_accepted := (if r = Resolved True then i # rs_accepted s else rs_accepted s), rs_sending := None\<rparr>)"
    by (simp add: send_settles_def next_entry_def split: list.split)
  moreover have "isFlushing (record_outcome i r now random (rs_box s))"
    using assms(1) i(1) by (simp add: relay_inv_def record_outcome_def markSent_def split: send_outcome.split)
  ultimately show ?thesis
    using assms(1) i settled_loop_inv [of cfg s i r now random] by (simp add: relay_inv_def [of cfg s] next_entry_inv)
next
  case (Enqueued now uuid payload)
  with assms show ?thesis
    by (auto simp: enqueued_inv split: if_splits)
next
  case (Removed i)
  with assms relay_inv_facts [OF assms(1)] outbox_remove_inv [of "rs_box s" i] show ?thesis
    by (auto simp: outbox_remove_def amap.get_del split: if_splits intro!: relay_inv_box)
next
  case (CleanedUp now age)
  with assms relay_inv_facts [OF assms(1)] outbox_cleanup_inv [of "rs_box s" now age] show ?thesis
    by (auto simp: outbox_cleanup_def Let_def map_of_filter_distinct split: option.splits if_splits intro!: relay_inv_box)
next
  case Started
  with assms relay_inv_facts [OF assms(1)] show ?thesis
    by (cases "ob_timer (rs_box s)") (auto simp: startRelay_def outbox_inv_timer intro!: relay_inv_box)
next
  case Stopped
  with assms relay_inv_facts [OF assms(1)] show ?thesis
    by (auto simp: stopRelay_def outbox_inv_timer intro!: relay_inv_box)
qed

lemma new_relay_inv: "relay_inv cfg (new_relay cfg)"
  by (simp add: new_relay_def relay_inv_def loop_inv_def outbox_inv_def)

lemma relay_reachable_inv: "relay_reachable cfg s \<Longrightarrow> relay_inv cfg s"
  by (induction rule: relay_reachable.induct) (rule new_relay_inv, rule relay_turn_inv)

section \<open>A concrete run\<close>

definition demo_config :: outbox_config where
  "demo_config = \<lparr>pollIntervalMs = 100, maxRetries = 2, baseDelayMs = 10, maxDelayMs = 50\<rparr>"

definition demo_start :: "relay_event list" where
  "demo_start = [Started, Enqueued 0 ''a'' JNull, Tick 1]"

definition demo_events :: "relay_event list" where
  "demo_events = demo_start @ [Tick 2, Settled (Resolved False) 3 0, Tick 50, Stopped, Started, Tick 60,
     Settled (Resolved True) 70 0, Tick 80]"

section \<open>A flush without interruption is one tick\<close>

lemma relay_entry_outcome: "relay_entry i (r, now, random) ob = record_outcome i r now random (markSending i ob)"
  by (cases r) (auto simp: record_outcome_def elim: bool.exhaust split: bool.splits)

lemma flush_runs_loop:
  "length os = length ids \<Longrightarrow>
   \<exists>s'. relay_events (map (\<lambda>(r, now, random). Settled r now random) os) (next_entry (s\<lparr>rs_queue := ids, rs_box := ob\<rparr>)) = Some s' \<and>
     rs_box s' = (relay_loop ids os ob)\<lparr>isFlushing := False\<rparr> \<and> rs_queue s' = [] \<and> rs_sending s' = None"
proof (induction os arbitrary: ids s ob)
  case Nil
  then show ?case by (simp add: next_entry_def)
next
  case (Cons x os)
  obtain r now random where x: "x = (r, now, random)" by (cases x)
  obtain i rest where ids: "ids = i # rest" using Cons.prems by (cases ids) auto
  let ?s = "next_entry (s\<lparr>rs_queue := ids, rs_box := ob\<rparr>)"
  define t where "t = ?s\<lparr>rs_accepted := (if r = Resolved True then i # rs_accepted s else rs_accepted s)\<rparr>"
  have "relay_turn (Settled r now random) ?s = Some (next_entry (t\<lparr>rs_queue := rest, rs_box := relay_entry i x ob\<rparr>))"
    by (simp add: t_def x ids next_entry_def send_settles_def relay_entry_outcome split: list.split)
  then show ?case
    using Cons.IH [of rest "relay_entry i x ob" t] Cons.prems by (simp add: ids x del: relay_entry.simps relay_turn.simps)
qed

text \<open>A flush that nothing interrupts is one tick. When the sends settle one after another, with nothing between, the steps of the
  relay leave the outbox exactly as the relay tick of \<open>Outbox\<close> does, and the relay idle.\<close>

theorem uninterrupted_flush_is_tick:
  assumes "ob_timer (rs_box s)" "\<not> isFlushing (rs_box s)" "length os = length (getPending now (rs_box s))"
  shows "\<exists>s'. relay_events (Tick now # map (\<lambda>(r, t, random). Settled r t random) os) s = Some s' \<and>
    rs_box s' = relay_tick now os (rs_box s) \<and> rs_queue s' = [] \<and> rs_sending s' = None"
  using assms flush_runs_loop [of os "map fst (getPending now (rs_box s))" "(rs_box s)\<lparr>isFlushing := True\<rparr>" s]
  by (simp add: tick_begins_def relay_tick_def)

section \<open>What the relay promises\<close>

text \<open>C5. The relay delivers each message at most once and tries it boundedly often. However ticks, settling sends and calls of
  the outbox interleave, the sends of an id never exceed \<open>max 1 maxRetries\<close>, at most one entry is being sent, and an
  accepted entry is never in flight or queued again: its state is \<open>sent\<close> for as long as it is stored.\<close>

theorem relay_delivers_once:
  assumes "relay_reachable cfg s"
  shows "distinct (rs_accepted s) \<and> (\<forall>i. count_list (rs_calls s) i \<le> max 1 (maxRetries cfg)) \<and>
    (\<forall>i \<in> set (rs_accepted s). rs_sending s \<noteq> Some i \<and> i \<notin> set (rs_queue s)) \<and>
    (\<forall>i e. map_of (ob_store (rs_box s)) i = Some e \<longrightarrow>
      (oe_status e = Sending \<longleftrightarrow> rs_sending s = Some i) \<and> (oe_status e = Sent \<longleftrightarrow> i \<in> set (rs_accepted s)))"
  using relay_reachable_inv [OF assms] by (auto simp: relay_inv_def loop_inv_def entry_fits_def attempts_def)

lemma relay_delivers_once_witness:
  "\<exists>s. relay_events demo_events (new_relay demo_config) = Some s \<and> rs_accepted s = [''a''] \<and> rs_sending s \<noteq> Some ''a'' \<and>
    count_list (rs_calls s) ''a'' \<le> 2"
proof -
  have "map_option rs_accepted (relay_events demo_events (new_relay demo_config)) = Some [''a'']"
    by code_simp
  then obtain s where s: "relay_events demo_events (new_relay demo_config) = Some s" "rs_accepted s = [''a'']"
    by auto
  moreover have "max 1 (maxRetries demo_config) = 2"
    by (simp add: demo_config_def)
  ultimately show ?thesis
    using relay_delivers_once [OF relay_events_reachable [OF relay_init s(1)]] by auto
qed

text \<open>C40. A send that never settles ends all delivery. While the promise of \<open>sendFn\<close> is open, no tick sends anything, whatever else
  is called, stopping and starting the relay included: the flag \<open>isFlushing\<close> is cleared only when the send settles.\<close>

theorem unsettled_send_blocks_relay:
  assumes "relay_reachable cfg s" "rs_sending s = Some i" "relay_events es s = Some s'" "\<forall>r now random. Settled r now random \<notin> set es"
  shows "rs_sending s' = Some i \<and> rs_calls s' = rs_calls s \<and> isFlushing (rs_box s')"
  using assms
proof (induction es arbitrary: s)
  case Nil
  then show ?case
    using relay_reachable_inv [OF Nil(1)] by (simp add: relay_inv_def)
next
  case (Cons e es)
  then obtain s1 where s1: "relay_turn e s = Some s1" "relay_events es s1 = Some s'"
    by (auto split: bind_splits)
  have "isFlushing (rs_box s)"
    using relay_reachable_inv [OF Cons.prems(1)] Cons.prems(2) by (simp add: relay_inv_def)
  then have "rs_sending s1 = Some i \<and> rs_calls s1 = rs_calls s"
    using s1(1) Cons.prems(2,4) by (cases e) (auto simp: tick_begins_def split: if_splits)
  with Cons.IH [of s1] Cons.prems s1 relay_step show ?case
    by auto
qed

lemma unsettled_send_blocks_relay_witness:
  "\<exists>s s'. relay_events demo_start (new_relay demo_config) = Some s \<and>
    relay_events [Stopped, Started, Removed ''a'', Enqueued 5 ''b'' JNull, Tick 9] s = Some s' \<and> rs_calls s' = [''a''] \<and>
    isFlushing (rs_box s')"
proof -
  have run: "map_option (\<lambda>s. (rs_sending s, rs_calls s)) (relay_events demo_start (new_relay demo_config)) = Some (Some ''a'', [''a''])"
    by code_simp
  have further: "\<exists>s'. relay_events [Stopped, Started, Removed ''a'', Enqueued 5 ''b'' JNull, Tick 9] s = Some s'"
    if "relay_events demo_start (new_relay demo_config) = Some s" for s
  proof -
    have "Option.bind (relay_events demo_start (new_relay demo_config))
        (\<lambda>s. map_option (\<lambda>_. ()) (relay_events [Stopped, Started, Removed ''a'', Enqueued 5 ''b'' JNull, Tick 9] s)) = Some ()"
      by code_simp
    with that show ?thesis by auto
  qed
  obtain s where s: "relay_events demo_start (new_relay demo_config) = Some s" "rs_sending s = Some ''a''" "rs_calls s = [''a'']"
    using run by auto
  with further obtain s' where s': "relay_events [Stopped, Started, Removed ''a'', Enqueued 5 ''b'' JNull, Tick 9] s = Some s'"
    by blast
  then show ?thesis
    using s unsettled_send_blocks_relay [OF relay_events_reachable [OF relay_init s(1)] s(2) s'] by auto
qed

lemma uninterrupted_flush_is_tick_witness:
  "\<exists>s s'. relay_events (take 2 demo_start) (new_relay demo_config) = Some s \<and>
    relay_events [Tick 1, Settled (Resolved False) 3 0] s = Some s' \<and>
    rs_box s' = relay_tick 1 [(Resolved False, 3, 0)] (rs_box s)"
proof -
  have "map_option (\<lambda>s. (ob_timer (rs_box s), isFlushing (rs_box s), length (getPending 1 (rs_box s))))
      (relay_events (take 2 demo_start) (new_relay demo_config)) = Some (True, False, 1)"
    by code_simp
  then obtain s where "relay_events (take 2 demo_start) (new_relay demo_config) = Some s" "ob_timer (rs_box s)"
      "\<not> isFlushing (rs_box s)" "length (getPending 1 (rs_box s)) = 1"
    by auto
  then show ?thesis
    using uninterrupted_flush_is_tick [of s "[(Resolved False, 3, 0)]" 1] by auto
qed

end
