(* ===== verification/ToolSchemas.thy ===== *)
theory ToolSchemas
  imports AgentTools OfficialCall
begin

text \<open>
  The parameters the tools of \<open>index.ts\<close> declare to the host, and what the handlers read of the parameters they get. A
  schema lists the required members and the type of each member; the descriptions, texts for the model, are left out.
  The host gives a tool any value the model produced, so the handlers do not rely on the declaration.
\<close>

section \<open>The declarations\<close>

datatype param_type = TString | TNumber | TBoolean | TObject | TStrings

record tool_schema =
  ts_required :: "string list"
  ts_properties :: "(string \<times> param_type) list"

definition roomCreateParameters :: tool_schema where
  "roomCreateParameters = \<lparr>ts_required = [''title''], ts_properties = [(''title'', TString), (''topic'', TString),
     (''participants'', TStrings), (''tags'', TStrings), (''createdBy'', TString)]\<rparr>"

definition room_list_parameters :: tool_schema where
  "room_list_parameters = \<lparr>ts_required = [], ts_properties = [(''status'', TString), (''participant'', TString), (''tag'', TString),
     (''count'', TNumber)]\<rparr>"

definition room_post_parameters :: tool_schema where
  "room_post_parameters = \<lparr>ts_required = [''roomId'', ''author'', ''content''], ts_properties = [(''roomId'', TString),
     (''author'', TString), (''kind'', TString), (''content'', TString)]\<rparr>"

definition room_read_parameters :: tool_schema where
  "room_read_parameters = \<lparr>ts_required = [''roomId''], ts_properties = [(''roomId'', TString), (''count'', TNumber), (''after'', TString)]\<rparr>"

definition room_summary_parameters :: tool_schema where
  "room_summary_parameters = \<lparr>ts_required = [''roomId''], ts_properties = [(''roomId'', TString), (''count'', TNumber)]\<rparr>"

definition sendFileParams :: tool_schema where
  "sendFileParams = \<lparr>ts_required = [''peer'', ''uri''], ts_properties = [(''peer'', TString), (''uri'', TString), (''name'', TString),
     (''mimeType'', TString), (''text'', TString), (''agentId'', TString)]\<rparr>"

definition match_request_parameters :: tool_schema where
  "match_request_parameters = \<lparr>ts_required = [''skills''], ts_properties = [(''skills'', TStrings), (''description'', TString)]\<rparr>"

definition match_agent_parameters :: tool_schema where
  "match_agent_parameters = \<lparr>ts_required = [''skills''], ts_properties = [(''skills'', TStrings), (''description'', TString)]\<rparr>"

definition resolve_agent_parameters :: tool_schema where
  "resolve_agent_parameters = \<lparr>ts_required = [], ts_properties = [(''agentId'', TNumber), (''clientId'', TString), (''matchId'', TNumber),
     (''skills'', TStrings), (''description'', TString)]\<rparr>"

definition official_call_parameters :: tool_schema where
  "official_call_parameters = \<lparr>ts_required = [''actionName''], ts_properties = [(''agentId'', TNumber), (''clientId'', TString),
     (''skills'', TStrings), (''description'', TString), (''actionName'', TString), (''body'', TObject), (''query'', TObject),
     (''preferOfficial'', TBoolean)]\<rparr>"

definition plazaSearchParameters :: tool_schema where
  "plazaSearchParameters = \<lparr>ts_required = [], ts_properties = [(''q'', TString), (''skill'', TString)]\<rparr>"

definition connectionRequestListParameters :: tool_schema where
  "connectionRequestListParameters = \<lparr>ts_required = [], ts_properties = [(''q'', TString), (''skill'', TString), (''requestType'', TString),
     (''limit'', TNumber)]\<rparr>"

definition create_request_parameters :: tool_schema where
  "create_request_parameters = \<lparr>ts_required = [''title'', ''summary''], ts_properties = [(''title'', TString), (''summary'', TString),
     (''details'', TString), (''requestType'', TString), (''requiredSkills'', TStrings), (''collaborationMode'', TString),
     (''inputModes'', TStrings), (''outputModes'', TStrings), (''connectionHint'', TObject)]\<rparr>"

definition get_request_parameters :: tool_schema where
  "get_request_parameters = \<lparr>ts_required = [''requestId''], ts_properties = [(''requestId'', TNumber)]\<rparr>"

definition create_offer_parameters :: tool_schema where
  "create_offer_parameters = \<lparr>ts_required = [''requestId'', ''message''], ts_properties = [(''requestId'', TNumber), (''message'', TString),
     (''skills'', TStrings), (''collaborationMode'', TString)]\<rparr>"

definition accept_offer_parameters :: tool_schema where
  "accept_offer_parameters = \<lparr>ts_required = [''offerId''], ts_properties = [(''offerId'', TNumber), (''sharedContextRoomId'', TString)]\<rparr>"

definition get_session_parameters :: tool_schema where
  "get_session_parameters = \<lparr>ts_required = [''sessionId''], ts_properties = [(''sessionId'', TNumber)]\<rparr>"

definition connection_state_parameters :: tool_schema where
  "connection_state_parameters = \<lparr>ts_required = [], ts_properties = []\<rparr>"

definition profileUpdateParameters :: tool_schema where
  "profileUpdateParameters = \<lparr>ts_required = [], ts_properties = [(''displayName'', TString), (''headline'', TString), (''bio'', TString),
     (''plazaMessage'', TString), (''contactHint'', TString), (''plazaEnabled'', TBoolean), (''skills'', TStrings)]\<rparr>"

text \<open>The tools in the order they are registered.\<close>

definition registered_tools :: "(string \<times> tool_schema) list" where
  "registered_tools =
    [(''openclaw_room_create'', roomCreateParameters), (''openclaw_room_list'', room_list_parameters),
     (''openclaw_room_post'', room_post_parameters), (''openclaw_room_read'', room_read_parameters),
     (''openclaw_room_summary'', room_summary_parameters), (''a2a_send_file'', sendFileParams),
     (''a2a_match_request'', match_request_parameters), (''openclaw_match_agent'', match_agent_parameters),
     (''openclaw_resolve_agent'', resolve_agent_parameters), (''openclaw_call_official_agent'', official_call_parameters),
     (''openclaw_plaza_search'', plazaSearchParameters), (''a2a_plaza_search'', plazaSearchParameters),
     (''openclaw_connection_list_requests'', connectionRequestListParameters),
     (''openclaw_connection_create_request'', create_request_parameters), (''openclaw_connection_get_request'', get_request_parameters),
     (''openclaw_connection_create_offer'', create_offer_parameters), (''openclaw_connection_accept_offer'', accept_offer_parameters),
     (''openclaw_connection_get_session'', get_session_parameters), (''openclaw_connection_state'', connection_state_parameters),
     (''openclaw_update_profile'', profileUpdateParameters), (''a2a_update_profile'', profileUpdateParameters)]"

section \<open>What the declarations mean\<close>

fun has_type :: "param_type \<Rightarrow> js \<Rightarrow> bool" where
  "has_type TString (JStr _) = True"
| "has_type TNumber (JNum _) = True"
| "has_type TBoolean (JBool _) = True"
| "has_type TObject (JObj _) = True"
| "has_type TStrings (JArr xs) = list_all (\<lambda>x. case x of JStr _ \<Rightarrow> True | _ \<Rightarrow> False) xs"
| "has_type _ _ = False"

definition conforms :: "tool_schema \<Rightarrow> (string \<times> js) list \<Rightarrow> bool" where
  "conforms sch fs \<longleftrightarrow> list_all (\<lambda>k. map_of fs k \<noteq> None) (ts_required sch) \<and>
     list_all (\<lambda>(k, t). case map_of fs k of None \<Rightarrow> True | Some v \<Rightarrow> has_type t v) (ts_properties sch)"

definition declared :: "tool_schema \<Rightarrow> string list" where
  "declared sch = map fst (ts_properties sch)"

lemma schemas_well_formed:
  "distinct (map fst registered_tools) \<and>
   list_all (\<lambda>(_, sch). distinct (declared sch) \<and> list_all (\<lambda>k. k \<in> set (declared sch)) (ts_required sch)) registered_tools"
  by code_simp

text \<open>The parameters without the members under other names.\<close>

definition only :: "string list \<Rightarrow> (string \<times> js) list \<Rightarrow> js" where
  "only ks fs = JObj (filter (\<lambda>(k, _). k \<in> set ks) fs)"

lemma get_only: "k \<in> set ks \<Longrightarrow> get_prop (only ks fs) k = jprop k fs"
  by (induction fs) (auto simp: only_def jprop_def)

lemma only_object [simp]: "asObject_or_empty (only ks fs) = only ks fs" "asObject_or_empty (JObj fs) = JObj fs"
  by (simp_all add: only_def asObject_or_empty_def)

lemmas schema_defs = roomCreateParameters_def room_list_parameters_def room_post_parameters_def room_read_parameters_def
  room_summary_parameters_def sendFileParams_def match_request_parameters_def match_agent_parameters_def resolve_agent_parameters_def official_call_parameters_def
  plazaSearchParameters_def connectionRequestListParameters_def create_request_parameters_def get_request_parameters_def
  create_offer_parameters_def accept_offer_parameters_def get_session_parameters_def profileUpdateParameters_def

lemmas room_readers = create_input_def room_post_input_def text_param_def content_param_def author_param_def count_param_def
  status_param_def

lemma override_only:
  assumes "list_all (\<lambda>k. k \<in> set ns) (''plazaEnabled'' # ''skills'' # ks)"
  shows "override_members ks (only ns fs) = override_members ks (JObj fs)"
  using assms by (auto simp: override_members_def get_only list_all_iff)

section \<open>The two tools that cast\<close>

text \<open>\<open>a2a_send_file\<close> and \<open>a2a_match_request\<close> cast their parameters to the declared type without looking at them. Members of
  another type are outside the model (\<^const>\<open>None\<close>); parameters that conform to the schema are inside.\<close>

definition text_member :: "js \<Rightarrow> string \<Rightarrow> string option option" where
  "text_member params k = (case get_prop params k of JStr t \<Rightarrow> Some (Some t) | JUndef \<Rightarrow> Some None | _ \<Rightarrow> None)"

definition file_input_of :: "js \<Rightarrow> file_input option" where
  "file_input_of params =
    (case (text_member params ''peer'', text_member params ''uri'', text_member params ''name'', text_member params ''mimeType'',
        text_member params ''text'', text_member params ''agentId'') of
       (Some (Some peer), Some (Some uri), Some name, Some mimeType, Some t, Some agentId) \<Rightarrow>
         Some \<lparr>fl_peer = peer, fl_uri = uri, fl_name = name, fl_mimeType = mimeType, fl_text = t, fl_agentId = agentId\<rparr>
     | _ \<Rightarrow> None)"

definition send_file_tool :: "url_fields \<Rightarrow> (string \<Rightarrow> string + string) \<Rightarrow> file_security_config \<Rightarrow> peer_config list \<Rightarrow> 's send_env \<Rightarrow>
    js \<Rightarrow> send_state \<Rightarrow> (tool_result \<times> send_state \<times> health_manager option \<times> ('s \<times> client_log list)) option" where
  "send_file_tool parse dns security peers senv params s =
    map_option (\<lambda>input. a2a_send_file parse dns security peers senv input s) (file_input_of params)"

fun js_strings :: "js list \<Rightarrow> string list option" where
  "js_strings [] = Some []"
| "js_strings (JStr t # xs) = map_option (Cons t) (js_strings xs)"
| "js_strings (_ # xs) = None"

definition match_request_of :: "js \<Rightarrow> (string list \<times> string option) option" where
  "match_request_of params =
    (case (get_prop params ''skills'', text_member params ''description'') of
       (JArr xs, Some description) \<Rightarrow> map_option (\<lambda>skills. (skills, description)) (js_strings xs)
     | _ \<Rightarrow> None)"

definition match_request_params_tool :: "hs_env \<Rightarrow> js \<Rightarrow> hs_state \<Rightarrow> (tool_result \<times> hs_state) option" where
  "match_request_params_tool henv params s =
    map_option (\<lambda>(skills, description). match_request_tool henv skills description s) (match_request_of params)"

lemma js_strings_total: "has_type TStrings (JArr xs) \<Longrightarrow> js_strings xs \<noteq> None"
  by (induction xs) (auto split: js.splits)

lemma conforming_text:
  assumes "conforms sch fs" "(k, TString) \<in> set (ts_properties sch)"
  shows "\<exists>t. text_member (JObj fs) k = Some t" and "k \<in> set (ts_required sch) \<Longrightarrow> \<exists>t. text_member (JObj fs) k = Some (Some t)"
proof -
  have "case map_of fs k of None \<Rightarrow> True | Some v \<Rightarrow> has_type TString v" and req: "k \<in> set (ts_required sch) \<Longrightarrow> map_of fs k \<noteq> None"
    using assms by (auto simp: conforms_def list_all_iff)
  then have typed: "map_of fs k = None \<or> (\<exists>t. map_of fs k = Some (JStr t))"
    by (auto split: option.splits elim: has_type.elims)
  then show "\<exists>t. text_member (JObj fs) k = Some t"
    by (auto simp: text_member_def jprop_def)
  show "k \<in> set (ts_required sch) \<Longrightarrow> \<exists>t. text_member (JObj fs) k = Some (Some t)"
    using typed req by (auto simp: text_member_def jprop_def)
qed

lemma conforming_file_input:
  assumes "conforms sendFileParams fs"
  shows "file_input_of (JObj fs) \<noteq> None"
proof -
  have declares: "(k, TString) \<in> set (ts_properties sendFileParams)"
    if "k \<in> {''peer'', ''uri'', ''name'', ''mimeType'', ''text'', ''agentId''}" for k
    using that by (auto simp: sendFileParams_def)
  have required: "k \<in> set (ts_required sendFileParams)" if "k \<in> {''peer'', ''uri''}" for k
    using that by (auto simp: sendFileParams_def)
  have optional: "\<exists>t. text_member (JObj fs) k = Some t" if "k \<in> {''name'', ''mimeType'', ''text'', ''agentId''}" for k
    by (rule conforming_text(1) [OF assms declares]) (use that in blast)
  have needed: "\<exists>t. text_member (JObj fs) k = Some (Some t)" if "k \<in> {''peer'', ''uri''}" for k
    by (rule conforming_text(2) [OF assms declares required]) (use that in blast)+
  obtain peer where peer: "text_member (JObj fs) ''peer'' = Some (Some peer)"
    using needed [of "''peer''"] by auto
  obtain uri where uri: "text_member (JObj fs) ''uri'' = Some (Some uri)"
    using needed [of "''uri''"] by auto
  obtain name mime where nm: "text_member (JObj fs) ''name'' = Some name" "text_member (JObj fs) ''mimeType'' = Some mime"
    using optional [of "''name''"] optional [of "''mimeType''"] by auto
  obtain t agent where ta: "text_member (JObj fs) ''text'' = Some t" "text_member (JObj fs) ''agentId'' = Some agent"
    using optional [of "''text''"] optional [of "''agentId''"] by auto
  note peer uri nm ta
  then show ?thesis by (simp add: file_input_of_def)
qed

lemma conforming_match_request:
  assumes "conforms match_request_parameters fs"
  shows "match_request_of (JObj fs) \<noteq> None"
proof -
  obtain d where d: "text_member (JObj fs) ''description'' = Some d"
    using conforming_text(1) [OF assms, of "''description''"] by (auto simp: match_request_parameters_def)
  obtain v where v: "map_of fs ''skills'' = Some v" "has_type TStrings v"
    using assms by (auto simp: conforms_def match_request_parameters_def)
  then obtain xs where xs: "v = JArr xs" by (cases v) auto
  then obtain skills where "js_strings xs = Some skills" using v(2) js_strings_total by blast
  with d v(1) xs show ?thesis by (simp add: match_request_of_def jprop_def)
qed

section \<open>What the handlers read\<close>

lemma room_tools_read:
  "room_create_tool opts now uuids (only (declared roomCreateParameters @ [''author'', ''metadata'']) fs) =
     room_create_tool opts now uuids (JObj fs)"
  "room_list_tool opts st (only (declared room_list_parameters @ [''limit'']) fs) = room_list_tool opts st (JObj fs)"
  "room_post_tool opts now uuids st (only (declared room_post_parameters @ [''text'', ''message'', ''metadata'']) fs) =
     room_post_tool opts now uuids st (JObj fs)"
  "room_read_tool opts st (only (declared room_read_parameters @ [''limit'']) fs) = room_read_tool opts st (JObj fs)"
  "room_summary_tool opts st (only (declared room_summary_parameters @ [''limit'']) fs) = room_summary_tool opts st (JObj fs)"
  by (simp_all add: room_create_tool_def room_list_tool_def room_post_tool_def room_read_tool_def room_summary_tool_def
      room_readers schema_defs declared_def get_only)

lemma discovery_tools_read:
  "match_agent_tool hub duration self (only (declared match_agent_parameters) fs) = match_agent_tool hub duration self (JObj fs)"
  "resolve_agent_tool hub duration self (only (declared resolve_agent_parameters) fs) = resolve_agent_tool hub duration self (JObj fs)"
  "official_call oenv (only (declared official_call_parameters) fs) = official_call oenv (JObj fs)"
  "executePlazaSearchTool fetch registered (only (declared plazaSearchParameters) fs) = executePlazaSearchTool fetch registered (JObj fs)"
  "executeProfileUpdateTool sync fetch (only (declared profileUpdateParameters) fs) = executeProfileUpdateTool sync fetch (JObj fs)"
  by (simp_all add: match_agent_tool_def resolve_agent_tool_def resolve_input_def official_call_def official_input_of_def
      description_param_def executePlazaSearchTool_def executeProfileUpdateTool_def schema_defs declared_def get_only
      override_only profile_texts_def Let_def cong: if_cong option.case_cong)

lemma casting_tools_read:
  "send_file_tool parse dns security peers senv (only (declared sendFileParams) fs) sent =
     send_file_tool parse dns security peers senv (JObj fs) sent"
  "match_request_params_tool henv (only (declared match_request_parameters) fs) hs = match_request_params_tool henv (JObj fs) hs"
  by (simp_all add: send_file_tool_def file_input_of_def match_request_params_tool_def match_request_of_def text_member_def
      schema_defs declared_def get_only)

lemma connection_tools_read:
  "list_requests_tool env (only (declared connectionRequestListParameters) fs) = list_requests_tool env (JObj fs)"
  "create_request_tool env (only (declared create_request_parameters @ [''skills'']) fs) f = create_request_tool env (JObj fs) f"
  "get_request_tool env (only (declared get_request_parameters) fs) = get_request_tool env (JObj fs)"
  "create_offer_tool env (only (declared create_offer_parameters) fs) f = create_offer_tool env (JObj fs) f"
  "accept_offer_tool env (only (declared accept_offer_parameters) fs) f = accept_offer_tool env (JObj fs) f"
  "get_session_tool env (only (declared get_session_parameters) fs) f = get_session_tool env (JObj fs) f"
  by (simp_all add: list_requests_tool_def create_request_tool_def request_params_def some_text_def get_request_tool_def text_param_def
      create_offer_tool_def accept_offer_tool_def get_session_tool_def schema_defs declared_def get_only Let_def cong: option.case_cong)

text \<open>C35. The tools read what they declare (the connection state's takes no parameters). No member of the parameters outside a tool's schema has any effect on what the tool
  answers, does to the rooms or stores, except six older names that are still accepted: \<open>author\<close> for the creator of a room,
  \<open>text\<close> and \<open>message\<close> for the content of a post, \<open>metadata\<close> of both, \<open>limit\<close> for the count of the reading room tools, and
  \<open>skills\<close> for the required skills of a connection request.\<close>

theorem tools_read_declared:
  "room_create_tool opts now uuids (only (declared roomCreateParameters @ [''author'', ''metadata'']) fs) =
     room_create_tool opts now uuids (JObj fs) \<and>
   room_list_tool opts st (only (declared room_list_parameters @ [''limit'']) fs) = room_list_tool opts st (JObj fs) \<and>
   room_post_tool opts now uuids st (only (declared room_post_parameters @ [''text'', ''message'', ''metadata'']) fs) =
     room_post_tool opts now uuids st (JObj fs) \<and>
   room_read_tool opts st (only (declared room_read_parameters @ [''limit'']) fs) = room_read_tool opts st (JObj fs) \<and>
   room_summary_tool opts st (only (declared room_summary_parameters @ [''limit'']) fs) = room_summary_tool opts st (JObj fs) \<and>
   send_file_tool parse dns security peers senv (only (declared sendFileParams) fs) sent =
     send_file_tool parse dns security peers senv (JObj fs) sent \<and>
   match_request_params_tool henv (only (declared match_request_parameters) fs) hs = match_request_params_tool henv (JObj fs) hs \<and>
   match_agent_tool hub duration self (only (declared match_agent_parameters) fs) = match_agent_tool hub duration self (JObj fs) \<and>
   resolve_agent_tool hub duration self (only (declared resolve_agent_parameters) fs) = resolve_agent_tool hub duration self (JObj fs) \<and>
   official_call oenv (only (declared official_call_parameters) fs) = official_call oenv (JObj fs) \<and>
   executePlazaSearchTool fetch registered (only (declared plazaSearchParameters) fs) = executePlazaSearchTool fetch registered (JObj fs) \<and>
   executeProfileUpdateTool sync fetch (only (declared profileUpdateParameters) fs) = executeProfileUpdateTool sync fetch (JObj fs) \<and>
   list_requests_tool env (only (declared connectionRequestListParameters) fs) = list_requests_tool env (JObj fs) \<and>
   create_request_tool env (only (declared create_request_parameters @ [''skills'']) fs) f = create_request_tool env (JObj fs) f \<and>
   get_request_tool env (only (declared get_request_parameters) fs) = get_request_tool env (JObj fs) \<and>
   create_offer_tool env (only (declared create_offer_parameters) fs) f = create_offer_tool env (JObj fs) f \<and>
   accept_offer_tool env (only (declared accept_offer_parameters) fs) f = accept_offer_tool env (JObj fs) f \<and>
   get_session_tool env (only (declared get_session_parameters) fs) f = get_session_tool env (JObj fs) f"
  by (intro conjI room_tools_read casting_tools_read discovery_tools_read connection_tools_read)

text \<open>The identifiers of requests, offers and sessions are declared as numbers; what a number must be besides, a positive integer, the
  handlers check themselves, and refuse without a call to the hub.\<close>

lemma conforming_id_checked:
  assumes "conforms get_request_parameters fs"
  shows "\<exists>n. map_of fs ''requestId'' = Some (JNum n) \<and>
    (asPositiveInteger (JNum n) = None \<longrightarrow> get_request_tool env (JObj fs) =
       tool_refusal ''requestId must be a positive integer'' ''request_id_required'')"
proof -
  obtain v where v: "map_of fs ''requestId'' = Some v" "has_type TNumber v"
    using assms by (auto simp: conforms_def get_request_parameters_def)
  then obtain n where "v = JNum n" by (cases v) auto
  with v show ?thesis by (simp add: get_request_tool_def jprop_def)
qed

end
