(* ===== verification/Registration.thy ===== *)
theory Registration
  imports SendScript GatewayApi
begin

text \<open>
  What \<open>register\<close> of \<open>index.ts\<close> builds from the parsed configuration before the service starts: telemetry with its
  audit callback, the history and shared-context options, the executor with its limits, the health manager with its probe.
  The gateway is then the executor and the telemetry it shares with the HTTP handlers, the client, the health checks and the
  cleanup, as one transition system.
\<close>

section \<open>Components from the configuration\<close>

definition configured_telemetry :: "gateway_config \<Rightarrow> telemetry" where
  "configured_telemetry c = setTaskAuditCallback (new_telemetry (Some (ob_structuredLogs (gw_observability c))))"

definition configured_history :: "gateway_config \<Rightarrow> history_options" where
  "configured_history c = history_store_options (Some (ob_historyEnabled (gw_observability c)))
     (Some (ob_historyIncludeEncryptedPayloads (gw_observability c)))"

definition configured_store :: "gateway_config \<Rightarrow> shared_options" where
  "configured_store c = shared_store_options (Some (sx_enabled (gw_sharedContext c)))
     (Some (of_int (sx_maxMessageChars (gw_sharedContext c)))) (Some (of_int (sx_maxMessagesPerRead (gw_sharedContext c))))"

definition configured_executor :: "gateway_config \<Rightarrow> executor_state" where
  "configured_executor c = new_executor (gw_maxConcurrentTasks c) (gw_maxQueuedTasks c) (configured_telemetry c)"

text \<open>The elapsed time is a whole number of milliseconds, so a fractional reset timeout acts as the next whole one.\<close>

definition configured_breaker :: "gateway_config \<Rightarrow> circuit_breaker_config" where
  "configured_breaker c = \<lparr>failureThreshold = nat (gw_failureThreshold c), resetTimeoutMs = \<lceil>gw_resetTimeoutMs c\<rceil>\<rparr>"

definition configured_health :: "gateway_config \<Rightarrow> health_manager option" where
  "configured_health c = (if gw_peers c = [] then None
     else Some (new_health_manager (gw_peers c) (hk_enabled (gw_healthCheck c)) (configured_breaker c)))"

text \<open>The probe of a peer: its card is fetched and its skills are cached; any failure is an unhealthy peer.\<close>

definition probe_peer :: "'s sdk \<Rightarrow> gateway_config \<Rightarrow> peer_config \<Rightarrow> 's \<times> health_manager \<Rightarrow> probe_result \<times> 's \<times> health_manager" where
  "probe_peer sdk c peer = (\<lambda>(s, m).
     case discoverAgentCard sdk peer \<lfloor>hk_timeoutMs (gw_healthCheck c)\<rfloor> s of
       (Inl _, s1) \<Rightarrow> (ProbeBad, s1, m)
     | (Inr found, s1) \<Rightarrow> (ProbeOk, s1, setPeerSkills (pc_name peer) (map js_text (extractSkillsFromAgentCard found)) m))"

text \<open>The audit callback of the telemetry: one line in the audit log and one history entry for a finished task.\<close>

definition finished_entry :: "string \<times> string \<times> terminal_state \<times> int \<Rightarrow> (string \<times> js) list" where
  "finished_entry = (\<lambda>(taskId, contextId, state, durationMs).
    [(''type'', JStr (if state = Completed then ''task.inbound_completed'' else ''task.inbound_failed'')),
     (''status'', JStr (if state = Completed then ''success'' else ''failure'')), (''direction'', JStr ''inbound''),
     (''durationMs'', num durationMs),
     (''detail'', JObj [(''taskId'', JStr taskId), (''contextId'', JStr contextId), (''state'', JStr (state_text state))])])"

definition audit_finished :: "int \<Rightarrow> string \<times> string \<times> terminal_state \<times> int \<Rightarrow> api_state \<Rightarrow> api_state" where
  "audit_finished now = (\<lambda>(taskId, contextId, state, durationMs) s.
    note_entry (finished_entry (taskId, contextId, state, durationMs))
      (s\<lparr>as_audit := as_audit s @ [audit_inbound now taskId contextId (state_text state) (of_int durationMs)]\<rparr>))"

section \<open>The gateway at work\<close>

text \<open>What other components record in the telemetry the executor writes to.\<close>

fun foreign_event :: "telemetry_event \<Rightarrow> bool" where
  "foreign_event (TelQueued _ _ _ _ _) = False"
| "foreign_event (TelStart _ _ _ _ _ _) = False"
| "foreign_event (TelFinish _ _ _ _ _ _ _ _) = False"
| "foreign_event (TelQueueRejected _ _ _ _) = False"
| "foreign_event _ = True"

inductive gateway_step :: "executor_state \<Rightarrow> executor_state \<Rightarrow> bool" where
  GwExecutor: "executor_step x y \<Longrightarrow> gateway_step x y"
| GwTelemetry: "foreign_event e \<Longrightarrow> gateway_step x (telemetered (telemetry_step e) x)"

inductive gateway_reachable :: "gateway_config \<Rightarrow> executor_state \<Rightarrow> bool" for c where
  GwInit: "gateway_reachable c (configured_executor c)"
| GwStep: "gateway_reachable c x \<Longrightarrow> gateway_step x y \<Longrightarrow> gateway_reachable c y"

inductive_cases gateway_stepE: "gateway_step x y"

section \<open>The limits\<close>

definition limits_of :: "executor_state \<Rightarrow> nat \<times> nat" where
  "limits_of x = (qx_maxConcurrent x, qx_maxQueued x)"

lemma telemetered_inv: "executor_inv (telemetered g x) = executor_inv x"
  by (simp add: executor_inv_def slots_inv_def uids_def running_uids_def finished_uids_def right_buses_def telemetered_def)

lemma gateway_step_inv: "gateway_step x y \<Longrightarrow> executor_inv x \<Longrightarrow> executor_inv y \<and> limits_of y = limits_of x"
  by (erule gateway_stepE) (auto simp: telemetered_inv limits_of_def dest: executor_step_inv executor_step_limits)

lemma gateway_reachable_inv:
  assumes "gateway_reachable c x"
  shows "executor_inv x \<and> limits_of x = (nat (max 1 (gw_maxConcurrentTasks c)), nat (max 0 (gw_maxQueuedTasks c)))"
  using assms
proof induction
  case GwInit
  then show ?case by (simp add: configured_executor_def new_executor_inv limits_of_def) (simp add: new_executor_def)
next
  case (GwStep x y)
  then show ?case using gateway_step_inv by metis
qed

lemma read_limit:
  "readMessages opts st roomId cnt after = Inr ms \<Longrightarrow> 1 \<le> so_maxMessagesPerRead opts \<Longrightarrow> int (length ms) \<le> so_maxMessagesPerRead opts"
  by (auto simp: readMessages_def normalizeCount_def length_last_n Let_def split: if_splits js.splits jnum.splits)

text \<open>C2. The limits of a configuration hold at run time. For every value the user supplies that parses, in every state the
  gateway reaches, at most the configured number of tasks run and at most the configured number wait, nobody waits while a
  slot is free, and at least one slot exists; a message that the configured store accepts is no longer, and a read answers no
  more messages, than configured.\<close>

theorem configured_limits:
  assumes "parseConfig env raw = Some c" and "gateway_reachable c x"
  shows "1 \<le> gw_maxConcurrentTasks c \<and> int (length (qx_running x)) \<le> gw_maxConcurrentTasks c \<and>
    int (length (qx_queue x)) \<le> gw_maxQueuedTasks c \<and>
    (qx_queue x \<noteq> [] \<longrightarrow> int (length (qx_running x)) = gw_maxConcurrentTasks c) \<and>
    (\<forall>now uuids st input evs m. postMessage (configured_store c) now uuids st input = Inr (evs, m) \<longrightarrow>
       int (length (sm_content m)) \<le> sx_maxMessageChars (gw_sharedContext c)) \<and>
    (\<forall>st roomId cnt after ms. readMessages (configured_store c) st roomId cnt after = Inr ms \<longrightarrow>
       int (length ms) \<le> sx_maxMessagesPerRead (gw_sharedContext c))"
proof -
  have n: "1 \<le> gw_maxConcurrentTasks c" "0 \<le> gw_maxQueuedTasks c" "1 \<le> sx_maxMessageChars (gw_sharedContext c)"
      "1 \<le> sx_maxMessagesPerRead (gw_sharedContext c)"
    using numbers_of_config [OF assms(1)] by (simp_all add: numbers_ok_def)
  have "executor_inv x" "qx_maxConcurrent x = nat (gw_maxConcurrentTasks c)" "qx_maxQueued x = nat (gw_maxQueuedTasks c)"
    using gateway_reachable_inv [OF assms(2)] n by (auto simp: limits_of_def)
  moreover have "so_maxMessageChars (configured_store c) = sx_maxMessageChars (gw_sharedContext c)"
      "so_maxMessagesPerRead (configured_store c) = sx_maxMessagesPerRead (gw_sharedContext c)"
    using n by (simp_all add: configured_store_def shared_store_options_def)
  ultimately show ?thesis
    using n read_limit [of "configured_store c"] by (auto simp: executor_inv_def slots_inv_def elim: postMessage_InrE)
qed

section \<open>The accounts\<close>

definition states_audited :: "telemetry \<Rightarrow> terminal_state \<Rightarrow> nat" where
  "states_audited t s = count_list (map (\<lambda>(i, ctx, st, d). st) (tl_audit t)) s"

lemma states_total:
  "length xs = count_list (map g xs) Completed + count_list (map g xs) Failed + count_list (map g xs) Canceled + count_list (map g xs) Rejected"
proof (induction xs)
  case (Cons y ys)
  then show ?case by (cases "g y") simp_all
qed simp

text \<open>What the telemetry knows of the tasks that have settled.\<close>

definition accounts_agree :: "nat \<Rightarrow> telemetry \<Rightarrow> bool" where
  "accounts_agree n t \<longleftrightarrow> tl_audit_on t \<and> n = finished (tl_tasks t) + queue_rejections (tl_tasks t) \<and>
     length (tl_audit t) = finished (tl_tasks t) \<and> completed (tl_tasks t) = states_audited t Completed \<and>
     Telemetry.failed (tl_tasks t) = states_audited t Failed \<and> canceled (tl_tasks t) = states_audited t Canceled \<and>
     rejected (tl_tasks t) = states_audited t Rejected + queue_rejections (tl_tasks t)"

lemma accounts_start: "accounts_agree 0 (configured_telemetry c)"
  by (simp add: accounts_agree_def configured_telemetry_def setTaskAuditCallback_def new_telemetry_def states_audited_def)

lemma accounts_steps:
  "accounts_agree n t \<Longrightarrow> accounts_agree n (recordTaskQueued now tid ctx p d t)"
  "accounts_agree n t \<Longrightarrow> accounts_agree n (recordTaskStart now tid ctx a k d t)"
  "accounts_agree n t \<Longrightarrow> accounts_agree (Suc n) (recordQueueRejected now tid ctx d t)"
  "accounts_agree n t \<Longrightarrow> accounts_agree (Suc n) (recordTaskFinish now tid ctx st dur k d err t)"
  "accounts_agree n t \<Longrightarrow> foreign_event e \<Longrightarrow> accounts_agree n (telemetry_step e t)"
      apply (auto simp: accounts_agree_def telemetry_ops states_audited_def setQueueState_def Let_def)[3]
   apply (cases st; auto simp: accounts_agree_def recordTaskFinish_def states_audited_def setQueueState_def count_state_def Let_def)
  apply (cases e; auto simp: accounts_agree_def telemetry_ops states_audited_def Let_def)
  done

definition accounted :: "executor_state \<Rightarrow> bool" where
  "accounted x \<longleftrightarrow> accounts_agree (length (qx_settled x)) (qx_telemetry x)"

lemma accounted_fields [simp]:
  "accounted (publish u ev x) = accounted x" "accounted (finish_entry e x) = accounted x"
  "accounted (finish_bus u x) = accounted x" "accounted (delegate_finished f x) = accounted x"
  by (simp_all add: accounted_def publish_def finish_entry_def finish_bus_def delegate_finished_def)

lemma runEntry_accounted: "accounted x \<Longrightarrow> accounted (runEntry now e x)"
  by (simp add: accounted_def runEntry_def queueDelete_def telemetered_def Let_def accounts_steps)

lemma drainQueue_accounted: "accounted x \<Longrightarrow> accounted (drainQueue now x)"
proof (induction now x rule: drainQueue.induct)
  case (1 now x)
  have "accounted (x\<lparr>qx_queue := tl (qx_queue x)\<rparr>)" using 1(2) by (simp add: accounted_def)
  then show ?case
    using 1 runEntry_accounted by (subst drainQueue.simps) auto
qed

lemma executor_step_accounted: "executor_step x y \<Longrightarrow> accounted x \<Longrightarrow> accounted y"
proof (erule executor_stepE)
  fix now uuid bus taskId contextId agentId
  assume "y = execute_q now uuid bus taskId contextId agentId x" "accounted x"
  then show "accounted y"
    by (auto simp: execute_q_def Let_def intro!: runEntry_accounted) (auto simp: accounted_def telemetered_def settle_def publish_def finish_entry_def accounts_steps)
next
  fix now uuid taskId bus
  assume "y = cancelTask_q now uuid taskId bus x" "accounted x"
  then show "accounted y"
    by (auto simp: cancelTask_q_def accounted_def telemetered_def settle_def publish_def finish_entry_def Let_def accounts_steps split: option.split)
next
  fix f ev
  assume "y = delegate_publish f ev x" "accounted x"
  then show "accounted y" by (simp add: delegate_publish_def) (simp add: accounted_def)
next
  fix f now outcome
  assume "y = delegate_settled now f outcome x" "accounted x"
  then show "accounted y"
    by (simp add: delegate_settled_def Let_def) (intro drainQueue_accounted; simp add: accounted_def telemetered_def settle_def finish_entry_def accounts_steps)
qed simp_all

lemma gateway_step_accounted: "gateway_step x y \<Longrightarrow> accounted x \<Longrightarrow> accounted y"
proof (erule gateway_stepE)
  assume "accounted x" "executor_step x y"
  then show ?thesis by (simp add: executor_step_accounted)
next
  fix e
  assume "accounted x" "foreign_event e" "y = telemetered (telemetry_step e) x"
  then show ?thesis by (simp add: accounted_def telemetered_def accounts_steps)
qed

text \<open>C13. No task is lost or counted twice, whatever the gateway does in between: in every reachable state each call that has
  settled is counted in exactly one outcome; the audit callback has been called once for each of them except those refused
  because the queue was full, which leave no trace in the audit log and the history.\<close>

theorem settled_tasks_accounted:
  assumes "gateway_reachable c x"
  shows "length (qx_settled x) = completed (tl_tasks (qx_telemetry x)) + Telemetry.failed (tl_tasks (qx_telemetry x)) +
      canceled (tl_tasks (qx_telemetry x)) + rejected (tl_tasks (qx_telemetry x)) \<and>
    length (qx_settled x) = length (tl_audit (qx_telemetry x)) + queue_rejections (tl_tasks (qx_telemetry x)) \<and>
    completed (tl_tasks (qx_telemetry x)) = states_audited (qx_telemetry x) Completed \<and>
    Telemetry.failed (tl_tasks (qx_telemetry x)) = states_audited (qx_telemetry x) Failed \<and>
    canceled (tl_tasks (qx_telemetry x)) = states_audited (qx_telemetry x) Canceled"
proof -
  have "accounted x"
    using assms
  proof induction
    case GwInit
    then show ?case by (simp add: accounted_def configured_executor_def new_executor_def accounts_start)
  next
    case (GwStep x y)
    then show ?case by (blast intro: gateway_step_accounted)
  qed
  moreover note states_total [where xs = "tl_audit (qx_telemetry x)" and g = "\<lambda>(i, ctx, st, d). st"]
  ultimately show ?thesis
    by (simp add: accounted_def accounts_agree_def states_audited_def)
qed

section \<open>A concrete gateway\<close>

lemma demo_config: "\<exists>c. parseConfig demo_env JUndef = Some c"
proof -
  have "parse_skills JUndef = Some [chat_skill]" by (simp add: parse_skills_def)
  then show ?thesis by (auto simp: parseConfig_def parseAgentCard_def asObject_or_empty_def Let_def)
qed

lemma configured_limits_witness:
  "\<exists>c x. parseConfig demo_env JUndef = Some c \<and> gateway_reachable c x \<and> x \<noteq> configured_executor c \<and>
     int (length (qx_running x)) \<le> gw_maxConcurrentTasks c"
proof -
  obtain c where c: "parseConfig demo_env JUndef = Some c" using demo_config by blast
  let ?x = "execute_q 1 ''u'' 7 ''t1'' ''c'' JUndef (configured_executor c)"
  have "gateway_reachable c ?x"
    by (intro GwStep [OF GwInit] GwExecutor StepExecute)
  moreover have "qx_next ?x \<noteq> qx_next (configured_executor c)"
    by (simp add: configured_executor_def new_executor_def execute_q_def Let_def)
  ultimately show ?thesis
    using configured_limits [OF c] c by metis
qed

lemma settled_tasks_accounted_witness:
  "\<exists>c x. gateway_reachable c x \<and> length (qx_settled x) = 1 \<and> length (qx_settled x) =
     length (tl_audit (qx_telemetry x)) + queue_rejections (tl_tasks (qx_telemetry x))"
proof -
  obtain c where c: "parseConfig demo_env JUndef = Some c" using demo_config by blast
  let ?x = "execute_q 1 ''u'' 7 ''t1'' ''c'' JUndef (configured_executor c)"
  define f where "f = \<lparr>rf_entry = \<lparr>qe_uid = 0, qe_bus = 7, qe_taskId = ''t1'', qe_contextId = ''c'', qe_agentId = JUndef\<rparr>, rf_startedAt = 1,
    rf_finalState = None, rf_error = None\<rparr>"
  have one: "qx_running ?x = [f]" "qx_queue ?x = []" "qx_settled ?x = []"
    by (simp_all add: f_def configured_executor_def new_executor_def execute_q_def Let_def)
  let ?y = "delegate_settled 5 f None ?x"
  have reach: "gateway_reachable c ?y"
    by (rule GwStep [OF GwStep [OF GwInit GwExecutor [OF StepExecute]] GwExecutor [OF StepSettle]]) (simp add: one)
  moreover have "length (qx_settled ?y) = 1"
    using one by (simp add: delegate_settled_def Let_def) (subst drainQueue.simps, simp)
  ultimately show ?thesis
    using settled_tasks_accounted [OF reach] by blast
qed

end
