(* ===== verification/HttpApp.thy ===== *)
theory HttpApp
  imports Registration Lifecycle
begin

text \<open>
  The HTTP application \<open>register\<close> of \<open>index.ts\<close> assembles: what is mounted where and in which order, the counting
  middleware, the two routes the plugin answers itself (metrics and shared context), and the rooms as gateway methods. Which mount a request matches
  and how a body is parsed are Express's: a matcher and a parser are parameters. The protocol routes end in the SDK's handlers.
\<close>

section \<open>What is mounted\<close>

datatype http_verb = AnyVerb | GetVerb | PostVerb

datatype http_handler = AgentCardHandler | JsonRpcHandler | JsonRpcErrors | RestHandler | MetricsHandler | SharedContextHandler
  | SharedContextErrors

record http_mount =
  mt_verb :: http_verb
  mt_path :: string
  mt_route :: "http_route option"
  mt_handler :: http_handler

definition normalizeCardPath :: "string \<Rightarrow> string" where
  "normalizeCardPath agent_card_path = (if starts_with agent_card_path ''/'' then agent_card_path else ''/'' @ agent_card_path)"

definition well_known_card :: string where
  "well_known_card = ''/.well-known/agent.json''"

definition mount :: "http_verb \<Rightarrow> string \<Rightarrow> http_route option \<Rightarrow> http_handler \<Rightarrow> http_mount" where
  "mount v p r h = \<lparr>mt_verb = v, mt_path = p, mt_route = r, mt_handler = h\<rparr>"

definition http_app :: "string \<Rightarrow> gateway_config \<Rightarrow> http_mount list" where
  "http_app agent_card_path c =
    (let cardPath = normalizeCardPath agent_card_path; o' = gw_observability c; x = gw_sharedContext c in
     [mount AnyVerb cardPath None AgentCardHandler] @
     (if cardPath \<noteq> well_known_card then [mount AnyVerb well_known_card None AgentCardHandler] else []) @
     [mount AnyVerb ''/a2a/jsonrpc'' (Some RouteJsonrpc) JsonRpcHandler, mount AnyVerb ''/a2a/jsonrpc'' None JsonRpcErrors,
      mount AnyVerb ''/a2a/rest'' (Some RouteRest) RestHandler] @
     (if ob_exposeMetricsEndpoint o' then [mount GetVerb (ob_metricsPath o') (Some RouteMetrics) MetricsHandler] else []) @
     (if sx_httpEnabled x
      then [mount PostVerb (sx_httpPath x) (Some RouteSharedContext) SharedContextHandler,
            mount AnyVerb (sx_httpPath x) None SharedContextErrors] else []))"

section \<open>The middleware and the routes\<close>

text \<open>When the answer has been sent it is counted, with the status it had.\<close>

definition createHttpMetricsMiddleware :: "http_route \<Rightarrow> int \<Rightarrow> int \<Rightarrow> (int \<times> 'a) \<times> api_state \<Rightarrow> (int \<times> 'a) \<times> api_state" where
  "createHttpMetricsMiddleware counted now duration = (\<lambda>((status, body), s).
     ((status, body), s\<lparr>as_telemetry := recordInboundHttp now counted status duration (as_telemetry s)\<rparr>))"

text \<open>\<open>config.security.validTokens\<close> is the set as it is when the request arrives, temporary tokens included.\<close>

definition metrics_route :: "gateway_config \<Rightarrow> string list \<Rightarrow> (string \<times> peer_state) list option \<Rightarrow> int \<Rightarrow> int \<Rightarrow> auth_header \<Rightarrow> api_state \<Rightarrow>
    (int \<times> (js + telemetry_snapshot)) \<times> api_state" where
  "metrics_route c tokens provider now duration h s = createHttpMetricsMiddleware RouteMetrics now duration
    (case metrics_guard (ob_metricsAuth (gw_observability c)) tokens h of
       Some (status, body) \<Rightarrow> ((status, Inl body), s)
     | None \<Rightarrow> ((200, Inr (telemetry_snap provider (as_telemetry s))), s))"

definition json_limit :: "gateway_config \<Rightarrow> int" where
  "json_limit c = max 1048576 (sx_maxMessageChars (gw_sharedContext c) * 4)"

text \<open>The body is parsed before the caller is checked; an error of the parser goes to the error middleware. The request is counted when
  its answer has been sent, that is, not while calls of its batch are still under way.\<close>

definition shared_context_route :: "gateway_config \<Rightarrow> string list \<Rightarrow> (int \<Rightarrow> 'b \<Rightarrow> thrown + js) \<Rightarrow> (nat \<Rightarrow> string) \<Rightarrow> (nat \<Rightarrow> nat \<Rightarrow> string) \<Rightarrow>
    (nat \<times> nat) list \<Rightarrow> int \<Rightarrow> int \<Rightarrow> auth_header \<Rightarrow> 'b \<Rightarrow> api_state \<Rightarrow> (int \<times> js) option \<times> api_state" where
  "shared_context_route c tokens parse time us sched now duration h raw s =
    (let served = (case parse (json_limit c) raw of
         Inl err \<Rightarrow> (Some (shared_error_middleware err), s)
       | Inr body \<Rightarrow>
          (case shared_context_guard (se_inboundAuth (gw_security c)) tokens now h s of
             (Some refusal, s1) \<Rightarrow> (Some refusal, s1)
           | (None, s1) \<Rightarrow> shared_http (configured_store c) time us sched body s1))
     in case served of
          (None, s2) \<Rightarrow> (None, s2)
        | (Some answer, s2) \<Rightarrow>
           (case createHttpMetricsMiddleware RouteSharedContext now duration (answer, s2) of (answer', s3) \<Rightarrow> (Some answer', s3)))"

section \<open>A request to the shared context\<close>

lemma method_telemetry: "as_telemetry (snd (executeSharedContextMethod opts now uuids m p s)) = as_telemetry s"
  by (simp add: executeSharedContextMethod_def note_entry_def Let_def split: option.split sum.split prod.split)

lemma call_telemetry: "as_telemetry (snd (handleSharedContextJsonRpcCall opts now uuids call s)) = as_telemetry s"
  by (simp add: rpc_call_cases method_telemetry Let_def)

lemma step_telemetry: "as_telemetry (bt_api (batch_step opts time us move b)) = as_telemetry (bt_api b)"
  by (auto simp: batch_step_def call_writes_def note_entry_def Let_def split: prod.split call_phase.split list.split option.split)

lemma batch_telemetry: "as_telemetry (bt_api (run_batch opts time us sched calls s)) = as_telemetry s"
proof -
  have "as_telemetry (bt_api (fold (batch_step opts time us) moves b)) = as_telemetry (bt_api b)" for moves b
    by (induction moves arbitrary: b) (simp_all add: step_telemetry)
  then show ?thesis by (simp add: run_batch_def begin_batch_def Let_def)
qed

lemma shared_http_telemetry: "as_telemetry (snd (shared_http opts time us sched body s)) = as_telemetry s"
  by (cases body) (simp_all add: shared_http_def batch_telemetry call_telemetry case_prod_beta Let_def)

lemma counted_state:
  "createHttpMetricsMiddleware counted now duration (r, s) =
     (r, s\<lparr>as_telemetry := recordInboundHttp now counted (fst r) duration (as_telemetry s)\<rparr>)"
  by (simp add: createHttpMetricsMiddleware_def split: prod.split)

lemma guard_cases:
  "shared_context_guard auth tokens now h s =
    (if authorised auth tokens (single_header h) then (None, s)
     else (Some (401, jsonRpcError JNull (-32000) unauthorized), security_rejection now ''http'' s))"
  unfolding authorised_rule by (auto simp: shared_context_guard_def auth_kind_NoAuth Let_def)

lemma route_cases:
  "shared_context_route c tokens parse time us sched now duration h raw s =
    (case (case parse (json_limit c) raw of
        Inl err \<Rightarrow> (Some (shared_error_middleware err), s)
      | Inr body \<Rightarrow> if authorised (se_inboundAuth (gw_security c)) tokens (single_header h)
          then shared_http (configured_store c) time us sched body s
          else (Some (401, jsonRpcError JNull (-32000) unauthorized), security_rejection now ''http'' s)) of
       (None, s2) \<Rightarrow> (None, s2)
     | (Some answer, s2) \<Rightarrow>
         (Some answer, s2\<lparr>as_telemetry := recordInboundHttp now RouteSharedContext (fst answer) duration (as_telemetry s2)\<rparr>))"
  by (simp add: shared_context_route_def guard_cases counted_state split: sum.split prod.split option.split)

text \<open>C10. The shared-context route answers, guards and counts every request. When the body does not parse, the answer is the parser's error,
  whoever the caller is, and nothing is recorded against it. When it parses, a caller who is not authorised gets 401 and changes neither a room
  nor the history, and the refusal is recorded once in the telemetry and once in the audit log; an authorised caller gets
  exactly the answer and the effect of the JSON-RPC handler, in whatever order the calls of a batch run. Every
  answered request is counted exactly once, and no order keeps a request from being answered.\<close>

theorem shared_route_guarded:
  assumes "shared_context_route c tokens parse time us sched now duration h raw s = (Some answer, t)"
  shows "(\<forall>err. parse (json_limit c) raw = Inl err \<longrightarrow>
      answer = shared_error_middleware err \<and> t\<lparr>as_telemetry := as_telemetry s\<rparr> = s \<and>
      http_security_rejections (tl_http (as_telemetry t)) = http_security_rejections (tl_http (as_telemetry s))) \<and>
    (\<forall>body. \<not> authorised (se_inboundAuth (gw_security c)) tokens (single_header h) \<longrightarrow> parse (json_limit c) raw = Inr body \<longrightarrow>
      answer = (401, jsonRpcError JNull (-32000) unauthorized) \<and>
      as_shared t = as_shared s \<and> as_history t = as_history s \<and> length (as_audit t) = Suc (length (as_audit s)) \<and>
      http_security_rejections (tl_http (as_telemetry t)) = Suc (http_security_rejections (tl_http (as_telemetry s)))) \<and>
    (\<forall>body. authorised (se_inboundAuth (gw_security c)) tokens (single_header h) \<longrightarrow> parse (json_limit c) raw = Inr body \<longrightarrow>
      Some answer = fst (shared_http (configured_store c) time us sched body s) \<and>
      t\<lparr>as_telemetry := as_telemetry s\<rparr> = snd (shared_http (configured_store c) time us sched body s)) \<and>
    requests_total (tl_http (as_telemetry t)) = Suc (requests_total (tl_http (as_telemetry s))) \<and>
    shared_context_requests (tl_http (as_telemetry t)) = Suc (shared_context_requests (tl_http (as_telemetry s))) \<and>
    (\<forall>begun. \<exists>rest. fst (shared_context_route c tokens parse time us (begun @ rest) now duration h raw s) \<noteq> None)"
proof -
  let ?auth = "authorised (se_inboundAuth (gw_security c)) tokens (single_header h)"
  let ?http = "\<lambda>sched body. shared_http (configured_store c) time us sched body s"
  have kept: "as_telemetry s1 = as_telemetry s" if "?http sched body = (r, s1)" for body r s1
    using shared_http_telemetry [of "configured_store c" time us sched body s] that by simp
  have "\<exists>rest. fst (shared_context_route c tokens parse time us (begun @ rest) now duration h raw s) \<noteq> None" for begun
  proof (cases "\<exists>body. parse (json_limit c) raw = Inr body \<and> ?auth")
    case True
    then obtain body rest where "parse (json_limit c) raw = Inr body" "?auth" "fst (?http (begun @ rest) body) \<noteq> None"
      using http_answered by blast
    then show ?thesis by (intro exI [of _ rest]) (auto simp: route_cases split: prod.split)
  next
    case False
    then show ?thesis by (auto simp: route_cases split: sum.split)
  qed
  with assms show ?thesis
    unfolding route_cases
    by (auto simp: kept recordInboundHttp_def security_rejection_def recordSecurityRejection_def Let_def
        split: sum.splits if_splits prod.splits option.splits)
qed

definition guarded_gateway :: gateway_config where
  "guarded_gateway = demo_gateway\<lparr>gw_security := (gw_security demo_gateway)\<lparr>se_inboundAuth := BearerAuth\<rparr>\<rparr>"

definition blank_api :: api_state where
  "blank_api = \<lparr>as_telemetry = new_telemetry None, as_audit = [], as_history = [], as_shared = None\<rparr>"

lemma shared_route_guarded_witness:
  "\<exists>t. shared_context_route guarded_gateway [''key''] (\<lambda>_ _. Inr JNull) (\<lambda>_. ''now'') (\<lambda>_ _. ''u'') [] 5 1
       (OneHeader ''Bearer kay'') ''null'' blank_api = (Some (401, jsonRpcError JNull (-32000) unauthorized), t) \<and>
     as_shared t = None \<and> length (as_audit t) = 1 \<and> requests_total (tl_http (as_telemetry t)) = 1"
proof -
  have no: "\<not> authorised (se_inboundAuth (gw_security guarded_gateway)) [''key''] (single_header (OneHeader ''Bearer kay''))"
    by (simp add: guarded_gateway_def authorised_def single_header_def)
  then obtain answer t where r: "shared_context_route guarded_gateway [''key''] (\<lambda>_ _. Inr JNull)
      (\<lambda>_. ''now'') (\<lambda>_ _. ''u'') [] 5 1 (OneHeader ''Bearer kay'') ''null'' blank_api = (Some answer, t)"
    by (auto simp: route_cases)
  from shared_route_guarded [OF r] no r show ?thesis
    by (simp add: blank_api_def new_telemetry_def)
qed

text \<open>A body over the limit is an error of the parser's of another type than a parse failure, so the client reads of an internal error.\<close>

lemma oversized_body_is_internal_error:
  assumes "parse (json_limit c) raw = Inl (ThrownValue err)" "get_prop err ''type'' = JStr ''entity.too.large''"
  shows "fst (shared_context_route c tokens parse time us sched now duration h raw s) = Some (500, jsonRpcError JNull (-32603) ''Internal error'')"
  using assms by (simp add: route_cases shared_error_middleware_def)

section \<open>The order of the mounts\<close>

definition first_mount :: "(http_verb \<Rightarrow> string \<Rightarrow> 'r \<Rightarrow> bool) \<Rightarrow> http_mount list \<Rightarrow> 'r \<Rightarrow> http_mount option" where
  "first_mount matches app r = find (\<lambda>m. matches (mt_verb m) (mt_path m) r) app"

text \<open>No configured path takes a request away from the card or from the protocol: they are mounted first.\<close>

lemma protocol_not_shadowed:
  assumes "\<not> matches AnyVerb (normalizeCardPath cardPath) r" "\<not> matches AnyVerb well_known_card r" "matches AnyVerb ''/a2a/jsonrpc'' r"
  shows "first_mount matches (http_app cardPath c) r = Some (mount AnyVerb ''/a2a/jsonrpc'' (Some RouteJsonrpc) JsonRpcHandler)"
  using assms by (simp add: first_mount_def http_app_def mount_def Let_def)

lemma card_served:
  assumes "matches AnyVerb well_known_card r"
  shows "\<exists>m. first_mount matches (http_app cardPath c) r = Some m \<and> mt_handler m = AgentCardHandler"
  using assms by (auto simp: first_mount_def http_app_def mount_def Let_def)

section \<open>The gateway methods of the rooms\<close>

definition room_gateway_methods :: "string list" where
  "room_gateway_methods = [''openclaw.room.create'', ''openclaw.room.list'', ''openclaw.room.post'', ''openclaw.room.read'',
     ''openclaw.room.archive'', ''openclaw.room.summary'', ''openclaw.artifact.attach'']"

text \<open>What \<open>respond\<close> is called with.\<close>

definition createSharedGatewayHandler :: "shared_options \<Rightarrow> string \<Rightarrow> (nat \<Rightarrow> string) \<Rightarrow> string \<Rightarrow> js \<Rightarrow> api_state \<Rightarrow> response \<times> api_state" where
  "createSharedGatewayHandler opts now uuids method params s = executeSharedContextMethod opts now uuids method params s"

lemma room_methods_complete: "set room_gateway_methods = set SHARED_CONTEXT_METHODS"
  by (auto simp: room_gateway_methods_def SHARED_CONTEXT_METHODS_def)

text \<open>A method called through the gateway and through the JSON-RPC endpoint does the same; where it succeeds, the endpoint's result is
  what the gateway responds with.\<close>

lemma endpoint_agrees_with_method:
  assumes "m \<in> set room_gateway_methods" "\<not> nullish params"
    and "call = JObj [(''jsonrpc'', JStr ''2.0''), (''id'', i), (''method'', JStr m), (''params'', params)]"
    and "createSharedGatewayHandler opts now uuids m params s = ((ok, data), t)"
  shows "\<exists>r. handleSharedContextJsonRpcCall opts now uuids call s = (r, t) \<and> (ok \<longrightarrow> r = jsonRpcResult (jsonRpcRequestId i) data)"
proof -
  have m: "m \<in> set SHARED_CONTEXT_METHODS"
    using assms(1) by (simp only: room_methods_complete)
  have "m \<noteq> []"
    using assms(1) by (auto simp: room_gateway_methods_def)
  note m = m this
  have "asObject_or_empty call = call" "get_prop call ''jsonrpc'' = JStr ''2.0''" "get_prop call ''id'' = i"
      "asString_or (get_prop call ''method'') [] = m" "coalesce (get_prop call ''params'') (JObj []) = params"
    using assms(2) by (simp_all add: assms(3) coalesce_def asObject_or_empty_def asString_or_def jprop_def)
  then have "handleSharedContextJsonRpcCall opts now uuids call s = (rpc_answer (jsonRpcRequestId i) (ok, data), t)"
    using m assms(4) unfolding createSharedGatewayHandler_def by (simp only: rpc_call_cases Let_def) simp
  then show ?thesis
    by (simp add: rpc_answer_def)
qed

end
