(* ===== verification/Spec2Isabelle.thy ===== *)
theory Spec2Isabelle
  imports Envelope InternalExchange Idempotency Outbox InternalRouting Client Queueing SharedContext TaskStore JsonlLogs Connection FileSecurity RoutingRules Catalog Executor HubClient OfficialCall SendScript OutboxRelay ToolSchemas HttpApp
begin

text \<open>
  Claw-crony is a plugin of the OpenClaw gateway, written in TypeScript: it makes the agent behind the gateway an A2A peer,
  finds other agents through a hub, agrees temporary tokens with them in an encrypted handshake, sends and receives messages,
  and keeps shared rooms, connection requests, logs and metrics. This development models \<open>src/index.ts\<close>, the modules under
  \<open>src/src/\<close> and the command line client \<open>src/skill/scripts/a2a-send.mjs\<close> as HOL functions and step relations that carry the
  names of the code, and proves what makes each part correct, what holds across parts, and where the code departs from what it
  means to do.

  \<^bold>\<open>Theories and the code they model\<close> (paths under \<open>src/src/\<close> unless they begin with \<open>index.ts\<close>; the order is the import order)

  \<^item> \<open>Prelude\<close>: the JavaScript fragment shared by all (values, texts, JSON, maps) and three interfaces as locales: \<open>js_map\<close>
    (insertion-ordered map), \<open>expiring_table\<close> (entries with a time to live), \<open>dedupe_loop\<close> (first occurrences under a key).
  \<^item> The gateway-to-gateway protocol of \<open>internal/\<close>: \<open>Envelope\<close> (\<open>envelope.ts\<close>), \<open>GatewaySecurity\<close> (\<open>security.ts\<close>),
    \<open>Idempotency\<close>, \<open>Outbox\<close> and \<open>OutboxRelay\<close> (\<open>outbox.ts\<close>, the relay as one tick and as interleaved steps),
    \<open>InternalRouting\<close> (\<open>routing.ts\<close>, \<open>metrics.ts\<close>), \<open>GatewayTransport\<close> (\<open>transport.ts\<close>) and \<open>InternalExchange\<close> (a
    signed request from sender to handler).
  \<^item> Sending: \<open>PeerHealth\<close> (\<open>peer-health.ts\<close>, with the locale \<open>circuit_guard\<close>), \<open>Transport\<close> (\<open>transport-fallback.ts\<close>,
    \<open>peer-retry.ts\<close>), \<open>Client\<close> (\<open>client.ts\<close>), \<open>RoutingRules\<close> (\<open>routing-rules.ts\<close>).
  \<^item> Receiving: \<open>Telemetry\<close> (\<open>telemetry.ts\<close>), \<open>Queueing\<close> (\<open>queueing-executor.ts\<close>), \<open>AgentText\<close>,
    \<open>GatewayRpc\<close> and \<open>Executor\<close> (the three parts of \<open>executor.ts\<close>), \<open>FileSecurity\<close> (\<open>file-security.ts\<close>), \<open>TaskStore\<close>
    (\<open>task-store.ts\<close>, \<open>task-cleanup.ts\<close>), \<open>JsonlLogs\<close> (\<open>history.ts\<close>, \<open>audit.ts\<close>), \<open>Catalog\<close> (\<open>agent-card.ts\<close>,
    \<open>skill-catalog.ts\<close>).
  \<^item> The hub: \<open>Hub\<close> (\<open>identity-store.ts\<close>, \<open>hub-auth.ts\<close>, \<open>hub-registration.ts\<close>), \<open>HubClient\<close> (\<open>hub-match.ts\<close>,
    \<open>hub-connection-requests.ts\<close>, \<open>hub-profile.ts\<close>, \<open>hub-resolve.ts\<close>, \<open>hub-discovery.ts\<close>), \<open>Connection\<close>
    (\<open>connection-descriptor.ts\<close>, \<open>connection-session.ts\<close>, \<open>connection-state.ts\<close>, \<open>protocols/\<close>).
  \<^item> Rooms: \<open>SharedContext\<close> (\<open>shared-context.ts\<close>).
  \<^item> The plugin, \<open>index.ts\<close>: \<open>Config\<close> (readers and \<open>parseConfig\<close>), \<open>Handshake\<close> and \<open>HandshakeFacts\<close> (polling, answering and
    requesting matches, with \<open>handshake-crypto.ts\<close> and \<open>ephemeral-token.ts\<close>), \<open>GatewayApi\<close> (bearer checks, metrics, audit,
    history, the room methods and their JSON-RPC endpoint), \<open>PluginMethods\<close> (sending and discovery methods), \<open>Lifecycle\<close> (start
    and stop of the service), \<open>AgentTools\<close> (the agent's tools), \<open>SensitiveScan\<close> and \<open>OfficialCall\<close>
    (\<open>official-agent-call.ts\<close>), \<open>ToolSchemas\<close> (the parameters the tools declare and those they read), \<open>Registration\<close> (what
    \<open>register\<close> builds, and the gateway as one transition system), \<open>HttpApp\<close> (the HTTP mounts, the counting middleware and the
    routes the plugin answers itself).
  \<^item> \<open>SendScript\<close>: the command line client.

  \<^bold>\<open>How the parts interact.\<close> \<open>parseConfig\<close> yields a \<open>gateway_config\<close>; \<open>Registration\<close> builds the executor, telemetry,
  stores and health manager from it. An inbound message passes a bearer check (\<open>GatewayApi\<close>), is queued (\<open>Queueing\<close>) and run
  (\<open>Executor\<close>) over the gateway's WebSocket (\<open>GatewayRpc\<close>); its end is counted and audited (\<open>Telemetry\<close>, \<open>JsonlLogs\<close>). An
  outbound message is routed (\<open>RoutingRules\<close>), admitted by the breaker (\<open>PeerHealth\<close>), retried and sent over the transports of
  the peer's card (\<open>Transport\<close>, \<open>Client\<close>). Peers come from the configuration or from the handshake, whose tokens the bearer
  checks then accept. The section below proves this last interaction end to end; \<open>Registration\<close> proves the limits of the
  configuration and the accounting of tasks for the whole gateway.

  \<^bold>\<open>How code becomes definitions.\<close> A class or interface is a \<open>record\<close>, a union a \<open>datatype\<close>; a value of type \<open>unknown\<close> is
  a \<open>js\<close>. A method returns the new state with its result; a \<open>throw\<close> or a rejected promise is the left side of a sum, whose
  left type is mostly the error's text. Since JavaScript runs to the next \<open>await\<close>, code whose interleaving matters is a step relation
  between the waiting points (\<open>executor_step\<close>, \<open>relay_turn\<close>, \<open>svc_step\<close>, \<open>gateway_step\<close>, the steps of \<open>GatewayRpc\<close>) or a fold over a
  schedule of such steps (\<open>run_batch\<close>: the calls of one JSON-RPC batch); code that is only
  sequenced takes the answers it waits for as arguments. The executor's event buses belong to its callers: they are numbers, and what the
  executor and its delegate publish on them and finish is a list of actions. Clocks, random bytes, uuids, HMAC and the other primitives of
  \<open>node:crypto\<close>, \<open>new URL\<close>, DNS, \<open>RegExp\<close>, \<open>JSON.parse\<close>, file contents, the hub's answers and the A2A SDK are
  parameters; what is assumed of them is a hypothesis of the theorem that needs it (\<open>crypto_laws\<close>, \<open>parses_back\<close>).

  \<^bold>\<open>What the lemmas show.\<close> Each theory proves an invariant of its state or the exact condition under which an operation
  succeeds, then its properties: limits and order of the queue, the breaker's states, delivery at most once by the outbox relay, exactly-once settling, replay and
  duplicate detection, atomic saving, freezing of archived rooms under every order of a batch, redaction of logs, the address classification,
  what a token is bound to, what a poll may change, agreement of the four bearer checks, of the tools with the methods and
  of the tools with their schemas, the guards of official calls, termination of every loop that waits. The theorems of kind error, and some of kind
  safety, state flaws as the code has them.

  \<^bold>\<open>Bounds and fuel.\<close> Loops are structural or have a measure. \<open>wait_loop\<close> (\<open>Handshake\<close>) is bounded by its deadline, at most
  thirty polls; \<open>retry_loop\<close> and \<open>retry_attempts\<close> by the configured retries; splitting a text at a separator
  (\<open>split_all_double\<close>) has the text's length as fuel, enough because every piece consumes a character. \<open>wait_for_task\<close>
  (\<open>SendScript\<close>) may run for ever when the clock stands still and is a partial function; it is proved to end when time passes.
  \<open>frac_digits\<close> prints at most twenty fractional digits, exact for every literal of that length.

  \<^bold>\<open>Idealisations.\<close> A text is a list of code units below 256: what the code does with other characters is not covered, and
  literals that contain such characters are parameters or are kept apart. Numbers are exact rationals with the special values;
  rounding is not modelled, except where the code rounds explicitly. Members of an object keep their insertion order.

  \<^bold>\<open>Not modelled.\<close> Express' matching of paths and parsing of bodies, the gRPC server and the request handlers of the A2A SDK
  (third-party; the decisions and routes the plugin passes to them are modelled), the registration calls and the descriptions of
  the tools, which are declarations for the host, sockets and the listening of servers beyond the events they raise, log lines that nothing reads, type
  declarations without behaviour, tests, documentation and build files.
\<close>

section \<open>The handshake and the gateway it opens\<close>

lemma fired_tokens:
  assumes "issueEphemeralInboundToken env s = (tok, t)" and "fst tok \<notin> fst ` set (hp_timers s)"
  shows "fst tok \<in> set (hp_tokens (fire_timers later t)) \<longleftrightarrow> later < hp_now s + token_ttl"
  using assms by (force simp: issueEphemeralInboundToken_def fire_timers_def set_add_def Let_def)

lemma fresh_token_text:
  assumes "issueEphemeralInboundToken env s = (tok, t)" and "length (he_tokenBytes env (hp_issued s)) = 24"
  shows "fst tok \<noteq> []"
proof -
  have "fst tok = hex_bytes (he_tokenBytes env (hp_issued s))"
    using assms(1) by (auto simp: issueEphemeralInboundToken_def Let_def)
  then show ?thesis
    using hex_bytes_valid [OF assms(2)] by (auto simp: isValidEphemeralInboundToken_def EPHEMERAL_INBOUND_TOKEN_LENGTH_def)
qed

lemma bearer_admitted_iff:
  assumes "token \<noteq> []"
  shows "fst (userBuilder auth tokens now (OneHeader (''Bearer '' @ token)) a) = Inr () \<longleftrightarrow>
    auth = NoAuth \<or> tokens = [] \<or> token \<in> set tokens"
  using assms by (auto simp: userBuilder_admits authorised_def single_header_def)

text \<open>C8. The handshake does what it is for, across both gateways. Gateway A issues a temporary token and seals its connection
  details for gateway B's public key; B opens them, and has afterwards a peer named after the requester, reached at A's published
  descriptor or, without one, at the address A advertised. The header B's client then sends to that peer passes A's
  bearer check until the token's five minutes are over, and is refused from then on unless A is left without any token.\<close>

theorem handshake_opens_gateway:
  assumes laws: "crypto_laws cp" and keys: "key_pair cp priv pub"
    and cp: "he_crypto envA = cp" "he_crypto envB = cp"
    and issued: "issueEphemeralInboundToken envA sA = (tok, sA')" "fst tok \<notin> fst ` set (hp_timers sA)"
    and payload: "payload = handshake_payload envA matchId selfA peerId address tok sA'"
    and enc: "encrypt_for envA sA' payload pub = Inr c"
    and parse: "parses_back cp payload" "\<And>secret. parses_back cp (handshake_envelope cp (fst (he_ephemeral envA (hp_issued sA'))) (snd (he_ephemeral envA (hp_issued sA'))) payload secret)"
    and bytes: "length (he_tokenBytes envA (hp_issued sA)) = 24"
    and msg: "hs_ciphertext msg = c" "hs_id msg \<notin> set (hp_processed sB)" "hm_requester m = Some a"
    and hub: "he_ack envB (hp_calls sB) (ConsumeHandshakeMessage (hm_id m) (hs_id msg)) = None"
  shows "\<exists>p \<in> set (hp_peers (fst (process_message envB selfB priv m msg sB))). \<exists>header.
    pc_name p = ha_name a \<and>
    pc_agentCardUrl p = resolvePeerAgentCardUrl (he_url envB) (ha_descriptor a) address ''/.well-known/agent.json'' \<and>
    createAuthHandler p = Some (''authorization'', header) \<and>
    (\<forall>later auth now api. fst (userBuilder auth (hp_tokens (fire_timers later sA')) now (OneHeader header) api) = Inr () \<longleftrightarrow>
       later < hp_now sA + token_ttl \<or> auth = NoAuth \<or> hp_tokens (fire_timers later sA') = [])"
proof -
  obtain p where p: "p \<in> set (hp_peers (fst (process_message envB selfB priv m msg sB)))" "pc_name p = ha_name a"
      "pc_agentCardUrl p = resolvePeerAgentCardUrl (he_url envB) (ha_descriptor a) address ''/.well-known/agent.json''"
      "pc_auth p = Some (''bearer'', fst tok)"
    using handshake_delivers [OF laws keys cp issued(1) payload enc parse bytes msg hub] by blast
  note token = fresh_token_text [OF issued(1) bytes]
  have "createAuthHandler p = Some (''authorization'', ''Bearer '' @ fst tok)"
    using token by (simp add: createAuthHandler_def p(4))
  with p(1-3) show ?thesis
    using bearer_admitted_iff [OF token] fired_tokens [OF issued] by blast
qed

lemma handshake_opens_gateway_witness:
  "\<exists>p header. createAuthHandler p = Some (''authorization'', header) \<and>
     (\<forall>api. fst (userBuilder BearerAuth (hp_tokens (fire_timers 0 (snd (issueEphemeralInboundToken blank_env blank_state)))) 0
       (OneHeader header) api) = Inr ())"
proof -
  let ?env = "blank_env\<lparr>he_crypto := demo_clear\<rparr>"
  let ?i = "issueEphemeralInboundToken ?env blank_state"
  have env: "he_ephemeral ?env n = (''e'', ''iv'')" for n by (simp add: blank_env_def)
  have same: "?i = issueEphemeralInboundToken blank_env blank_state"
    by (simp add: issueEphemeralInboundToken_def)
  have payload: "demo_payload = handshake_payload ?env 5 3 (JNum (Fin 7)) ''h:80'' (fst ?i) (snd ?i)"
    unfolding same by (simp add: demo_payload_def handshake_payload_def)
  have laws: "crypto_laws demo_clear" by (simp add: demo_clear_def clear_crypto_laws)
  have keys: "key_pair demo_clear ''priv'' ''priv''"
    by (auto simp: key_pair_def demo_clear_def clear_crypto_def blank_crypto_def)
  obtain c where c: "encryptHandshake demo_clear ''e'' ''iv'' demo_payload ''priv'' = Inr c"
    by (simp add: encryptHandshake_def demo_clear_def clear_crypto_def blank_crypto_def Let_def)
  have reads: "hs_id (demo_message 1 c) \<notin> set (hp_processed blank_state)" "hm_requester demo_match = Some demo_agent"
      "hs_ciphertext (demo_message 1 c) = c" "he_ack ?env calls op' = None" "hp_timers blank_state = []"
      "length (he_tokenBytes ?env n) = 24" "hp_now blank_state = 0" for calls op' n
    by (simp_all add: blank_state_def demo_match_def demo_message_def blank_env_def)
  have sealed: "encrypt_for ?env (snd ?i) demo_payload ''priv'' = Inr c"
    using c by (simp add: encrypt_for_def) (simp add: blank_env_def)
  have parses: "parses_back demo_clear (handshake_envelope demo_clear (fst (he_ephemeral ?env n)) (snd (he_ephemeral ?env n)) demo_payload secret)"
    for n secret
    unfolding env fst_conv snd_conv by (rule demo_parses)
  have crypto: "he_crypto ?env = demo_clear" and pair: "issueEphemeralInboundToken ?env blank_state = (fst ?i, snd ?i)"
    and fresh: "fst (fst ?i) \<notin> fst ` set (hp_timers blank_state)"
    by (simp_all add: reads)
  from handshake_opens_gateway [OF laws keys crypto crypto pair fresh payload sealed demo_parses(1) parses reads(6,3,1,2,4), of 7]
  obtain p header where "createAuthHandler p = Some (''authorization'', header)"
      "\<forall>api. fst (userBuilder BearerAuth (hp_tokens (fire_timers 0 (snd ?i))) 0 (OneHeader header) api) = Inr ()"
    by (auto simp: token_ttl_def reads)
  then show ?thesis
    unfolding same by blast
qed

end
